(* ===== verification/Prelude.thy ===== *)
theory Prelude
  imports Main "HOL-Library.Char_ord" "HOL-Library.List_Lexorder" "HOL-Library.Sublist"
    "HOL-Library.Code_Target_Nat"
begin

text \<open>
  Shared vocabulary of the development: the result type of fallible Go functions,
  error-propagating sequencing and loops, the time and size units of the source, and the
  fact collections that the component theories fill.

  A Go \<open>string\<close> and a Go \<open>[]byte\<close> are both sequences of bytes, and so is Isabelle's
  \<^typ>\<open>string\<close> (a list of 8-bit \<^typ>\<open>char\<close>s); \<open>len\<close> is \<^const>\<open>length\<close> and Go's \<open><\<close> on
  strings is the lexicographic order of \<open>List_Lexorder\<close> over \<open>Char_ord\<close>.
  A \<open>time.Time\<close> is an \<^typ>\<open>int\<close> number of nanoseconds (Go's monotonic comparison and
  \<open>Sub\<close> agree with it), a \<open>time.Duration\<close> likewise; where a 64-bit wrap-around can matter
  the component writes it out.
\<close>

named_theorems go_str \<open>rewriting rules for the Go string functions\<close>
named_theorems res_intro \<open>how a successful result was reached\<close>
named_theorems inv_intro \<open>operations keep the invariant of their component\<close>

type_synonym bytes = string
type_synonym gotime = int
type_synonym duration = int

definition Nanosecond :: duration where "Nanosecond = 1"
definition Second :: duration where "Second = 1000000000"
definition Minute :: duration where "Minute = 60 * Second"
definition Hour :: duration where "Hour = 60 * Minute"

lemmas time_units = Nanosecond_def Second_def Minute_def Hour_def

subsection \<open>Results: \<open>(value, error)\<close> returns as a sum\<close>

text \<open>\<open>Inl e\<close> is a non-nil error, \<open>Inr v\<close> the value returned with a nil error.\<close>

fun and_then :: "'e + 'a \<Rightarrow> ('a \<Rightarrow> 'e + 'b) \<Rightarrow> 'e + 'b" where
  "and_then (Inl e) f = Inl e"
| "and_then (Inr x) f = f x"

fun check :: "bool \<Rightarrow> 'e \<Rightarrow> 'e + unit" where
  "check b e = (if b then Inr () else Inl e)"

text \<open>An early return that reports an error together with what was done so far.\<close>

fun or_fail :: "'e + 'a \<Rightarrow> 'w \<Rightarrow> ('a \<Rightarrow> ('e + 'b) \<times> 'w) \<Rightarrow> ('e + 'b) \<times> 'w" where
  "or_fail (Inl e) w k = (Inl e, w)"
| "or_fail (Inr x) w k = k x"

text \<open>A \<open>for \<dots> range\<close> loop whose body may return early with an error.\<close>

fun foldE :: "('a \<Rightarrow> 's \<Rightarrow> 'e + 's) \<Rightarrow> 'a list \<Rightarrow> 's \<Rightarrow> 'e + 's" where
  "foldE f [] s = Inr s"
| "foldE f (x # xs) s = and_then (f x s) (foldE f xs)"

lemma and_then_Inr_iff [simp]:
  "and_then r f = Inr y \<longleftrightarrow> (\<exists>x. r = Inr x \<and> f x = Inr y)"
  by (cases r) auto

lemma and_then_Inl_iff:
  "and_then r f = Inl e \<longleftrightarrow> r = Inl e \<or> (\<exists>x. r = Inr x \<and> f x = Inl e)"
  by (cases r) auto

lemma or_fail_Inr_iff [simp]:
  "or_fail r w k = (Inr y, w') \<longleftrightarrow> (\<exists>x. r = Inr x \<and> k x = (Inr y, w'))"
  by (cases r) auto

lemma check_Inr_iff [simp]: "check b e = Inr u \<longleftrightarrow> b"
  by simp

declare check.simps [simp del]

lemma check_True [simp]: "check True e = Inr ()"
  by (simp add: check.simps)

lemma check_False [simp]: "check False e = Inl e"
  by (simp add: check.simps)

lemma foldE_append:
  "foldE f (xs @ ys) s = and_then (foldE f xs s) (foldE f ys)"
proof (induction xs arbitrary: s)
  case (Cons x xs)
  then show ?case by (cases "f x s") auto
qed simp

text \<open>The loop rule: what every iteration keeps holds of the value the loop leaves.\<close>

lemma foldE_invariant:
  assumes "foldE f xs s = Inr t" and "P s"
    and "\<And>x s t. x \<in> set xs \<Longrightarrow> P s \<Longrightarrow> f x s = Inr t \<Longrightarrow> P t"
  shows "P t"
  using assms
proof (induction xs arbitrary: s)
  case (Cons x xs)
  then obtain u where "f x s = Inr u" and "foldE f xs u = Inr t" by auto
  with Cons.prems Cons.IH show ?case by (metis list.set_intros(1,2))
qed simp

text \<open>A loop all of whose iterations accept is the pure fold of their results.\<close>

lemma foldE_total:
  assumes "\<And>x s. x \<in> set xs \<Longrightarrow> f x s = Inr (g x s)"
  shows "foldE f xs s = Inr (fold g xs s)"
  using assms by (induction xs arbitrary: s) auto

subsection \<open>Lists and association lists\<close>

lemma sum_list_filter_le:
  "sum_list (map f (filter P xs)) \<le> (sum_list (map f xs) :: nat)"
  by (induction xs) auto

lemma int_sum_list_map: "int (sum_list (map f xs)) = sum_list (map (\<lambda>x. int (f x)) xs)"
  by (induction xs) auto

lemma distinct_map_filter [intro]:
  "distinct (map f xs) \<Longrightarrow> distinct (map f (filter P xs))"
  by (induction xs) auto

lemma sorted_wrt_less_distinct:
  "sorted (xs :: 'a :: linorder list) \<Longrightarrow> distinct xs \<Longrightarrow> sorted_wrt (<) xs"
  by (simp add: strict_sorted_iff)

lemma concat_map_length_const:
  assumes "\<And>x. x \<in> set xs \<Longrightarrow> length (f x) = n"
  shows "length (concat (map f xs)) = n * length xs"
  using assms by (induction xs) auto

end
