(* ===== verification/Go_Strings.thy ===== *)
theory Go_Strings
  imports Prelude
begin

text \<open>
  The functions of Go's \<open>strings\<close> and \<open>strconv\<close> packages that the sources use, on byte
  strings. White space is Unicode's \<open>White_Space\<close> set in UTF-8, exactly as
  \<open>unicode.IsSpace\<close> has it; case mapping is byte-exact on everything whose lower case is
  ASCII, which is all the sources look at.
\<close>

subsection \<open>Prefixes, suffixes, substrings\<close>

definition HasPrefix :: "string \<Rightarrow> string \<Rightarrow> bool" where
  "HasPrefix s p \<longleftrightarrow> take (length p) s = p"

definition HasSuffix :: "string \<Rightarrow> string \<Rightarrow> bool" where
  "HasSuffix s p \<longleftrightarrow> length p \<le> length s \<and> drop (length s - length p) s = p"

definition TrimPrefix :: "string \<Rightarrow> string \<Rightarrow> string" where
  "TrimPrefix s p = (if HasPrefix s p then drop (length p) s else s)"

definition TrimSuffix :: "string \<Rightarrow> string \<Rightarrow> string" where
  "TrimSuffix s p = (if HasSuffix s p then take (length s - length p) s else s)"

fun Contains :: "string \<Rightarrow> string \<Rightarrow> bool" where
  "Contains [] sub = (sub = [])"
| "Contains (c # cs) sub = (HasPrefix (c # cs) sub \<or> Contains cs sub)"

text \<open>\<open>strings.ContainsAny\<close> and \<open>strings.ContainsRune\<close> for ASCII characters.\<close>

definition ContainsAny :: "string \<Rightarrow> string \<Rightarrow> bool" where
  "ContainsAny s chars = list_ex (\<lambda>c. c \<in> set chars) s"

definition ContainsChar :: "string \<Rightarrow> char \<Rightarrow> bool" where
  "ContainsChar s c = list_ex (\<lambda>x. x = c) s"

text \<open>\<open>strings.ReplaceAll\<close> of one byte by one byte.\<close>

definition ReplaceAll1 :: "string \<Rightarrow> char \<Rightarrow> char \<Rightarrow> string" where
  "ReplaceAll1 s old new = map (\<lambda>x. if x = old then new else x) s"

text \<open>\<open>strings.Split\<close> by a one-byte separator: always at least one part.\<close>

fun Split1 :: "char \<Rightarrow> string \<Rightarrow> string list" where
  "Split1 c [] = [[]]"
| "Split1 c (x # xs) =
     (if x = c then [] # Split1 c xs
      else (case Split1 c xs of [] \<Rightarrow> [[x]] | y # ys \<Rightarrow> (x # y) # ys))"

fun Join :: "string \<Rightarrow> string list \<Rightarrow> string" where
  "Join sep [] = []"
| "Join sep [x] = x"
| "Join sep (x # y # ys) = x @ sep @ Join sep (y # ys)"

text \<open>\<open>strings.TrimRight\<close>, \<open>strings.TrimLeft\<close> and \<open>strings.Trim\<close> with an ASCII cut set.\<close>

definition TrimLeft :: "string \<Rightarrow> string \<Rightarrow> string" where
  "TrimLeft s cs = dropWhile (\<lambda>c. c \<in> set cs) s"

definition TrimRight :: "string \<Rightarrow> string \<Rightarrow> string" where
  "TrimRight s cs = rev (dropWhile (\<lambda>c. c \<in> set cs) (rev s))"

definition Trim :: "string \<Rightarrow> string \<Rightarrow> string" where
  "Trim s cs = TrimRight (TrimLeft s cs) cs"

subsection \<open>White space\<close>

text \<open>
  The UTF-8 encodings of the code points \<open>unicode.IsSpace\<close> accepts. Each starts with a
  byte that cannot continue another rune, so a code point is found at the front (or the
  back) of a byte string exactly when its encoding is a prefix (or a suffix).
\<close>

definition space_runes :: "string list" where
  "space_runes =
     [[CHR 0x09], [CHR 0x0A], [CHR 0x0B], [CHR 0x0C], [CHR 0x0D], [CHR 0x20],
      [CHR 0xC2, CHR 0x85], [CHR 0xC2, CHR 0xA0], [CHR 0xE1, CHR 0x9A, CHR 0x80],
      [CHR 0xE2, CHR 0x80, CHR 0x80], [CHR 0xE2, CHR 0x80, CHR 0x81],
      [CHR 0xE2, CHR 0x80, CHR 0x82], [CHR 0xE2, CHR 0x80, CHR 0x83],
      [CHR 0xE2, CHR 0x80, CHR 0x84], [CHR 0xE2, CHR 0x80, CHR 0x85],
      [CHR 0xE2, CHR 0x80, CHR 0x86], [CHR 0xE2, CHR 0x80, CHR 0x87],
      [CHR 0xE2, CHR 0x80, CHR 0x88], [CHR 0xE2, CHR 0x80, CHR 0x89],
      [CHR 0xE2, CHR 0x80, CHR 0x8A], [CHR 0xE2, CHR 0x80, CHR 0xA8],
      [CHR 0xE2, CHR 0x80, CHR 0xA9], [CHR 0xE2, CHR 0x80, CHR 0xAF],
      [CHR 0xE2, CHR 0x81, CHR 0x9F], [CHR 0xE3, CHR 0x80, CHR 0x80]]"

definition space_at :: "string \<Rightarrow> nat option" where
  "space_at s = map_option length (find (HasPrefix s) space_runes)"

definition space_end :: "string \<Rightarrow> nat option" where
  "space_end s = map_option length (find (HasSuffix s) space_runes)"

lemma find_space_pos:
  "find P space_runes = Some w \<Longrightarrow> 0 < length w"
  by (auto simp: find_Some_iff space_runes_def nth_Cons' split: if_splits)

lemma space_at_pos: "space_at s = Some n \<Longrightarrow> 0 < n"
  by (auto simp: space_at_def dest: find_space_pos)

lemma space_end_pos: "space_end s = Some n \<Longrightarrow> 0 < n"
  by (auto simp: space_end_def dest: find_space_pos)

lemma space_at_bound: "space_at s = Some n \<Longrightarrow> n \<le> length s"
  by (auto simp: space_at_def find_Some_iff HasPrefix_def) (metis length_take min.bounded_iff order_refl)

lemma space_end_bound: "space_end s = Some n \<Longrightarrow> n \<le> length s"
  by (auto simp: space_end_def find_Some_iff HasSuffix_def)

function trim_front :: "string \<Rightarrow> string" where
  "trim_front s = (case space_at s of None \<Rightarrow> s | Some n \<Rightarrow> trim_front (drop n s))"
  by pat_completeness auto
termination
proof (relation "measure length")
  fix s n
  assume "space_at s = Some n"
  then show "(drop n s, s) \<in> measure length"
    using space_at_pos space_at_bound by fastforce
qed simp

function trim_back :: "string \<Rightarrow> string" where
  "trim_back s = (case space_end s of None \<Rightarrow> s | Some n \<Rightarrow> trim_back (take (length s - n) s))"
  by pat_completeness auto
termination
proof (relation "measure length")
  fix s n
  assume "space_end s = Some n"
  then show "(take (length s - n) s, s) \<in> measure length"
    using space_end_pos space_end_bound by fastforce
qed simp

declare trim_front.simps [simp del] trim_back.simps [simp del]

definition TrimSpace :: "string \<Rightarrow> string" where
  "TrimSpace s = trim_back (trim_front s)"

subsection \<open>Case\<close>

text \<open>
  \<open>strings.ToLower\<close> as far as ASCII output goes: besides the ASCII capitals, the only code
  points whose lower case is ASCII are U+0130 (dotted capital I) and U+212A (Kelvin sign).
  Other code points keep their bytes here (Go would lower-case them to other non-ASCII
  bytes), which no caller below can tell apart.
\<close>

definition lower_byte :: "char \<Rightarrow> char" where
  "lower_byte c = (if CHR ''A'' \<le> c \<and> c \<le> CHR ''Z'' then char_of (of_char c + 32 :: nat) else c)"

fun ToLower :: "string \<Rightarrow> string" where
  "ToLower [] = []"
| "ToLower (a # s) =
     (if HasPrefix (a # s) [CHR 0xC4, CHR 0xB0] then CHR ''i'' # ToLower (drop 1 s)
      else if HasPrefix (a # s) [CHR 0xE2, CHR 0x84, CHR 0xAA] then CHR ''k'' # ToLower (drop 2 s)
      else lower_byte a # ToLower s)"

subsection \<open>Fields\<close>

text \<open>\<open>strings.Fields\<close>: the maximal runs without white space. \<open>cur\<close> is the run read so far.\<close>

function fields_from :: "string \<Rightarrow> string \<Rightarrow> string list" where
  "fields_from s cur =
     (case space_at s of
        Some n \<Rightarrow> (if cur = [] then [] else [cur]) @ fields_from (drop n s) []
      | None \<Rightarrow> (case s of
                   [] \<Rightarrow> (if cur = [] then [] else [cur])
                 | c # cs \<Rightarrow> fields_from cs (cur @ [c])))"
  by pat_completeness auto
termination
proof (relation "measure (\<lambda>(s, cur). length s)")
  fix s cur n
  assume "space_at s = Some n"
  then show "((drop n s, []), (s, cur)) \<in> measure (\<lambda>(s, cur). length s)"
    using space_at_pos space_at_bound by fastforce
qed auto

declare fields_from.simps [simp del]

definition Fields :: "string \<Rightarrow> string list" where
  "Fields s = fields_from s []"

subsection \<open>Decimal numbers\<close>

fun nat_digits :: "nat \<Rightarrow> string" where
  "nat_digits n = (if n < 10 then [char_of (48 + n)] else nat_digits (n div 10) @ [char_of (48 + n mod 10)])"

declare nat_digits.simps [simp del]

text \<open>\<open>strconv.FormatInt(n, 10)\<close>.\<close>

definition FormatInt :: "int \<Rightarrow> string" where
  "FormatInt n = (if n < 0 then CHR ''-'' # nat_digits (nat (- n)) else nat_digits (nat n))"

definition is_digit :: "char \<Rightarrow> bool" where
  "is_digit c \<longleftrightarrow> CHR ''0'' \<le> c \<and> c \<le> CHR ''9''"

definition digits_val :: "string \<Rightarrow> int" where
  "digits_val s = foldl (\<lambda>v c. 10 * v + (of_char c - 48)) 0 s"

text \<open>
  \<open>strconv.ParseInt(s, 10, bits)\<close>: an optional sign, at least one digit, and a value in the
  range of \<open>bits\<close>-bit signed integers; anything else is an error.
\<close>

definition ParseInt :: "string \<Rightarrow> nat \<Rightarrow> int option" where
  "ParseInt s bits =
     (let neg = (HasPrefix s ''-'');
          ds = (if HasPrefix s ''+'' \<or> neg then drop 1 s else s);
          v = (if neg then - digits_val ds else digits_val ds)
      in if ds \<noteq> [] \<and> list_all is_digit ds \<and> - (2 ^ (bits - 1)) \<le> v \<and> v < 2 ^ (bits - 1)
         then Some v else None)"

subsection \<open>Hexadecimal\<close>

definition hex_digit :: "nat \<Rightarrow> char" where
  "hex_digit n = ''0123456789abcdef'' ! (n mod 16)"

text \<open>\<open>hex.EncodeToString\<close>.\<close>

definition hex_encode :: "bytes \<Rightarrow> string" where
  "hex_encode bs = concat (map (\<lambda>b. [hex_digit (of_char b div 16), hex_digit (of_char b)]) bs)"

subsection \<open>Laws\<close>

lemma HasPrefix_iff: "HasPrefix s p \<longleftrightarrow> (\<exists>t. s = p @ t)"
  unfolding HasPrefix_def by (metis append_eq_conv_conj append_take_drop_id)

lemma HasSuffix_iff: "HasSuffix s p \<longleftrightarrow> (\<exists>t. s = t @ p)"
proof
  assume "HasSuffix s p"
  then show "\<exists>t. s = t @ p"
    unfolding HasSuffix_def by (metis append_take_drop_id)
next
  assume "\<exists>t. s = t @ p"
  then show "HasSuffix s p" unfolding HasSuffix_def by auto
qed

lemma HasPrefix_append [simp, go_str]: "HasPrefix (p @ t) p"
  by (simp add: HasPrefix_def)

lemma HasPrefix_Nil [simp]: "HasPrefix s []"
  by (simp add: HasPrefix_def)

lemma HasPrefix_Cons: "HasPrefix (c # s) (d # p) \<longleftrightarrow> c = d \<and> HasPrefix s p" "\<not> HasPrefix [] (d # p)"
  by (auto simp: HasPrefix_def)

lemma HasPrefix_take: "HasPrefix (take k s) p \<Longrightarrow> HasPrefix s p"
  by (metis HasPrefix_iff append_assoc append_take_drop_id)

lemma HasSuffix_drop: "HasSuffix (drop k s) p \<Longrightarrow> HasSuffix s p"
  by (metis HasSuffix_iff append_assoc append_take_drop_id)

lemma Contains_iff: "Contains s sub \<longleftrightarrow> (\<exists>a b. s = a @ sub @ b)"
proof (induction s)
  case Nil
  then show ?case by auto
next
  case (Cons c cs)
  show ?case
  proof
    assume "Contains (c # cs) sub"
    then consider "HasPrefix (c # cs) sub" | "Contains cs sub" by auto
    then show "\<exists>a b. c # cs = a @ sub @ b"
    proof cases
      case 1
      then show ?thesis by (metis HasPrefix_iff append_Nil)
    next
      case 2
      with Cons.IH obtain a b where "cs = a @ sub @ b" by auto
      then have "c # cs = (c # a) @ sub @ b" by simp
      then show ?thesis by blast
    qed
  next
    assume "\<exists>a b. c # cs = a @ sub @ b"
    then obtain a b where ab: "c # cs = a @ sub @ b" by blast
    show "Contains (c # cs) sub"
    proof (cases a)
      case Nil
      with ab have "HasPrefix (c # cs) sub" by (metis HasPrefix_append append_Nil)
      then show ?thesis by simp
    next
      case (Cons x a')
      with ab Cons.IH show ?thesis by auto
    qed
  qed
qed

lemma ContainsChar_iff [go_str]: "ContainsChar s c \<longleftrightarrow> c \<in> set s"
  by (auto simp: ContainsChar_def list_ex_iff)

lemma ContainsAny_iff [go_str]: "ContainsAny s cs \<longleftrightarrow> set s \<inter> set cs \<noteq> {}"
  by (auto simp: ContainsAny_def list_ex_iff)

lemma set_ReplaceAll1: "old \<noteq> new \<Longrightarrow> old \<notin> set (ReplaceAll1 s old new)"
  by (auto simp: ReplaceAll1_def)

lemma ReplaceAll1_absent: "old \<notin> set s \<Longrightarrow> ReplaceAll1 s old new = s"
  unfolding ReplaceAll1_def by (induction s) auto

lemma length_ReplaceAll1 [simp]: "length (ReplaceAll1 s old new) = length s"
  by (simp add: ReplaceAll1_def)

subsubsection \<open>Split and Join\<close>

lemma Split1_ne [simp]: "Split1 c s \<noteq> []"
  by (induction s) (auto split: list.splits)

lemma Split1_no_sep: "x \<in> set (Split1 c s) \<Longrightarrow> c \<notin> set x"
  by (induction s arbitrary: x) (auto split: list.splits if_splits)

lemma set_Split1: "x \<in> set (Split1 c s) \<Longrightarrow> set x \<subseteq> set s"
  by (induction s arbitrary: x) (fastforce split: list.splits if_splits)+

lemma Join_Split1 [simp]: "Join [c] (Split1 c s) = s"
proof (induction s)
  case (Cons x xs)
  note IH = Cons.IH
  show ?case
  proof (cases "Split1 c xs")
    case (Cons y ys)
    with IH show ?thesis by (cases ys) auto
  qed simp
qed simp

lemma Split1_append_sep:
  assumes "c \<notin> set x"
  shows "Split1 c (x @ c # s) = x # Split1 c s"
  using assms by (induction x) auto

lemma Split1_no_occ: "c \<notin> set x \<Longrightarrow> Split1 c x = [x]"
  by (induction x) auto

lemma Split1_Join:
  assumes "xs \<noteq> []" and "\<forall>x \<in> set xs. c \<notin> set x"
  shows "Split1 c (Join [c] xs) = xs"
  using assms
proof (induction xs)
  case (Cons x xs)
  then show ?case
    by (cases xs) (auto simp: Split1_no_occ Split1_append_sep)
qed simp

lemma length_Join:
  "xs \<noteq> [] \<Longrightarrow> length (Join sep xs) = sum_list (map length xs) + length sep * (length xs - 1)"
  by (induction xs rule: Join.induct) auto

lemma set_Join: "set (Join sep xs) \<subseteq> (\<Union>x \<in> set xs. set x) \<union> set sep"
  by (induction sep xs rule: Join.induct) auto

lemma Join_eq_Nil: "xs \<noteq> [] \<Longrightarrow> \<forall>x \<in> set xs. x \<noteq> [] \<Longrightarrow> Join sep xs \<noteq> []"
  by (induction sep xs rule: Join.induct) auto

lemma hd_Join: "xs \<noteq> [] \<Longrightarrow> hd xs \<noteq> [] \<Longrightarrow> hd (Join sep xs) = hd (hd xs)"
  by (induction sep xs rule: Join.induct) auto

subsubsection \<open>Trimming white space\<close>

lemma space_at_None_iff: "space_at s = None \<longleftrightarrow> (\<forall>w \<in> set space_runes. \<not> HasPrefix s w)"
  by (auto simp: space_at_def find_None_iff)

lemma space_end_None_iff: "space_end s = None \<longleftrightarrow> (\<forall>w \<in> set space_runes. \<not> HasSuffix s w)"
  by (auto simp: space_end_def find_None_iff)

lemma trim_front_no_space: "space_at (trim_front s) = None"
proof (induction s rule: trim_front.induct)
  case (1 s)
  then show ?case
    by (cases "space_at s") (simp_all add: trim_front.simps[of s])
qed

lemma trim_back_no_space: "space_end (trim_back s) = None"
proof (induction s rule: trim_back.induct)
  case (1 s)
  then show ?case
    by (cases "space_end s") (simp_all add: trim_back.simps[of s])
qed

lemma trim_front_suffix: "\<exists>k. trim_front s = drop k s"
proof (induction s rule: trim_front.induct)
  case (1 s)
  show ?case
  proof (cases "space_at s")
    case None
    then show ?thesis by (metis drop0 option.simps(4) trim_front.simps)
  next
    case (Some n)
    with 1 obtain k where "trim_front (drop n s) = drop k (drop n s)" by blast
    with Some show ?thesis by (metis drop_drop option.simps(5) trim_front.simps)
  qed
qed

lemma trim_back_prefix: "\<exists>k. trim_back s = take k s"
proof (induction s rule: trim_back.induct)
  case (1 s)
  show ?case
  proof (cases "space_end s")
    case None
    then show ?thesis by (metis order_refl option.simps(4) take_all trim_back.simps)
  next
    case (Some n)
    with 1 obtain k where "trim_back (take (length s - n) s) = take k (take (length s - n) s)"
      by blast
    with Some show ?thesis by (metis option.simps(5) take_take trim_back.simps)
  qed
qed

lemma TrimSpace_no_space:
  "space_at (TrimSpace s) = None" "space_end (TrimSpace s) = None"
proof -
  show "space_end (TrimSpace s) = None"
    by (simp add: TrimSpace_def trim_back_no_space)
  show "space_at (TrimSpace s) = None"
    using trim_front_no_space[of s] trim_back_prefix[of "trim_front s"]
    unfolding TrimSpace_def space_at_None_iff by (metis HasPrefix_take)
qed

lemma TrimSpace_fixed: "space_at s = None \<Longrightarrow> space_end s = None \<Longrightarrow> TrimSpace s = s"
  by (simp add: TrimSpace_def trim_front.simps[of s] trim_back.simps[of s])

lemma TrimSpace_idem [simp, go_str]: "TrimSpace (TrimSpace s) = TrimSpace s"
  by (simp add: TrimSpace_fixed TrimSpace_no_space)

lemma TrimSpace_sub: "\<exists>i j. TrimSpace s = take i (drop j s)"
  unfolding TrimSpace_def using trim_front_suffix[of s] trim_back_prefix[of "trim_front s"] by metis

lemma set_TrimSpace: "set (TrimSpace s) \<subseteq> set s"
  using TrimSpace_sub[of s] by (metis set_drop_subset set_take_subset subset_trans)

lemma length_TrimSpace: "length (TrimSpace s) \<le> length s"
proof -
  obtain i j where "TrimSpace s = take i (drop j s)" using TrimSpace_sub by blast
  then show ?thesis by simp
qed

lemma TrimSpace_Nil [simp]: "TrimSpace [] = []"
  using length_TrimSpace[of "[]"] by simp

subsubsection \<open>Decimal and hexadecimal round trips\<close>

lemma digits_val_snoc: "digits_val (s @ [c]) = 10 * digits_val s + (of_char c - 48)"
  by (simp add: digits_val_def)

lemma of_char_digit: "n < 10 \<Longrightarrow> (of_char (char_of (48 + n)) :: nat) = 48 + n"
  by simp

lemma digits_val_nat_digits: "digits_val (nat_digits n) = int n"
proof (induction n rule: nat_digits.induct)
  case (1 n)
  have c: "(of_char (char_of (48 + m)) :: int) = 48 + int m" if "m < 10" for m :: nat
    using of_char_digit[OF that] that
    by (metis of_nat_add of_nat_numeral of_nat_of_char)
  show ?case
  proof (cases "n < 10")
    case True
    then show ?thesis by (simp add: nat_digits.simps[of n] digits_val_def c)
  next
    case False
    then have "digits_val (nat_digits n) = 10 * int (n div 10) + int (n mod 10)"
      using 1 by (subst nat_digits.simps) (simp add: digits_val_snoc c)
    then show ?thesis by (simp add: zdiv_int zmod_int)
  qed
qed

lemma nat_digits_ne [simp]: "nat_digits n \<noteq> []"
  by (subst nat_digits.simps) simp

lemma is_digit_char: "m < 10 \<Longrightarrow> is_digit (char_of (48 + m :: nat))"
  by (simp add: is_digit_def less_eq_char_def of_char_digit)

lemma nat_digits_all: "list_all is_digit (nat_digits n)"
proof (induction n rule: nat_digits.induct)
  case (1 n)
  then show ?case by (subst nat_digits.simps) (auto simp: is_digit_char)
qed

lemma hd_not_sign: "list_all is_digit s \<Longrightarrow> \<not> HasPrefix s ''-'' \<and> \<not> HasPrefix s ''+''"
  by (cases s) (auto simp: HasPrefix_def is_digit_def less_eq_char_def)

lemma ParseInt_FormatInt:
  assumes "- (2 ^ (bits - 1)) \<le> n" and "n < 2 ^ (bits - 1)"
  shows "ParseInt (FormatInt n) bits = Some n"
proof (cases "n < 0")
  case True
  then show ?thesis
    using assms nat_digits_all[of "nat (- n)"]
    by (simp add: ParseInt_def FormatInt_def HasPrefix_def digits_val_nat_digits)
next
  case False
  then show ?thesis
    using assms nat_digits_all[of "nat n"] hd_not_sign[OF nat_digits_all[of "nat n"]]
    by (simp add: ParseInt_def FormatInt_def digits_val_nat_digits)
qed

lemma length_hex_encode [simp]: "length (hex_encode bs) = 2 * length bs"
  by (simp add: hex_encode_def concat_map_length_const)

lemma hex_digit_inj: "m < 16 \<Longrightarrow> n < 16 \<Longrightarrow> hex_digit m = hex_digit n \<longleftrightarrow> m = n"
proof -
  assume "m < 16" and "n < 16"
  moreover have "distinct ''0123456789abcdef''" by simp
  ultimately show ?thesis by (simp add: hex_digit_def nth_eq_iff_index_eq)
qed

lemma hex_digit_mod: "hex_digit (n mod 16) = hex_digit n"
  by (simp add: hex_digit_def)

lemma hex_byte_inj:
  assumes "hex_digit (of_char a div 16) = hex_digit (of_char b div 16)"
    and "hex_digit (of_char a) = hex_digit (of_char b)"
  shows "a = b"
proof -
  have "of_char a div 16 = (of_char b div 16 :: nat)"
    using assms(1) hex_digit_inj[of "of_char a div 16" "of_char b div 16"]
      nat_of_char_less_256[of a] nat_of_char_less_256[of b] by auto
  moreover have "of_char a mod 16 = (of_char b mod 16 :: nat)"
    using assms(2) hex_digit_inj[of "of_char a mod 16" "of_char b mod 16"] by (simp add: hex_digit_mod)
  ultimately have "of_char a = (of_char b :: nat)"
    by (metis div_mult_mod_eq)
  then show ?thesis by simp
qed

lemma hex_encode_inj: "hex_encode a = hex_encode b \<Longrightarrow> a = b"
proof (induction a arbitrary: b)
  case Nil
  then show ?case by (cases b) (auto simp: hex_encode_def)
next
  case (Cons x xs)
  then show ?case by (cases b) (auto simp: hex_encode_def dest: hex_byte_inj)
qed

text \<open>Strings none of whose bytes occurs in a white-space rune are not trimmed.\<close>

definition space_bytes :: string where
  "space_bytes = remdups (concat space_runes)"

lemma TrimSpace_no_space_bytes:
  assumes "set s \<inter> set space_bytes = {}"
  shows "TrimSpace s = s"
proof (rule TrimSpace_fixed)
  have "w \<noteq> []" if "w \<in> set space_runes" for w using that by (auto simp: space_runes_def)
  then have clash: "\<not> set w \<subseteq> set s" if "w \<in> set space_runes" for w
    using that assms by (fastforce simp: space_bytes_def disjoint_iff dest: hd_in_set)
  show "space_at s = None" unfolding space_at_None_iff HasPrefix_iff using clash by fastforce
  show "space_end s = None" unfolding space_end_None_iff HasSuffix_iff using clash by fastforce
qed

lemma set_hex_encode: "set (hex_encode bs) \<subseteq> set ''0123456789abcdef''"
proof -
  have "hex_digit n \<in> set ''0123456789abcdef''" for n
    unfolding hex_digit_def by (rule nth_mem) simp
  then show ?thesis unfolding hex_encode_def by auto
qed

subsubsection \<open>Lines\<close>

lemma Split1_append: "Split1 c (a @ c # b) = Split1 c a @ Split1 c b"
  by (induction a) (auto split: list.splits)

lemma Split1_infix: "x \<in> set (Split1 c s) \<Longrightarrow> \<exists>a b. s = a @ x @ b"
proof -
  assume "x \<in> set (Split1 c s)"
  then obtain us vs where "Split1 c s = us @ x # vs" by (auto simp: in_set_conv_decomp)
  moreover have "\<exists>a b. Join [c] (us @ x # vs) = a @ x @ b" for us vs
  proof (induction us)
    case Nil
    show ?case by (cases vs) (auto intro: exI[of _ "[]"])
  next
    case (Cons u us)
    then obtain a b where "Join [c] (us @ x # vs) = a @ x @ b" by blast
    then have "Join [c] ((u # us) @ x # vs) = (u @ [c] @ a) @ x @ b"
      by (cases "us @ x # vs") auto
    then show ?case by blast
  qed
  ultimately show ?thesis by (metis Join_Split1)
qed

lemma Contains_TrimSpace_line:
  assumes "x \<in> set (Split1 c s)" and "TrimSpace x = p @ t"
  shows "Contains s p"
proof -
  obtain a b where s: "s = a @ x @ b" using Split1_infix[OF assms(1)] by blast
  obtain i j where "TrimSpace x = take i (drop j x)" using TrimSpace_sub by blast
  then have "x = take j x @ (p @ t) @ drop i (drop j x)"
    using assms(2) by (metis append_take_drop_id)
  then have "s = (a @ take j x) @ p @ (t @ drop i (drop j x) @ b)" unfolding s by simp
  then show ?thesis unfolding Contains_iff by blast
qed

lemma append_prefix_cases:
  assumes "x @ y = w @ t"
  obtains u where "x = w @ u" | u where "w = x @ u" "u \<noteq> []"
  using assms by (metis append_Nil2 append_eq_append_conv2)

lemma append_suffix_cases:
  assumes "x @ y = t @ w"
  obtains u where "y = u @ w" | u where "w = u @ y" "x = t @ u" "u \<noteq> []"
  using assms by (metis append_Nil append_eq_append_conv2)

lemma TrimSpace_prefixed:
  assumes "space_at (p @ '' '') = None" and "p \<noteq> []" and "TrimSpace k = k" and "k \<noteq> []"
  shows "TrimSpace (p @ '' '' @ k) = p @ '' '' @ k"
proof (rule TrimSpace_fixed)
  have short: "w \<noteq> [] \<and> (CHR '' '' \<in> set w \<longrightarrow> w = '' '')" if "w \<in> set space_runes" for w
    using that by (auto simp: space_runes_def)
  show "space_at (p @ '' '' @ k) = None"
    unfolding space_at_None_iff
  proof (intro ballI notI)
    fix w assume w: "w \<in> set space_runes" and "HasPrefix (p @ '' '' @ k) w"
    then obtain t where t: "(p @ '' '') @ k = w @ t" by (auto simp: HasPrefix_iff)
    show False
    proof (cases rule: append_prefix_cases[OF t])
      case 1
      then show False using assms(1) w by (auto simp: space_at_None_iff HasPrefix_iff)
    next
      case 2
      then show False using short[OF w] assms(2) by (cases p) auto
    qed
  qed
  have "space_end k = None" using TrimSpace_no_space(2)[of k] assms(3) by simp
  then show "space_end (p @ '' '' @ k) = None"
    unfolding space_end_None_iff
  proof (intro ballI notI)
    fix w assume none: "\<forall>w \<in> set space_runes. \<not> HasSuffix k w" and w: "w \<in> set space_runes"
      and "HasSuffix (p @ '' '' @ k) w"
    then obtain t where t: "(p @ '' '') @ k = t @ w" by (auto simp: HasSuffix_iff)
    show False
    proof (cases rule: append_suffix_cases[OF t])
      case 1
      then show False using none w by (auto simp: HasSuffix_iff)
    next
      case (2 u)
      then have "CHR '' '' \<in> set u" by (cases u rule: rev_cases) auto
      then show False using short[OF w] 2 assms(4) by (cases u) auto
    qed
  qed
qed

end
