(* ===== verification/Go_Time.thy ===== *)
theory Go_Time
  imports Go_Strings
begin

text \<open>
  The parts of Go's \<open>time\<close> package that the program's texts depend on: the zero time, the UTC
  calendar behind \<open>Format(time.RFC3339)\<close>, \<open>Duration.Round(time.Second)\<close> and \<open>Duration.String\<close> for
  whole seconds. A time is a number of nanoseconds since 1 January 1970.
\<close>

text \<open>Go's zero \<open>time.Time\<close>, 1 January of the year 1.\<close>

definition zeroTime :: gotime where "zeroTime = - 62135596800 * Second"

text \<open>Decimal with at least \<open>n\<close> digits.\<close>

definition pad0 :: "nat \<Rightarrow> int \<Rightarrow> string" where
  "pad0 n i = replicate (n - length (FormatInt i)) (CHR ''0'') @ FormatInt i"

text \<open>
  The proleptic Gregorian date of a day number: 400-year eras of 146097 days that begin on
  1 March, so that the leap day is the last of its year.
\<close>

definition day_of_era :: "int \<Rightarrow> int" where
  "day_of_era days = (days + 719468) mod 146097"

definition year_of_era :: "int \<Rightarrow> int" where
  "year_of_era doe = (doe - doe div 1460 + doe div 36524 - doe div 146096) div 365"

definition civil_date :: "int \<Rightarrow> int \<times> int \<times> int" where
  "civil_date days =
     (let era = (days + 719468) div 146097;
          doe = day_of_era days;
          yoe = year_of_era doe;
          doy = doe - (365 * yoe + yoe div 4 - yoe div 100);
          mp = (5 * doy + 2) div 153;
          d = doy - (153 * mp + 2) div 5 + 1;
          m = (if mp < 10 then mp + 3 else mp - 9)
      in (yoe + era * 400 + (if m \<le> 2 then 1 else 0), m, d))"

definition RFC3339 :: "gotime \<Rightarrow> string" where
  "RFC3339 t =
     (let secs = t div Second; days = secs div 86400; s = secs mod 86400;
          (y, m, d) = civil_date days
      in pad0 4 y @ ''-'' @ pad0 2 m @ ''-'' @ pad0 2 d @ ''T'' @
         pad0 2 (s div 3600) @ '':'' @ pad0 2 (s div 60 mod 60) @ '':'' @ pad0 2 (s mod 60) @ ''Z'')"

text \<open>
  \<open>time.Time.MarshalJSON\<close> in UTC: RFC 3339 with the fraction of the second, an error outside the
  years 0 to 9999.
\<close>

definition json_time :: "gotime \<Rightarrow> string option" where
  "json_time t =
     (let y = fst (civil_date (t div Second div 86400));
          frac = pad0 9 (t mod Second);
          base = RFC3339 t
      in if 0 \<le> y \<and> y \<le> 9999
         then Some (butlast base @ (if t mod Second = 0 then [] else ''.'' @ TrimRight frac ''0'') @ ''Z'')
         else None)"

text \<open>\<open>d.Round(time.Second)\<close> for a non-negative duration: halves round up.\<close>

definition round_second :: "duration \<Rightarrow> duration" where
  "round_second d = (d + Second div 2) div Second * Second"

text \<open>\<open>Duration.String\<close> of a non-negative whole number of seconds.\<close>

definition duration_String :: "duration \<Rightarrow> string" where
  "duration_String d =
     (let s = d div Second; m = s div 60; h = m div 60 in
      if m = 0 then FormatInt s @ ''s''
      else if h = 0 then FormatInt m @ ''m'' @ FormatInt (s mod 60) @ ''s''
      else FormatInt h @ ''h'' @ FormatInt (m mod 60) @ ''m'' @ FormatInt (s mod 60) @ ''s'')"

lemma round_second_near: "0 \<le> d \<Longrightarrow> \<bar>round_second d - d\<bar> \<le> Second div 2"
  using div_mult_mod_eq[of "d + 500000000" 1000000000] pos_mod_bound[of 1000000000 "d + 500000000"]
    pos_mod_sign[of 1000000000 "d + 500000000"]
  by (simp add: round_second_def Second_def)

text \<open>The calendar at three known instants.\<close>

lemma RFC3339_epoch: "RFC3339 0 = ''1970-01-01T00:00:00Z''" by code_simp

lemma RFC3339_leap: "RFC3339 (1709251199 * Second) = ''2024-02-29T23:59:59Z''" by code_simp

lemma RFC3339_zero: "RFC3339 zeroTime = ''0001-01-01T00:00:00Z''" by code_simp

end
