(* ===== verification/Git_Backend.thy ===== *)
theory Git_Backend
  imports Go_Time "HOL-Library.AList"
begin

text \<open>
  \<open>backend/\<close>: the contract between the controllers and a git host. The data types of
  \<open>backend/interface.go\<close>, \<open>collaboration.go\<close> and \<open>snapshot.go\<close>, the errors of \<open>backend/retry.go\<close> with
  \<open>errors.As\<close>, and the \<open>Registry\<close>.
\<close>

subsection \<open>Errors\<close>

text \<open>
  A Go error is a chain of wrapped errors. \<open>RateLimitError\<close> is the type of \<open>backend/retry.go\<close>; the
  next four are what the host library and the transport below it return, each with the text
  of its \<open>Error()\<close>: the library's rate-limit errors (\<open>reset\<close>, \<open>retry after\<close>), an HTTP error response
  with its status, and anything else. \<open>KubeError\<close> is an error of the Kubernetes client with the
  reason its predicates test. \<open>Wrapped p e s\<close> is \<open>fmt.Errorf\<close> with \<open>%w\<close> between the texts \<open>p\<close> and
  \<open>s\<close>, and \<open>Plain\<close> an error without a cause.
\<close>

datatype kube_reason = NotFound | AlreadyExists | Forbidden | Conflict | OtherReason

datatype gerror =
    RateLimitError (retryAt: gotime) (cause: "gerror option")
  | HostRateLimit "gotime option" string
  | HostAbuseLimit "duration option" string
  | HostResponse nat string
  | Transport string
  | IdentityConflict
  | CredentialsMissing
  | APIBindingMissing
  | ContextErr
  | KubeError kube_reason string
  | Plain string
  | Wrapped string gerror string

text \<open>\<open>errors.As(err, &limited)\<close> for \<open>*backend.RateLimitError\<close>: the first one on the chain.\<close>

fun as_rate_limit :: "gerror \<Rightarrow> gotime option" where
  "as_rate_limit (RateLimitError t e) = Some t"
| "as_rate_limit (Wrapped p e s) = as_rate_limit e"
| "as_rate_limit _ = None"

text \<open>\<open>errors.As\<close> for the host library's two rate-limit errors.\<close>

fun as_host_rate :: "gerror \<Rightarrow> gotime option option" where
  "as_host_rate (HostRateLimit r x) = Some r"
| "as_host_rate (Wrapped p e s) = as_host_rate e"
| "as_host_rate (RateLimitError t (Some e)) = as_host_rate e"
| "as_host_rate _ = None"

fun as_host_abuse :: "gerror \<Rightarrow> duration option option" where
  "as_host_abuse (HostAbuseLimit r x) = Some r"
| "as_host_abuse (Wrapped p e s) = as_host_abuse e"
| "as_host_abuse (RateLimitError t (Some e)) = as_host_abuse e"
| "as_host_abuse _ = None"

text \<open>\<open>errors.Is(err, ErrRepositoryIdentityConflict)\<close> and the two credential sentinels.\<close>

fun err_Is :: "gerror \<Rightarrow> gerror \<Rightarrow> bool" where
  "err_Is (Wrapped p e s) t \<longleftrightarrow> Wrapped p e s = t \<or> err_Is e t"
| "err_Is (RateLimitError r (Some e)) t \<longleftrightarrow> RateLimitError r (Some e) = t \<or> err_Is e t"
| "err_Is e t \<longleftrightarrow> e = t"

text \<open>\<open>(*RateLimitError).Unwrap\<close>.\<close>

definition rate_limit_Unwrap :: "gerror \<Rightarrow> gerror option" where
  "rate_limit_Unwrap e = (case e of RateLimitError t c \<Rightarrow> c | _ \<Rightarrow> None)"

text \<open>\<open>err.Error()\<close>, read at the time \<open>now\<close>: a rate-limit error counts the wait down.\<close>

fun err_Error :: "gotime \<Rightarrow> gerror \<Rightarrow> string" where
  "err_Error now (RateLimitError t c) =
     ''github: rate limited, resets in '' @ duration_String (round_second (max (t - now) 0)) @
     '' (at '' @ RFC3339 t @ '')'' @ (case c of None \<Rightarrow> [] | Some e \<Rightarrow> '': '' @ err_Error now e)"
| "err_Error now (HostRateLimit r s) = s"
| "err_Error now (HostAbuseLimit r s) = s"
| "err_Error now (HostResponse n s) = s"
| "err_Error now (Transport s) = s"
| "err_Error now IdentityConflict = ''repository identity conflict''"
| "err_Error now CredentialsMissing = ''connection credential secret not found in tenant workspace''"
| "err_Error now APIBindingMissing =
     ''tenant has no APIBinding (or secrets claim) to this provider'' @ CHR 0x27 # ''s APIExport''"
| "err_Error now ContextErr = ''context canceled''"
| "err_Error now (KubeError r s) = s"
| "err_Error now (Plain s) = s"
| "err_Error now (Wrapped p e s) = p @ err_Error now e @ s"

text \<open>
  The verb \<open>%q\<close>: \<open>strconv.Quote\<close>. Bytes from 128 up are printed as they are, which is what Go
  does for every printable rune.
\<close>

definition quote_byte :: "char \<Rightarrow> string" where
  "quote_byte c =
     (if c = CHR 0x22 then [CHR 0x5C, CHR 0x22]
      else if c = CHR 0x5C then [CHR 0x5C, CHR 0x5C]
      else if c = CHR 0x07 then CHR 0x5C # ''a''
      else if c = CHR 0x08 then CHR 0x5C # ''b''
      else if c = CHR 0x0C then CHR 0x5C # ''f''
      else if c = CHR 0x0A then CHR 0x5C # ''n''
      else if c = CHR 0x0D then CHR 0x5C # ''r''
      else if c = CHR 0x09 then CHR 0x5C # ''t''
      else if c = CHR 0x0B then CHR 0x5C # ''v''
      else if of_char c < (32 :: nat) \<or> of_char c = (127 :: nat) then CHR 0x5C # ''x'' @ hex_encode [c]
      else [c])"

definition quoted :: "string \<Rightarrow> string" where
  "quoted s = CHR 0x22 # concat (map quote_byte s) @ [CHR 0x22]"

subsection \<open>Data\<close>

record Credential =
  crToken :: string

record RepositoryResult =
  rrRepoID :: string
  rrHTMLURL :: string
  rrCloneURL :: string
  rrSSHURL :: string

record RepositoryCommitFile =
  cfPath :: string
  cfContent :: string
  cfEncoding :: string
  cfDelete :: bool

record RepositoryCommitInput =
  ciMessage :: string
  ciBranch :: string
  ciIdempotencyKey :: string
  ciFiles :: "RepositoryCommitFile list"

record RepositoryCommitResult =
  rcCommitSHA :: string
  rcCommitURL :: string
  rcBranch :: string
  rcFiles :: "string list"

record DeployKeyResult =
  dkKeyID :: string

record CollaboratorResult =
  clPending :: bool
  clInvitationID :: string

record PackageVersion =
  pvDigest :: string
  pvTags :: "string list"
  pvCreatedAt :: string

record PackageInfo =
  piName :: string
  piType :: string
  piVisibility :: string
  piHTMLURL :: string
  piImageRepository :: string
  piVersionCount :: int
  piUpdatedAt :: string
  piVersions :: "PackageVersion list"

record WorkflowRunQuery =
  wqWorkflowFileName :: string
  wqHeadSHA :: string
  wqMaxLogLines :: int

record WorkflowJobStatus =
  wjName :: string
  wjStatus :: string
  wjConclusion :: string
  wjFailureLog :: string

record WorkflowRunStatus =
  wrFound :: bool
  wrRunID :: int
  wrHTMLURL :: string
  wrHeadSHA :: string
  wrStatus :: string
  wrConclusion :: string
  wrJobs :: "WorkflowJobStatus list"

record RepositoryCheckoutInput =
  koRef :: string
  koMaxFiles :: int
  koMaxFileBytes :: int
  koIncludeBinary :: bool
  koMaxBinaryFileBytes :: int
  koMaxTotalBytes :: int

record RepositoryCheckoutResult =
  kkRef :: string
  kkCommitSHA :: string
  kkFiles :: "RepositoryCommitFile list"
  kkSkipped :: "string list"

record PullRequestInput =
  prHead :: string
  prBase :: string
  prCommit :: string
  prTitle :: string
  prBody :: string

record PullRequest =
  puNumber :: int
  puURL :: string
  puRepository :: string
  puHeadRepository :: string
  puHead :: string
  puBase :: string
  puCommit :: string
  puState :: string
  puMerged :: bool
  puMergeCommit :: string
  puMergedAt :: "gotime option"
  puMerger :: string
  puMergerType :: string

record Check =
  ckID :: int
  ckName :: string
  ckAppID :: int
  ckHead :: string
  ckStatus :: string
  ckConclusion :: string
  ckDetailsURL :: string
  ckOutput :: string

record Review =
  rvID :: int
  rvLogin :: string
  rvActorType :: string
  rvCommit :: string
  rvState :: string
  rvBody :: string
  rvSubmittedAt :: gotime

record Feedback =
  fbChecks :: "Check list"
  fbReviews :: "Review list"

record Comment =
  cmID :: int
  cmURL :: string
  cmBody :: string
  cmAuthor :: string
  cmAuthorType :: string
  cmUpdatedAt :: gotime

record CommentPage =
  cpComments :: "Comment list"
  cpNextPage :: int

record BranchPage =
  bpBranches :: "string list"
  bpNextPage :: int

record Snapshot =
  snBaseCommit :: string
  snCommit :: string
  snTree :: string
  snBundle :: bytes

subsection \<open>Registry\<close>

text \<open>The map \<open>byName\<close>; a backend is any value with a name.\<close>

type_synonym 'b Registry = "(string \<times> 'b) list"

definition NewRegistry :: "'b Registry" where
  "NewRegistry = []"

definition Register :: "('b \<Rightarrow> string) \<Rightarrow> 'b option \<Rightarrow> 'b Registry \<Rightarrow> gerror + 'b Registry" where
  "Register Name b r =
     (case b of
        None \<Rightarrow> Inl (Plain ''backend: cannot register nil or unnamed backend'')
      | Some be \<Rightarrow>
          if Name be = [] then Inl (Plain ''backend: cannot register nil or unnamed backend'')
          else if map_of r (Name be) \<noteq> None then Inl (Plain ''backend: already registered'')
          else Inr (AList.update (Name be) be r))"

definition registry_Get :: "'b Registry \<Rightarrow> string \<Rightarrow> 'b option" where
  "registry_Get r name = map_of r name"

definition registry_Names :: "'b Registry \<Rightarrow> string list" where
  "registry_Names r = sort (map fst r)"

subsection \<open>Registered backends\<close>

lemma Register_Inr:
  "Register Name b r = Inr r' \<longleftrightarrow>
     (\<exists>be. b = Some be \<and> Name be \<noteq> [] \<and> map_of r (Name be) = None \<and> r' = AList.update (Name be) be r)"
  by (auto simp: Register_def split: option.splits)

text \<open>What the process start-up relies on: names map to backends that carry them, without duplicates.\<close>

definition registry_ok :: "('b \<Rightarrow> string) \<Rightarrow> 'b Registry \<Rightarrow> bool" where
  "registry_ok Name r \<longleftrightarrow> distinct (map fst r) \<and> (\<forall>(n, b) \<in> set r. Name b = n \<and> n \<noteq> [])"

lemma update_absent: "map_of r k = None \<Longrightarrow> AList.update k v r = r @ [(k, v)]"
  by (induction r) (auto split: if_splits)

lemma Register_ok: "registry_ok Name r \<Longrightarrow> Register Name b r = Inr r' \<Longrightarrow> registry_ok Name r'"
  by (auto simp: Register_Inr registry_ok_def update_absent map_of_eq_None_iff)

text \<open>
  Registering backends one after another, stopping at the first refusal, gives a registry
  that finds each backend under its own name and nothing else, never overwrites an earlier
  one, and lists the names in strictly ascending order.
\<close>

theorem registry_lookup:
  assumes "foldE (\<lambda>b r. Register Name b r) bs NewRegistry = Inr r"
  shows "(\<forall>n. registry_Get r n = find (\<lambda>b. Name b = n) (map the bs)) \<and>
    None \<notin> set bs \<and> sorted_wrt (<) (registry_Names r) \<and> set (registry_Names r) = Name ` set (map the bs)"
proof -
  have reg: "foldE (\<lambda>b r. Register Name b r) bs r0 = Inr r1 \<Longrightarrow> registry_ok Name r0 \<Longrightarrow>
     registry_ok Name r1 \<and> None \<notin> set bs \<and> r1 = r0 @ map (\<lambda>b. (Name (the b), the b)) bs" for bs r0 r1
  proof (induction bs arbitrary: r0)
    case (Cons b bs)
    then obtain r' where r': "Register Name b r0 = Inr r'" "foldE (\<lambda>b r. Register Name b r) bs r' = Inr r1" by auto
    with Cons Register_ok have "registry_ok Name r1 \<and> None \<notin> set bs \<and> r1 = r' @ map (\<lambda>b. (Name (the b), the b)) bs" by blast
    with r' show ?case by (auto simp: Register_Inr update_absent)
  qed simp
  have ok: "registry_ok Name r" "None \<notin> set bs" "r = map (\<lambda>b. (Name b, b)) (map the bs)"
    using reg[OF assms] by (auto simp: NewRegistry_def registry_ok_def o_def)
  have find: "map_of (map (\<lambda>b. (Name b, b)) bs') n = find (\<lambda>b. Name b = n) bs'" for bs' n
    by (induction bs') auto
  have "registry_Get r n = find (\<lambda>b. Name b = n) (map the bs)" for n
    unfolding registry_Get_def ok(3) by (rule find)
  moreover have "sorted_wrt (<) (registry_Names r)"
    using ok(1) by (simp add: registry_Names_def registry_ok_def sorted_wrt_less_distinct)
  moreover have "set (registry_Names r) = Name ` set (map the bs)" by (simp add: registry_Names_def ok(3) image_image)
  ultimately show ?thesis using ok(2) by blast
qed

theorem registry_lookup_witness:
  "registry_Get [(''github'', ''github''), (''gitlab'', ''gitlab'')] ''gitlab'' = Some ''gitlab''"
  using registry_lookup[of "\<lambda>b. b" "[Some ''github'', Some ''gitlab'']" "[(''github'', ''github''), (''gitlab'', ''gitlab'')]"]
  by (simp add: NewRegistry_def Register_def)

end
