(* ===== verification/Go_Encoding.thy ===== *)
theory Go_Encoding
  imports Go_Strings "HOL-Library.Word"
begin

unbundle bit_operations_syntax

text \<open>
  The encodings of Go's standard library that the sources rely on: \<open>encoding/base64\<close>
  (standard alphabet, padded, with the strict decoder), \<open>encoding/binary\<close>'s big-endian
  64-bit integers, and \<open>crypto/sha256\<close> as FIPS 180-4 defines it.
\<close>

subsection \<open>Base64\<close>

definition b64_alphabet :: string where
  "b64_alphabet = ''ABCDEFGHIJKLMNOPQRSTUVWXYZabcdefghijklmnopqrstuvwxyz0123456789+/''"

definition b64_char :: "nat \<Rightarrow> char" where
  "b64_char n = b64_alphabet ! (n mod 64)"

fun index_of :: "'a \<Rightarrow> 'a list \<Rightarrow> nat option" where
  "index_of x [] = None"
| "index_of x (y # ys) = (if x = y then Some 0 else map_option Suc (index_of x ys))"

definition b64_val :: "char \<Rightarrow> nat option" where
  "b64_val c = index_of c b64_alphabet"

text \<open>\<open>base64.StdEncoding.EncodeToString\<close>.\<close>

fun b64_encode :: "bytes \<Rightarrow> string" where
  "b64_encode [] = []"
| "b64_encode [a] =
     [b64_char (of_char a div 4), b64_char (of_char a mod 4 * 16), CHR ''='', CHR ''='']"
| "b64_encode [a, b] =
     [b64_char (of_char a div 4), b64_char (of_char a mod 4 * 16 + of_char b div 16),
      b64_char (of_char b mod 16 * 4), CHR ''='']"
| "b64_encode (a # b # c # r) =
     [b64_char (of_char a div 4), b64_char (of_char a mod 4 * 16 + of_char b div 16),
      b64_char (of_char b mod 16 * 4 + of_char c div 64), b64_char (of_char c mod 64)]
     @ b64_encode r"

text \<open>
  \<open>base64.StdEncoding.Strict().DecodeString\<close> on input without line breaks. The last
  quantum may be padded; the strict decoder also rejects trailing bits that are not zero.
\<close>

definition b64_quantum :: "char \<Rightarrow> char \<Rightarrow> char \<Rightarrow> char \<Rightarrow> bytes option" where
  "b64_quantum w x y z =
     (case (b64_val w, b64_val x, b64_val y, b64_val z) of
        (Some p, Some q, Some r, Some s) \<Rightarrow>
          Some [char_of (p * 4 + q div 16), char_of (q mod 16 * 16 + r div 4), char_of (r mod 4 * 64 + s)]
      | _ \<Rightarrow> None)"

definition b64_last :: "char \<Rightarrow> char \<Rightarrow> char \<Rightarrow> char \<Rightarrow> bytes option" where
  "b64_last w x y z =
     (if y = CHR ''='' \<and> z = CHR ''='' then
        (case (b64_val w, b64_val x) of
           (Some p, Some q) \<Rightarrow> (if q mod 16 = 0 then Some [char_of (p * 4 + q div 16)] else None)
         | _ \<Rightarrow> None)
      else if z = CHR ''='' then
        (case (b64_val w, b64_val x, b64_val y) of
           (Some p, Some q, Some r) \<Rightarrow>
             (if r mod 4 = 0 then Some [char_of (p * 4 + q div 16), char_of (q mod 16 * 16 + r div 4)]
              else None)
         | _ \<Rightarrow> None)
      else b64_quantum w x y z)"

fun b64_decode :: "string \<Rightarrow> bytes option" where
  "b64_decode [] = Some []"
| "b64_decode [w, x, y, z] = b64_last w x y z"
| "b64_decode (w # x # y # z # r) =
     (case (b64_quantum w x y z, b64_decode r) of
        (Some bs, Some cs) \<Rightarrow> Some (bs @ cs)
      | _ \<Rightarrow> None)"
| "b64_decode _ = None"

text \<open>\<open>base64.StdEncoding.DecodeString\<close>: line breaks are skipped and trailing bits ignored.\<close>

definition b64_last_lax :: "char \<Rightarrow> char \<Rightarrow> char \<Rightarrow> char \<Rightarrow> bytes option" where
  "b64_last_lax w x y z =
     (if y = CHR ''='' \<and> z = CHR ''='' then map_option (take 1) (b64_quantum w x (CHR ''A'') (CHR ''A''))
      else if z = CHR ''='' then map_option (take 2) (b64_quantum w x y (CHR ''A''))
      else b64_quantum w x y z)"

fun b64_decode_lax :: "string \<Rightarrow> bytes option" where
  "b64_decode_lax [] = Some []"
| "b64_decode_lax [w, x, y, z] = b64_last_lax w x y z"
| "b64_decode_lax (w # x # y # z # r) =
     Option.bind (b64_quantum w x y z) (\<lambda>bs. map_option ((@) bs) (b64_decode_lax r))"
| "b64_decode_lax _ = None"

definition b64_DecodeString :: "string \<Rightarrow> bytes option" where
  "b64_DecodeString s = b64_decode_lax (filter (\<lambda>c. c \<notin> {CHR 0x0D, CHR 0x0A}) s)"

text \<open>\<open>base64.RawURLEncoding\<close>: the URL alphabet without padding.\<close>

definition b64_raw_url :: "bytes \<Rightarrow> string" where
  "b64_raw_url bs = map (\<lambda>c. if c = CHR ''+'' then CHR ''-'' else if c = CHR ''/'' then CHR ''_'' else c)
     (filter (\<lambda>c. c \<noteq> CHR ''='') (b64_encode bs))"

text \<open>\<open>base64.StdEncoding.EncodedLen\<close>.\<close>

definition b64_encoded_len :: "nat \<Rightarrow> nat" where
  "b64_encoded_len n = (n + 2) div 3 * 4"

subsection \<open>Big-endian integers\<close>

definition be_bytes :: "nat \<Rightarrow> int \<Rightarrow> bytes" where
  "be_bytes n x = map (\<lambda>i. char_of (drop_bit (8 * i) x)) (rev [0..<n])"

text \<open>\<open>binary.BigEndian.PutUint64\<close> of a length.\<close>

definition be_uint64 :: "nat \<Rightarrow> bytes" where
  "be_uint64 n = be_bytes 8 (int n)"

subsection \<open>SHA-256\<close>

type_synonym u32 = "32 word"
type_synonym sha_state = "u32 \<times> u32 \<times> u32 \<times> u32 \<times> u32 \<times> u32 \<times> u32 \<times> u32"

definition rotr32 :: "nat \<Rightarrow> u32 \<Rightarrow> u32" where
  "rotr32 n w = (drop_bit n w) OR (push_bit (32 - n) w)"

definition big_sigma0 :: "u32 \<Rightarrow> u32" where
  "big_sigma0 x = rotr32 2 x XOR rotr32 13 x XOR rotr32 22 x"

definition big_sigma1 :: "u32 \<Rightarrow> u32" where
  "big_sigma1 x = rotr32 6 x XOR rotr32 11 x XOR rotr32 25 x"

definition small_sigma0 :: "u32 \<Rightarrow> u32" where
  "small_sigma0 x = rotr32 7 x XOR rotr32 18 x XOR drop_bit 3 x"

definition small_sigma1 :: "u32 \<Rightarrow> u32" where
  "small_sigma1 x = rotr32 17 x XOR rotr32 19 x XOR drop_bit 10 x"

definition sha_ch :: "u32 \<Rightarrow> u32 \<Rightarrow> u32 \<Rightarrow> u32" where
  "sha_ch x y z = (x AND y) XOR (NOT x AND z)"

definition sha_maj :: "u32 \<Rightarrow> u32 \<Rightarrow> u32 \<Rightarrow> u32" where
  "sha_maj x y z = (x AND y) XOR (x AND z) XOR (y AND z)"

text \<open>
  The constants are, as the standard defines them, the first 32 bits of the fractional parts of
  the cube roots of the first 64 primes and of the square roots of the first eight: the
  integer part of \<open>p\<close>'s root scaled by \<open>2 ^ 32\<close>, found bit by bit, and reduced to a word.
\<close>

definition scaled_root :: "nat \<Rightarrow> nat \<Rightarrow> nat" where
  "scaled_root k p =
     foldl (\<lambda>r b. if (r + 2 ^ b) ^ k \<le> p * 2 ^ (32 * k) then r + 2 ^ b else r) 0 (rev [0..<40])"

definition primes_upto :: "nat \<Rightarrow> nat list" where
  "primes_upto n = filter (\<lambda>p. \<forall>d \<in> set [2..<p]. p mod d \<noteq> 0) [2..<Suc n]"

definition sha256_K :: "u32 list" where
  "sha256_K = map (\<lambda>p. word_of_nat (scaled_root 3 p)) (primes_upto 311)"

definition sha256_init :: sha_state where
  "sha256_init =
     (case map (\<lambda>p. word_of_nat (scaled_root 2 p)) (primes_upto 19) of
        [a, b, c, d, e, f, g, h] \<Rightarrow> (a, b, c, d, e, f, g, h)
      | _ \<Rightarrow> (0, 0, 0, 0, 0, 0, 0, 0))"

text \<open>The message schedule keeps its last sixteen words, the oldest first.\<close>

definition sha256_step :: "u32 \<Rightarrow> u32 list \<Rightarrow> sha_state \<Rightarrow> sha_state" where
  "sha256_step k ws st = (case st of (a, b, c, d, e, f, g, h) \<Rightarrow>
     (let t1 = h + big_sigma1 e + sha_ch e f g + k + ws ! 0;
          t2 = big_sigma0 a + sha_maj a b c
      in (t1 + t2, a, b, c, d + t1, e, f, g)))"

definition sha256_next :: "u32 list \<Rightarrow> u32 list" where
  "sha256_next ws = tl ws @ [small_sigma1 (ws ! 14) + ws ! 9 + small_sigma0 (ws ! 1) + ws ! 0]"

fun sha256_rounds :: "u32 list \<Rightarrow> u32 list \<Rightarrow> sha_state \<Rightarrow> sha_state" where
  "sha256_rounds [] ws st = st"
| "sha256_rounds (k # ks) ws st = sha256_rounds ks (sha256_next ws) (sha256_step k ws st)"

fun be_words :: "bytes \<Rightarrow> u32 list" where
  "be_words (a # b # c # d # r) =
     (((of_char a * 256 + of_char b) * 256 + of_char c) * 256 + of_char d) # be_words r"
| "be_words _ = []"

definition sha256_pad :: "bytes \<Rightarrow> bytes" where
  "sha256_pad m =
     m @ [CHR 0x80] @ replicate ((119 - length m mod 64) mod 64) (CHR 0x00) @ be_bytes 8 (8 * int (length m))"

definition sha256_block :: "sha_state \<Rightarrow> bytes \<Rightarrow> sha_state" where
  "sha256_block st blk = (case (st, sha256_rounds sha256_K (be_words blk) st) of
     ((a, b, c, d, e, f, g, h), (a', b', c', d', e', f', g', h')) \<Rightarrow>
       (a + a', b + b', c + c', d + d', e + e', f + f', g + g', h + h'))"

function sha256_blocks :: "sha_state \<Rightarrow> bytes \<Rightarrow> sha_state" where
  "sha256_blocks st m =
     (if length m < 64 then st else sha256_blocks (sha256_block st (take 64 m)) (drop 64 m))"
  by pat_completeness auto
termination
  by (relation "measure (\<lambda>(st, m). length m)") auto

declare sha256_blocks.simps [simp del]

text \<open>\<open>sha256.Sum256\<close>, and \<open>sha256.New\<close> with its writes concatenated.\<close>

definition sha256 :: "bytes \<Rightarrow> bytes" where
  "sha256 m = (case sha256_blocks sha256_init (sha256_pad m) of (a, b, c, d, e, f, g, h) \<Rightarrow>
     concat (map (\<lambda>w. be_bytes 4 (uint w)) [a, b, c, d, e, f, g, h]))"

subsection \<open>Laws\<close>

lemma b64_alphabet_props: "distinct b64_alphabet" "length b64_alphabet = 64" "CHR ''='' \<notin> set b64_alphabet"
  by (simp_all add: b64_alphabet_def)

lemma index_of_nth: "distinct xs \<Longrightarrow> i < length xs \<Longrightarrow> index_of (xs ! i) xs = Some i"
proof (induction xs arbitrary: i)
  case (Cons x xs)
  then show ?case by (cases i) auto
qed simp

lemma index_of_Some: "index_of x xs = Some i \<Longrightarrow> i < length xs \<and> xs ! i = x"
  by (induction xs arbitrary: i) (auto split: if_splits)

lemma b64_val_char [simp]: "n < 64 \<Longrightarrow> b64_val (b64_char n) = Some n"
  using b64_alphabet_props by (simp add: b64_val_def b64_char_def index_of_nth)

lemma b64_val_Some: "b64_val c = Some n \<Longrightarrow> n < 64 \<and> b64_char n = c"
  using b64_alphabet_props index_of_Some[of c b64_alphabet n] by (simp add: b64_val_def b64_char_def)

lemma b64_char_neq_pad [simp]: "b64_char n \<noteq> CHR ''=''"
proof -
  have "b64_char n \<in> set b64_alphabet"
    using b64_alphabet_props(2) unfolding b64_char_def by (metis mod_less_divisor nth_mem zero_less_numeral)
  with b64_alphabet_props(3) show ?thesis by auto
qed

subsubsection \<open>Base64 round trips\<close>

lemma b64_quantum_encode:
  "b64_quantum (b64_char (of_char a div 4)) (b64_char (of_char a mod 4 * 16 + of_char b div 16))
     (b64_char (of_char b mod 16 * 4 + of_char c div 64)) (b64_char (of_char c mod 64)) = Some [a, b, c]"
proof -
  have a: "of_char a div 4 < (64::nat)" using nat_of_char_less_256[of a] by linarith
  have b4: "of_char b div 16 < (16::nat)" using nat_of_char_less_256[of b] by linarith
  have c6: "of_char c div 64 < (4::nat)" using nat_of_char_less_256[of c] by linarith
  have q: "of_char a mod 4 * 16 + of_char b div 16 < (64::nat)"
  proof -
    have "of_char a mod 4 < (4::nat)" by simp
    with b4 show ?thesis by linarith
  qed
  have r: "of_char b mod 16 * 4 + of_char c div 64 < (64::nat)"
  proof -
    have "of_char b mod 16 < (16::nat)" by simp
    with c6 show ?thesis by linarith
  qed
  from a q r show ?thesis
    by (simp add: b64_quantum_def b4 c6)
qed

lemma b64_decode_group:
  assumes "z \<noteq> CHR ''=''"
  shows "b64_decode (w # x # y # z # r) =
    (case (b64_quantum w x y z, b64_decode r) of (Some bs, Some cs) \<Rightarrow> Some (bs @ cs) | _ \<Rightarrow> None)"
  using assms by (cases r) (auto simp: b64_last_def split: option.splits)

lemma b64_decode_encode: "b64_decode (b64_encode bs) = Some bs"
proof (induction bs rule: b64_encode.induct)
  case (2 a)
  have "of_char a div 4 < (64::nat)" using nat_of_char_less_256[of a] by linarith
  moreover have "of_char a mod 4 * 16 < (64::nat)"
  proof -
    have "of_char a mod 4 < (4::nat)" by simp
    then show ?thesis by linarith
  qed
  ultimately show ?case by (simp add: b64_last_def)
next
  case (3 a b)
  have "of_char a div 4 < (64::nat)" using nat_of_char_less_256[of a] by linarith
  moreover have b4: "of_char b div 16 < (16::nat)" using nat_of_char_less_256[of b] by linarith
  moreover have "of_char a mod 4 * 16 + of_char b div 16 < (64::nat)"
  proof -
    have "of_char a mod 4 < (4::nat)" by simp
    with b4 show ?thesis by linarith
  qed
  moreover have "of_char b mod 16 * 4 < (64::nat)"
  proof -
    have "of_char b mod 16 < (16::nat)" by simp
    then show ?thesis by linarith
  qed
  ultimately show ?case by (simp add: b64_last_def)
next
  case (4 a b c r)
  then show ?case by (simp add: b64_decode_group b64_quantum_encode)
qed simp

lemma nat_byte_split:
  fixes p q :: nat
  assumes "p < 64" "q < 64"
  shows "of_char (char_of (p * 4 + q div 16)) = p * 4 + q div 16"
    and "of_char (char_of (p mod 16 * 16 + q div 4)) = p mod 16 * 16 + q div 4"
    and "of_char (char_of (p mod 4 * 64 + q)) = p mod 4 * 64 + q"
proof -
  have "p mod 16 < 16" "p mod 4 < 4" by simp_all
  with assms have "p * 4 + q div 16 < 256" "p mod 16 * 16 + q div 4 < 256" "p mod 4 * 64 + q < 256"
    by linarith+
  then show "of_char (char_of (p * 4 + q div 16)) = p * 4 + q div 16"
    and "of_char (char_of (p mod 16 * 16 + q div 4)) = p mod 16 * 16 + q div 4"
    and "of_char (char_of (p mod 4 * 64 + q)) = p mod 4 * 64 + q"
    by simp_all
qed

lemma mix_div_mod:
  fixes a b x :: nat
  assumes "x < b"
  shows "(a * b + x) div b = a" "(a * b + x) mod b = x"
  using assms by simp_all

lemma sextet_arith:
  fixes p q r s :: nat
  assumes "p < 64" "q < 64" "r < 64" "s < 64"
  shows "(p * 4 + q div 16) div 4 = p" "(p * 4 + q div 16) mod 4 * 16 + (q mod 16 * 16 + r div 4) div 16 = q"
    "(q mod 16 * 16 + r div 4) mod 16 * 4 + (r mod 4 * 64 + s) div 64 = r" "(r mod 4 * 64 + s) mod 64 = s"
proof -
  have q: "q div 16 < 4" and r: "r div 4 < 16" using assms by linarith+
  show "(p * 4 + q div 16) div 4 = p" using q by (rule mix_div_mod)
  show "(p * 4 + q div 16) mod 4 * 16 + (q mod 16 * 16 + r div 4) div 16 = q"
    by (simp only: mix_div_mod[OF q] mix_div_mod[OF r]) simp
  show "(q mod 16 * 16 + r div 4) mod 16 * 4 + (r mod 4 * 64 + s) div 64 = r"
    by (simp only: mix_div_mod[OF r] mix_div_mod[OF assms(4)]) simp
  show "(r mod 4 * 64 + s) mod 64 = s" using assms(4) by (rule mix_div_mod)
qed

lemma b64_quantum_inv:
  assumes "b64_quantum w x y z = Some bs"
  shows "\<exists>a b c. bs = [a, b, c] \<and> b64_encode (a # b # c # r) = w # x # y # z # b64_encode r"
proof -
  from assms obtain p q u v where v: "b64_val w = Some p" "b64_val x = Some q"
    "b64_val y = Some u" "b64_val z = Some v"
    and bs: "bs = [char_of (p * 4 + q div 16), char_of (q mod 16 * 16 + u div 4), char_of (u mod 4 * 64 + v)]"
    by (auto simp: b64_quantum_def split: option.splits)
  from v[THEN b64_val_Some] have lt: "p < 64" "q < 64" "u < 64" "v < 64"
    and ch: "b64_char p = w" "b64_char q = x" "b64_char u = y" "b64_char v = z" by auto
  show ?thesis
    unfolding bs using ch sextet_arith[OF lt] nat_byte_split[OF lt(1,2)] nat_byte_split[OF lt(2,3)]
      nat_byte_split[OF lt(3,4)]
    by (auto simp del: of_char_of)
qed

lemma b64_last_inv:
  assumes "b64_last w x y z = Some bs"
  shows "b64_encode bs = [w, x, y, z]"
proof -
  consider (one) "y = CHR ''=''" "z = CHR ''=''" | (two) "y \<noteq> CHR ''=''" "z = CHR ''=''" | (three) "z \<noteq> CHR ''=''"
    by blast
  then show ?thesis
  proof cases
    case one
    with assms obtain p q where v: "b64_val w = Some p" "b64_val x = Some q"
      and m: "q mod 16 = 0" and bs: "bs = [char_of (p * 4 + q div 16)]"
      by (auto simp: b64_last_def split: option.splits if_splits)
    from v[THEN b64_val_Some] have lt: "p < 64" "q < 64" and ch: "b64_char p = w" "b64_char q = x" by auto
    have q: "q div 16 < 4" using lt by linarith
    have q16: "q div 16 * 16 = q" using m by presburger
    have "(p * 4 + q div 16) div 4 = p" "(p * 4 + q div 16) mod 4 * 16 = q"
      by (simp_all only: mix_div_mod[OF q] q16)
    with one ch nat_byte_split(1)[OF lt] show ?thesis
      unfolding bs by (simp only: b64_encode.simps)
  next
    case two
    with assms obtain p q u where v: "b64_val w = Some p" "b64_val x = Some q" "b64_val y = Some u"
      and m: "u mod 4 = 0" and bs: "bs = [char_of (p * 4 + q div 16), char_of (q mod 16 * 16 + u div 4)]"
      by (auto simp: b64_last_def split: option.splits if_splits)
    from v[THEN b64_val_Some] have lt: "p < 64" "q < 64" "u < 64"
      and ch: "b64_char p = w" "b64_char q = x" "b64_char u = y" by auto
    have ar: "(p * 4 + q div 16) div 4 = p" "(p * 4 + q div 16) mod 4 * 16 + (q mod 16 * 16 + u div 4) div 16 = q"
      "(q mod 16 * 16 + u div 4) mod 16 * 4 = u"
      using sextet_arith[OF lt(1,2,3), of 0] m by auto
    with two ch nat_byte_split(1)[OF lt(1,2)] nat_byte_split(2)[OF lt(2,3)]
    show ?thesis unfolding bs by (simp del: of_char_of)
  next
    case three
    with assms have "b64_quantum w x y z = Some bs" by (simp add: b64_last_def)
    from b64_quantum_inv[OF this, of "[]"] show ?thesis by auto
  qed
qed

lemma b64_encode_decode: "b64_decode s = Some bs \<Longrightarrow> b64_encode bs = s"
proof (induction s arbitrary: bs rule: b64_decode.induct)
  case (2 w x y z)
  then show ?case by (simp add: b64_last_inv)
next
  case (3 w x y z v va)
  then obtain as cs where q: "b64_quantum w x y z = Some as" and d: "b64_decode (v # va) = Some cs"
    and bs: "bs = as @ cs" by (auto split: option.splits)
  from 3(1)[OF d] b64_quantum_inv[OF q, of cs] bs show ?case by auto
qed auto

lemma length_b64_encode: "length (b64_encode bs) = b64_encoded_len (length bs)"
proof (induction bs rule: b64_encode.induct)
  case (4 a b c r)
  have "length r + 3 + 2 = (length r + 2) + 3" by simp
  then have "(length r + 3 + 2) div 3 = Suc ((length r + 2) div 3)" by (metis add_Suc_right div_add_self2 One_nat_def add.commute numeral_3_eq_3 plus_1_eq_Suc zero_neq_numeral)
  with 4 show ?case by (simp add: b64_encoded_len_def)
qed (simp_all add: b64_encoded_len_def)

subsubsection \<open>Big-endian integers are read back\<close>

lemma length_be_bytes [simp]: "length (be_bytes n x) = n"
  by (simp add: be_bytes_def)

lemma be_bytes_Suc: "be_bytes (Suc n) x = char_of (drop_bit (8 * n) x) # be_bytes n x"
  by (simp add: be_bytes_def)

lemma be_bytes_inj: "be_bytes n x = be_bytes n y \<Longrightarrow> x mod 256 ^ n = y mod 256 ^ n"
proof (induction n)
  case (Suc n)
  have p: "(2::int) ^ (8 * n) = 256 ^ n" by (simp add: power_mult)
  from Suc.prems have "char_of (drop_bit (8 * n) x) = char_of (drop_bit (8 * n) y)"
    and tl: "be_bytes n x = be_bytes n y" unfolding be_bytes_Suc by simp_all
  then have "x div 256 ^ n mod 256 = y div 256 ^ n mod 256"
    by (simp add: drop_bit_eq_div p)
  moreover have "x mod 256 ^ n = y mod 256 ^ n" using Suc.IH[OF tl] .
  moreover have "z mod (256 ^ n * 256) = 256 ^ n * (z div 256 ^ n mod 256) + z mod 256 ^ n" for z :: int
    by (rule zmod_zmult2_eq) simp
  ultimately show ?case by (simp only: power_Suc2)
qed simp

lemma length_be_uint64 [simp]: "length (be_uint64 n) = 8"
  by (simp add: be_uint64_def)

lemma be_uint64_inj:
  assumes "be_uint64 m = be_uint64 n" and "m < 2 ^ 64" and "n < 2 ^ 64"
  shows "m = n"
proof -
  have "int m mod 256 ^ 8 = int n mod 256 ^ 8"
    using assms(1) unfolding be_uint64_def by (rule be_bytes_inj)
  with assms(2,3) show ?thesis by simp
qed

subsubsection \<open>A SHA-256 digest has 32 bytes\<close>

lemma length_sha256 [simp]: "length (sha256 m) = 32"
  by (auto simp: sha256_def concat_map_length_const split: prod.splits)

text \<open>
  The digest functions the components share: anything that returns 32 bytes. Names derived
  from a digest prefix have a fixed length and alphabet whatever the function is.
\<close>

locale digest32 =
  fixes H :: "bytes \<Rightarrow> bytes"
  assumes digest_length: "length (H m) = 32"
begin

lemma hex_digest_length: "length (hex_encode (H m)) = 64"
  by (simp add: digest_length)

lemma hex_prefix_length: "n \<le> 32 \<Longrightarrow> length (hex_encode (take n (H m))) = 2 * n"
  by (simp add: digest_length)

lemma hex_digest_inj: "hex_encode (H a) = hex_encode (H b) \<longleftrightarrow> H a = H b"
  by (auto dest: hex_encode_inj)

end

interpretation sha: digest32 sha256
  by unfold_locales simp

end
