(* ===== verification/Go_Unicode.thy ===== *)
theory Go_Unicode
  imports Go_Strings
begin

text \<open>
  UTF-8 (\<open>unicode/utf8\<close>) and the comparison that ignores case, \<open>strings.EqualFold\<close>: strings are
  compared rune by rune under Unicode simple case folding, a byte that is not UTF-8 counts as
  U+FFFD.
\<close>

subsection \<open>UTF-8\<close>

abbreviation byte :: "char \<Rightarrow> nat" where "byte c \<equiv> of_char c"

definition cont :: "char \<Rightarrow> bool" where
  "cont c \<longleftrightarrow> 128 \<le> byte c \<and> byte c < 192"

text \<open>The well-formed encodings of one rune: no overlong form, no surrogate, nothing above U+10FFFF.\<close>

fun is_rune :: "bytes \<Rightarrow> bool" where
  "is_rune [a] \<longleftrightarrow> byte a < 128"
| "is_rune [a, b] \<longleftrightarrow> 194 \<le> byte a \<and> byte a < 224 \<and> cont b"
| "is_rune [a, b, c] \<longleftrightarrow>
     224 \<le> byte a \<and> byte a < 240 \<and> cont b \<and> cont c \<and>
     (byte a = 224 \<longrightarrow> 160 \<le> byte b) \<and> (byte a = 237 \<longrightarrow> byte b < 160)"
| "is_rune [a, b, c, d] \<longleftrightarrow>
     240 \<le> byte a \<and> byte a < 245 \<and> cont b \<and> cont c \<and> cont d \<and>
     (byte a = 240 \<longrightarrow> 144 \<le> byte b) \<and> (byte a = 244 \<longrightarrow> byte b < 144)"
| "is_rune _ \<longleftrightarrow> False"

text \<open>The width of the rune at the front, \<open>None\<close> when \<open>utf8.DecodeRune\<close> reports an error.\<close>

definition rune_width :: "bytes \<Rightarrow> nat option" where
  "rune_width s = find (\<lambda>w. w \<le> length s \<and> is_rune (take w s)) [1, 2, 3, 4]"

lemma rune_width_SomeD:
  assumes "rune_width s = Some w"
  shows "0 < w" and "w \<le> length s" and "is_rune (take w s)"
  using assms by (auto simp: rune_width_def split: if_splits)

lemma rune_width_append: "rune_width s = Some w \<Longrightarrow> rune_width (s @ t) = Some w"
  by (auto simp: rune_width_def split: if_splits)

lemma is_rune_high:
  assumes "is_rune s" and "\<not> byte (hd s) < 128"
  shows "\<forall>x \<in> set s. 128 \<le> byte x"
  using assms by (cases s rule: is_rune.cases) (simp_all add: cont_def)

text \<open>\<open>utf8.Valid\<close> and \<open>utf8.RuneCount\<close>; a wrong byte counts as one rune of width one.\<close>

function utf8_Valid :: "bytes \<Rightarrow> bool" where
  "utf8_Valid s = (if s = [] then True else case rune_width s of None \<Rightarrow> False | Some w \<Rightarrow> utf8_Valid (drop w s))"
  by pat_completeness auto
termination
  by (relation "measure length") (auto dest: rune_width_SomeD)

function utf8_RuneCount :: "bytes \<Rightarrow> nat" where
  "utf8_RuneCount s =
     (if s = [] then 0 else Suc (utf8_RuneCount (drop (case rune_width s of None \<Rightarrow> 1 | Some w \<Rightarrow> w) s)))"
  by pat_completeness auto
termination
  by (relation "measure length") (auto dest: rune_width_SomeD split: option.splits)

declare utf8_Valid.simps [simp del] utf8_RuneCount.simps [simp del]

lemma utf8_Valid_Nil [simp]: "utf8_Valid []"
  by (simp add: utf8_Valid.simps)

lemma utf8_Valid_ascii: "\<forall>c \<in> set s. byte c < 128 \<Longrightarrow> utf8_Valid s"
  by (induction s) (subst utf8_Valid.simps, simp add: rune_width_def)+

definition replacement :: bytes where
  "replacement = [CHR 0xEF, CHR 0xBF, CHR 0xBD]"

text \<open>\<open>utf8.AppendRune\<close>; surrogates and values out of range become U+FFFD.\<close>

definition encode_rune :: "nat \<Rightarrow> bytes" where
  "encode_rune n =
     (if n < 128 then [char_of n]
      else if n < 2048 then [char_of (192 + n div 64), char_of (128 + n mod 64)]
      else if 55296 \<le> n \<and> n < 57344 \<or> n \<ge> 1114112 then replacement
      else if n < 65536 then [char_of (224 + n div 4096), char_of (128 + n div 64 mod 64), char_of (128 + n mod 64)]
      else [char_of (240 + n div 262144), char_of (128 + n div 4096 mod 64), char_of (128 + n div 64 mod 64), char_of (128 + n mod 64)])"

subsection \<open>Runes\<close>

text \<open>The value of one well-formed encoding; what \<open>utf8.DecodeRune\<close> gives otherwise is U+FFFD.\<close>

fun rune_value :: "bytes \<Rightarrow> nat" where
  "rune_value [a] = byte a"
| "rune_value [a, b] = (byte a mod 32) * 64 + byte b mod 64"
| "rune_value [a, b, c] = (byte a mod 16) * 4096 + (byte b mod 64) * 64 + byte c mod 64"
| "rune_value [a, b, c, d] = (byte a mod 8) * 262144 + (byte b mod 64) * 4096 + (byte c mod 64) * 64 + byte d mod 64"
| "rune_value _ = 65533"

text \<open>The runes a \<open>range\<close> loop over a string sees.\<close>

function runes :: "bytes \<Rightarrow> nat list" where
  "runes s =
     (if s = [] then []
      else case rune_width s of
        None \<Rightarrow> 65533 # runes (drop 1 s)
      | Some w \<Rightarrow> rune_value (take w s) # runes (drop w s))"
  by pat_completeness auto
termination
  by (relation "measure length") (auto dest: rune_width_SomeD)

declare runes.simps [simp del]

subsection \<open>Case folding\<close>

text \<open>
  The orbits of \<open>unicode.SimpleFold\<close> beyond ASCII (Unicode 15, \<open>CaseFolding.txt\<close>, classes C and S):
  \<open>(lo, hi, step, d)\<close> says that every \<open>step\<close>-th rune from \<open>lo\<close> to \<open>hi\<close> folds to the rune \<open>d\<close> further on,
  the representative of its orbit. The long s and the Kelvin sign fold to ASCII letters; the
  Turkish dotted and dotless i fold to themselves only.
\<close>

definition fold_ranges :: "(nat \<times> nat \<times> nat \<times> int) list" where
  "fold_ranges =
    [(181, 181, 1, 775), (192, 214, 1, 32), (216, 222, 1, 32), (256, 302, 2, 1), (306, 310, 2, 1), (313, 327, 2, 1),
    (330, 374, 2, 1), (376, 376, 1, - 121), (377, 381, 2, 1), (383, 383, 1, - 268), (385, 385, 1, 210),
    (386, 388, 2, 1), (390, 390, 1, 206), (391, 391, 1, 1), (393, 394, 1, 205), (395, 395, 1, 1), (398, 398, 1, 79),
    (399, 399, 1, 202), (400, 400, 1, 203), (401, 401, 1, 1), (403, 403, 1, 205), (404, 404, 1, 207),
    (406, 406, 1, 211), (407, 407, 1, 209), (408, 408, 1, 1), (412, 412, 1, 211), (413, 413, 1, 213),
    (415, 415, 1, 214), (416, 420, 2, 1), (422, 422, 1, 218), (423, 423, 1, 1), (425, 425, 1, 218), (428, 428, 1, 1),
    (430, 430, 1, 218), (431, 431, 1, 1), (433, 434, 1, 217), (435, 437, 2, 1), (439, 439, 1, 219), (440, 440, 1, 1),
    (444, 444, 1, 1), (452, 452, 1, 2), (453, 453, 1, 1), (455, 455, 1, 2), (456, 456, 1, 1), (458, 458, 1, 2),
    (459, 475, 2, 1), (478, 494, 2, 1), (497, 497, 1, 2), (498, 500, 2, 1), (502, 502, 1, - 97), (503, 503, 1, - 56),
    (504, 542, 2, 1), (544, 544, 1, - 130), (546, 562, 2, 1), (570, 570, 1, 10795), (571, 571, 1, 1),
    (573, 573, 1, - 163), (574, 574, 1, 10792), (577, 577, 1, 1), (579, 579, 1, - 195), (580, 580, 1, 69),
    (581, 581, 1, 71), (582, 590, 2, 1), (837, 837, 1, 116), (880, 882, 2, 1), (886, 886, 1, 1), (895, 895, 1, 116),
    (902, 902, 1, 38), (904, 906, 1, 37), (908, 908, 1, 64), (910, 911, 1, 63), (913, 929, 1, 32), (931, 939, 1, 32),
    (962, 962, 1, 1), (975, 975, 1, 8), (976, 976, 1, - 30), (977, 977, 1, - 25), (981, 981, 1, - 15),
    (982, 982, 1, - 22), (984, 1006, 2, 1), (1008, 1008, 1, - 54), (1009, 1009, 1, - 48), (1012, 1012, 1, - 60),
    (1013, 1013, 1, - 64), (1015, 1015, 1, 1), (1017, 1017, 1, - 7), (1018, 1018, 1, 1), (1021, 1023, 1, - 130),
    (1024, 1039, 1, 80), (1040, 1071, 1, 32), (1120, 1152, 2, 1), (1162, 1214, 2, 1), (1216, 1216, 1, 15),
    (1217, 1229, 2, 1), (1232, 1326, 2, 1), (1329, 1366, 1, 48), (4256, 4293, 1, 7264), (4295, 4295, 1, 7264),
    (4301, 4301, 1, 7264), (5112, 5117, 1, - 8), (7296, 7296, 1, - 6222), (7297, 7297, 1, - 6221),
    (7298, 7298, 1, - 6212), (7299, 7300, 1, - 6210), (7301, 7301, 1, - 6211), (7302, 7302, 1, - 6204),
    (7303, 7303, 1, - 6180), (7304, 7304, 1, 35267), (7312, 7354, 1, - 3008), (7357, 7359, 1, - 3008),
    (7680, 7828, 2, 1), (7835, 7835, 1, - 58), (7838, 7838, 1, - 7615), (7840, 7934, 2, 1), (7944, 7951, 1, - 8),
    (7960, 7965, 1, - 8), (7976, 7983, 1, - 8), (7992, 7999, 1, - 8), (8008, 8013, 1, - 8), (8025, 8031, 2, - 8),
    (8040, 8047, 1, - 8), (8072, 8079, 1, - 8), (8088, 8095, 1, - 8), (8104, 8111, 1, - 8), (8120, 8121, 1, - 8),
    (8122, 8123, 1, - 74), (8124, 8124, 1, - 9), (8126, 8126, 1, - 7173), (8136, 8139, 1, - 86), (8140, 8140, 1, - 9),
    (8152, 8153, 1, - 8), (8154, 8155, 1, - 100), (8168, 8169, 1, - 8), (8170, 8171, 1, - 112), (8172, 8172, 1, - 7),
    (8184, 8185, 1, - 128), (8186, 8187, 1, - 126), (8188, 8188, 1, - 9), (8486, 8486, 1, - 7517),
    (8490, 8490, 1, - 8383), (8491, 8491, 1, - 8262), (8498, 8498, 1, 28), (8544, 8559, 1, 16), (8579, 8579, 1, 1),
    (9398, 9423, 1, 26), (11264, 11311, 1, 48), (11360, 11360, 1, 1), (11362, 11362, 1, - 10743),
    (11363, 11363, 1, - 3814), (11364, 11364, 1, - 10727), (11367, 11371, 2, 1), (11373, 11373, 1, - 10780),
    (11374, 11374, 1, - 10749), (11375, 11375, 1, - 10783), (11376, 11376, 1, - 10782), (11378, 11378, 1, 1),
    (11381, 11381, 1, 1), (11390, 11391, 1, - 10815), (11392, 11490, 2, 1), (11499, 11501, 2, 1), (11506, 11506, 1, 1),
    (42560, 42604, 2, 1), (42624, 42650, 2, 1), (42786, 42798, 2, 1), (42802, 42862, 2, 1), (42873, 42875, 2, 1),
    (42877, 42877, 1, - 35332), (42878, 42886, 2, 1), (42891, 42891, 1, 1), (42893, 42893, 1, - 42280),
    (42896, 42898, 2, 1), (42902, 42920, 2, 1), (42922, 42922, 1, - 42308), (42923, 42923, 1, - 42319),
    (42924, 42924, 1, - 42315), (42925, 42925, 1, - 42305), (42926, 42926, 1, - 42308), (42928, 42928, 1, - 42258),
    (42929, 42929, 1, - 42282), (42930, 42930, 1, - 42261), (42931, 42931, 1, 928), (42932, 42946, 2, 1),
    (42948, 42948, 1, - 48), (42949, 42949, 1, - 42307), (42950, 42950, 1, - 35384), (42951, 42953, 2, 1),
    (42960, 42960, 1, 1), (42966, 42968, 2, 1), (42997, 42997, 1, 1), (43888, 43967, 1, - 38864),
    (65313, 65338, 1, 32), (66560, 66599, 1, 40), (66736, 66771, 1, 40), (66928, 66938, 1, 39), (66940, 66954, 1, 39),
    (66956, 66962, 1, 39), (66964, 66965, 1, 39), (68736, 68786, 1, 64), (71840, 71871, 1, 32), (93760, 93791, 1, 32),
    (125184, 125217, 1, 34)]"

definition fold_rune :: "nat \<Rightarrow> nat" where
  "fold_rune r =
     (if r < 128 then (if 65 \<le> r \<and> r \<le> 90 then r + 32 else r)
      else case find (\<lambda>(lo, hi, step, d). lo \<le> r \<and> r \<le> hi \<and> (r - lo) mod step = 0) fold_ranges of
        None \<Rightarrow> r
      | Some (lo, hi, step, d) \<Rightarrow> nat (int r + d))"

text \<open>\<open>strings.EqualFold\<close>.\<close>

definition EqualFold :: "string \<Rightarrow> string \<Rightarrow> bool" where
  "EqualFold a b \<longleftrightarrow> map fold_rune (runes a) = map fold_rune (runes b)"

lemma EqualFold_refl [simp]: "EqualFold a a"
  by (simp add: EqualFold_def)

lemma EqualFold_sym: "EqualFold a b \<Longrightarrow> EqualFold b a"
  by (simp add: EqualFold_def)

lemma EqualFold_trans: "EqualFold a b \<Longrightarrow> EqualFold b c \<Longrightarrow> EqualFold a c"
  by (simp add: EqualFold_def)

lemma runes_ascii: "\<forall>c \<in> set s. byte c < 128 \<Longrightarrow> runes s = map byte s"
  by (induction s) (subst runes.simps, simp add: rune_width_def)+

lemma fold_rune_ascii:
  assumes "byte c < 128"
  shows "fold_rune (byte c) = byte (lower_byte c)"
  using assms by (auto simp: fold_rune_def lower_byte_def less_eq_char_def)

text \<open>On ASCII names it compares the letters without case.\<close>

lemma EqualFold_ascii:
  assumes "\<forall>c \<in> set a. byte c < 128" and "\<forall>c \<in> set b. byte c < 128"
  shows "EqualFold a b \<longleftrightarrow> map lower_byte a = map lower_byte b"
proof -
  have fold: "map fold_rune (runes s) = map byte (map lower_byte s)" if "\<forall>c \<in> set s. byte c < 128" for s
    using that by (simp add: runes_ascii fold_rune_ascii)
  show ?thesis
    unfolding EqualFold_def fold[OF assms(1)] fold[OF assms(2)]
    by (rule inj_map_eq_map) (auto intro: injI)
qed

text \<open>Beyond ASCII: the Kelvin sign is a \<open>k\<close>, the long s an \<open>s\<close>, and the dotted capital I is no \<open>i\<close>.\<close>

lemma EqualFold_beyond_ascii:
  "EqualFold [CHR 0xE2, CHR 0x84, CHR 0xAA] ''k''" "EqualFold [CHR 0xC5, CHR 0xBF] ''S''"
  "\<not> EqualFold [CHR 0xC4, CHR 0xB0] ''i''" "EqualFold [CHR 0xCE, CHR 0xA3] [CHR 0xCF, CHR 0x82]"
  by code_simp+

end
