(* ===== verification/Go_Json.thy ===== *)
theory Go_Json
  imports Go_Unicode
begin

text \<open>
  The part of \<open>encoding/json\<close> the program uses to keep values on disk: \<open>json.MarshalIndent\<close> with an empty prefix and two-space indent, and the parser
  behind \<open>json.Unmarshal\<close>. Byte sequences that are not UTF-8 become U+FFFD on the way out
  and on the way in, as in Go; on valid UTF-8 the two are inverse to each other.
\<close>

subsection \<open>Strings\<close>

definition u00 :: "char \<Rightarrow> string" where
  "u00 c = [CHR 0x5C] @ ''u00'' @ [hex_digit (byte c div 16), hex_digit (byte c)]"

text \<open>One ASCII byte as the encoder writes it, with HTML escaping on.\<close>

definition escape_ascii :: "char \<Rightarrow> string" where
  "escape_ascii c =
     (if c = CHR 0x22 \<or> c = CHR 0x5C then [CHR 0x5C, c]
      else if c = CHR 0x08 then [CHR 0x5C, CHR ''b'']
      else if c = CHR 0x0C then [CHR 0x5C, CHR ''f'']
      else if c = CHR 0x0A then [CHR 0x5C, CHR ''n'']
      else if c = CHR 0x0D then [CHR 0x5C, CHR ''r'']
      else if c = CHR 0x09 then [CHR 0x5C, CHR ''t'']
      else if byte c < 32 \<or> c = CHR ''<'' \<or> c = CHR ''>'' \<or> c = CHR 0x26 then u00 c
      else [c])"

text \<open>One step of the encoder: the text for the front of the input and how much it covers.\<close>

definition escape_front :: "bytes \<Rightarrow> string \<times> nat" where
  "escape_front s =
     (case s of
        [] \<Rightarrow> ([], 1)
      | c # r \<Rightarrow>
          if byte c < 128 then (escape_ascii c, 1)
          else case rune_width s of
            None \<Rightarrow> ([CHR 0x5C] @ ''ufffd'', 1)
          | Some w \<Rightarrow>
              if take 3 s = [CHR 0xE2, CHR 0x80, CHR 0xA8] then ([CHR 0x5C] @ ''u2028'', w)
              else if take 3 s = [CHR 0xE2, CHR 0x80, CHR 0xA9] then ([CHR 0x5C] @ ''u2029'', w)
              else (take w s, w))"

lemma escape_front_pos: "0 < snd (escape_front s)"
  by (auto simp: escape_front_def split: list.splits option.splits dest: rune_width_SomeD)

function escape :: "bytes \<Rightarrow> string" where
  "escape s = (if s = [] then [] else fst (escape_front s) @ escape (drop (snd (escape_front s)) s))"
  by pat_completeness auto
termination
  by (relation "measure length") (use escape_front_pos in auto)

declare escape.simps [simp del]

definition quote :: "bytes \<Rightarrow> string" where
  "quote s = CHR 0x22 # escape s @ [CHR 0x22]"

text \<open>Reading a string: \<open>getu4\<close>, one unit of the body, and the body up to the closing quote.\<close>

definition hex_val :: "char \<Rightarrow> nat option" where
  "hex_val c =
     (if CHR ''0'' \<le> c \<and> c \<le> CHR ''9'' then Some (byte c - 48)
      else if CHR ''a'' \<le> c \<and> c \<le> CHR ''f'' then Some (byte c - 87)
      else if CHR ''A'' \<le> c \<and> c \<le> CHR ''F'' then Some (byte c - 55)
      else None)"

fun getu4 :: "string \<Rightarrow> nat option" where
  "getu4 (b # u # p # q # r # s # rest) =
     (if b = CHR 0x5C \<and> u = CHR ''u'' then
        (case (hex_val p, hex_val q, hex_val r, hex_val s) of
           (Some p, Some q, Some r, Some s) \<Rightarrow> Some (((p * 16 + q) * 16 + r) * 16 + s)
         | _ \<Rightarrow> None)
      else None)"
| "getu4 _ = None"

text \<open>
  The bytes one unit stands for and its length, or \<open>None\<close> for a syntax error. A high surrogate
  escape followed by a low one is one unit of twelve characters.
\<close>

definition unescape_front :: "string \<Rightarrow> (bytes \<times> nat) option" where
  "unescape_front s =
     (case s of
        [] \<Rightarrow> None
      | c # r \<Rightarrow>
          if c = CHR 0x5C then
            (case r of
               [] \<Rightarrow> None
             | e # _ \<Rightarrow>
                 if e = CHR ''u'' then
                   (case getu4 s of
                      None \<Rightarrow> None
                    | Some n \<Rightarrow>
                        if 55296 \<le> n \<and> n < 56320 then
                          (case getu4 (drop 6 s) of
                             Some m \<Rightarrow> if 56320 \<le> m \<and> m < 57344
                                       then Some (encode_rune ((n - 55296) * 1024 + (m - 56320) + 65536), 12)
                                       else Some (replacement, 6)
                           | None \<Rightarrow> Some (replacement, 6))
                        else Some (encode_rune n, 6))
                 else if e = CHR 0x22 \<or> e = CHR 0x5C \<or> e = CHR ''/'' then Some ([e], 2)
                 else if e = CHR ''b'' then Some ([CHR 0x08], 2)
                 else if e = CHR ''f'' then Some ([CHR 0x0C], 2)
                 else if e = CHR ''n'' then Some ([CHR 0x0A], 2)
                 else if e = CHR ''r'' then Some ([CHR 0x0D], 2)
                 else if e = CHR ''t'' then Some ([CHR 0x09], 2)
                 else None)
          else if byte c < 32 then None
          else if byte c < 128 then Some ([c], 1)
          else case rune_width s of None \<Rightarrow> Some (replacement, 1) | Some w \<Rightarrow> Some (take w s, w))"

lemma unescape_front_pos: "unescape_front s = Some (bs, n) \<Longrightarrow> 0 < n \<and> s \<noteq> []"
  by (auto simp: unescape_front_def split: list.splits option.splits if_splits dest: rune_width_SomeD)

function read_string :: "string \<Rightarrow> (bytes \<times> string) option" where
  "read_string s =
     (if HasPrefix s [CHR 0x22] then Some ([], drop 1 s)
      else case unescape_front s of
        None \<Rightarrow> None
      | Some (bs, n) \<Rightarrow> map_option (\<lambda>(v, rest). (bs @ v, rest)) (read_string (drop n s)))"
  by pat_completeness auto
termination
  by (relation "measure length") (auto dest: unescape_front_pos)

declare read_string.simps [simp del]

subsection \<open>Strings survive the round trip\<close>

lemma hex_val_digit [simp]: "hex_val (hex_digit n) = Some (n mod 16)"
proof -
  have "\<forall>m \<in> set [0..<16]. hex_val (hex_digit m) = Some m" by code_simp
  then have "hex_val (hex_digit (n mod 16)) = Some (n mod 16)" by simp
  then show ?thesis by (simp add: hex_digit_mod)
qed

lemma unescape_u00:
  assumes "byte c < 128"
  shows "unescape_front (u00 c @ r) = Some ([c], length (u00 c))"
proof -
  have "hex_val (CHR ''0'') = Some 0" by code_simp
  then have "getu4 (u00 c @ r) = Some (byte c div 16 mod 16 * 16 + byte c mod 16)"
    by (simp add: u00_def)
  also have "byte c div 16 mod 16 * 16 + byte c mod 16 = byte c" using assms by simp
  finally have g: "getu4 (u00 c @ r) = Some (byte c)" .
  obtain x where x: "u00 c @ r = CHR 0x5C # CHR ''u'' # x" by (simp add: u00_def)
  show ?thesis
    using assms g unfolding x
    by (simp add: unescape_front_def encode_rune_def u00_def del: getu4.simps)
qed

lemma unescape_ascii:
  assumes "byte c < 128"
  shows "unescape_front (escape_ascii c @ r) = Some ([c], length (escape_ascii c))"
proof (cases "escape_ascii c = u00 c")
  case True
  then show ?thesis using unescape_u00[OF assms] by simp
next
  case False
  then show ?thesis using assms by (auto simp: escape_ascii_def unescape_front_def)
qed

lemma unescape_line_sep:
  "unescape_front ([CHR 0x5C] @ ''u2028'' @ r) = Some ([CHR 0xE2, CHR 0x80, CHR 0xA8], 6)"
  "unescape_front ([CHR 0x5C] @ ''u2029'' @ r) = Some ([CHR 0xE2, CHR 0x80, CHR 0xA9], 6)"
proof -
  have d: "hex_val (CHR ''0'') = Some 0" "hex_val (CHR ''2'') = Some 2" "hex_val (CHR ''8'') = Some 8"
    "hex_val (CHR ''9'') = Some 9" by code_simp+
  have e: "encode_rune 8232 = [CHR 0xE2, CHR 0x80, CHR 0xA8]" "encode_rune 8233 = [CHR 0xE2, CHR 0x80, CHR 0xA9]"
    by code_simp+
  show "unescape_front ([CHR 0x5C] @ ''u2028'' @ r) = Some ([CHR 0xE2, CHR 0x80, CHR 0xA8], 6)"
    "unescape_front ([CHR 0x5C] @ ''u2029'' @ r) = Some ([CHR 0xE2, CHR 0x80, CHR 0xA9], 6)"
    by (simp_all add: unescape_front_def d e)
qed

lemma unescape_rune:
  assumes "rune_width s = Some w" and "\<not> byte (hd s) < 128"
  shows "unescape_front (take w s @ r) = Some (take w s, w)"
proof -
  note w = rune_width_SomeD[OF assms(1)]
  then obtain a t where s: "take w s = a # t" "a = hd s" by (cases s; cases w) auto
  have "rune_width (take w s @ r) = Some w"
  proof -
    have "rune_width (take w s) = Some w" using assms(1) w by (auto simp: rune_width_def split: if_splits)
    then show ?thesis by (rule rune_width_append)
  qed
  moreover have "a \<noteq> CHR 0x5C" using assms(2) s by auto
  moreover have "take w (take w s @ r) = take w s" using w(2) by simp
  ultimately show ?thesis using assms(2) unfolding s by (simp add: unescape_front_def)
qed

lemma rune_width_line_sep:
  "rune_width (CHR 0xE2 # CHR 0x80 # CHR 0xA8 # r) = Some 3"
  "rune_width (CHR 0xE2 # CHR 0x80 # CHR 0xA9 # r) = Some 3"
  by (simp_all add: rune_width_def cont_def)

lemma rune_width_ascii: "byte c < 128 \<Longrightarrow> rune_width (c # t) = Some 1"
  by (simp add: rune_width_def)

lemma escape_ascii_no_quote: "\<not> HasPrefix (escape_ascii c @ r) [CHR 0x22]"
  by (simp add: escape_ascii_def u00_def HasPrefix_def)

lemma unescape_escape_front:
  assumes "s \<noteq> []" and "rune_width s = Some w"
  shows "snd (escape_front s) = w"
    and "unescape_front (fst (escape_front s) @ r) = Some (take w s, length (fst (escape_front s)))"
    and "\<not> HasPrefix (fst (escape_front s) @ r) [CHR 0x22]"
proof -
  obtain c t where s: "s = c # t" using assms(1) by (cases s) auto
  show "snd (escape_front s) = w"
    using assms(2) by (cases "byte c < 128") (simp_all add: escape_front_def s rune_width_ascii)
  consider "byte c < 128" "w = 1" "fst (escape_front s) = escape_ascii c"
    | "\<not> byte c < 128" "take 3 s = [CHR 0xE2, CHR 0x80, CHR 0xA8]" "fst (escape_front s) = [CHR 0x5C] @ ''u2028''"
    | "\<not> byte c < 128" "take 3 s = [CHR 0xE2, CHR 0x80, CHR 0xA9]" "fst (escape_front s) = [CHR 0x5C] @ ''u2029''"
    | "\<not> byte c < 128" "fst (escape_front s) = take w s"
  proof (cases "byte c < 128")
    case True
    then show ?thesis using assms(2) by (intro that(1)) (simp_all add: escape_front_def s rune_width_ascii)
  next
    case False
    then have "escape_front s =
        (if take 3 s = [CHR 0xE2, CHR 0x80, CHR 0xA8] then ([CHR 0x5C] @ ''u2028'', w)
         else if take 3 s = [CHR 0xE2, CHR 0x80, CHR 0xA9] then ([CHR 0x5C] @ ''u2029'', w)
         else (take w s, w))"
      using assms(2) unfolding s by (simp add: escape_front_def)
    with False that(2,3,4) show ?thesis by (metis fst_conv)
  qed
  note cs = this
  from cs show "unescape_front (fst (escape_front s) @ r) = Some (take w s, length (fst (escape_front s)))"
  proof cases
    case 1
    then show ?thesis using unescape_ascii s by simp
  next
    case 2
    have "rune_width (take 3 s @ drop 3 s) = Some 3" unfolding 2(2) by (simp add: rune_width_line_sep)
    then have "w = 3" using assms(2) by simp
    then show ?thesis using 2 unescape_line_sep(1)[of r] by simp
  next
    case 3
    have "rune_width (take 3 s @ drop 3 s) = Some 3" unfolding 3(2) by (simp add: rune_width_line_sep)
    then have "w = 3" using assms(2) by simp
    then show ?thesis using 3 unescape_line_sep(2)[of r] by simp
  next
    case 4
    then show ?thesis using unescape_rune[OF assms(2)] rune_width_SomeD[OF assms(2)] s by simp
  qed
  from cs show "\<not> HasPrefix (fst (escape_front s) @ r) [CHR 0x22]"
  proof cases
    case 4
    have "hd (take w s @ r) = c" using rune_width_SomeD(1)[OF assms(2)] s by (cases w) simp_all
    then show ?thesis unfolding 4(2) using 4(1) by (cases "take w s @ r") (auto simp: HasPrefix_def)
  qed (simp_all only: escape_ascii_no_quote, simp_all add: HasPrefix_def)
qed

lemma read_string_escape:
  "utf8_Valid s \<Longrightarrow> read_string (escape s @ CHR 0x22 # r) = Some (s, r)"
proof (induction s rule: utf8_Valid.induct)
  case (1 s)
  show ?case
  proof (cases "s = []")
    case True
    then show ?thesis by (simp add: escape.simps read_string.simps HasPrefix_def)
  next
    case False
    with 1 obtain w where w: "rune_width s = Some w" and v: "utf8_Valid (drop w s)"
      by (subst (asm) (2) utf8_Valid.simps) (auto split: option.splits)
    let ?t = "fst (escape_front s)"
    note f = unescape_escape_front(2,3)[OF False w, of "escape (drop w s) @ CHR 0x22 # r"]
    have "escape s = ?t @ escape (drop w s)"
      using False unescape_escape_front(1)[OF False w] by (subst escape.simps) simp
    then have "read_string (escape s @ CHR 0x22 # r) =
        map_option (\<lambda>(v, rest). (take w s @ v, rest)) (read_string (escape (drop w s) @ CHR 0x22 # r))"
      using f by (subst read_string.simps) simp
    then show ?thesis using "1.IH"[OF False w v] by simp
  qed
qed

subsection \<open>Values\<close>

text \<open>A number is kept as its literal, which is what \<open>json.Unmarshal\<close> hands to \<open>strconv\<close>.\<close>

datatype json = JNull | JBool bool | JNum string | JStr bytes | JArr "json list" | JObj "(bytes \<times> json) list"

definition newline :: "nat \<Rightarrow> string" where
  "newline n = CHR 0x0A # replicate (2 * n) (CHR '' '')"

text \<open>\<open>json.MarshalIndent(v, "", "  ")\<close>: \<open>n\<close> is the nesting depth.\<close>

fun print_json :: "nat \<Rightarrow> json \<Rightarrow> string" where
  "print_json n JNull = ''null''"
| "print_json n (JBool b) = (if b then ''true'' else ''false'')"
| "print_json n (JNum lit) = lit"
| "print_json n (JStr s) = quote s"
| "print_json n (JArr []) = ''[]''"
| "print_json n (JArr (v # vs)) =
     ''['' @ newline (Suc n) @ print_json (Suc n) v @
     concat (map (\<lambda>w. '','' @ newline (Suc n) @ print_json (Suc n) w) vs) @ newline n @ '']''"
| "print_json n (JObj []) = ''{}''"
| "print_json n (JObj (kv # kvs)) =
     ''{'' @ newline (Suc n) @ quote (fst kv) @ '': '' @ print_json (Suc n) (snd kv) @
     concat (map (\<lambda>kw. '','' @ newline (Suc n) @ quote (fst kw) @ '': '' @ print_json (Suc n) (snd kw)) kvs) @
     newline n @ ''}''"

definition json_space :: "char \<Rightarrow> bool" where
  "json_space c \<longleftrightarrow> c = CHR '' '' \<or> c = CHR 0x09 \<or> c = CHR 0x0A \<or> c = CHR 0x0D"

definition skip_ws :: "string \<Rightarrow> string" where
  "skip_ws s = dropWhile json_space s"

text \<open>The number grammar: \<open>-?(0|[1-9][0-9]*)(\.[0-9]+)?([eE][+-]?[0-9]+)?\<close>, longest match.\<close>

definition read_digits :: "string \<Rightarrow> (string \<times> string) option" where
  "read_digits s = (let ds = takeWhile is_digit s in if ds = [] then None else Some (ds, drop (length ds) s))"

definition read_int_part :: "string \<Rightarrow> (string \<times> string) option" where
  "read_int_part s = (if HasPrefix s ''0'' then Some (''0'', drop 1 s) else read_digits s)"

definition read_frac :: "string \<Rightarrow> (string \<times> string) option" where
  "read_frac s =
     (if HasPrefix s ''.'' then map_option (\<lambda>(ds, r). (CHR ''.'' # ds, r)) (read_digits (drop 1 s)) else Some ([], s))"

definition read_exp :: "string \<Rightarrow> (string \<times> string) option" where
  "read_exp s =
     (if HasPrefix s ''e'' \<or> HasPrefix s ''E'' then
        (let sign = (if HasPrefix (drop 1 s) ''+'' \<or> HasPrefix (drop 1 s) ''-'' then take 1 (drop 1 s) else []) in
         map_option (\<lambda>(ds, r). (take 1 s @ sign @ ds, r)) (read_digits (drop (1 + length sign) s)))
      else Some ([], s))"

definition read_number :: "string \<Rightarrow> (string \<times> string) option" where
  "read_number s =
     (let sign = (if HasPrefix s ''-'' then ''-'' else []) in
      case read_int_part (drop (length sign) s) of
        None \<Rightarrow> None
      | Some (i, s1) \<Rightarrow>
          (case read_frac s1 of
             None \<Rightarrow> None
           | Some (f, s2) \<Rightarrow> map_option (\<lambda>(e, s3). (sign @ i @ f @ e, s3)) (read_exp s2)))"

text \<open>
  The parser, with fuel: two calls at most are nested per character consumed, so twice the
  length of the input is enough.
\<close>

fun read_value :: "nat \<Rightarrow> string \<Rightarrow> (json \<times> string) option"
and read_elems :: "nat \<Rightarrow> string \<Rightarrow> (json list \<times> string) option"
and read_members :: "nat \<Rightarrow> string \<Rightarrow> ((bytes \<times> json) list \<times> string) option" where
  "read_value 0 s = None"
| "read_value (Suc k) s0 =
     (let s = skip_ws s0 in
      if HasPrefix s ''null'' then Some (JNull, drop 4 s)
      else if HasPrefix s ''true'' then Some (JBool True, drop 4 s)
      else if HasPrefix s ''false'' then Some (JBool False, drop 5 s)
      else if HasPrefix s [CHR 0x22] then map_option (\<lambda>(v, r). (JStr v, r)) (read_string (drop 1 s))
      else if HasPrefix s ''['' then
        (if HasPrefix (skip_ws (drop 1 s)) '']'' then Some (JArr [], drop 1 (skip_ws (drop 1 s)))
         else map_option (\<lambda>(vs, r). (JArr vs, r)) (read_elems k (drop 1 s)))
      else if HasPrefix s ''{'' then
        (if HasPrefix (skip_ws (drop 1 s)) ''}'' then Some (JObj [], drop 1 (skip_ws (drop 1 s)))
         else map_option (\<lambda>(vs, r). (JObj vs, r)) (read_members k (drop 1 s)))
      else map_option (\<lambda>(l, r). (JNum l, r)) (read_number s))"
| "read_elems 0 s = None"
| "read_elems (Suc k) s =
     (case read_value k s of
        None \<Rightarrow> None
      | Some (v, r0) \<Rightarrow>
          let r = skip_ws r0 in
          if HasPrefix r '','' then map_option (\<lambda>(vs, r). (v # vs, r)) (read_elems k (drop 1 r))
          else if HasPrefix r '']'' then Some ([v], drop 1 r)
          else None)"
| "read_members 0 s = None"
| "read_members (Suc k) s0 =
     (let s = skip_ws s0 in
      if \<not> HasPrefix s [CHR 0x22] then None
      else case read_string (drop 1 s) of
        None \<Rightarrow> None
      | Some (key, r0) \<Rightarrow>
          if \<not> HasPrefix (skip_ws r0) '':'' then None
          else case read_value k (drop 1 (skip_ws r0)) of
            None \<Rightarrow> None
          | Some (v, r1) \<Rightarrow>
              let r = skip_ws r1 in
              if HasPrefix r '','' then map_option (\<lambda>(vs, r). ((key, v) # vs, r)) (read_members k (drop 1 r))
              else if HasPrefix r ''}'' then Some ([(key, v)], drop 1 r)
              else None)"

definition parse_json :: "string \<Rightarrow> json option" where
  "parse_json s =
     (case read_value (2 * length s + 2) s of
        Some (v, r) \<Rightarrow> if skip_ws r = [] then Some v else None
      | None \<Rightarrow> None)"

subsection \<open>Values survive the round trip\<close>

fun wf_json :: "json \<Rightarrow> bool" where
  "wf_json (JNum lit) \<longleftrightarrow> (\<exists>i. lit = FormatInt i)"
| "wf_json (JStr s) \<longleftrightarrow> utf8_Valid s"
| "wf_json (JArr vs) \<longleftrightarrow> (\<forall>v \<in> set vs. wf_json v)"
| "wf_json (JObj kvs) \<longleftrightarrow> (\<forall>kv \<in> set kvs. utf8_Valid (fst kv) \<and> wf_json (snd kv))"
| "wf_json _ \<longleftrightarrow> True"

text \<open>What may follow a number literal.\<close>

definition stops :: "string \<Rightarrow> bool" where
  "stops r \<longleftrightarrow> (case r of [] \<Rightarrow> True | c # _ \<Rightarrow> \<not> is_digit c \<and> c \<noteq> CHR ''.'' \<and> c \<noteq> CHR ''e'' \<and> c \<noteq> CHR ''E'')"

lemma stops_simps [simp]:
  "stops []" "stops (CHR '','' # r)" "stops (CHR '']'' # r)" "stops (CHR ''}'' # r)" "stops (newline n @ r)"
  by (simp_all add: stops_def is_digit_def less_eq_char_def newline_def)

lemma takeWhile_digits:
  "list_all is_digit ds \<Longrightarrow> stops r \<Longrightarrow> takeWhile is_digit (ds @ r) = ds"
  by (cases r) (simp_all add: stops_def takeWhile_append list_all_iff)

lemma hd_nat_digits: "hd (nat_digits n) = CHR ''0'' \<longleftrightarrow> n = 0"
proof (induction n rule: nat_digits.induct)
  case (1 n)
  have "char_of (48 + n) = CHR ''0'' \<longleftrightarrow> n = 0" if "n < 10"
  proof -
    have "\<forall>m \<in> set [0..<10]. (char_of (48 + m) = CHR ''0'') = (m = (0::nat))" by code_simp
    then show ?thesis using that by simp
  qed
  then show ?case using 1 by (subst nat_digits.simps) (auto simp: hd_append)
qed

lemma read_int_nat:
  assumes "stops r"
  shows "read_int_part (nat_digits n @ r) = Some (nat_digits n, r)"
proof (cases "n = 0")
  case True
  have "nat_digits 0 = ''0''" by code_simp
  with True show ?thesis by (simp add: read_int_part_def HasPrefix_def)
next
  case False
  then have "\<not> HasPrefix (nat_digits n @ r) ''0''"
    using hd_nat_digits[of n] by (cases "nat_digits n") (auto simp: HasPrefix_def)
  then show ?thesis
    using takeWhile_digits[OF nat_digits_all assms]
    by (simp add: read_int_part_def read_digits_def Let_def)
qed

lemma read_number_FormatInt:
  assumes "stops r"
  shows "read_number (FormatInt i @ r) = Some (FormatInt i, r)"
proof -
  have s: "read_frac r = Some ([], r)" "read_exp r = Some ([], r)"
    using assms by (cases r; simp add: stops_def read_frac_def read_exp_def HasPrefix_def)+
  have "\<not> HasPrefix (nat_digits n @ r) ''-''" for n
    using hd_not_sign[OF nat_digits_all[of n]] by (cases "nat_digits n") (auto simp: HasPrefix_def)
  then show ?thesis
    using read_int_nat[OF assms] s
    by (auto simp: FormatInt_def read_number_def Let_def HasPrefix_def)
qed

lemma skip_ws_append: "list_all json_space ws \<Longrightarrow> s = [] \<or> \<not> json_space (hd s) \<Longrightarrow> skip_ws (ws @ s) = s"
  unfolding skip_ws_def by (induction ws) (auto simp: dropWhile_eq_self_iff)

lemma newline_space [simp]: "list_all json_space (newline n)"
  by (simp add: newline_def json_space_def list_all_iff)

lemma skip_ws_newline [simp]: "\<not> json_space c \<Longrightarrow> skip_ws (newline n @ c # s) = c # s"
  by (rule skip_ws_append) simp_all

lemma skip_ws_nonspace [simp]: "\<not> json_space c \<Longrightarrow> skip_ws (c # s) = c # s"
  by (simp add: skip_ws_def)

lemma json_space_simps [simp]:
  "\<not> json_space (CHR '','')" "\<not> json_space (CHR '']'')" "\<not> json_space (CHR ''}'')" "\<not> json_space (CHR 0x22)"
  "\<not> json_space (CHR '':'')" "\<not> json_space (CHR ''['')" "\<not> json_space (CHR ''{'')"
  by (simp_all add: json_space_def)

lemma read_string_quote:
  "utf8_Valid s \<Longrightarrow> quote s @ r = CHR 0x22 # escape s @ CHR 0x22 # r"
  "utf8_Valid s \<Longrightarrow> read_string (escape s @ CHR 0x22 # r) = Some (s, r)"
  by (simp_all add: quote_def read_string_escape)

lemma FormatInt_hd:
  obtains c t where "FormatInt i = c # t" "c = CHR ''-'' \<or> is_digit c"
proof (cases "FormatInt i")
  case Nil
  then show ?thesis by (simp add: FormatInt_def split: if_splits)
next
  case (Cons c t)
  moreover have "c = CHR ''-'' \<or> is_digit c"
  proof (cases "i < 0")
    case False
    then have "list_all is_digit (c # t)" using Cons nat_digits_all[of "nat i"] by (simp add: FormatInt_def)
    then show ?thesis by simp
  qed (use Cons in \<open>simp add: FormatInt_def\<close>)
  ultimately show ?thesis by (rule that)
qed

lemma read_value_num:
  assumes "list_all json_space ws" and "stops r"
  shows "read_value (Suc k) (ws @ FormatInt i @ r) = Some (JNum (FormatInt i), r)"
proof -
  obtain c t where c: "FormatInt i = c # t" "c = CHR ''-'' \<or> is_digit c" by (rule FormatInt_hd)
  have d: "\<not> json_space c \<and> c \<notin> set ''ntf[{'' \<and> c \<noteq> CHR 0x22"
  proof (cases "c = CHR ''-''")
    case False
    then have "is_digit c" using c(2) by simp
    then show ?thesis by (auto simp: is_digit_def less_eq_char_def json_space_def)
  qed (simp add: json_space_def)
  then have "\<not> json_space c" "c \<notin> set ''ntf[{''" "c \<noteq> CHR 0x22" by simp_all
  moreover have "skip_ws (ws @ FormatInt i @ r) = FormatInt i @ r"
    using assms(1) calculation(1) c(1) by (intro skip_ws_append) simp_all
  moreover have "\<not> HasPrefix (FormatInt i @ r) ''null''" "\<not> HasPrefix (FormatInt i @ r) ''true''"
    "\<not> HasPrefix (FormatInt i @ r) ''false''" "\<not> HasPrefix (FormatInt i @ r) [CHR 0x22]"
    "\<not> HasPrefix (FormatInt i @ r) ''[''" "\<not> HasPrefix (FormatInt i @ r) ''{''"
    using calculation(2,3) c(1) by (simp_all add: HasPrefix_Cons)
  ultimately show ?thesis
    using read_number_FormatInt[OF assms(2), of i]
    by (simp only: read_value.simps Let_def if_False option.map prod.case)
qed

text \<open>
  The statement proved by induction on the value, and its two loops: whatever precedes the
  text is white space and twice the text's length is enough fuel.
\<close>

definition reads_back :: "nat \<Rightarrow> json \<Rightarrow> bool" where
  "reads_back n v \<longleftrightarrow>
     (\<forall>k ws r. 2 * length (print_json n v) \<le> k \<longrightarrow> list_all json_space ws \<longrightarrow> stops r \<longrightarrow>
        read_value (Suc k) (ws @ print_json n v @ r) = Some (v, r))"

lemma reads_backD:
  "reads_back n v \<Longrightarrow> 2 * length (print_json n v) < k \<Longrightarrow> list_all json_space ws \<Longrightarrow> stops r \<Longrightarrow>
   read_value k (ws @ print_json n v @ r) = Some (v, r)"
  by (cases k) (auto simp: reads_back_def)

lemma read_elems_print:
  assumes "\<And>w. w \<in> set (v # vs) \<Longrightarrow> reads_back n w"
    and "2 * length (print_json n v @ concat (map (\<lambda>w. '','' @ newline n @ print_json n w) vs)) + 1 < k"
  shows "read_elems k (newline n @ print_json n v @
           concat (map (\<lambda>w. '','' @ newline n @ print_json n w) vs) @ newline m @ CHR '']'' # r) = Some (v # vs, r)"
  using assms
proof (induction vs arbitrary: v k)
  case Nil
  then obtain k' where k: "k = Suc k'" by (cases k) auto
  show ?case using Nil reads_backD[of n v k' "newline n" "newline m @ CHR '']'' # r"] by (simp add: k HasPrefix_Cons)
next
  case (Cons u us)
  let ?rest = "\<lambda>us. concat (map (\<lambda>w. '','' @ newline n @ print_json n w) us) @ newline m @ CHR '']'' # r"
  from Cons.prems(2) obtain k' where k: "k = Suc k'" by (cases k) auto
  have "read_value k' (newline n @ print_json n v @ ?rest (u # us)) = Some (v, ?rest (u # us))"
    using Cons.prems k by (intro reads_backD) simp_all
  moreover have "read_elems k' (newline n @ print_json n u @ ?rest us) = Some (u # us, r)"
    using Cons.prems k by (intro Cons.IH) auto
  ultimately show ?case by (simp add: k HasPrefix_Cons)
qed

lemma read_members_print:
  assumes "\<And>kw. kw \<in> set (kv # kvs) \<Longrightarrow> utf8_Valid (fst kw) \<and> reads_back n (snd kw)"
    and "2 * length (print_json n (snd kv) @ concat (map (\<lambda>kw. '','' @ newline n @ quote (fst kw) @ '': '' @ print_json n (snd kw)) kvs)) + 1 < k"
  shows "read_members k (newline n @ quote (fst kv) @ '': '' @ print_json n (snd kv) @
           concat (map (\<lambda>kw. '','' @ newline n @ quote (fst kw) @ '': '' @ print_json n (snd kw)) kvs) @
           newline m @ CHR ''}'' # r) = Some (kv # kvs, r)"
  using assms
proof (induction kvs arbitrary: kv k)
  case Nil
  then obtain k' where k: "k = Suc k'" by (cases k) auto
  have "read_value k' ('' '' @ print_json n (snd kv) @ newline m @ CHR ''}'' # r) = Some (snd kv, newline m @ CHR ''}'' # r)"
    using Nil k by (intro reads_backD) (simp_all add: json_space_def)
  then show ?case using Nil by (simp add: k HasPrefix_Cons quote_def read_string_escape)
next
  case (Cons u us)
  let ?rest = "\<lambda>us. concat (map (\<lambda>kw. '','' @ newline n @ quote (fst kw) @ '': '' @ print_json n (snd kw)) us) @ newline m @ CHR ''}'' # r"
  from Cons.prems(2) obtain k' where k: "k = Suc k'" by (cases k) auto
  have "read_value k' ('' '' @ print_json n (snd kv) @ ?rest (u # us)) = Some (snd kv, ?rest (u # us))"
    using Cons.prems k by (intro reads_backD) (simp_all add: json_space_def)
  moreover have "read_members k' (newline n @ quote (fst u) @ '': '' @ print_json n (snd u) @ ?rest us) = Some (u # us, r)"
    using Cons.prems k by (intro Cons.IH) auto
  ultimately show ?case using Cons.prems(1)[of kv] by (simp add: k HasPrefix_Cons quote_def read_string_escape)
qed

lemma first_char:
  assumes "wf_json v"
  obtains c t where "print_json n v = c # t" "\<not> json_space c" "c \<noteq> CHR '']''" "c \<noteq> CHR ''}''"
proof -
  have "\<exists>c t. print_json n v = c # t \<and> \<not> json_space c \<and> c \<noteq> CHR '']'' \<and> c \<noteq> CHR ''}''"
  proof (cases v)
    case (JNum lit)
    then obtain i where "lit = FormatInt i" using assms by auto
    moreover obtain c t where "FormatInt i = c # t" "c = CHR ''-'' \<or> is_digit c" by (rule FormatInt_hd)
    ultimately show ?thesis using JNum by (auto simp: is_digit_def less_eq_char_def json_space_def)
  next
    case (JArr vs)
    then show ?thesis by (cases vs) simp_all
  next
    case (JObj vs)
    then show ?thesis by (cases vs) simp_all
  qed (auto simp: quote_def json_space_def)
  then show ?thesis using that by blast
qed

lemma reads_back_atom:
  "reads_back n JNull" "reads_back n (JBool b)" "wf_json (JNum lit) \<Longrightarrow> reads_back n (JNum lit)"
  "utf8_Valid s \<Longrightarrow> reads_back n (JStr s)"
proof -
  have ws: "skip_ws (ws @ c # s) = c # s" if "list_all json_space ws" "\<not> json_space c" for ws c s
    using that by (intro skip_ws_append) simp_all
  show "reads_back n JNull" "reads_back n (JBool b)"
    by (auto simp: reads_back_def ws json_space_def HasPrefix_Cons Let_def)
  show "reads_back n (JNum lit)" if "wf_json (JNum lit)"
    using that read_value_num by (auto simp: reads_back_def simp del: read_value.simps)
  show "reads_back n (JStr s)" if "utf8_Valid s"
    using that by (simp add: reads_back_def ws quote_def HasPrefix_Cons read_string_escape Let_def)
qed

lemma read_value_open:
  assumes "list_all json_space ws"
  shows "\<not> HasPrefix (skip_ws body) '']'' \<Longrightarrow>
           read_value (Suc k) (ws @ CHR ''['' # body) = map_option (\<lambda>(vs, r). (JArr vs, r)) (read_elems k body)"
    and "\<not> HasPrefix (skip_ws body) ''}'' \<Longrightarrow>
           read_value (Suc k) (ws @ CHR ''{'' # body) = map_option (\<lambda>(vs, r). (JObj vs, r)) (read_members k body)"
proof -
  have "skip_ws (ws @ CHR ''['' # body) = CHR ''['' # body" "skip_ws (ws @ CHR ''{'' # body) = CHR ''{'' # body"
    using assms by (intro skip_ws_append; simp)+
  then show "\<not> HasPrefix (skip_ws body) '']'' \<Longrightarrow>
           read_value (Suc k) (ws @ CHR ''['' # body) = map_option (\<lambda>(vs, r). (JArr vs, r)) (read_elems k body)"
    and "\<not> HasPrefix (skip_ws body) ''}'' \<Longrightarrow>
           read_value (Suc k) (ws @ CHR ''{'' # body) = map_option (\<lambda>(vs, r). (JObj vs, r)) (read_members k body)"
    by (simp_all add: HasPrefix_Cons Let_def)
qed

lemma reads_back_arr:
  assumes "\<And>w. w \<in> set vs \<Longrightarrow> wf_json w \<and> reads_back (Suc n) w"
  shows "reads_back n (JArr vs)"
  unfolding reads_back_def
proof (intro allI impI)
  fix k ws r
  assume k: "2 * length (print_json n (JArr vs)) \<le> k" and ws: "list_all json_space ws" and "stops r"
  show "read_value (Suc k) (ws @ print_json n (JArr vs) @ r) = Some (JArr vs, r)"
  proof (cases vs)
    case Nil
    have "skip_ws (ws @ ''[]'' @ r) = ''[]'' @ r" using ws by (intro skip_ws_append) simp_all
    then show ?thesis using Nil by (simp add: HasPrefix_Cons Let_def)
  next
    case (Cons u us)
    let ?body = "newline (Suc n) @ print_json (Suc n) u @
      concat (map (\<lambda>w. '','' @ newline (Suc n) @ print_json (Suc n) w) us) @ newline n @ CHR '']'' # r"
    have t: "ws @ print_json n (JArr vs) @ r = ws @ CHR ''['' # ?body" using Cons by simp
    obtain c t' where c: "print_json (Suc n) u = c # t'" "\<not> json_space c" "c \<noteq> CHR '']''"
      using assms[of u] Cons by (auto elim: first_char[of u "Suc n"])
    then have "\<not> HasPrefix (skip_ws ?body) '']''" by (simp add: HasPrefix_Cons)
    note read_value_open(1)[OF ws this, of k]
    moreover have "read_elems k ?body = Some (vs, r)"
      unfolding Cons using assms k Cons by (intro read_elems_print) (auto simp: newline_def)
    ultimately show ?thesis unfolding t by (simp del: read_value.simps)
  qed
qed

lemma reads_back_obj:
  assumes "\<And>kw. kw \<in> set kvs \<Longrightarrow> utf8_Valid (fst kw) \<and> reads_back (Suc n) (snd kw)"
  shows "reads_back n (JObj kvs)"
  unfolding reads_back_def
proof (intro allI impI)
  fix k ws r
  assume k: "2 * length (print_json n (JObj kvs)) \<le> k" and ws: "list_all json_space ws" and "stops r"
  show "read_value (Suc k) (ws @ print_json n (JObj kvs) @ r) = Some (JObj kvs, r)"
  proof (cases kvs)
    case Nil
    have "skip_ws (ws @ ''{}'' @ r) = ''{}'' @ r" using ws by (intro skip_ws_append) simp_all
    then show ?thesis using Nil by (simp add: HasPrefix_Cons Let_def)
  next
    case (Cons u us)
    let ?body = "newline (Suc n) @ quote (fst u) @ '': '' @ print_json (Suc n) (snd u) @
      concat (map (\<lambda>kw. '','' @ newline (Suc n) @ quote (fst kw) @ '': '' @ print_json (Suc n) (snd kw)) us) @
      newline n @ CHR ''}'' # r"
    have t: "ws @ print_json n (JObj kvs) @ r = ws @ CHR ''{'' # ?body" using Cons by simp
    have "\<not> HasPrefix (skip_ws ?body) ''}''" by (simp add: HasPrefix_Cons quote_def)
    note read_value_open(2)[OF ws this, of k]
    moreover have "read_members k ?body = Some (kvs, r)"
      unfolding Cons using assms k Cons by (intro read_members_print) (auto simp: newline_def)
    ultimately show ?thesis unfolding t by (simp del: read_value.simps)
  qed
qed

lemma wf_reads_back: "wf_json v \<Longrightarrow> reads_back n v"
proof (induction v arbitrary: n)
  case (JArr vs)
  then show ?case by (intro reads_back_arr) auto
next
  case (JObj kvs)
  then show ?case by (intro reads_back_obj) (fastforce simp: snds.simps)
qed (use reads_back_atom in \<open>auto\<close>)

lemma parse_print_json: "wf_json v \<Longrightarrow> parse_json (print_json 0 v) = Some v"
  using reads_backD[OF wf_reads_back, of v 0 "2 * length (print_json 0 v) + 2" "[]" "[]"]
  by (simp add: parse_json_def skip_ws_def)

subsection \<open>Structs\<close>

text \<open>
  Decoding into a struct: each member of the object is stored into the field of that name
  (an exact match first, then ignoring case), \<open>null\<close> leaves the field alone, a value of another
  type is an error, an unknown member is skipped.
\<close>

definition field_name :: "string list \<Rightarrow> string \<Rightarrow> string" where
  "field_name names k =
     (if k \<in> set names then k else case find (EqualFold k) names of Some n \<Rightarrow> n | None \<Rightarrow> [])"

fun decode_str :: "json \<Rightarrow> string \<Rightarrow> string option" where
  "decode_str (JStr s) old = Some s"
| "decode_str JNull old = Some old"
| "decode_str _ old = None"

fun decode_int64 :: "json \<Rightarrow> int \<Rightarrow> int option" where
  "decode_int64 (JNum lit) old = ParseInt lit 64"
| "decode_int64 JNull old = Some old"
| "decode_int64 _ old = None"

fun decode_bool :: "json \<Rightarrow> bool \<Rightarrow> bool option" where
  "decode_bool (JBool b) old = Some b"
| "decode_bool JNull old = Some old"
| "decode_bool _ old = None"

definition decode_members :: "(bytes \<times> json \<Rightarrow> 's \<Rightarrow> 's option) \<Rightarrow> json \<Rightarrow> 's \<Rightarrow> 's option" where
  "decode_members member v st =
     (case v of
        JObj kvs \<Rightarrow> fold (\<lambda>kv acc. Option.bind acc (member kv)) kvs (Some st)
      | JNull \<Rightarrow> Some st
      | _ \<Rightarrow> None)"

definition int64 :: "int \<Rightarrow> bool" where
  "int64 n \<longleftrightarrow> - 9223372036854775808 \<le> n \<and> n < 9223372036854775808"

text \<open>\<open>json.Marshal\<close>: the same text as the indented form without white space.\<close>

fun compact_json :: "json \<Rightarrow> string" where
  "compact_json JNull = ''null''"
| "compact_json (JBool b) = (if b then ''true'' else ''false'')"
| "compact_json (JNum lit) = lit"
| "compact_json (JStr s) = quote s"
| "compact_json (JArr vs) = ''['' @ Join '','' (map compact_json vs) @ '']''"
| "compact_json (JObj kvs) = ''{'' @ Join '','' (map (\<lambda>kv. quote (fst kv) @ '':'' @ compact_json (snd kv)) kvs) @ ''}''"

end
