(* ===== verification/Request_Cache.thy ===== *)
theory Request_Cache
  imports Git_Backend Go_Encoding Go_Json
begin

text \<open>
  \<open>backend/github/request_cache.go\<close> and \<open>package_cache.go\<close>: the shared transport that gives every
  credential and host one request budget. The pure part (\<open>observe\<close>, \<open>expire\<close>, \<open>store\<close>,
  \<open>retryError\<close>, \<open>RoundTrip\<close>, the two halves of \<open>cachedPackageListing\<close>) works on the state of one
  credential and host; \<open>acquire\<close> and \<open>release\<close> work on the table of these states. How concurrent
  callers interleave them is the step relation of \<open>Request_Budget\<close>.

  The states are heap objects the callers keep pointers to: the table maps an identity to
  an address and the heap is the list of all states ever allocated. The gate channel holds
  one token; \<open>stGate\<close> says whether the token is in the channel. A map from 32-byte keys is an
  association list, in some iteration order of Go's.
\<close>

subsection \<open>Limits and data\<close>

definition packageCacheTTL :: duration where "packageCacheTTL = 2 * Minute"
definition githubRequestTimeout :: duration where "githubRequestTimeout = 30 * Second"
definition maxRequestStates :: nat where "maxRequestStates = 64"
definition maxCachedResponses :: nat where "maxCachedResponses = 256"
definition maxCachedBytes :: nat where "maxCachedBytes = 2 ^ 20"
definition maxBackoff :: duration where "maxBackoff = 15 * Minute"


type_synonym header = "(string \<times> string) list"

text \<open>\<open>http.Header.Get\<close> on canonical names: the first value, or the empty string.\<close>

definition hget :: "header \<Rightarrow> string \<Rightarrow> string" where
  "hget h k = (case map_of h k of None \<Rightarrow> [] | Some v \<Rightarrow> v)"

definition hdel :: "header \<Rightarrow> string \<Rightarrow> header" where
  "hdel h k = filter (\<lambda>kv. fst kv \<noteq> k) h"

text \<open>A response of the base transport; \<open>rpBodyErr\<close> is a read error within the inspected prefix.\<close>

record http_response =
  rpStatus :: nat
  rpHeader :: header
  rpBody :: bytes
  rpBodyErr :: "gerror option"

record cachedResponse =
  crStatus :: nat
  crHeader :: header
  crBody :: bytes
  crExpires :: gotime

record requestIdentity =
  riCredential :: bytes
  riHost :: string

record requestState =
  stGate :: bool
  stLastUsed :: gotime
  stUsers :: int
  stUntil :: gotime
  stBackoff :: duration
  stListings :: "(bytes \<times> nat) list"
  stResponses :: "(bytes \<times> cachedResponse) list"
  stBytes :: int

definition new_state :: requestState where
  "new_state = \<lparr>stGate = True, stLastUsed = zeroTime, stUsers = 0, stUntil = zeroTime, stBackoff = 0,
     stListings = [], stResponses = [], stBytes = 0\<rparr>"

definition credentialHash :: "string \<Rightarrow> bytes" where
  "credentialHash token = sha256 token"

subsection \<open>One credential and host\<close>

text \<open>
  \<open>observe\<close>: \<open>parseTime\<close> is \<open>http.ParseTime\<close>. The \<open>X-RateLimit-Reset\<close> header is in Unix seconds and
  gets one second of margin.
\<close>

definition reset_until :: "header \<Rightarrow> gotime" where
  "reset_until h =
     (if hget h ''X-RateLimit-Remaining'' = ''0'' then
        (case ParseInt (hget h ''X-RateLimit-Reset'') 64 of
           Some reset \<Rightarrow> reset * Second + Second
         | None \<Rightarrow> zeroTime)
      else zeroTime)"

definition is_throttled :: "nat \<Rightarrow> header \<Rightarrow> bytes \<Rightarrow> bool" where
  "is_throttled status h body \<longleftrightarrow>
     status = 429 \<or>
     status = 403 \<and> (hget h ''Retry-After'' \<noteq> [] \<or> hget h ''X-RateLimit-Remaining'' = ''0'' \<or>
       Contains (ToLower body) ''rate limit'' \<or> Contains body ''secondary-rate-limits'' \<or>
       Contains body ''#abuse-rate-limits'')"

definition retry_at :: "(string \<Rightarrow> gotime option) \<Rightarrow> string \<Rightarrow> duration \<Rightarrow> gotime \<Rightarrow> gotime" where
  "retry_at parseTime raw backoff now =
     (let retry =
        (if raw = [] then now + backoff
         else case ParseInt raw 32 of
           Some seconds \<Rightarrow>
             if seconds \<ge> 0 then now + seconds * Second
             else (case parseTime raw of Some date \<Rightarrow> date | None \<Rightarrow> now + backoff)
         | None \<Rightarrow> (case parseTime raw of Some date \<Rightarrow> date | None \<Rightarrow> now + backoff))
      in if retry > now then retry else now + Second)"

definition observe ::
  "(string \<Rightarrow> gotime option) \<Rightarrow> nat \<Rightarrow> header \<Rightarrow> bytes \<Rightarrow> gotime \<Rightarrow> requestState \<Rightarrow> bool \<times> requestState" where
  "observe parseTime status h body now s =
     (let until = reset_until h; throttled = is_throttled status h body;
          backoff = (if throttled then (if stBackoff s = 0 then Minute else min (stBackoff s * 2) maxBackoff)
                     else if 200 \<le> status \<and> status < 300 then 0 else stBackoff s);
          until' = (if throttled then max until (retry_at parseTime (hget h ''Retry-After'') backoff now) else until)
      in (throttled, s\<lparr>stBackoff := backoff, stUntil := (if until' > stUntil s then until' else stUntil s)\<rparr>))"

definition body_size :: "(bytes \<times> cachedResponse) list \<Rightarrow> int" where
  "body_size rs = (\<Sum>kv \<leftarrow> rs. int (length (crBody (snd kv))))"

text \<open>\<open>expire\<close>: what is left is the entries still fresh, and their bytes.\<close>

definition expire_entry :: "gotime \<Rightarrow> bytes \<times> cachedResponse \<Rightarrow> requestState \<Rightarrow> requestState" where
  "expire_entry now kv s =
     (if \<not> now < crExpires (snd kv)
      then s\<lparr>stBytes := stBytes s - int (length (crBody (snd kv))), stResponses := AList.delete (fst kv) (stResponses s)\<rparr>
      else s)"

definition expire :: "gotime \<Rightarrow> requestState \<Rightarrow> requestState" where
  "expire now s = fold (expire_entry now) (stResponses s) s"

definition store :: "bytes \<Rightarrow> cachedResponse \<Rightarrow> requestState \<Rightarrow> requestState" where
  "store key value s =
     (if length (crBody value) > maxCachedBytes then s else
      let s1 = (case map_of (stResponses s) key of
                  Some previous \<Rightarrow> s\<lparr>stBytes := stBytes s - int (length (crBody previous)),
                                    stResponses := AList.delete key (stResponses s)\<rparr>
                | None \<Rightarrow> s);
          s2 = (if length (stResponses s1) \<ge> maxCachedResponses \<or> stBytes s1 + int (length (crBody value)) > int maxCachedBytes
                then s1\<lparr>stResponses := [], stBytes := 0\<rparr> else s1)
      in s2\<lparr>stResponses := AList.update key value (stResponses s2), stBytes := stBytes s2 + int (length (crBody value))\<rparr>)"

definition retryError :: "gerror option \<Rightarrow> gotime \<Rightarrow> requestState \<Rightarrow> gerror option" where
  "retryError err now s =
     (case err of
        None \<Rightarrow> None
      | Some e \<Rightarrow> if now < stUntil s \<and> as_rate_limit e = None then Some (RateLimitError (stUntil s) (Some e)) else Some e)"

text \<open>A cached response does not restore an obsolete rate budget.\<close>

definition cached_response :: "cachedResponse \<Rightarrow> http_response" where
  "cached_response v = \<lparr>rpStatus = crStatus v,
     rpHeader = hdel (hdel (crHeader v) ''X-RateLimit-Remaining'') ''X-RateLimit-Reset'',
     rpBody = crBody v, rpBodyErr = None\<rparr>"

subsection \<open>One request\<close>

text \<open>The request context: the cache lifetime and the tenant scope, when set.\<close>

record request =
  rqMethod :: string
  rqURL :: string
  rqTTL :: duration
  rqScope :: "bytes option"

definition scope_bytes :: "bytes option \<Rightarrow> bytes" where
  "scope_bytes sc = (case sc of Some b \<Rightarrow> b | None \<Rightarrow> replicate 32 (CHR 0x00))"

definition request_key :: "request \<Rightarrow> bytes" where
  "request_key req = sha256 (scope_bytes (rqScope req) @ rqURL req)"

text \<open>
  \<open>RoundTrip\<close> between \<open>acquire\<close> and \<open>release\<close>. The base transport's answer is an argument; the flag of
  the result says whether it was asked. The clock is read three times: on entry, when the
  response arrives, and when it has been read.
\<close>

record clock3 =
  ckEntry :: gotime
  ckArrive :: gotime
  ckRead :: gotime

definition receive ::
  "(string \<Rightarrow> gotime option) \<Rightarrow> request \<Rightarrow> clock3 \<Rightarrow> http_response \<Rightarrow> requestState \<Rightarrow>
   (gerror + http_response) \<times> requestState" where
  "receive parseTime req clk resp s =
     (let (headerThrottle, s1) = observe parseTime (rpStatus resp) (rpHeader resp) [] (ckArrive clk) s;
          inspect = (rpStatus resp = 403 \<or> rpStatus resp = 429 \<or>
                     (rqTTL req > 0 \<and> rqMethod req = ''GET'' \<and> rpStatus resp = 200));
          body = (if inspect then take (maxCachedBytes + 1) (rpBody resp) else [])
      in case (if inspect then rpBodyErr resp else None) of
           Some e \<Rightarrow> (Inl (the (retryError (Some e) (ckRead clk) s1)), s1)
         | None \<Rightarrow>
             (let (throttled, s2) =
                (if headerThrottle then (True, s1)
                 else observe parseTime (rpStatus resp) (rpHeader resp) body (ckArrive clk) s1)
              in if throttled then (Inl (RateLimitError (stUntil s2) (Some (Plain ''HTTP''))), s2)
                 else if rpStatus resp = 200 \<and> rqMethod req = ''GET'' \<and> rqTTL req > 0 \<and> length body \<le> maxCachedBytes
                   then (Inr resp, store (request_key req)
                           \<lparr>crStatus = rpStatus resp, crHeader = rpHeader resp, crBody = body,
                            crExpires = ckRead clk + rqTTL req\<rparr> s2)
                 else (Inr resp, s2)))"

definition RoundTrip ::
  "(string \<Rightarrow> gotime option) \<Rightarrow> request \<Rightarrow> clock3 \<Rightarrow> gerror + http_response \<Rightarrow> requestState \<Rightarrow>
   (gerror + http_response) \<times> bool \<times> requestState" where
  "RoundTrip parseTime req clk answer s0 =
     (let s = expire (ckEntry clk) s0 in
      case (if rqMethod req = ''GET'' \<and> rqTTL req > 0 then map_of (stResponses s) (request_key req) else None) of
        Some v \<Rightarrow> (Inr (cached_response v), False, s)
      | None \<Rightarrow>
          if ckEntry clk < stUntil s then (Inl (RateLimitError (stUntil s) None), False, s)
          else case answer of
            Inl e \<Rightarrow> (Inl e, True, s)
          | Inr resp \<Rightarrow> (case receive parseTime req clk resp s of (r, s') \<Rightarrow> (r, True, s')))"

subsection \<open>The table of states\<close>

record requestCache =
  tbStates :: "(requestIdentity \<times> nat) list"
  tbHeap :: "requestState list"

definition idle :: "gotime \<Rightarrow> requestState \<Rightarrow> bool" where
  "idle now s \<longleftrightarrow> stUsers s = 0 \<and> stListings s = [] \<and> \<not> now < stUntil s"

text \<open>One iteration of the loop over the table: the entries kept so far and the oldest idle one.\<close>

definition inspect_state ::
  "gotime \<Rightarrow> requestState list \<Rightarrow> requestIdentity \<times> nat \<Rightarrow>
   (requestIdentity \<times> nat) list \<times> (requestIdentity \<times> nat) option \<Rightarrow>
   (requestIdentity \<times> nat) list \<times> (requestIdentity \<times> nat) option" where
  "inspect_state now heap ka acc =
     (let (kept, oldest) = acc; s = heap ! snd ka in
      if \<not> stGate s then (kept @ [ka], oldest)
      else if idle now s \<and> now - stLastUsed s \<ge> Hour then (kept, oldest)
      else if idle now s \<and> (case oldest of None \<Rightarrow> True | Some old \<Rightarrow> stLastUsed s < stLastUsed (heap ! snd old))
        then (kept @ [ka], Some ka)
      else (kept @ [ka], oldest))"

definition reserve_state :: "gotime \<Rightarrow> requestState \<Rightarrow> requestState" where
  "reserve_state now s = s\<lparr>stLastUsed := now, stUsers := stUsers s + 1\<rparr>"

text \<open>The part of \<open>acquire\<close> under the mutex: the address of the reserved state.\<close>

definition reserve :: "gotime \<Rightarrow> requestIdentity \<Rightarrow> requestCache \<Rightarrow> (gerror + nat) \<times> requestCache" where
  "reserve now key c =
     (let heap = tbHeap c;
          (kept, oldest) = fold (inspect_state now heap) (tbStates c) ([], None)
      in case map_of kept key of
           Some a \<Rightarrow> (Inr a, \<lparr>tbStates = kept, tbHeap = heap[a := reserve_state now (heap ! a)]\<rparr>)
         | None \<Rightarrow>
             (let kept' = (if length kept \<ge> maxRequestStates
                           then (case oldest of Some old \<Rightarrow> AList.delete (fst old) kept | None \<Rightarrow> kept) else kept)
              in if length kept' \<ge> maxRequestStates
                 then (Inl (Plain ''github: request budget capacity reached; retry later''), \<lparr>tbStates = kept', tbHeap = heap\<rparr>)
                 else (Inr (length heap),
                       \<lparr>tbStates = (key, length heap) # kept', tbHeap = heap @ [reserve_state now new_state]\<rparr>)))"

definition update_state :: "nat \<Rightarrow> (requestState \<Rightarrow> requestState) \<Rightarrow> requestCache \<Rightarrow> requestCache" where
  "update_state a f c = c\<lparr>tbHeap := (tbHeap c)[a := f (tbHeap c ! a)]\<rparr>"

text \<open>Receiving the token, giving up the wait, and \<open>release\<close>.\<close>

definition take_gate :: "nat \<Rightarrow> requestCache \<Rightarrow> requestCache" where
  "take_gate a c = update_state a (\<lambda>s. s\<lparr>stGate := False\<rparr>) c"

definition cancel_wait :: "nat \<Rightarrow> requestCache \<Rightarrow> requestCache" where
  "cancel_wait a c = update_state a (\<lambda>s. s\<lparr>stUsers := stUsers s - 1\<rparr>) c"

definition release :: "gotime \<Rightarrow> nat \<Rightarrow> requestCache \<Rightarrow> requestCache" where
  "release now a c = update_state a (\<lambda>s. s\<lparr>stUsers := stUsers s - 1, stLastUsed := now, stGate := True\<rparr>) c"

subsection \<open>Listings\<close>

text \<open>
  \<open>cachedPackageListing\<close> before the fetch, with the gate held: serve the snapshot, join the
  refresh in flight (the number names it), refuse, or start a refresh. \<open>fid\<close> names the new one.
\<close>

datatype listing_start = Hit bytes | JoinFlight nat | Refused | Start nat

definition listing_begin :: "bytes \<Rightarrow> bool \<Rightarrow> nat \<Rightarrow> requestState \<Rightarrow> listing_start \<times> requestState" where
  "listing_begin key fresh fid s =
     (case (if fresh then None else map_of (stResponses s) key) of
        Some cached \<Rightarrow> (Hit (crBody cached), s)
      | None \<Rightarrow>
          (case map_of (stListings s) key of
             Some flight \<Rightarrow> (JoinFlight flight, s)
           | None \<Rightarrow>
               if length (stListings s) \<ge> maxCachedResponses then (Refused, s)
               else (Start fid, s\<lparr>stListings := AList.update key fid (stListings s)\<rparr>)))"

text \<open>
  After the fetch, with the gate held again: publish the serialized result, and hand the
  outcome to the waiters.
\<close>

definition listing_end ::
  "bytes \<Rightarrow> gerror + bytes \<Rightarrow> gotime \<Rightarrow> gotime \<Rightarrow> requestState \<Rightarrow> (gerror + bytes) \<times> requestState" where
  "listing_end key result t1 t2 s =
     (let s1 = (case result of
                  Inr body \<Rightarrow> store key \<lparr>crStatus = 200, crHeader = [], crBody = body, crExpires = t1 + packageCacheTTL\<rparr> s
                | Inl _ \<Rightarrow> s);
          outcome = (case result of Inr body \<Rightarrow> Inr body | Inl e \<Rightarrow> Inl (the (retryError (Some e) t2 s1)))
      in (outcome, s1\<lparr>stListings := AList.delete key (stListings s1)\<rparr>))"

text \<open>The key of a listing: the tenant scope and the JSON array of the base URL and the parts.\<close>

definition marshal_strings :: "string list \<Rightarrow> bytes" where
  "marshal_strings xs = ''['' @ Join '','' (map quote xs) @ '']''"

definition listing_key :: "bytes option \<Rightarrow> string \<Rightarrow> string list \<Rightarrow> bytes" where
  "listing_key sc baseURL parts = sha256 (scope_bytes sc @ marshal_strings (baseURL # parts))"

text \<open>\<open>packageCacheContext\<close>: the tenant scope of a Connection, from its UID, cluster, namespace and name.\<close>

definition tenant_scope :: "string \<Rightarrow> string \<Rightarrow> string \<Rightarrow> string \<Rightarrow> bytes" where
  "tenant_scope uid cluster ns name = sha256 (marshal_strings [uid, cluster, ns, name])"

definition packageCacheContext :: "string \<Rightarrow> string \<Rightarrow> string \<Rightarrow> string \<Rightarrow> request \<Rightarrow> request" where
  "packageCacheContext uid cluster ns name req =
     req\<lparr>rqScope := Some (tenant_scope uid cluster ns name), rqTTL := packageCacheTTL\<rparr>"

subsection \<open>The invariant of one state\<close>

lemmas cache_limits = maxRequestStates_def maxCachedResponses_def maxCachedBytes_def maxBackoff_def
  Minute_def Second_def packageCacheTTL_def

definition state_ok :: "requestState \<Rightarrow> bool" where
  "state_ok s \<longleftrightarrow>
     distinct (map fst (stResponses s)) \<and> length (stResponses s) \<le> maxCachedResponses \<and>
     stBytes s = body_size (stResponses s) \<and> stBytes s \<le> int maxCachedBytes \<and>
     distinct (map fst (stListings s)) \<and> length (stListings s) \<le> maxCachedResponses \<and>
     (stBackoff s = 0 \<or> Minute \<le> stBackoff s \<and> stBackoff s \<le> maxBackoff)"

lemma state_ok_cong:
  "stResponses s = stResponses t \<Longrightarrow> stBytes s = stBytes t \<Longrightarrow> stListings s = stListings t \<Longrightarrow>
   stBackoff s = stBackoff t \<Longrightarrow> state_ok s = state_ok t"
  by (simp add: state_ok_def)

lemma new_state_ok: "state_ok new_state"
  by (simp add: state_ok_def new_state_def body_size_def)

lemma body_size_nonneg: "0 \<le> body_size rs"
  by (induction rs) (auto simp: body_size_def)

lemma body_size_Cons [simp]: "body_size (kv # rs) = int (length (crBody (snd kv))) + body_size rs"
  by (simp add: body_size_def)

lemma body_size_Nil [simp]: "body_size [] = 0"
  by (simp add: body_size_def)

lemma delete_filter: "AList.delete k rs = filter (\<lambda>kv. fst kv \<noteq> k) rs"
  by (induction rs) auto

lemma delete_append: "AList.delete k (xs @ ys) = AList.delete k xs @ AList.delete k ys"
  by (simp add: delete_filter)

lemma delete_absent: "k \<notin> fst ` set rs \<Longrightarrow> AList.delete k rs = rs"
  by (auto simp: delete_filter filter_id_conv)

lemma body_size_delete:
  "distinct (map fst rs) \<Longrightarrow> map_of rs k = Some v \<Longrightarrow>
   body_size (AList.delete k rs) = body_size rs - int (length (crBody v))"
proof (induction rs)
  case (Cons kv rs)
  then show ?case
    by (cases kv) (auto simp: delete_absent split: if_splits)
qed simp

lemma length_delete_le: "length (AList.delete k xs) \<le> length xs"
  by (simp add: delete_filter)

lemma distinct_fst_delete: "distinct (map fst xs) \<Longrightarrow> distinct (map fst (AList.delete k xs))"
  by (simp add: distinct_delete)

lemma update_fresh: "map_of xs k = None \<Longrightarrow> AList.update k v xs = xs @ [(k, v)]"
  by (rule update_absent)

lemma expire_eq:
  "distinct (map fst (stResponses s)) \<Longrightarrow>
   expire now s = s\<lparr>stResponses := filter (\<lambda>kv. now < crExpires (snd kv)) (stResponses s),
     stBytes := stBytes s - body_size (filter (\<lambda>kv. \<not> now < crExpires (snd kv)) (stResponses s))\<rparr>"
proof -
  have aux: "distinct (map fst (pre @ rs)) \<Longrightarrow> stResponses t = pre @ rs \<Longrightarrow>
    fold (expire_entry now) rs t = t\<lparr>stResponses := pre @ filter (\<lambda>kv. now < crExpires (snd kv)) rs,
     stBytes := stBytes t - body_size (filter (\<lambda>kv. \<not> now < crExpires (snd kv)) rs)\<rparr>" for pre rs t
  proof (induction rs arbitrary: pre t)
    case Nil
    then show ?case by simp
  next
    case (Cons kv rs)
    show ?case
    proof (cases "now < crExpires (snd kv)")
      case True
      then show ?thesis using Cons.prems Cons.IH[of "pre @ [kv]" t] by (simp add: expire_entry_def)
    next
      case False
      have "fst kv \<notin> fst ` set pre" "fst kv \<notin> fst ` set rs" using Cons.prems by auto
      then have "AList.delete (fst kv) (pre @ kv # rs) = pre @ rs"
        by (simp add: delete_append delete_absent)
      then show ?thesis using False Cons.prems Cons.IH[of pre "expire_entry now kv t"]
        by (simp add: expire_entry_def)
    qed
  qed
  assume "distinct (map fst (stResponses s))"
  then show ?thesis using aux[of "[]" "stResponses s" s] by (simp add: expire_def)
qed

lemma body_size_split: "body_size (filter P rs) + body_size (filter (\<lambda>kv. \<not> P kv) rs) = body_size rs"
  by (induction rs) auto

lemma expire_ok: "state_ok s \<Longrightarrow> state_ok (expire now s)"
proof -
  assume ok: "state_ok s"
  let ?keep = "filter (\<lambda>kv. now < crExpires (snd kv)) (stResponses s)"
  let ?gone = "filter (\<lambda>kv. \<not> now < crExpires (snd kv)) (stResponses s)"
  have "length ?keep \<le> maxCachedResponses" using ok length_filter_le le_trans unfolding state_ok_def by blast
  moreover have "body_size ?keep + body_size ?gone = stBytes s" "0 \<le> body_size ?gone"
    using ok body_size_split[of "\<lambda>kv. now < crExpires (snd kv)"] body_size_nonneg by (simp_all add: state_ok_def)
  moreover have "expire now s = s\<lparr>stResponses := ?keep, stBytes := stBytes s - body_size ?gone\<rparr>"
    using ok by (simp add: state_ok_def expire_eq)
  moreover have "distinct (map fst ?keep)" using ok by (auto simp: state_ok_def)
  ultimately show ?thesis using ok by (simp add: state_ok_def)
qed

lemma expire_frame [simp]:
  "state_ok s \<Longrightarrow> stUntil (expire now s) = stUntil s"
  "state_ok s \<Longrightarrow> stBackoff (expire now s) = stBackoff s"
  "state_ok s \<Longrightarrow> stListings (expire now s) = stListings s"
  by (simp_all add: state_ok_def expire_eq)

lemma expire_lookup:
  "state_ok s \<Longrightarrow> map_of (stResponses (expire now s)) k = Some v \<longleftrightarrow>
     map_of (stResponses s) k = Some v \<and> now < crExpires v"
proof -
  have "distinct (map fst rs) \<Longrightarrow> map_of (filter (\<lambda>kv. P (snd kv)) rs) k = Some v \<longleftrightarrow> map_of rs k = Some v \<and> P v"
    for rs :: "(bytes \<times> cachedResponse) list" and P
    by (induction rs) (auto simp: rev_image_eqI dest: map_of_SomeD)
  then have "distinct (map fst (stResponses s)) \<Longrightarrow> map_of (filter (\<lambda>kv. now < crExpires (snd kv)) (stResponses s)) k = Some v \<longleftrightarrow>
    map_of (stResponses s) k = Some v \<and> now < crExpires v" .
  moreover assume "state_ok s"
  ultimately show ?thesis by (simp add: state_ok_def expire_eq)
qed

lemma store_frame [simp]:
  "stUntil (store key v s) = stUntil s" "stBackoff (store key v s) = stBackoff s"
  "stListings (store key v s) = stListings s"
  by (auto simp: store_def Let_def split: option.splits)

lemma store_ok: "state_ok s \<Longrightarrow> state_ok (store key v s)"
proof (cases "length (crBody v) > maxCachedBytes")
  case False
  assume ok: "state_ok s"
  let ?s1 = "case map_of (stResponses s) key of
                  Some previous \<Rightarrow> s\<lparr>stBytes := stBytes s - int (length (crBody previous)),
                                    stResponses := AList.delete key (stResponses s)\<rparr>
                | None \<Rightarrow> s"
  have s1: "state_ok ?s1" "map_of (stResponses ?s1) key = None"
    using ok le_trans[OF length_delete_le]
    by (auto simp: state_ok_def body_size_delete distinct_fst_delete delete_conv split: option.splits)
  let ?full = "length (stResponses ?s1) \<ge> maxCachedResponses \<or> stBytes ?s1 + int (length (crBody v)) > int maxCachedBytes"
  let ?s2 = "if ?full then ?s1\<lparr>stResponses := [], stBytes := 0\<rparr> else ?s1"
  have s2: "state_ok ?s2" "map_of (stResponses ?s2) key = None"
    "length (stResponses ?s2) < maxCachedResponses" "stBytes ?s2 + int (length (crBody v)) \<le> int maxCachedBytes"
    using s1 False by (auto simp: state_ok_def cache_limits)
  have "store key v s = ?s2\<lparr>stResponses := stResponses ?s2 @ [(key, v)], stBytes := stBytes ?s2 + int (length (crBody v))\<rparr>"
    using False update_fresh[OF s2(2)] unfolding store_def Let_def by (simp only: if_False)
  moreover have "body_size (rs @ [(key, v)]) = body_size rs + int (length (crBody v))" for rs
    by (simp add: body_size_def)
  ultimately show ?thesis using s2 by (simp add: state_ok_def map_of_eq_None_iff)
qed (simp add: store_def)

lemma store_lookup:
  assumes "length (crBody v) \<le> maxCachedBytes"
  shows "map_of (stResponses (store key v s)) key = Some v"
  using assms by (simp add: store_def Let_def update_conv')

lemma observe_eq:
  "observe parseTime status h body now s =
     (is_throttled status h body,
      s\<lparr>stBackoff := (if is_throttled status h body then (if stBackoff s = 0 then Minute else min (stBackoff s * 2) maxBackoff)
                     else if 200 \<le> status \<and> status < 300 then 0 else stBackoff s),
        stUntil := max (stUntil s)
          (if is_throttled status h body
           then max (reset_until h) (retry_at parseTime (hget h ''Retry-After'')
                  (if stBackoff s = 0 then Minute else min (stBackoff s * 2) maxBackoff) now)
           else reset_until h)\<rparr>)"
  by (simp add: observe_def Let_def max_def)

lemma retry_at_future: "now < retry_at parseTime raw backoff now"
  by (simp add: retry_at_def Let_def Second_def)

lemma observe_ok: "state_ok s \<Longrightarrow> state_ok (snd (observe parseTime status h body now s))"
  by (auto simp: observe_eq state_ok_def cache_limits)

lemma observe_until: "stUntil s \<le> stUntil (snd (observe parseTime status h body now s))"
  by (simp add: observe_eq)

lemma observe_throttled:
  "fst (observe parseTime status h body now s) \<Longrightarrow> now < stUntil (snd (observe parseTime status h body now s))"
  using retry_at_future by (simp add: observe_eq less_max_iff_disj)

lemma observe_status: "fst (observe parseTime status h body now s) \<Longrightarrow> status = 403 \<or> status = 429"
  by (auto simp: observe_eq is_throttled_def)

lemma observe_frame [simp]:
  "stResponses (snd (observe parseTime status h body now s)) = stResponses s"
  "stListings (snd (observe parseTime status h body now s)) = stListings s"
  "stBytes (snd (observe parseTime status h body now s)) = stBytes s"
  by (simp_all add: observe_eq)

text \<open>What \<open>receive\<close> does, by outcome.\<close>

lemma receive_cases:
  assumes "receive parseTime req clk resp s = (r, s')"
  obtains (body_error) e where "r = Inl (the (retryError (Some e) (ckRead clk) s'))"
      "s' = snd (observe parseTime (rpStatus resp) (rpHeader resp) [] (ckArrive clk) s)"
  | (throttled) "r = Inl (RateLimitError (stUntil s') (Some (Plain ''HTTP'')))" "ckArrive clk < stUntil s'"
      "stUntil s \<le> stUntil s'" "state_ok s \<longrightarrow> state_ok s'" "rpStatus resp = 403 \<or> rpStatus resp = 429"
  | (accepted) s2 where "r = Inr resp" "stUntil s \<le> stUntil s2" "state_ok s \<longrightarrow> state_ok s2"
      "s' = s2 \<or> s' = store (request_key req) \<lparr>crStatus = rpStatus resp, crHeader = rpHeader resp, crBody = rpBody resp,
                 crExpires = ckRead clk + rqTTL req\<rparr> s2 \<and> rpStatus resp = 200 \<and> rqMethod req = ''GET'' \<and> rqTTL req > 0"
proof -
  let ?inspect = "rpStatus resp = 403 \<or> rpStatus resp = 429 \<or> (rqTTL req > 0 \<and> rqMethod req = ''GET'' \<and> rpStatus resp = 200)"
  let ?body = "if ?inspect then take (maxCachedBytes + 1) (rpBody resp) else []"
  define o1 where "o1 = observe parseTime (rpStatus resp) (rpHeader resp) [] (ckArrive clk) s"
  define o2 where "o2 = (if fst o1 then (True, snd o1)
      else observe parseTime (rpStatus resp) (rpHeader resp) ?body (ckArrive clk) (snd o1))"
  have o: "stUntil s \<le> stUntil (snd o2) \<and> (state_ok s \<longrightarrow> state_ok (snd o2)) \<and>
    (fst o2 \<longrightarrow> ckArrive clk < stUntil (snd o2) \<and> (rpStatus resp = 403 \<or> rpStatus resp = 429))"
  proof (cases "fst o1")
    case True
    then have "o2 = (True, snd o1)" by (simp add: o2_def)
    with True show ?thesis unfolding o1_def by (simp add: observe_until observe_ok observe_throttled observe_status)
  next
    case False
    then have o2: "o2 = observe parseTime (rpStatus resp) (rpHeader resp) ?body (ckArrive clk) (snd o1)" by (simp add: o2_def)
    have "stUntil s \<le> stUntil (snd o1)" "state_ok s \<longrightarrow> state_ok (snd o1)" unfolding o1_def by (simp_all add: observe_until observe_ok)
    moreover have "stUntil (snd o1) \<le> stUntil (snd o2)" "state_ok (snd o1) \<longrightarrow> state_ok (snd o2)"
      "fst o2 \<longrightarrow> ckArrive clk < stUntil (snd o2)" "fst o2 \<longrightarrow> rpStatus resp = 403 \<or> rpStatus resp = 429"
      unfolding o2 by (blast intro: observe_until observe_ok observe_throttled dest: observe_status)+
    ultimately show ?thesis by (meson order_trans)
  qed
  have r: "(r, s') = (case (if ?inspect then rpBodyErr resp else None) of
      Some e \<Rightarrow> (Inl (the (retryError (Some e) (ckRead clk) (snd o1))), snd o1)
    | None \<Rightarrow>
        if fst o2 then (Inl (RateLimitError (stUntil (snd o2)) (Some (Plain ''HTTP''))), snd o2)
        else if rpStatus resp = 200 \<and> rqMethod req = ''GET'' \<and> rqTTL req > 0 \<and> length ?body \<le> maxCachedBytes
          then (Inr resp, store (request_key req) \<lparr>crStatus = rpStatus resp, crHeader = rpHeader resp, crBody = ?body,
                   crExpires = ckRead clk + rqTTL req\<rparr> (snd o2))
          else (Inr resp, snd o2))"
    unfolding assms[symmetric] receive_def Let_def prod.case_eq_if o2_def unfolding o1_def by (rule refl)
  show ?thesis
  proof (cases "if ?inspect then rpBodyErr resp else None")
    case (Some e)
    then show ?thesis using r by (intro body_error[of e]) (simp_all add: o1_def)
  next
    case None
    note r = r[unfolded None option.case]
    show ?thesis
    proof (cases "fst o2")
      case True
      then show ?thesis using r o by (intro throttled) auto
    next
      case False
      have "?body = rpBody resp" if "rpStatus resp = 200 \<and> rqMethod req = ''GET'' \<and> rqTTL req > 0" "length ?body \<le> maxCachedBytes"
        using that by auto
      then show ?thesis using r False o by (intro accepted[of "snd o2"]) (auto split: if_splits)
    qed
  qed
qed

lemma receive_throttled:
  assumes "receive parseTime req clk resp s = (r, s')" and "rpBodyErr resp = None"
    and "is_throttled (rpStatus resp) (rpHeader resp) (take (maxCachedBytes + 1) (rpBody resp))"
  shows "r = Inl (RateLimitError (stUntil s') (Some (Plain ''HTTP''))) \<and> ckArrive clk < stUntil s'"
proof -
  have st: "rpStatus resp = 403 \<or> rpStatus resp = 429" using assms(3) by (auto simp: is_throttled_def)
  define o1 where "o1 = observe parseTime (rpStatus resp) (rpHeader resp) [] (ckArrive clk) s"
  define o2 where "o2 = (if fst o1 then (True, snd o1)
      else observe parseTime (rpStatus resp) (rpHeader resp) (take (maxCachedBytes + 1) (rpBody resp)) (ckArrive clk) (snd o1))"
  have "fst o2" using assms(3) by (simp add: o2_def observe_eq)
  moreover have "(r, s') = (if fst o2 then (Inl (RateLimitError (stUntil (snd o2)) (Some (Plain ''HTTP''))), snd o2) else (Inr resp, snd o2))"
    unfolding assms(1)[symmetric] receive_def Let_def prod.case_eq_if o2_def using st assms(2) by (auto simp: o1_def)
  moreover have "ckArrive clk < stUntil (snd o2)" if "fst o2"
    using that observe_throttled unfolding o2_def o1_def by (auto split: if_splits)
  ultimately show ?thesis by simp
qed

lemma RoundTrip_cases:
  assumes "RoundTrip parseTime req clk answer s0 = (r, asked, s')" and "state_ok s0"
  obtains (hit) v where "rqMethod req = ''GET''" "rqTTL req > 0" "map_of (stResponses s0) (request_key req) = Some v"
      "ckEntry clk < crExpires v" "r = Inr (cached_response v)" "\<not> asked" "s' = expire (ckEntry clk) s0"
  | (refused) "ckEntry clk < stUntil s0" "r = Inl (RateLimitError (stUntil s0) None)" "\<not> asked" "s' = expire (ckEntry clk) s0"
  | (failed) e where "\<not> ckEntry clk < stUntil s0" "answer = Inl e" "r = Inl e" "asked" "s' = expire (ckEntry clk) s0"
  | (received) resp where "\<not> ckEntry clk < stUntil s0" "answer = Inr resp" "asked"
      "receive parseTime req clk resp (expire (ckEntry clk) s0) = (r, s')"
proof -
  let ?s = "expire (ckEntry clk) s0"
  let ?hit = "if rqMethod req = ''GET'' \<and> rqTTL req > 0 then map_of (stResponses ?s) (request_key req) else None"
  have until: "stUntil ?s = stUntil s0" using assms(2) by simp
  have rt: "(r, asked, s') = (case ?hit of
        Some v \<Rightarrow> (Inr (cached_response v), False, ?s)
      | None \<Rightarrow>
          if ckEntry clk < stUntil s0 then (Inl (RateLimitError (stUntil s0) None), False, ?s)
          else case answer of
            Inl e \<Rightarrow> (Inl e, True, ?s)
          | Inr resp \<Rightarrow> (fst (receive parseTime req clk resp ?s), True, snd (receive parseTime req clk resp ?s)))"
    unfolding assms(1)[symmetric] RoundTrip_def Let_def until prod.case_eq_if by (rule refl)
  show ?thesis
  proof (cases ?hit)
    case (Some v)
    then have h: "rqMethod req = ''GET''" "rqTTL req > 0" "map_of (stResponses ?s) (request_key req) = Some v"
      by (simp_all split: if_splits)
    have f: "map_of (stResponses s0) (request_key req) = Some v" "ckEntry clk < crExpires v"
      using iffD1[OF expire_lookup[OF assms(2)] h(3)] by blast+
    show ?thesis using rt[unfolded Some option.case] by (intro hit[OF h(1,2) f]) simp_all
  next
    case None
    note rt = rt[unfolded None option.case]
    show ?thesis
    proof (cases "ckEntry clk < stUntil s0")
      case True
      then show ?thesis using rt by (intro refused) simp_all
    next
      case False
      show ?thesis
      proof (cases answer)
        case (Inl e)
        then show ?thesis using rt False by (intro failed[of e]) simp_all
      next
        case (Inr resp)
        then show ?thesis using rt False by (intro received[of resp]) simp_all
      qed
    qed
  qed
qed

lemma receive_ok:
  assumes "receive parseTime req clk resp s = (r, s')" and "state_ok s"
  shows "state_ok s' \<and> stUntil s \<le> stUntil s'"
  using assms(1)
proof (cases rule: receive_cases)
  case (body_error e)
  then show ?thesis using assms(2) observe_ok observe_until by blast
next
  case throttled
  then show ?thesis using assms(2) by blast
next
  case (accepted s2)
  then show ?thesis using assms(2) by (auto intro: store_ok)
qed

lemma RoundTrip_ok:
  assumes "RoundTrip parseTime req clk answer s = (r, asked, s')" and "state_ok s"
  shows "state_ok s' \<and> stUntil s \<le> stUntil s'"
  using assms
proof (cases rule: RoundTrip_cases)
  case (received resp)
  then show ?thesis using receive_ok[OF received(4)] assms(2) by (simp add: expire_ok)
qed (use assms(2) expire_ok in simp_all)

lemma listing_begin_ok:
  assumes "listing_begin key fresh fid s = (r, s')" and "state_ok s"
  shows "state_ok s'"
  using assms
  by (auto simp: listing_begin_def state_ok_def update_fresh map_of_eq_None_iff
      split: option.splits if_splits)

lemma listing_end_ok:
  assumes "listing_end key result t1 t2 s = (r, s')" and "state_ok s"
  shows "state_ok s'"
proof -
  let ?s1 = "case result of Inr body \<Rightarrow> store key \<lparr>crStatus = 200, crHeader = [], crBody = body, crExpires = t1 + packageCacheTTL\<rparr> s | Inl _ \<Rightarrow> s"
  have s1: "state_ok ?s1" using assms(2) by (cases result) (auto intro: store_ok)
  have "state_ok (t\<lparr>stListings := AList.delete key (stListings t)\<rparr>)" if "state_ok t" for t
    using that le_trans[OF length_delete_le[of key "stListings t"]] by (simp add: state_ok_def distinct_fst_delete)
  moreover have "s' = ?s1\<lparr>stListings := AList.delete key (stListings ?s1)\<rparr>" using assms(1) by (auto simp: listing_end_def Let_def)
  ultimately show ?thesis using s1 by blast
qed

subsection \<open>Properties\<close>

text \<open>
  (C28) Every request keeps the per-credential state within its bounds (at most 256 cached
  responses with distinct keys, exactly accounted and at most 1 MiB together, a backoff
  of zero or between one and fifteen minutes) and never moves the deadline back.
\<close>

theorem RoundTrip_keeps_bounds:
  assumes "state_ok s" and "RoundTrip parseTime req clk answer s = (r, asked, s')"
  shows "state_ok s' \<and> stUntil s \<le> stUntil s' \<and> stBytes s' \<le> 1048576 \<and> length (stResponses s') \<le> 256"
  using RoundTrip_ok[OF assms(2,1)] by (simp add: state_ok_def cache_limits)

theorem RoundTrip_keeps_bounds_witness:
  "let resp = \<lparr>rpStatus = 200, rpHeader = [], rpBody = ''[]'', rpBodyErr = None\<rparr>;
       req = \<lparr>rqMethod = ''GET'', rqURL = ''u'', rqTTL = Minute, rqScope = None\<rparr>;
       clk = \<lparr>ckEntry = 0, ckArrive = 1, ckRead = 2\<rparr>
   in length (stResponses (snd (snd (RoundTrip (\<lambda>_. None) req clk (Inr resp) new_state)))) \<le> 256"
  unfolding Let_def
  using RoundTrip_keeps_bounds[OF new_state_ok, of "\<lambda>_. None"] by (metis prod.collapse)

text \<open>
  (C4) The deadline is enforced: while it has not passed, a request that no fresh cached response
  answers is refused with the deadline, without asking the host; and a response that
  throttles is turned into the same error, with a deadline later than its arrival.
\<close>

theorem RoundTrip_enforces_deadline:
  assumes "state_ok s" and "RoundTrip parseTime req clk answer s = (r, asked, s')"
  shows "(ckEntry clk < stUntil s \<longrightarrow>
      \<not> asked \<and> ((\<exists>resp. r = Inr resp) \<or> r = Inl (RateLimitError (stUntil s) None))) \<and>
    (\<forall>resp. answer = Inr resp \<longrightarrow> asked \<longrightarrow> rpBodyErr resp = None \<longrightarrow>
       is_throttled (rpStatus resp) (rpHeader resp) (take (maxCachedBytes + 1) (rpBody resp)) \<longrightarrow>
       r = Inl (RateLimitError (stUntil s') (Some (Plain ''HTTP''))) \<and> ckArrive clk < stUntil s')"
  using assms(2,1)
proof (cases rule: RoundTrip_cases)
  case (received resp)
  have "r = Inl (RateLimitError (stUntil s') (Some (Plain ''HTTP''))) \<and> ckArrive clk < stUntil s'"
    if "rpBodyErr resp = None" "is_throttled (rpStatus resp) (rpHeader resp) (take (maxCachedBytes + 1) (rpBody resp))"
    using receive_throttled[OF received(4) that] by blast
  with received show ?thesis by auto
qed simp_all

theorem RoundTrip_enforces_deadline_witness:
  "let s = new_state\<lparr>stUntil := 100\<rparr>; req = \<lparr>rqMethod = ''POST'', rqURL = ''u'', rqTTL = 0, rqScope = None\<rparr>;
       clk = \<lparr>ckEntry = 99, ckArrive = 99, ckRead = 99\<rparr>
   in state_ok s \<and> ckEntry clk < stUntil s \<and> \<not> fst (snd (RoundTrip (\<lambda>_. None) req clk (Inl ContextErr) s))"
proof -
  let ?s = "new_state\<lparr>stUntil := 100\<rparr>"
  have "state_ok ?s = state_ok new_state" by (rule state_ok_cong) simp_all
  then have ok: "state_ok ?s" using new_state_ok by simp
  let ?req = "\<lparr>rqMethod = ''POST'', rqURL = ''u'', rqTTL = 0, rqScope = None\<rparr>"
  let ?clk = "\<lparr>ckEntry = 99, ckArrive = 99, ckRead = 99\<rparr>"
  obtain r asked s' where rt: "RoundTrip (\<lambda>_. None) ?req ?clk (Inl ContextErr) ?s = (r, asked, s')" by (metis prod.collapse)
  show ?thesis
    unfolding Let_def rt using ok RoundTrip_enforces_deadline[OF ok rt] by simp
qed

end
