(* ===== verification/Effects.thy ===== *)
theory Effects
  imports Git_Backend
begin

text \<open>
  Code with effects: an action reads and changes a world and returns a value or an error. The
  world is a type variable, so what is proved of an action holds against every host, cluster
  and clock; the operations of these are parameters. \<open>keeps P m\<close> says that the action \<open>m\<close>
  preserves \<open>P\<close>; from the operations an action may call it follows by the rules collected in
  \<open>keeps\<close>, so \<open>keeps\<close> is how a theorem says which calls an action makes.
\<close>

named_theorems keeps \<open>actions preserve what the operations they call preserve\<close>

type_synonym ('w, 'a) act = "'w \<Rightarrow> (gerror + 'a) \<times> 'w"

definition ret :: "'a \<Rightarrow> ('w, 'a) act" where
  "ret x w = (Inr x, w)"

definition failA :: "gerror \<Rightarrow> ('w, 'a) act" where
  "failA e w = (Inl e, w)"

text \<open>\<open>x, err := m(); if err != nil \<dots> else \<dots>\<close> and its most common case, returning the error.\<close>

definition handle :: "('w, 'a) act \<Rightarrow> (gerror \<Rightarrow> ('w, 'b) act) \<Rightarrow> ('a \<Rightarrow> ('w, 'b) act) \<Rightarrow> ('w, 'b) act" where
  "handle m f k w = (case m w of (Inl e, w') \<Rightarrow> f e w' | (Inr x, w') \<Rightarrow> k x w')"

definition bindA :: "('w, 'a) act \<Rightarrow> ('a \<Rightarrow> ('w, 'b) act) \<Rightarrow> ('w, 'b) act" where
  "bindA m k = handle m failA k"

text \<open>An early return with an error when a pure check fails.\<close>

definition lift :: "gerror + 'a \<Rightarrow> ('w, 'a) act" where
  "lift r w = (r, w)"

definition guardA :: "bool \<Rightarrow> gerror \<Rightarrow> ('w, unit) act" where
  "guardA b e = (if b then ret () else failA e)"

text \<open>A value read from the world, such as the clock.\<close>

definition readA :: "('w \<Rightarrow> 'a) \<Rightarrow> ('w, 'a) act" where
  "readA f w = (Inr (f w), w)"

text \<open>A \<open>for \<dots> range\<close> loop.\<close>

fun forA :: "('a \<Rightarrow> 's \<Rightarrow> ('w, 's) act) \<Rightarrow> 'a list \<Rightarrow> 's \<Rightarrow> ('w, 's) act" where
  "forA f [] s = ret s"
| "forA f (x # xs) s = bindA (f x s) (forA f xs)"

subsection \<open>Rules\<close>

definition keeps :: "('w \<Rightarrow> bool) \<Rightarrow> ('w \<Rightarrow> 'r \<times> 'w) \<Rightarrow> bool" where
  "keeps P m \<longleftrightarrow> (\<forall>w. P w \<longrightarrow> P (snd (m w)))"

lemma keepsD: "keeps P m \<Longrightarrow> P w \<Longrightarrow> P (snd (m w))"
  by (simp add: keeps_def)

lemma keepsI: "(\<And>w. P w \<Longrightarrow> P (snd (m w))) \<Longrightarrow> keeps P m"
  by (simp add: keeps_def)

lemma keeps_ret [keeps, intro]: "keeps P (ret x)"
  by (simp add: keeps_def ret_def)

lemma keeps_failA [keeps, intro]: "keeps P (failA e)"
  by (simp add: keeps_def failA_def)

lemma keeps_lift [keeps, intro]: "keeps P (lift r)"
  by (simp add: keeps_def lift_def)

lemma keeps_guardA [keeps, intro]: "keeps P (guardA b e)"
  by (simp add: guardA_def keeps_ret keeps_failA)

lemma keeps_readA [keeps, intro]: "keeps P (readA f)"
  by (simp add: keeps_def readA_def)

lemma keeps_handle [keeps, intro]:
  assumes "keeps P m" and "\<And>e. keeps P (f e)" and "\<And>x. keeps P (k x)"
  shows "keeps P (handle m f k)"
proof (rule keepsI)
  fix w assume "P w"
  then have "P (snd (m w))" by (rule keepsD[OF assms(1)])
  with assms(2,3) show "P (snd (handle m f k w))"
    by (auto simp: handle_def keeps_def split: prod.splits sum.splits)
qed

lemma keeps_bindA [keeps, intro]:
  "keeps P m \<Longrightarrow> (\<And>x. keeps P (k x)) \<Longrightarrow> keeps P (bindA m k)"
  unfolding bindA_def by (rule keeps_handle) auto

lemma keeps_if [keeps, intro]:
  "(b \<Longrightarrow> keeps P m) \<Longrightarrow> (\<not> b \<Longrightarrow> keeps P n) \<Longrightarrow> keeps P (if b then m else n)"
  by simp

lemma keeps_option [keeps, intro]:
  "keeps P m \<Longrightarrow> (\<And>x. keeps P (k x)) \<Longrightarrow> keeps P (case v of None \<Rightarrow> m | Some x \<Rightarrow> k x)"
  by (cases v) auto

lemma keeps_forA [keeps, intro]:
  "(\<And>x s. keeps P (f x s)) \<Longrightarrow> keeps P (forA f xs s)"
  by (induction xs arbitrary: s) (auto intro: keeps)

lemma handle_Inl [simp]: "m w = (Inl e, w') \<Longrightarrow> handle m f k w = f e w'"
  by (simp add: handle_def)

lemma handle_Inr [simp]: "m w = (Inr x, w') \<Longrightarrow> handle m f k w = k x w'"
  by (simp add: handle_def)

lemma bindA_run [simp]:
  "m w = (Inr x, w') \<Longrightarrow> bindA m k w = k x w'" "m w = (Inl e, w') \<Longrightarrow> bindA m k w = (Inl e, w')"
  by (simp_all add: bindA_def handle_def failA_def)

lemma bindA_Inr_iff:
  "bindA m k w = (Inr y, w2) \<longleftrightarrow> (\<exists>x w1. m w = (Inr x, w1) \<and> k x w1 = (Inr y, w2))"
  by (auto simp: bindA_def handle_def failA_def split: prod.splits sum.splits)

lemma bindA_Inl_iff:
  "bindA m k w = (Inl e, w2) \<longleftrightarrow>
     m w = (Inl e, w2) \<or> (\<exists>x w1. m w = (Inr x, w1) \<and> k x w1 = (Inl e, w2))"
  by (auto simp: bindA_def handle_def failA_def split: prod.splits sum.splits)

lemma ret_iff [simp]: "ret x w = (r, w') \<longleftrightarrow> r = Inr x \<and> w' = w"
  by (auto simp: ret_def)

lemma failA_iff [simp]: "failA e w = (r, w') \<longleftrightarrow> r = Inl e \<and> w' = w"
  by (auto simp: failA_def)

lemma lift_iff [simp]: "lift r w = (r', w') \<longleftrightarrow> r = r' \<and> w' = w"
  by (auto simp: lift_def)

lemma readA_iff [simp]: "readA f w = (r, w') \<longleftrightarrow> r = Inr (f w) \<and> w' = w"
  by (auto simp: readA_def)

lemma guardA_Inr_iff [simp]: "guardA b e w = (Inr u, w') \<longleftrightarrow> b \<and> w' = w"
  by (auto simp: guardA_def)

lemma guardA_Inl_iff [simp]: "guardA b e w = (Inl d, w') \<longleftrightarrow> \<not> b \<and> d = e \<and> w' = w"
  by (auto simp: guardA_def)

lemma if_failA_Inr [simp]:
  "(if b then failA e else m) w = (Inr x, w') \<longleftrightarrow> \<not> b \<and> m w = (Inr x, w')"
  by auto

lemma option_failA_Inr [simp]:
  "(case v of None \<Rightarrow> failA e | Some y \<Rightarrow> k y) w = (Inr x, w') \<longleftrightarrow> (\<exists>y. v = Some y \<and> k y w = (Inr x, w'))"
  by (cases v) auto

lemma none_failA_Inr:
  "(case v of None \<Rightarrow> m | Some e \<Rightarrow> failA (f e)) w = (Inr x, w') \<longleftrightarrow> v = None \<and> m w = (Inr x, w')"
  by (cases v) auto

lemma handle_failA_Inr:
  "handle m (\<lambda>e. failA (f e)) k w = (Inr y, w2) \<longleftrightarrow> (\<exists>x w1. m w = (Inr x, w1) \<and> k x w1 = (Inr y, w2))"
  by (auto simp: handle_def split: prod.splits sum.splits)

text \<open>What a call returned may matter for what follows.\<close>

lemma keeps_handle_val:
  assumes "keeps P m" and "\<And>e. keeps P (f e)" and "\<And>x w w'. m w = (Inr x, w') \<Longrightarrow> keeps P (k x)"
  shows "keeps P (handle m f k)"
proof (rule keepsI)
  fix w assume "P w"
  then have "P (snd (m w))" by (rule keepsD[OF assms(1)])
  with assms(2,3) show "P (snd (handle m f k w))"
    by (auto simp: handle_def keeps_def split: prod.splits sum.splits)
qed

lemma keeps_bindA_val:
  assumes "keeps P m" and "\<And>x w w'. m w = (Inr x, w') \<Longrightarrow> keeps P (k x)"
  shows "keeps P (bindA m k)"
  unfolding bindA_def using assms by (intro keeps_handle_val keeps_failA)

lemma bind_read: "bindA (readA f) k w = k (f w) w"
  by (simp add: bindA_def handle_def readA_def)

lemma keeps_lift_bind [keeps]:
  "(\<And>x. r = Inr x \<Longrightarrow> keeps P (k x)) \<Longrightarrow> keeps P (bindA (lift r) k)"
  by (cases r) (simp_all add: keeps_def bindA_def handle_def lift_def failA_def)

lemma bind_ret [simp]: "bindA (ret x) k = k x"
  by (rule ext) (simp add: bindA_def handle_def ret_def)

lemma bind_fail [simp]: "bindA (failA e) k = failA e"
  by (rule ext) (simp add: bindA_def handle_def failA_def)

text \<open>The loop rule for actions that end well.\<close>

lemma forA_invariant:
  assumes "forA f xs s w = (Inr t, w')" and "I s"
    and "\<And>x s t w w'. x \<in> set xs \<Longrightarrow> I s \<Longrightarrow> f x s w = (Inr t, w') \<Longrightarrow> I t"
  shows "I t"
  using assms
proof (induction xs arbitrary: s w)
  case (Cons x xs)
  then obtain u w1 where "f x s w = (Inr u, w1)" and "forA f xs u w1 = (Inr t, w')"
    by (auto simp: bindA_Inr_iff)
  with Cons.prems Cons.IH show ?case by (metis list.set_intros(1,2))
qed simp

text \<open>The same with what has been processed.\<close>

lemma forA_prefix:
  assumes "forA f xs s w = (Inr t, w')" and "I [] s"
    and "\<And>ys x zs s t w w'. xs = ys @ x # zs \<Longrightarrow> I ys s \<Longrightarrow> f x s w = (Inr t, w') \<Longrightarrow> I (ys @ [x]) t"
  shows "I xs t"
proof -
  have "forA f zs s w = (Inr t, w') \<Longrightarrow> I ys s \<Longrightarrow> xs = ys @ zs \<Longrightarrow> I xs t" for zs ys s w
  proof (induction zs arbitrary: ys s w)
    case (Cons z zs)
    then obtain u w1 where u: "f z s w = (Inr u, w1)" "forA f zs u w1 = (Inr t, w')"
      by (auto simp: bindA_Inr_iff)
    have "I (ys @ [z]) u" using assms(3)[OF Cons.prems(3,2) u(1)] .
    then show ?case using Cons.IH[OF u(2)] Cons.prems(3) by simp
  qed simp
  from this[OF assms(1), of "[]"] assms(2) show ?thesis by simp
qed

text \<open>What breaks \<open>P\<close> when the first action keeps it comes after that action succeeded.\<close>

lemma broken_later:
  assumes "bindA m k w = (r, w')" "keeps P m" "P w" "\<not> P w'"
  obtains x v where "m w = (Inr x, v)" "P v" "k x v = (r, w')"
proof -
  obtain rm v where m: "m w = (rm, v)" by fastforce
  have "P v" using keepsD[OF assms(2,3)] m by simp
  with assms(1,4) m that show thesis by (cases rm) auto
qed

subsection \<open>Refusals\<close>

text \<open>An action that always ends with an error and preserves \<open>P\<close> on the way.\<close>

definition refuses :: "('w \<Rightarrow> bool) \<Rightarrow> ('w, 'a) act \<Rightarrow> bool" where
  "refuses P m \<longleftrightarrow> keeps P m \<and> (\<forall>w. \<exists>e. fst (m w) = Inl e)"

lemma refuses_failA [intro]: "refuses P (failA e)"
  by (simp add: refuses_def keeps_failA) (simp add: failA_def)

lemma refuses_if [intro]: "(b \<Longrightarrow> refuses P m) \<Longrightarrow> (\<not> b \<Longrightarrow> refuses P n) \<Longrightarrow> refuses P (if b then m else n)"
  by simp

lemma refuses_bindA [intro]:
  assumes "refuses P m"
  shows "refuses P (bindA m k)"
proof -
  have run: "bindA m k w = (Inl (projl (fst (m w))), snd (m w))" for w
  proof (cases "m w")
    case (Pair r v)
    with assms show ?thesis by (cases r) (auto simp: refuses_def dest!: spec[of _ w])
  qed
  with assms show ?thesis by (simp add: refuses_def keeps_def)
qed

end
