(* ===== verification/Host_Api.thy ===== *)
theory Host_Api
  imports Effects
begin

text \<open>
  The git host as the program sees it through its client library (go-github v66): one record per
  service of the client, whose fields are the methods the program calls. Every method is a
  parameter: what the host answers is up to it. An answer is the value with the response, or
  an error with the response if there was one; the library returns a nil value with an error.
  The records below have the fields the program reads; a field whose absence the program
  tests is an option, and otherwise the library's getter gives the zero value for a missing
  field, as here.
\<close>

subsection \<open>Responses and objects\<close>

record response =
  respStatus :: nat
  respNextPage :: int
  respScopes :: string

datatype 'a reply = Reply 'a "response option" | Failure "response option" gerror

type_synonym ('w, 'a) api = "'w \<Rightarrow> 'a reply \<times> 'w"

record host_repo =
  hrID :: int
  hrFullName :: string
  hrHTMLURL :: string
  hrCloneURL :: string
  hrSSHURL :: string
  hrDefaultBranch :: string
  hrOwnerLogin :: "string option"

record new_repo =
  nrName :: string
  nrPrivate :: bool
  nrDescription :: string
  nrAutoInit :: bool
  nrDefaultBranch :: "string option"
  nrVisibility :: "string option"

record host_account =
  haLogin :: string
  haType :: string

record tree_entry =
  tePath :: string
  teMode :: string
  teType :: string
  teSHA :: "string option"
  teContent :: "string option"
  teSize :: int

record git_tree =
  gtSHA :: string
  gtEntries :: "tree_entry list"
  gtTruncated :: bool

record git_commit =
  gcSHA :: string
  gcMessage :: string
  gcTree :: "string option"
  gcHTMLURL :: string

text \<open>A commit to create: message, tree and the SHAs of its parents.\<close>

record new_commit =
  ncMessage :: string
  ncTree :: string
  ncParents :: "string list"

record git_ref =
  grRef :: string
  grObject :: "string option"

record repo_commit =
  rpSHA :: string
  rpHTMLURL :: string
  rpCommit :: "git_commit option"

record deploy_key =
  hkID :: int
  hkTitle :: string
  hkKey :: string
  hkReadOnly :: bool

record invitation =
  hiID :: int
  hiInvitee :: "string option"

record host_package =
  hpName :: string
  hpType :: string
  hpVisibility :: string
  hpHTMLURL :: string
  hpVersionCount :: int
  hpUpdatedAt :: "gotime option"
  hpRepository :: "string option"

record package_version =
  hvName :: string
  hvCreatedAt :: "gotime option"
  hvTags :: "string list"

record workflow_run =
  hwID :: int
  hwHTMLURL :: string
  hwHeadSHA :: string
  hwStatus :: string
  hwConclusion :: string

record workflow_job =
  hjID :: int
  hjName :: string
  hjStatus :: string
  hjConclusion :: string

record pull_side =
  psRepo :: string
  psRef :: string
  psSHA :: string

record host_pull =
  hlNumber :: int
  hlHTMLURL :: string
  hlBase :: pull_side
  hlHead :: pull_side
  hlState :: string
  hlMerged :: bool
  hlMergeCommit :: string
  hlMergedAt :: "gotime option"
  hlMergedBy :: host_account

record check_run =
  hcID :: int
  hcName :: string
  hcAppID :: int
  hcHeadSHA :: string
  hcStatus :: string
  hcConclusion :: string
  hcDetailsURL :: string
  hcTitle :: string
  hcSummary :: string
  hcText :: string
  hcAnnotations :: int

record annotation =
  haPath :: string
  haStartLine :: int
  haEndLine :: int
  haLevel :: string
  haTitle :: string
  haMessage :: string
  haRawDetails :: string

record host_review =
  hvwID :: int
  hvwUser :: host_account
  hvwCommit :: string
  hvwState :: string
  hvwBody :: string
  hvwSubmittedAt :: "gotime option"

record review_comment =
  rmID :: int
  rmReviewID :: int
  rmCommit :: string
  rmPath :: string
  rmLine :: int
  rmBody :: string

record issue_comment =
  icID :: int
  icURL :: string
  icBody :: string
  icUser :: host_account
  icUpdatedAt :: gotime

subsection \<open>Services\<close>

record 'w repositories_service =
  Repositories_Get :: "string \<Rightarrow> string \<Rightarrow> ('w, host_repo) api"
  Repositories_Create :: "string \<Rightarrow> new_repo \<Rightarrow> ('w, host_repo) api"
  Repositories_Delete :: "string \<Rightarrow> string \<Rightarrow> ('w, unit) api"
  Repositories_ListCommits :: "string \<Rightarrow> string \<Rightarrow> string \<Rightarrow> ('w, repo_commit option list) api"
  Repositories_GetCommitSHA1 :: "string \<Rightarrow> string \<Rightarrow> string \<Rightarrow> ('w, string) api"
  Repositories_ListKeys :: "string \<Rightarrow> string \<Rightarrow> ('w, deploy_key list) api"
  Repositories_CreateKey :: "string \<Rightarrow> string \<Rightarrow> string \<Rightarrow> string \<Rightarrow> bool \<Rightarrow> ('w, deploy_key) api"
  Repositories_DeleteKey :: "string \<Rightarrow> string \<Rightarrow> int \<Rightarrow> ('w, unit) api"
  Repositories_AddCollaborator :: "string \<Rightarrow> string \<Rightarrow> string \<Rightarrow> string \<Rightarrow> ('w, invitation option) api"
  Repositories_RemoveCollaborator :: "string \<Rightarrow> string \<Rightarrow> string \<Rightarrow> ('w, unit) api"
  Repositories_ListInvitations :: "string \<Rightarrow> string \<Rightarrow> ('w, invitation list) api"
  Repositories_DeleteInvitation :: "string \<Rightarrow> string \<Rightarrow> int \<Rightarrow> ('w, unit) api"
  Repositories_ListBranches :: "string \<Rightarrow> string \<Rightarrow> int \<Rightarrow> ('w, string option list) api"

record 'w git_service =
  Git_GetRef :: "string \<Rightarrow> string \<Rightarrow> string \<Rightarrow> ('w, git_ref) api"
  Git_GetCommit :: "string \<Rightarrow> string \<Rightarrow> string \<Rightarrow> ('w, git_commit) api"
  Git_GetTree :: "string \<Rightarrow> string \<Rightarrow> string \<Rightarrow> ('w, git_tree) api"
  Git_GetBlobRaw :: "string \<Rightarrow> string \<Rightarrow> string \<Rightarrow> ('w, bytes) api"
  Git_CreateBlob :: "string \<Rightarrow> string \<Rightarrow> string \<Rightarrow> string \<Rightarrow> ('w, string) api"
  Git_CreateTree :: "string \<Rightarrow> string \<Rightarrow> string \<Rightarrow> tree_entry list \<Rightarrow> ('w, git_tree) api"
  Git_CreateCommit :: "string \<Rightarrow> string \<Rightarrow> new_commit \<Rightarrow> ('w, git_commit) api"
  Git_CreateRef :: "string \<Rightarrow> string \<Rightarrow> string \<Rightarrow> string \<Rightarrow> ('w, unit) api"
  Git_UpdateRef :: "string \<Rightarrow> string \<Rightarrow> string \<Rightarrow> string \<Rightarrow> bool \<Rightarrow> ('w, unit) api"

record 'w accounts_service =
  Apps_ListRepos :: "('w, host_repo list option) api"
  Users_Get :: "string \<Rightarrow> ('w, host_account) api"
  Users_ListPackages :: "string \<Rightarrow> string \<Rightarrow> int \<Rightarrow> ('w, host_package list) api"
  Users_PackageGetAllVersions :: "string \<Rightarrow> string \<Rightarrow> string \<Rightarrow> int \<Rightarrow> ('w, package_version list) api"
  Organizations_ListPackages :: "string \<Rightarrow> string \<Rightarrow> int \<Rightarrow> ('w, host_package list) api"
  Organizations_PackageGetAllVersions :: "string \<Rightarrow> string \<Rightarrow> string \<Rightarrow> int \<Rightarrow> ('w, package_version list) api"

text \<open>
  The log of a job is fetched from a URL with the default HTTP client; \<open>HTTP_Get\<close> gives the body.
\<close>

record 'w actions_service =
  Actions_ListWorkflowRunsByFileName ::
    "string \<Rightarrow> string \<Rightarrow> string \<Rightarrow> string \<Rightarrow> ('w, int \<times> workflow_run list) api"
  Actions_ListWorkflowJobs :: "string \<Rightarrow> string \<Rightarrow> int \<Rightarrow> ('w, workflow_job list) api"
  Actions_CreateWorkflowDispatchEventByFileName ::
    "string \<Rightarrow> string \<Rightarrow> string \<Rightarrow> string \<Rightarrow> ('w, unit) api"
  Actions_GetWorkflowJobLogs :: "string \<Rightarrow> string \<Rightarrow> int \<Rightarrow> ('w, string option) api"
  HTTP_Get :: "string \<Rightarrow> ('w, bytes) api"

record 'w collaboration_service =
  PullRequests_List :: "string \<Rightarrow> string \<Rightarrow> string \<Rightarrow> string \<Rightarrow> int \<Rightarrow> ('w, host_pull option list) api"
  PullRequests_Get :: "string \<Rightarrow> string \<Rightarrow> int \<Rightarrow> ('w, host_pull) api"
  PullRequests_Create ::
    "string \<Rightarrow> string \<Rightarrow> string \<Rightarrow> string \<Rightarrow> string \<Rightarrow> string \<Rightarrow> ('w, host_pull) api"
  PullRequests_Edit :: "string \<Rightarrow> string \<Rightarrow> int \<Rightarrow> string \<Rightarrow> string \<Rightarrow> ('w, host_pull) api"
  PullRequests_ListReviews :: "string \<Rightarrow> string \<Rightarrow> int \<Rightarrow> int \<Rightarrow> ('w, host_review list) api"
  PullRequests_ListReviewComments ::
    "string \<Rightarrow> string \<Rightarrow> int \<Rightarrow> int \<Rightarrow> int \<Rightarrow> ('w, review_comment list) api"
  PullRequests_CreateCommentInReplyTo ::
    "string \<Rightarrow> string \<Rightarrow> int \<Rightarrow> string \<Rightarrow> int \<Rightarrow> ('w, issue_comment) api"
  Issues_ListComments :: "string \<Rightarrow> string \<Rightarrow> int \<Rightarrow> int \<Rightarrow> ('w, issue_comment list) api"
  Issues_CreateComment :: "string \<Rightarrow> string \<Rightarrow> int \<Rightarrow> string \<Rightarrow> ('w, issue_comment) api"
  Checks_ListCheckRunsForRef ::
    "string \<Rightarrow> string \<Rightarrow> string \<Rightarrow> int \<Rightarrow> ('w, (int \<times> check_run list) option) api"
  Checks_ListCheckRunAnnotations :: "string \<Rightarrow> string \<Rightarrow> int \<Rightarrow> int \<Rightarrow> ('w, annotation list) api"

text \<open>A client: its services and the process clock.\<close>

record 'w client =
  Repositories :: "'w repositories_service"
  Git :: "'w git_service"
  Accounts :: "'w accounts_service"
  Actions :: "'w actions_service"
  Collaboration :: "'w collaboration_service"
  clNow :: "'w \<Rightarrow> gotime"

text \<open>
  What the process has of the library: the client for a credential, base URL and timeout,
  and the library's verdict on the URL of an enterprise server.
\<close>

record 'w github =
  ghClient :: "Credential \<Rightarrow> string \<Rightarrow> duration \<Rightarrow> 'w client"
  ghBadURL :: "string \<Rightarrow> gerror option"

subsection \<open>Calling the host\<close>

definition try_api ::
  "('w, 'a) api \<Rightarrow> ('a \<Rightarrow> response option \<Rightarrow> ('w, 'b) act) \<Rightarrow> (response option \<Rightarrow> gerror \<Rightarrow> ('w, 'b) act) \<Rightarrow> ('w, 'b) act"
where
  "try_api m k f w = (case m w of (Reply a r, w') \<Rightarrow> k a r w' | (Failure r e, w') \<Rightarrow> f r e w')"

definition status_is :: "nat \<Rightarrow> response option \<Rightarrow> bool" where
  "status_is n r = (case r of None \<Rightarrow> False | Some p \<Rightarrow> respStatus p = n)"

definition next_page :: "response option \<Rightarrow> int" where
  "next_page r = (case r of None \<Rightarrow> 0 | Some p \<Rightarrow> respNextPage p)"

lemma keeps_try_api [keeps, intro]:
  assumes "keeps P m" and "\<And>a r. keeps P (k a r)" and "\<And>r e. keeps P (f r e)"
  shows "keeps P (try_api m k f)"
proof (rule keepsI)
  fix w assume "P w"
  then have "P (snd (m w))" by (rule keepsD[OF assms(1)])
  with assms(2,3) show "P (snd (try_api m k f w))"
    by (auto simp: try_api_def keeps_def split: prod.splits reply.splits)
qed

lemma try_api_Reply [simp]: "m w = (Reply a r, w') \<Longrightarrow> try_api m k f w = k a r w'"
  by (simp add: try_api_def)

lemma try_api_Failure [simp]: "m w = (Failure r e, w') \<Longrightarrow> try_api m k f w = f r e w'"
  by (simp add: try_api_def)

subsection \<open>A host that is down\<close>

text \<open>Every call fails without a response; the concrete hosts of examples are updates of this one.\<close>

definition down :: "('w, 'a) api" where
  "down w = (Failure None (Transport ''connection refused''), w)"

definition down_repositories :: "'w repositories_service" where
  "down_repositories = \<lparr>Repositories_Get = \<lambda>_ _. down,
     Repositories_Create = \<lambda>_ _. down,
     Repositories_Delete = \<lambda>_ _. down,
     Repositories_ListCommits = \<lambda>_ _ _. down,
     Repositories_GetCommitSHA1 = \<lambda>_ _ _. down,
     Repositories_ListKeys = \<lambda>_ _. down,
     Repositories_CreateKey = \<lambda>_ _ _ _ _. down,
     Repositories_DeleteKey = \<lambda>_ _ _. down,
     Repositories_AddCollaborator = \<lambda>_ _ _ _. down,
     Repositories_RemoveCollaborator = \<lambda>_ _ _. down,
     Repositories_ListInvitations = \<lambda>_ _. down,
     Repositories_DeleteInvitation = \<lambda>_ _ _. down,
     Repositories_ListBranches = \<lambda>_ _ _. down\<rparr>"

definition down_git :: "'w git_service" where
  "down_git = \<lparr>Git_GetRef = \<lambda>_ _ _. down,
     Git_GetCommit = \<lambda>_ _ _. down,
     Git_GetTree = \<lambda>_ _ _. down,
     Git_GetBlobRaw = \<lambda>_ _ _. down,
     Git_CreateBlob = \<lambda>_ _ _ _. down,
     Git_CreateTree = \<lambda>_ _ _ _. down,
     Git_CreateCommit = \<lambda>_ _ _. down,
     Git_CreateRef = \<lambda>_ _ _ _. down,
     Git_UpdateRef = \<lambda>_ _ _ _ _. down\<rparr>"

definition down_accounts :: "'w accounts_service" where
  "down_accounts = \<lparr>Apps_ListRepos = down,
     Users_Get = \<lambda>_. down,
     Users_ListPackages = \<lambda>_ _ _. down,
     Users_PackageGetAllVersions = \<lambda>_ _ _ _. down,
     Organizations_ListPackages = \<lambda>_ _ _. down,
     Organizations_PackageGetAllVersions = \<lambda>_ _ _ _. down\<rparr>"

definition down_actions :: "'w actions_service" where
  "down_actions = \<lparr>Actions_ListWorkflowRunsByFileName = \<lambda>_ _ _ _. down,
     Actions_ListWorkflowJobs = \<lambda>_ _ _. down,
     Actions_CreateWorkflowDispatchEventByFileName = \<lambda>_ _ _ _. down,
     Actions_GetWorkflowJobLogs = \<lambda>_ _ _. down,
     HTTP_Get = \<lambda>_. down\<rparr>"

definition down_collaboration :: "'w collaboration_service" where
  "down_collaboration = \<lparr>PullRequests_List = \<lambda>_ _ _ _ _. down,
     PullRequests_Get = \<lambda>_ _ _. down,
     PullRequests_Create = \<lambda>_ _ _ _ _ _. down,
     PullRequests_Edit = \<lambda>_ _ _ _ _. down,
     PullRequests_ListReviews = \<lambda>_ _ _ _. down,
     PullRequests_ListReviewComments = \<lambda>_ _ _ _ _. down,
     PullRequests_CreateCommentInReplyTo = \<lambda>_ _ _ _ _. down,
     Issues_ListComments = \<lambda>_ _ _ _. down,
     Issues_CreateComment = \<lambda>_ _ _ _. down,
     Checks_ListCheckRunsForRef = \<lambda>_ _ _ _. down,
     Checks_ListCheckRunAnnotations = \<lambda>_ _ _ _. down\<rparr>"

definition down_client :: "('w \<Rightarrow> gotime) \<Rightarrow> 'w client" where
  "down_client now = \<lparr>Repositories = down_repositories, Git = down_git, Accounts = down_accounts,
     Actions = down_actions, Collaboration = down_collaboration, clNow = now\<rparr>"

text \<open>The process with one client for all credentials.\<close>

definition github_of :: "'w client \<Rightarrow> 'w github" where
  "github_of c = \<lparr>ghClient = (\<lambda>_ _ _. c), ghBadURL = (\<lambda>_. None)\<rparr>"

lemmas down_defs = down_repositories_def down_git_def down_accounts_def down_actions_def
  down_collaboration_def down_client_def github_of_def

definition answered :: "nat \<Rightarrow> response option" where
  "answered n = Some \<lparr>respStatus = n, respNextPage = 0, respScopes = []\<rparr>"

end
