(* ===== verification/Api_Types.thy ===== *)
theory Api_Types
  imports Go_Strings
begin

text \<open>
  \<open>apis/v1alpha1\<close>: the custom resources the controllers reconcile, one record per struct with
  the fields the program reads or writes, and the string constants of the API. Kubernetes'
  own \<open>ObjectMeta\<close>, \<open>Condition\<close> and \<open>OwnerReference\<close> appear with the fields used here. Optional
  (pointer) fields are options; labels and annotations are finite maps as association lists.
\<close>

subsection \<open>Kubernetes metadata\<close>

record OwnerReference =
  orKind :: string
  orName :: string
  orUID :: string
  orController :: bool

record ObjectMeta =
  omName :: string
  omNamespace :: string
  omGenerateName :: string
  omUID :: string
  omResourceVersion :: string
  omGeneration :: int
  omCreated :: gotime
  omDeletion :: "gotime option"
  omFinalizers :: "string list"
  omLabels :: "(string \<times> string) list"
  omAnnotations :: "(string \<times> string) list"
  omOwners :: "OwnerReference list"

record Condition =
  cnType :: string
  cnStatus :: bool
  cnReason :: string
  cnMessage :: string
  cnObserved :: int
  cnTransition :: gotime

definition map_get :: "(string \<times> string) list \<Rightarrow> string \<Rightarrow> string" where
  "map_get m k = (case map_of m k of None \<Rightarrow> [] | Some v \<Rightarrow> v)"

subsection \<open>Shared types and constants\<close>

record LocalSecretReference =
  lsName :: string
  lsNamespace :: string
  lsKey :: string

definition ProviderGitHub :: string where "ProviderGitHub = ''github''"
definition ConditionReady :: string where "ConditionReady = ''Ready''"
definition ReasonReconciling :: string where "ReasonReconciling = ''Reconciling''"
definition ReasonReady :: string where "ReasonReady = ''Ready''"
definition ReasonError :: string where "ReasonError = ''Error''"
definition ReasonRateLimited :: string where "ReasonRateLimited = ''RateLimited''"

subsection \<open>Connection\<close>

definition CredentialTypePAT :: string where "CredentialTypePAT = ''pat''"
definition CredentialTypeGitHubApp :: string where "CredentialTypeGitHubApp = ''github-app''"
definition CredentialTypeOAuth :: string where "CredentialTypeOAuth = ''oauth''"
definition ConditionValidated :: string where "ConditionValidated = ''Validated''"
definition FinalizerConnection :: string where "FinalizerConnection = ''connections.code.railgrid.ai/finalizer''"

record ConnectionSpec =
  csProvider :: string
  csType :: string
  csOwner :: string
  csSecretRef :: LocalSecretReference
  csBaseURL :: string

record ConnectionStatus =
  ctObserved :: int
  ctLogin :: string
  ctScopes :: "string list"
  ctConditions :: "Condition list"

record Connection =
  cxMeta :: ObjectMeta
  cxSpec :: ConnectionSpec
  cxStatus :: ConnectionStatus

subsection \<open>Repository\<close>

definition VisibilityPrivate :: string where "VisibilityPrivate = ''private''"
definition VisibilityPublic :: string where "VisibilityPublic = ''public''"
definition VisibilityInternal :: string where "VisibilityInternal = ''internal''"
definition FinalizerRepository :: string where "FinalizerRepository = ''repositories.code.railgrid.ai/finalizer''"

record RepositorySpec =
  rsConnectionRef :: string
  rsName :: string
  rsOwner :: string
  rsVisibility :: string
  rsDescription :: string
  rsDefaultBranch :: string
  rsAutoInit :: bool

record RepositoryStatus =
  rtObserved :: int
  rtRepoID :: string
  rtHTMLURL :: string
  rtCloneURL :: string
  rtSSHURL :: string
  rtConditions :: "Condition list"

record Repository =
  rxMeta :: ObjectMeta
  rxSpec :: RepositorySpec
  rxStatus :: RepositoryStatus

subsection \<open>RepositoryCommit\<close>

definition RepositoryCommitPhasePending :: string where "RepositoryCommitPhasePending = ''Pending''"
definition RepositoryCommitPhaseRunning :: string where "RepositoryCommitPhaseRunning = ''Running''"
definition RepositoryCommitPhaseSucceeded :: string where "RepositoryCommitPhaseSucceeded = ''Succeeded''"
definition RepositoryCommitPhaseFailed :: string where "RepositoryCommitPhaseFailed = ''Failed''"
definition RepositoryCommitRateLimitWindow :: duration where "RepositoryCommitRateLimitWindow = 15 * Minute"

record RepositoryCommitBundleReference =
  brName :: string
  brDigest :: string

record RepositoryCommitSource =
  soBundleRef :: RepositoryCommitBundleReference

record RepositoryCommitSpec =
  msRepositoryRef :: string
  msBranch :: string
  msMessage :: string
  msSource :: RepositoryCommitSource

record RepositoryCommitSourceStatus =
  ssDigest :: string
  ssSize :: int
  ssFileCount :: int

record RepositoryCommitFileStatus =
  sfPath :: string
  sfSize :: int
  sfDigest :: string
  sfDelete :: bool

record RepositoryCommitStatus =
  mtObserved :: int
  mtPhase :: string
  mtStartedAt :: "gotime option"
  mtCompletedAt :: "gotime option"
  mtBranch :: string
  mtCommitSHA :: string
  mtCommitURL :: string
  mtSource :: "RepositoryCommitSourceStatus option"
  mtFiles :: "RepositoryCommitFileStatus list"
  mtConditions :: "Condition list"

record RepositoryCommit =
  mxMeta :: ObjectMeta
  mxSpec :: RepositoryCommitSpec
  mxStatus :: RepositoryCommitStatus

subsection \<open>RepositoryCheckout\<close>

definition AnnotationCheckoutBinaryEncoding :: string where
  "AnnotationCheckoutBinaryEncoding = ''code.railgrid.ai/binary-encoding''"
definition RepositoryCheckoutPhasePending :: string where "RepositoryCheckoutPhasePending = ''Pending''"
definition RepositoryCheckoutPhaseRunning :: string where "RepositoryCheckoutPhaseRunning = ''Running''"
definition RepositoryCheckoutPhaseSucceeded :: string where "RepositoryCheckoutPhaseSucceeded = ''Succeeded''"
definition RepositoryCheckoutPhaseFailed :: string where "RepositoryCheckoutPhaseFailed = ''Failed''"

record RepositoryCheckoutSpec =
  ksRepositoryRef :: string
  ksRef :: string

record RepositoryCheckoutStatus =
  ktObserved :: int
  ktPhase :: string
  ktStartedAt :: "gotime option"
  ktCompletedAt :: "gotime option"
  ktRef :: string
  ktCommitSHA :: string
  ktSource :: "RepositoryCommitSourceStatus option"
  ktBundleRef :: "RepositoryCommitBundleReference option"
  ktSkipped :: "string list"
  ktConditions :: "Condition list"

record RepositoryCheckout =
  kxMeta :: ObjectMeta
  kxSpec :: RepositoryCheckoutSpec
  kxStatus :: RepositoryCheckoutStatus

subsection \<open>Package\<close>

definition LabelRepository :: string where "LabelRepository = ''code.railgrid.ai/repository''"

record PackageSpec =
  psRepositoryRef :: string

record ApiPackageVersion =
  avDigest :: string
  avTags :: "string list"
  avCreatedAt :: string

record PackageStatus =
  ptObserved :: int
  ptPackageName :: string
  ptType :: string
  ptVisibility :: string
  ptHTMLURL :: string
  ptVersionCount :: int
  ptUpdatedAt :: string
  ptImageRepository :: string
  ptVersions :: "ApiPackageVersion list"
  ptLastSyncTime :: "gotime option"
  ptConditions :: "Condition list"

record Package =
  pxMeta :: ObjectMeta
  pxSpec :: PackageSpec
  pxStatus :: PackageStatus

subsection \<open>DeployKey\<close>

definition FinalizerDeployKey :: string where "FinalizerDeployKey = ''deploykeys.code.railgrid.ai/finalizer''"

record DeployKeySpec =
  dsRepositoryRef :: string
  dsTitle :: string
  dsPublicKey :: string
  dsReadOnly :: bool

record DeployKeyStatus =
  dtObserved :: int
  dtKeyID :: string
  dtSecretRef :: "LocalSecretReference option"
  dtConditions :: "Condition list"

record DeployKey =
  dxMeta :: ObjectMeta
  dxSpec :: DeployKeySpec
  dxStatus :: DeployKeyStatus

subsection \<open>Collaborator\<close>

definition PermissionPull :: string where "PermissionPull = ''pull''"
definition PermissionPush :: string where "PermissionPush = ''push''"
definition PermissionAdmin :: string where "PermissionAdmin = ''admin''"
definition ConditionInvitationPending :: string where "ConditionInvitationPending = ''InvitationPending''"
definition FinalizerCollaborator :: string where "FinalizerCollaborator = ''collaborators.code.railgrid.ai/finalizer''"

record CollaboratorSpec =
  lpRepositoryRef :: string
  lpUsername :: string
  lpPermission :: string

record CollaboratorStatus =
  ltObserved :: int
  ltInvitationID :: string
  ltConditions :: "Condition list"

record Collaborator =
  lxMeta :: ObjectMeta
  lxSpec :: CollaboratorSpec
  lxStatus :: CollaboratorStatus

subsection \<open>RepositoryBuildStatus\<close>

definition RepositoryBuildStatusActionStatus :: string where "RepositoryBuildStatusActionStatus = ''status''"
definition RepositoryBuildStatusActionRerun :: string where "RepositoryBuildStatusActionRerun = ''rerun''"
definition RepositoryBuildStatusPhasePending :: string where "RepositoryBuildStatusPhasePending = ''Pending''"
definition RepositoryBuildStatusPhaseRunning :: string where "RepositoryBuildStatusPhaseRunning = ''Running''"
definition RepositoryBuildStatusPhaseSucceeded :: string where "RepositoryBuildStatusPhaseSucceeded = ''Succeeded''"
definition RepositoryBuildStatusPhaseFailed :: string where "RepositoryBuildStatusPhaseFailed = ''Failed''"

record RepositoryBuildStatusSpec =
  bsRepositoryRef :: string
  bsWorkflowFileName :: string
  bsRef :: string
  bsAction :: string
  bsMaxLogLines :: int

record RepositoryBuildStatusJob =
  bjName :: string
  bjStatus :: string
  bjConclusion :: string
  bjFailureLog :: string

record RepositoryBuildStatusRun =
  buFound :: bool
  buRunID :: int
  buHTMLURL :: string
  buHeadSHA :: string
  buStatus :: string
  buConclusion :: string
  buJobs :: "RepositoryBuildStatusJob list"

record RepositoryBuildStatusStatus =
  btObserved :: int
  btPhase :: string
  btCompletedAt :: "gotime option"
  btRun :: "RepositoryBuildStatusRun option"
  btDispatched :: bool
  btConditions :: "Condition list"

record RepositoryBuildStatus =
  bxMeta :: ObjectMeta
  bxSpec :: RepositoryBuildStatusSpec
  bxStatus :: RepositoryBuildStatusStatus

subsection \<open>Zero values\<close>

text \<open>What \<open>var x T\<close> gives; examples are updates of these.\<close>

definition zero_meta :: ObjectMeta where
  "zero_meta = \<lparr>omName = [], omNamespace = [], omGenerateName = [], omUID = [], omResourceVersion = [],
     omGeneration = 0, omCreated = 0, omDeletion = None, omFinalizers = [], omLabels = [],
     omAnnotations = [], omOwners = []\<rparr>"

definition zero_connection :: Connection where
  "zero_connection = \<lparr>cxMeta = zero_meta,
     cxSpec = \<lparr>csProvider = [], csType = [], csOwner = [],
       csSecretRef = \<lparr>lsName = [], lsNamespace = [], lsKey = []\<rparr>, csBaseURL = []\<rparr>,
     cxStatus = \<lparr>ctObserved = 0, ctLogin = [], ctScopes = [], ctConditions = []\<rparr>\<rparr>"

definition zero_repository :: Repository where
  "zero_repository = \<lparr>rxMeta = zero_meta,
     rxSpec = \<lparr>rsConnectionRef = [], rsName = [], rsOwner = [], rsVisibility = [], rsDescription = [],
       rsDefaultBranch = [], rsAutoInit = False\<rparr>,
     rxStatus = \<lparr>rtObserved = 0, rtRepoID = [], rtHTMLURL = [], rtCloneURL = [], rtSSHURL = [],
       rtConditions = []\<rparr>\<rparr>"

definition zero_deploy_key :: DeployKey where
  "zero_deploy_key = \<lparr>dxMeta = zero_meta,
     dxSpec = \<lparr>dsRepositoryRef = [], dsTitle = [], dsPublicKey = [], dsReadOnly = False\<rparr>,
     dxStatus = \<lparr>dtObserved = 0, dtKeyID = [], dtSecretRef = None, dtConditions = []\<rparr>\<rparr>"

lemmas zero_defs = zero_meta_def zero_connection_def zero_repository_def zero_deploy_key_def

end
