(* ===== verification/Github_Repository.thy ===== *)
theory Github_Repository
  imports Host_Api Api_Types Go_Unicode
begin

text \<open>
  \<open>backend/github/backend.go\<close>, first part: clients, error classification, connections, the
  repository lifecycle with its identity checks, deploy keys and collaborators.
\<close>

subsection \<open>Clients\<close>

definition backend_Name :: string where "backend_Name = ProviderGitHub"

definition githubBlobRequestTimeout :: duration where "githubBlobRequestTimeout = 3 * Minute"

text \<open>\<open>githubRequestTimeout\<close> of the request cache, here the timeout of the default client.\<close>

definition clientTimeout :: duration where "clientTimeout = 30 * Second"

text \<open>
  The \<open>http.Client\<close> behind a client goes through the shared transport of \<open>Request_Cache\<close>; that
  is part of what \<open>ghClient\<close> gives.
\<close>

definition clientWithTimeout :: "'w github \<Rightarrow> Credential \<Rightarrow> string \<Rightarrow> duration \<Rightarrow> gerror + 'w client" where
  "clientWithTimeout gh cred baseURL timeout =
     (if crToken cred = [] then Inl (Plain ''github: empty credential token'')
      else if baseURL = [] then Inr (ghClient gh cred baseURL timeout)
      else case ghBadURL gh baseURL of
          Some e \<Rightarrow> Inl (Wrapped (''github: invalid baseURL '' @ quoted baseURL @ '': '') e [])
        | None \<Rightarrow> Inr (ghClient gh cred baseURL timeout))"

definition default_client :: "'w github \<Rightarrow> Credential \<Rightarrow> string \<Rightarrow> gerror + 'w client" where
  "default_client gh cred baseURL = clientWithTimeout gh cred baseURL clientTimeout"

definition blobClient :: "'w github \<Rightarrow> Credential \<Rightarrow> string \<Rightarrow> gerror + 'w client" where
  "blobClient gh cred baseURL = clientWithTimeout gh cred baseURL githubBlobRequestTimeout"

definition owner :: "Connection \<Rightarrow> Repository option \<Rightarrow> string" where
  "owner conn repo =
     (case repo of
        Some r \<Rightarrow> if rsOwner (rxSpec r) \<noteq> [] then rsOwner (rxSpec r) else csOwner (cxSpec conn)
      | None \<Rightarrow> csOwner (cxSpec conn))"

abbreviation repo_owner :: "Connection \<Rightarrow> Repository \<Rightarrow> string" where
  "repo_owner conn repo \<equiv> owner conn (Some repo)"

subsection \<open>Errors\<close>

definition defaultRateLimitRetryAfter :: duration where "defaultRateLimitRetryAfter = Minute"

definition classify :: "gotime \<Rightarrow> response option \<Rightarrow> gerror \<Rightarrow> gerror" where
  "classify now resp err =
     (if as_rate_limit err \<noteq> None then err
      else case as_host_rate err of
        Some reset \<Rightarrow>
          RateLimitError (case reset of None \<Rightarrow> now + defaultRateLimitRetryAfter | Some t \<Rightarrow> t + Second) (Some err)
      | None \<Rightarrow>
        (case as_host_abuse err of
           Some after \<Rightarrow>
             RateLimitError (now + (case after of
                 None \<Rightarrow> defaultRateLimitRetryAfter
               | Some d \<Rightarrow> if d > 0 then d else defaultRateLimitRetryAfter)) (Some err)
         | None \<Rightarrow>
             if status_is 401 resp then Wrapped ''github: credential rejected (401): '' err []
             else if status_is 403 resp
             then Wrapped (''github: forbidden '' @ [CHR 0xE2, CHR 0x80, CHR 0x94] @
               '' token lacks the required scope (403): '') err []
             else err))"

text \<open>\<open>return \<dots>, classify(resp, err)\<close> and the call whose only error path that is.\<close>

definition classified :: "'w client \<Rightarrow> response option \<Rightarrow> gerror \<Rightarrow> ('w, 'b) act" where
  "classified c resp err w = (Inl (classify (clNow c w) resp err), w)"

definition on_reply :: "'w client \<Rightarrow> ('w, 'a) api \<Rightarrow> ('a \<Rightarrow> response option \<Rightarrow> ('w, 'b) act) \<Rightarrow> ('w, 'b) act" where
  "on_reply c m k = try_api m k (classified c)"

definition isNotOrg :: "response option \<Rightarrow> bool" where
  "isNotOrg resp \<longleftrightarrow> status_is 404 resp"

definition parseScopes :: "response option \<Rightarrow> string list" where
  "parseScopes resp =
     (case resp of
        None \<Rightarrow> []
      | Some r \<Rightarrow>
          if TrimSpace (respScopes r) = [] then []
          else filter (\<lambda>s. s \<noteq> []) (map TrimSpace (Split1 (CHR '','') (respScopes r))))"

subsection \<open>Connections\<close>

definition ValidateConnection ::
  "'w github \<Rightarrow> Connection \<Rightarrow> Credential \<Rightarrow> ('w, string \<times> string list) act"
where
  "ValidateConnection gh conn cred =
     bindA (lift (default_client gh cred (csBaseURL (cxSpec conn)))) (\<lambda>c.
     if csType (cxSpec conn) = CredentialTypeGitHubApp then
       on_reply c (Apps_ListRepos (Accounts c)) (\<lambda>repos resp.
         case repos of
           Some (r # rs) \<Rightarrow>
             (case hrOwnerLogin r of
                None \<Rightarrow> failA (Plain ''github: installation must have access to at least one repository'')
              | Some login \<Rightarrow>
                  if \<not> EqualFold login (csOwner (cxSpec conn))
                  then failA (Plain ''github: installation owner differs from Connection owner'')
                  else ret (login, []))
         | _ \<Rightarrow> failA (Plain ''github: installation must have access to at least one repository''))
     else
       on_reply c (Users_Get (Accounts c) []) (\<lambda>user resp.
         if haLogin user = [] then failA (Plain ''github: authenticated but no login returned'')
         else ret (haLogin user, parseScopes resp)))"

subsection \<open>Repositories\<close>

definition createOnlyAnnotation :: string where
  "createOnlyAnnotation = ''code.railgrid.ai/create-only''"

definition create_only :: "Repository \<Rightarrow> bool" where
  "create_only repo \<longleftrightarrow> map_get (omAnnotations (rxMeta repo)) createOnlyAnnotation = ''true''"

definition existing_only :: "Repository \<Rightarrow> bool" where
  "existing_only repo \<longleftrightarrow> map_get (omAnnotations (rxMeta repo)) ''code.railgrid.ai/existing-only'' = ''true''"

definition checkRepositoryIdentity :: "Repository \<Rightarrow> host_repo \<Rightarrow> gerror + unit" where
  "checkRepositoryIdentity repo remote =
     (if rtRepoID (rxStatus repo) = [] \<and> \<not> create_only repo then Inr ()
      else if rtRepoID (rxStatus repo) = [] \<or> hrID remote = 0 \<or> rtRepoID (rxStatus repo) \<noteq> FormatInt (hrID remote)
      then Inl (Wrapped [] IdentityConflict ('': repository '' @ quoted (rsName (rxSpec repo)) @
        '' already exists and its ownership could not be confirmed; create a new repository from project Git settings''))
      else Inr ())"

definition repoResult :: "host_repo \<Rightarrow> RepositoryResult" where
  "repoResult r = \<lparr>rrRepoID = FormatInt (hrID r), rrHTMLURL = hrHTMLURL r,
     rrCloneURL = hrCloneURL r, rrSSHURL = hrSSHURL r\<rparr>"

definition new_repository :: "Repository \<Rightarrow> new_repo" where
  "new_repository repo =
     (let s = rxSpec repo in
      \<lparr>nrName = rsName s, nrPrivate = (rsVisibility s \<noteq> VisibilityPublic),
       nrDescription = rsDescription s, nrAutoInit = rsAutoInit s,
       nrDefaultBranch = (if rsDefaultBranch s \<noteq> [] then Some (rsDefaultBranch s) else None),
       nrVisibility = (if rsVisibility s \<noteq> [] then Some (rsVisibility s) else None)\<rparr>)"

definition create_repository :: "'w client \<Rightarrow> string \<Rightarrow> Repository \<Rightarrow> ('w, RepositoryResult) act" where
  "create_repository c org repo =
     try_api (Repositories_Create (Repositories c) org (new_repository repo))
       (\<lambda>created resp. ret (repoResult created))
       (\<lambda>resp err.
          if isNotOrg resp
          then on_reply c (Repositories_Create (Repositories c) [] (new_repository repo))
                 (\<lambda>created resp. ret (repoResult created))
          else classified c resp err)"

definition EnsureRepository ::
  "'w github \<Rightarrow> Connection \<Rightarrow> Credential \<Rightarrow> Repository \<Rightarrow> ('w, RepositoryResult) act"
where
  "EnsureRepository gh conn cred repo =
     bindA (lift (default_client gh cred (csBaseURL (cxSpec conn)))) (\<lambda>c.
     try_api (Repositories_Get (Repositories c) (repo_owner conn repo) (rsName (rxSpec repo)))
       (\<lambda>existing resp. bindA (lift (checkRepositoryIdentity repo existing)) (\<lambda>u. ret (repoResult existing)))
       (\<lambda>resp err.
          if \<not> status_is 404 resp then classified c resp err
          else if rtRepoID (rxStatus repo) \<noteq> [] then failA IdentityConflict
          else if existing_only repo
          then failA (Plain ''github: registered repository is unavailable; existing-only registration cannot create it'')
          else create_repository c (repo_owner conn repo) repo))"

definition delete_repository :: "'w client \<Rightarrow> Connection \<Rightarrow> Repository \<Rightarrow> ('w, unit) act" where
  "delete_repository c conn repo =
     try_api (Repositories_Delete (Repositories c) (repo_owner conn repo) (rsName (rxSpec repo)))
       (\<lambda>u resp. ret ())
       (\<lambda>resp err. if status_is 404 resp then ret () else classified c resp err)"

definition DeleteRepository ::
  "'w github \<Rightarrow> Connection \<Rightarrow> Credential \<Rightarrow> Repository \<Rightarrow> ('w, unit) act"
where
  "DeleteRepository gh conn cred repo =
     (if existing_only repo then ret ()
      else bindA (lift (default_client gh cred (csBaseURL (cxSpec conn)))) (\<lambda>c.
        if create_only repo then
          if rtRepoID (rxStatus repo) = [] then ret ()
          else try_api (Repositories_Get (Repositories c) (repo_owner conn repo) (rsName (rxSpec repo)))
            (\<lambda>existing resp. bindA (lift (checkRepositoryIdentity repo existing)) (\<lambda>u. delete_repository c conn repo))
            (\<lambda>resp err. if status_is 404 resp then ret () else classified c resp err)
        else delete_repository c conn repo))"

subsection \<open>Deploy keys\<close>

definition sameKeyMaterial :: "string \<Rightarrow> string \<Rightarrow> bool" where
  "sameKeyMaterial a b =
     (let fa = Fields a; fb = Fields b in
      if length fa < 2 \<or> length fb < 2 then False else fa ! 0 = fb ! 0 \<and> fa ! 1 = fb ! 1)"

definition EnsureDeployKey ::
  "'w github \<Rightarrow> Connection \<Rightarrow> Credential \<Rightarrow> Repository \<Rightarrow> DeployKey \<Rightarrow> string \<Rightarrow> ('w, DeployKeyResult) act"
where
  "EnsureDeployKey gh conn cred repo key publicKey =
     bindA (lift (default_client gh cred (csBaseURL (cxSpec conn)))) (\<lambda>c.
     on_reply c (Repositories_ListKeys (Repositories c) (repo_owner conn repo) (rsName (rxSpec repo))) (\<lambda>keys resp.
       case find (\<lambda>k. sameKeyMaterial (hkKey k) publicKey) keys of
         Some k \<Rightarrow> ret \<lparr>dkKeyID = FormatInt (hkID k)\<rparr>
       | None \<Rightarrow>
           (let title = (if dsTitle (dxSpec key) = [] then omName (dxMeta key) else dsTitle (dxSpec key)) in
            on_reply c (Repositories_CreateKey (Repositories c) (repo_owner conn repo) (rsName (rxSpec repo))
                          title publicKey (dsReadOnly (dxSpec key)))
              (\<lambda>created resp. ret \<lparr>dkKeyID = FormatInt (hkID created)\<rparr>))))"

text \<open>The text of a \<open>strconv.NumError\<close> of \<open>ParseInt\<close>.\<close>

definition parse_int_error :: "string \<Rightarrow> string" where
  "parse_int_error s =
     (let ds = (if HasPrefix s ''+'' \<or> HasPrefix s ''-'' then drop 1 s else s) in
      ''strconv.ParseInt: parsing '' @ quoted s @ '': '' @
      (if ds \<noteq> [] \<and> list_all is_digit ds then ''value out of range'' else ''invalid syntax''))"

definition DeleteDeployKey ::
  "'w github \<Rightarrow> Connection \<Rightarrow> Credential \<Rightarrow> Repository \<Rightarrow> string \<Rightarrow> ('w, unit) act"
where
  "DeleteDeployKey gh conn cred repo keyID =
     (if keyID = [] then ret ()
      else case ParseInt keyID 64 of
        None \<Rightarrow> failA (Wrapped (''github: invalid deploy key id '' @ quoted keyID @ '': '')
                  (Plain (parse_int_error keyID)) [])
      | Some i \<Rightarrow>
          bindA (lift (default_client gh cred (csBaseURL (cxSpec conn)))) (\<lambda>c.
          try_api (Repositories_DeleteKey (Repositories c) (repo_owner conn repo) (rsName (rxSpec repo)) i)
            (\<lambda>u resp. ret ())
            (\<lambda>resp err. if status_is 404 resp then ret () else classified c resp err)))"

subsection \<open>Collaborators\<close>

definition EnsureCollaborator ::
  "'w github \<Rightarrow> Connection \<Rightarrow> Credential \<Rightarrow> Repository \<Rightarrow> Collaborator \<Rightarrow> ('w, CollaboratorResult) act"
where
  "EnsureCollaborator gh conn cred repo collab =
     bindA (lift (default_client gh cred (csBaseURL (cxSpec conn)))) (\<lambda>c.
     let perm = (if lpPermission (lxSpec collab) = [] then PermissionPull else lpPermission (lxSpec collab)) in
     on_reply c (Repositories_AddCollaborator (Repositories c) (repo_owner conn repo) (rsName (rxSpec repo))
                   (lpUsername (lxSpec collab)) perm) (\<lambda>invite resp.
       if status_is 204 resp then ret \<lparr>clPending = False, clInvitationID = []\<rparr>
       else case invite of
         Some i \<Rightarrow> if hiID i \<noteq> 0 then ret \<lparr>clPending = True, clInvitationID = FormatInt (hiID i)\<rparr>
                   else ret \<lparr>clPending = False, clInvitationID = []\<rparr>
       | None \<Rightarrow> ret \<lparr>clPending = False, clInvitationID = []\<rparr>))"

text \<open>One pending invitation: deleted when its invitee is the collaborator.\<close>

definition cancel_invitation ::
  "'w client \<Rightarrow> string \<Rightarrow> string \<Rightarrow> string \<Rightarrow> invitation \<Rightarrow> unit \<Rightarrow> ('w, unit) act"
where
  "cancel_invitation c org name user invite u =
     (case hiInvitee invite of
        Some login \<Rightarrow>
          if EqualFold login user
          then try_api (Repositories_DeleteInvitation (Repositories c) org name (hiID invite))
            (\<lambda>u resp. ret ())
            (\<lambda>resp err. failA (Wrapped (''github: cancel invitation for '' @ quoted user @ '': '') err []))
          else ret ()
      | None \<Rightarrow> ret ())"

definition RemoveCollaborator ::
  "'w github \<Rightarrow> Connection \<Rightarrow> Credential \<Rightarrow> Repository \<Rightarrow> Collaborator \<Rightarrow> ('w, unit) act"
where
  "RemoveCollaborator gh conn cred repo collab =
     bindA (lift (default_client gh cred (csBaseURL (cxSpec conn)))) (\<lambda>c.
     let org = repo_owner conn repo; name = rsName (rxSpec repo); user = lpUsername (lxSpec collab) in
     bindA
       (try_api (Repositories_ListInvitations (Repositories c) org name)
          (\<lambda>invites resp. forA (cancel_invitation c org name user) invites ())
          (\<lambda>resp err. if \<not> status_is 404 resp then classified c resp err else ret ()))
       (\<lambda>u. try_api (Repositories_RemoveCollaborator (Repositories c) org name user)
          (\<lambda>u resp. ret ())
          (\<lambda>resp err. if status_is 404 resp then ret () else classified c resp err)))"

subsection \<open>What the operations call\<close>

lemma keeps_classified [keeps, intro]: "keeps P (classified c r e)"
  by (simp add: keeps_def classified_def)

lemma keeps_on_reply [keeps, intro]:
  "keeps P m \<Longrightarrow> (\<And>a r. keeps P (k a r)) \<Longrightarrow> keeps P (on_reply c m k)"
  unfolding on_reply_def by (intro keeps)

lemma on_reply_Inr:
  "on_reply c m k w = (Inr x, w') \<longleftrightarrow> (\<exists>a r w1. m w = (Reply a r, w1) \<and> k a r w1 = (Inr x, w'))"
  by (auto simp: on_reply_def try_api_def classified_def split: prod.splits reply.splits)

lemma try_classified_Inr:
  "try_api m k (\<lambda>r e. classified c r (g r e)) w = (Inr x, w') \<longleftrightarrow>
     (\<exists>a r w1. m w = (Reply a r, w1) \<and> k a r w1 = (Inr x, w'))"
  by (auto simp: try_api_def classified_def split: prod.splits reply.splits)

lemma try_api_Inr_cases:
  assumes "try_api m k f w = (Inr x, w')"
  obtains a r w1 where "m w = (Reply a r, w1)" "k a r w1 = (Inr x, w')"
    | r e w1 where "m w = (Failure r e, w1)" "f r e w1 = (Inr x, w')"
  using assms by (auto simp: try_api_def split: prod.splits reply.splits)

lemma lift_bind_Inr [simp]: "bindA (lift (Inr x)) k = k x"
  by (rule ext) (simp add: bindA_def handle_def lift_def)

lemma lift_bind_Inl [simp]: "bindA (lift (Inl e)) k = failA e"
  by (rule ext) (simp add: bindA_def handle_def lift_def failA_def)

text \<open>What a client for the connection is: the library's, for its credential and URL.\<close>

lemma default_client_Inr:
  "default_client gh cred url = Inr c \<Longrightarrow> c = ghClient gh cred url clientTimeout"
  by (auto simp: default_client_def clientWithTimeout_def split: if_splits option.splits)

lemma checkRepositoryIdentity_create_only:
  "checkRepositoryIdentity repo remote = Inr () \<Longrightarrow> create_only repo \<Longrightarrow>
     rtRepoID (rxStatus repo) = FormatInt (hrID remote) \<and> hrID remote \<noteq> 0"
  by (auto simp: checkRepositoryIdentity_def split: if_splits)

lemma checkRepositoryIdentity_Inr:
  "checkRepositoryIdentity repo remote = Inr () \<Longrightarrow>
     rtRepoID (rxStatus repo) \<noteq> [] \<Longrightarrow> rtRepoID (rxStatus repo) = FormatInt (hrID remote) \<and> hrID remote \<noteq> 0"
  by (auto simp: checkRepositoryIdentity_def split: if_splits)

text \<open>The client of a connection, when its credential and URL are accepted.\<close>

abbreviation conn_client :: "'w github \<Rightarrow> Connection \<Rightarrow> Credential \<Rightarrow> 'w client" where
  "conn_client gh conn cred \<equiv> ghClient gh cred (csBaseURL (cxSpec conn)) clientTimeout"

lemma keeps_with_client:
  "keeps P (k (conn_client gh conn cred)) \<Longrightarrow>
     keeps P (bindA (lift (default_client gh cred (csBaseURL (cxSpec conn)))) k)"
  by (rule keeps_lift_bind) (auto dest!: default_client_Inr)

lemma with_client_Inr:
  assumes "bindA (lift (default_client gh cred (csBaseURL (cxSpec conn)))) k w = (Inr x, w')"
  shows "k (conn_client gh conn cred) w = (Inr x, w')"
  using assms by (auto simp: bindA_Inr_iff dest!: default_client_Inr)

text \<open>
  A repository registered as existing-only is never created and never deleted, whatever the
  host answers: \<open>DeleteRepository\<close> succeeds without calling the host, and \<open>EnsureRepository\<close>
  preserves everything that the host's lookup of the repository preserves.
\<close>

theorem existing_only_untouched:
  assumes "existing_only repo"
    and "keeps P (Repositories_Get (Repositories (conn_client gh conn cred)) (repo_owner conn repo) (rsName (rxSpec repo)))"
  shows "keeps P (EnsureRepository gh conn cred repo) \<and> DeleteRepository gh conn cred repo w = (Inr (), w)"
proof -
  have "keeps P (EnsureRepository gh conn cred repo)"
    unfolding EnsureRepository_def using assms(1) by (intro keeps_with_client keeps assms(2)) simp
  then show ?thesis using assms(1) by (simp add: DeleteRepository_def ret_def)
qed

text \<open>
  (C25) Which repository a successful \<open>EnsureRepository\<close> stands for. Either it is the one the host has
  under the name: then it is the recorded one if an identity is recorded, a create-only repository
  must have a recorded identity, and only a registration with neither takes the repository over by
  its name (the explicit import of an existing repository). Or it was created after the host said
  that there is none, and then no identity was recorded and the registration is not existing-only.
\<close>

theorem EnsureRepository_identity:
  assumes "EnsureRepository gh conn cred repo w = (Inr res, w')"
  shows "(\<exists>existing r. Repositories_Get (Repositories (conn_client gh conn cred)) (repo_owner conn repo)
            (rsName (rxSpec repo)) w = (Reply existing r, w') \<and> res = repoResult existing \<and>
            (create_only repo \<or> rtRepoID (rxStatus repo) \<noteq> [] \<longrightarrow>
               rtRepoID (rxStatus repo) = rrRepoID res \<and> hrID existing \<noteq> 0)) \<or>
         (\<exists>r e w1. Repositories_Get (Repositories (conn_client gh conn cred)) (repo_owner conn repo)
            (rsName (rxSpec repo)) w = (Failure r e, w1) \<and> status_is 404 r \<and>
            rtRepoID (rxStatus repo) = [] \<and> \<not> existing_only repo \<and>
            create_repository (conn_client gh conn cred) (repo_owner conn repo) repo w1 = (Inr res, w'))"
proof -
  define c where "c = conn_client gh conn cred"
  obtain a w1 where g: "Repositories_Get (Repositories c) (repo_owner conn repo) (rsName (rxSpec repo)) w = (a, w1)"
    by fastforce
  note run = assms[unfolded EnsureRepository_def, THEN with_client_Inr, folded c_def]
  show ?thesis
  proof (cases a)
    case (Reply existing r)
    with run g have ok: "checkRepositoryIdentity repo existing = Inr ()" and res: "res = repoResult existing" "w' = w1"
      by (simp_all add: bindA_Inr_iff)
    have "create_only repo \<or> rtRepoID (rxStatus repo) \<noteq> [] \<longrightarrow>
        rtRepoID (rxStatus repo) = rrRepoID res \<and> hrID existing \<noteq> 0"
      using checkRepositoryIdentity_Inr[OF ok] checkRepositoryIdentity_create_only[OF ok]
      unfolding res(1) repoResult_def RepositoryResult.select_convs by blast
    with Reply g res show ?thesis unfolding c_def by blast
  next
    case (Failure r e)
    with run g have "(if \<not> status_is 404 r then classified c r e
          else if rtRepoID (rxStatus repo) \<noteq> [] then failA IdentityConflict
          else if existing_only repo
          then failA (Plain ''github: registered repository is unavailable; existing-only registration cannot create it'')
          else create_repository c (repo_owner conn repo) repo) w1 = (Inr res, w')"
      by simp
    then have "status_is 404 r \<and> rtRepoID (rxStatus repo) = [] \<and> \<not> existing_only repo \<and>
        create_repository c (repo_owner conn repo) repo w1 = (Inr res, w')"
      by (simp add: classified_def split: if_split_asm)
    with Failure g show ?thesis unfolding c_def by blast
  qed
qed

text \<open>
  (C24) A create-only repository is deleted only if it is the one that was created: whenever
  \<open>DeleteRepository\<close> changes anything that the lookup preserves, the host had answered the
  lookup with the recorded, non-zero identity, and only the deletion of that name followed.
\<close>

theorem DeleteRepository_confirms_identity:
  assumes "create_only repo" and "DeleteRepository gh conn cred repo w = (r, w')"
    and "keeps P (Repositories_Get (Repositories (conn_client gh conn cred)) (repo_owner conn repo) (rsName (rxSpec repo)))"
    and "P w" and "\<not> P w'"
  shows "\<exists>existing resp w1. Repositories_Get (Repositories (conn_client gh conn cred)) (repo_owner conn repo)
      (rsName (rxSpec repo)) w = (Reply existing resp, w1) \<and>
    rtRepoID (rxStatus repo) = FormatInt (hrID existing) \<and> hrID existing \<noteq> 0 \<and>
    delete_repository (conn_client gh conn cred) conn repo w1 = (r, w')"
proof -
  define c where "c = conn_client gh conn cred"
  have changed: "w' \<noteq> w" using assms(4,5) by blast
  then have "\<not> existing_only repo" using assms(2) by (auto simp: DeleteRepository_def)
  moreover obtain c' where "default_client gh cred (csBaseURL (cxSpec conn)) = Inr c'"
    using assms(2) changed calculation
    by (cases "default_client gh cred (csBaseURL (cxSpec conn))") (auto simp: DeleteRepository_def)
  moreover from this have "c' = c" by (simp add: c_def default_client_Inr)
  ultimately have run: "try_api (Repositories_Get (Repositories c) (repo_owner conn repo) (rsName (rxSpec repo)))
      (\<lambda>existing resp. bindA (lift (checkRepositoryIdentity repo existing)) (\<lambda>u. delete_repository c conn repo))
      (\<lambda>resp err. if status_is 404 resp then ret () else classified c resp err) w = (r, w')"
    and recorded: "rtRepoID (rxStatus repo) \<noteq> []"
    using assms(1,2) changed by (auto simp: DeleteRepository_def split: if_splits)
  obtain a w1 where g: "Repositories_Get (Repositories c) (repo_owner conn repo) (rsName (rxSpec repo)) w = (a, w1)"
    by fastforce
  have "P w1" using keepsD[OF assms(3,4)] g by (simp add: c_def)
  then have "w' \<noteq> w1" using assms(5) by blast
  with run g obtain existing resp where a: "a = Reply existing resp"
    by (cases a) (auto simp: classified_def split: if_splits)
  with run g \<open>w' \<noteq> w1\<close> have "checkRepositoryIdentity repo existing = Inr ()"
    by (cases "checkRepositoryIdentity repo existing") auto
  with run g a recorded show ?thesis
    using checkRepositoryIdentity_Inr[of repo existing] by (auto simp: c_def)
qed

text \<open>
  \<open>classify\<close> reports a rate limit exactly when the error is one: the error it returns
  carries a retry time if and only if the host's error was a rate limit of any of the three
  kinds, the time is in the future when the host named none or a delay, and nothing that
  \<open>errors.Is\<close> finds in the error is lost. In particular no rate limit reads as a rejected
  credential.
\<close>

theorem classify_rate_limits:
  "(as_rate_limit (classify now resp err) \<noteq> None \<longleftrightarrow>
      as_rate_limit err \<noteq> None \<or> as_host_rate err \<noteq> None \<or> as_host_abuse err \<noteq> None) \<and>
   (as_rate_limit err = None \<and> (as_host_rate err = Some None \<or> as_host_rate err = None \<and> as_host_abuse err \<noteq> None) \<longrightarrow>
      (\<exists>t > now. as_rate_limit (classify now resp err) = Some t)) \<and>
   (\<forall>t. err_Is err t \<longrightarrow> err_Is (classify now resp err) t)"
proof -
  have "(as_rate_limit err \<noteq> None \<or> as_host_rate err \<noteq> None \<or> as_host_abuse err \<noteq> None) =
      (as_rate_limit (classify now resp err) \<noteq> None)"
    by (auto simp: classify_def split: option.splits)
  moreover have "err_Is err t \<Longrightarrow> err_Is (classify now resp err) t" for t
    by (auto simp: classify_def split: option.splits)
  ultimately show ?thesis
    by (auto simp: classify_def defaultRateLimitRetryAfter_def time_units split: option.splits)
qed

text \<open>
  A deploy key is registered once: when the host already has a key of the same material,
  \<open>EnsureDeployKey\<close> returns the id of such a key after the listing alone, and
  \<open>DeleteDeployKey\<close> given that id asks the host to delete exactly that key.
\<close>

theorem EnsureDeployKey_reuses:
  assumes "Repositories_ListKeys (Repositories (conn_client gh conn cred)) (repo_owner conn repo) (rsName (rxSpec repo)) w = (Reply keys resp, w1)"
    and "default_client gh cred (csBaseURL (cxSpec conn)) = Inr c"
    and "\<exists>k \<in> set keys. sameKeyMaterial (hkKey k) publicKey"
    and "\<forall>k \<in> set keys. - (2 ^ 63) \<le> hkID k \<and> hkID k < 2 ^ 63"
  shows "\<exists>k \<in> set keys. sameKeyMaterial (hkKey k) publicKey \<and>
    EnsureDeployKey gh conn cred repo key publicKey w = (Inr \<lparr>dkKeyID = FormatInt (hkID k)\<rparr>, w1) \<and>
    (\<forall>v. DeleteDeployKey gh conn cred repo (FormatInt (hkID k)) v =
       try_api (Repositories_DeleteKey (Repositories c) (repo_owner conn repo) (rsName (rxSpec repo)) (hkID k))
         (\<lambda>u r. ret ()) (\<lambda>r e. if status_is 404 r then ret () else classified c r e) v)"
proof -
  have c: "c = conn_client gh conn cred" using assms(2) by (rule default_client_Inr)
  obtain k where k: "find (\<lambda>k. sameKeyMaterial (hkKey k) publicKey) keys = Some k"
    using assms(3) by (cases "find (\<lambda>k. sameKeyMaterial (hkKey k) publicKey) keys") (auto simp: find_None_iff)
  then have mem: "k \<in> set keys" "sameKeyMaterial (hkKey k) publicKey"
    by (auto simp: find_Some_iff)
  moreover have "EnsureDeployKey gh conn cred repo key publicKey w = (Inr \<lparr>dkKeyID = FormatInt (hkID k)\<rparr>, w1)"
    using assms(1,2) k by (simp add: EnsureDeployKey_def on_reply_def c)
  moreover have "ParseInt (FormatInt (hkID k)) 64 = Some (hkID k)"
    using assms(4) mem(1) by (intro ParseInt_FormatInt) auto
  moreover have "FormatInt (hkID k) \<noteq> []" by (simp add: FormatInt_def)
  ultimately show ?thesis using assms(2) by (intro bexI[of _ k]) (auto simp: DeleteDeployKey_def)
qed

subsection \<open>Instances\<close>

text \<open>A host with at most one repository, and the objects that name it.\<close>

definition one_repo_client :: "(host_repo option) client" where
  "one_repo_client = (down_client (\<lambda>_. 0))\<lparr>Repositories := down_repositories\<lparr>
     Repositories_Get := (\<lambda>_ _ w. (case w of
        Some r \<Rightarrow> Reply r (answered 200) | None \<Rightarrow> Failure (answered 404) (HostResponse 404 ''Not Found''), w)),
     Repositories_Create := (\<lambda>_ n w. (let r = \<lparr>hrID = 7, hrFullName = ''acme/'' @ nrName n, hrHTMLURL = [],
        hrCloneURL = [], hrSSHURL = [], hrDefaultBranch = ''main'', hrOwnerLogin = Some ''acme''\<rparr>
        in (Reply r (answered 201), Some r))),
     Repositories_Delete := (\<lambda>_ _ w. (Reply () (answered 204), None)),
     Repositories_ListKeys := (\<lambda>_ _ w. (Reply [\<lparr>hkID = 3, hkTitle = [], hkKey = ''ssh-rsa AAAA old'', hkReadOnly = True\<rparr>]
        (answered 200), w))\<rparr>\<rparr>"

definition acme_repo :: host_repo where
  "acme_repo = \<lparr>hrID = 7, hrFullName = ''acme/app'', hrHTMLURL = [], hrCloneURL = [], hrSSHURL = [],
     hrDefaultBranch = ''main'', hrOwnerLogin = Some ''acme''\<rparr>"

definition example_repository :: "string \<Rightarrow> string \<Rightarrow> Repository" where
  "example_repository annotation repoID = zero_repository
     \<lparr>rxMeta := zero_meta\<lparr>omAnnotations := [(annotation, ''true'')]\<rparr>,
      rxSpec := (rxSpec zero_repository)\<lparr>rsName := ''app'', rsOwner := ''acme''\<rparr>,
      rxStatus := (rxStatus zero_repository)\<lparr>rtRepoID := repoID\<rparr>\<rparr>"

definition example_credential :: Credential where
  "example_credential = \<lparr>crToken = ''token''\<rparr>"

lemmas repository_examples = one_repo_client_def acme_repo_def example_repository_def
  example_credential_def down_defs zero_defs answered_def

theorem existing_only_untouched_witness:
  "keeps (\<lambda>w. w = None) (EnsureRepository (github_of one_repo_client) zero_connection example_credential
      (example_repository ''code.railgrid.ai/existing-only'' [])) \<and>
   DeleteRepository (github_of one_repo_client) zero_connection example_credential
      (example_repository ''code.railgrid.ai/existing-only'' []) None = (Inr (), None)"
  by (rule existing_only_untouched)
    (simp_all add: existing_only_def map_get_def keeps_def repository_examples)

theorem EnsureRepository_identity_witness:
  "EnsureRepository (github_of one_repo_client) zero_connection example_credential
     (example_repository createOnlyAnnotation ''7'') (Some acme_repo) = (Inr (repoResult acme_repo), Some acme_repo) \<and>
   rrRepoID (repoResult acme_repo) = ''7''"
proof -
  have "EnsureRepository (github_of one_repo_client) zero_connection example_credential
     (example_repository createOnlyAnnotation ''7'') (Some acme_repo) = (Inr (repoResult acme_repo), Some acme_repo)"
    by code_simp
  moreover have "create_only (example_repository createOnlyAnnotation ''7'')" by code_simp
  ultimately show ?thesis
    using EnsureRepository_identity[where w = "Some acme_repo" and gh = "github_of one_repo_client" and
      conn = zero_connection and cred = example_credential and repo = "example_repository createOnlyAnnotation ''7''"]
    by (fastforce simp: repository_examples)
qed

theorem DeleteRepository_confirms_identity_witness:
  "\<exists>existing. acme_repo = existing \<and> ''7'' = FormatInt (hrID existing)"
proof -
  have "create_only (example_repository createOnlyAnnotation ''7'')" by code_simp
  moreover have "DeleteRepository (github_of one_repo_client) zero_connection example_credential
      (example_repository createOnlyAnnotation ''7'') (Some acme_repo) = (Inr (), None)" by code_simp
  ultimately show ?thesis
    using DeleteRepository_confirms_identity[where P = "\<lambda>w. w \<noteq> None" and w = "Some acme_repo" and w' = None
      and gh = "github_of one_repo_client" and conn = zero_connection and cred = example_credential]
    by (fastforce simp: keeps_def repository_examples)
qed

theorem classify_rate_limits_witness:
  "\<exists>t > 5. as_rate_limit (classify 5 (answered 403) (HostRateLimit None ''API rate limit exceeded'')) = Some t"
  using classify_rate_limits[of 5 "answered 403" "HostRateLimit None ''API rate limit exceeded''"] by simp

theorem EnsureDeployKey_reuses_witness:
  "EnsureDeployKey (github_of one_repo_client) zero_connection example_credential
     (example_repository [] []) zero_deploy_key ''ssh-rsa AAAA new'' None = (Inr \<lparr>dkKeyID = ''3''\<rparr>, None)"
proof -
  have key: "sameKeyMaterial ''ssh-rsa AAAA old'' ''ssh-rsa AAAA new''" "FormatInt 3 = ''3''" by code_simp+
  show ?thesis
    using EnsureDeployKey_reuses[where gh = "github_of one_repo_client" and conn = zero_connection
      and cred = example_credential and repo = "example_repository [] []" and w = None
      and c = one_repo_client and publicKey = "''ssh-rsa AAAA new''" and key = zero_deploy_key] key
    by (simp add: repository_examples default_client_def clientWithTimeout_def)
qed

end
