(* ===== verification/Go_Path.thy ===== *)
theory Go_Path
  imports Go_Strings
begin

text \<open>
  \<open>path.Clean\<close> (and \<open>filepath.Clean\<close> on Unix, the same function): the lexical processing
  of a slash-separated path, with \<open>path.Join\<close>'s two-argument use. Go's byte loop over a
  lazy buffer is written over the list of path elements, the elements already emitted
  kept as a stack.
\<close>

abbreviation (input) slash :: char where "slash \<equiv> CHR ''/''"

fun clean_elems :: "bool \<Rightarrow> string list \<Rightarrow> string list \<Rightarrow> string list" where
  "clean_elems rooted [] out = rev out"
| "clean_elems rooted (x # xs) out =
     (if x = [] \<or> x = ''.'' then clean_elems rooted xs out
      else if x = ''..'' then
        (case out of
           [] \<Rightarrow> clean_elems rooted xs (if rooted then [] else [''..''])
         | t # ts \<Rightarrow> if t = ''..'' then clean_elems rooted xs (''..'' # out)
                     else clean_elems rooted xs ts)
      else clean_elems rooted xs (x # out))"

definition path_Clean :: "string \<Rightarrow> string" where
  "path_Clean p =
     (if p = [] then ''.''
      else let rooted = (hd p = slash);
               out = Join ''/'' (clean_elems rooted (Split1 slash p) [])
           in if rooted then slash # out
              else if out = [] then ''.'' else out)"

text \<open>A path element that \<open>path.Clean\<close> keeps as it is.\<close>

definition plain_elem :: "string \<Rightarrow> bool" where
  "plain_elem x \<longleftrightarrow> x \<noteq> [] \<and> x \<noteq> ''.'' \<and> x \<noteq> ''..'' \<and> slash \<notin> set x"

text \<open>
  A relative path that stays below its root: every element is plain. This is what a
  cleaned repository path has to be.
\<close>

definition inside_root :: "string \<Rightarrow> bool" where
  "inside_root p \<longleftrightarrow> list_all plain_elem (Split1 slash p)"

text \<open>\<open>url.PathEscape\<close>.\<close>

definition path_unreserved :: "char \<Rightarrow> bool" where
  "path_unreserved c =
     (let n = of_char c :: nat in
      list_ex (\<lambda>(lo, hi). lo \<le> n \<and> n \<le> hi) [(48, 57), (65, 90), (97, 122)] \<or> c \<in> set ''-_.~$&+=:@'')"

definition PathEscape :: "string \<Rightarrow> string" where
  "PathEscape s = concat (map (\<lambda>c. if path_unreserved c then [c]
     else CHR ''%'' # [''0123456789ABCDEF'' ! (of_char c div 16), ''0123456789ABCDEF'' ! (of_char c mod 16)]) s)"

text \<open>What \<open>url.Parse\<close> gives, as far as it is inspected; \<open>urlUser\<close> says whether there is user information.\<close>

record url =
  urlScheme :: string
  urlHost :: string
  urlPath :: string
  urlUser :: bool
  urlRawQuery :: string
  urlFragment :: string

text \<open>\<open>escape(h, encodeHost)\<close>, as \<open>URL.String\<close> writes the host: other bytes than these become \<open>%XX\<close>.\<close>

definition host_char :: "char \<Rightarrow> bool" where
  "host_char c =
     (let n = of_char c :: nat in
      list_ex (\<lambda>(lo, hi). lo \<le> n \<and> n \<le> hi) [(48, 57), (65, 90), (97, 122)] \<or>
      c \<in> set ''!$&()*+,;=:[]<>-_.~'' \<or> n = 39 \<or> n = 34)"

definition upper_hex :: "nat \<Rightarrow> char" where
  "upper_hex n = ''0123456789ABCDEF'' ! (n mod 16)"

definition escape_host :: "string \<Rightarrow> string" where
  "escape_host h = concat (map (\<lambda>c. if host_char c then [c] else [CHR ''%'', upper_hex (of_char c div 16), upper_hex (of_char c)]) h)"

lemma upper_hex_char [simp]: "host_char (upper_hex n)"
proof -
  have "\<forall>c \<in> set ''0123456789ABCDEF''. host_char c" by code_simp
  moreover have "n mod 16 < length ''0123456789ABCDEF''" by simp
  then have "upper_hex n \<in> set ''0123456789ABCDEF''" unfolding upper_hex_def by (rule nth_mem)
  ultimately show ?thesis by blast
qed

text \<open>What is written is an authority: nothing in it ends the host or starts user information.\<close>

lemma escape_host_chars: "c \<in> set (escape_host h) \<Longrightarrow> host_char c \<or> c = CHR ''%''"
  by (induction h) (auto simp: escape_host_def split: if_splits)

lemma escape_host_authority: "set (escape_host h) \<inter> set ''/?#@'' = {}"
proof -
  have none: "\<forall>c \<in> set ''/?#@''. \<not> (host_char c \<or> c = CHR ''%'')" by code_simp
  show ?thesis
  proof (rule equals0I, elim IntE)
    fix c assume c: "c \<in> set (escape_host h)" "c \<in> set ''/?#@''"
    show False using bspec[OF none c(2)] escape_host_chars[OF c(1)] by (rule notE)
  qed
qed

lemma escape_host_Nil [simp]: "escape_host h = [] \<longleftrightarrow> h = []"
  by (cases h) (simp_all add: escape_host_def)

lemma escape_host_plain: "\<forall>c \<in> set h. host_char c \<Longrightarrow> escape_host h = h"
  by (induction h) (simp_all add: escape_host_def)

subsection \<open>The shape of a cleaned path\<close>

definition stack_ok :: "bool \<Rightarrow> string list \<Rightarrow> bool" where
  "stack_ok rooted out \<longleftrightarrow>
     (\<exists>ns k. out = ns @ replicate k ''..'' \<and> (\<forall>x \<in> set ns. plain_elem x) \<and> (rooted \<longrightarrow> k = 0))"

lemma stack_ok_Nil [simp]: "stack_ok rooted []"
  by (auto simp: stack_ok_def)

lemma stack_ok_push: "stack_ok rooted out \<Longrightarrow> plain_elem x \<Longrightarrow> stack_ok rooted (x # out)"
  unfolding stack_ok_def by (metis append_Cons set_ConsD)

lemma stack_ok_pop: "stack_ok rooted (t # ts) \<Longrightarrow> stack_ok rooted ts"
proof -
  assume "stack_ok rooted (t # ts)"
  then obtain ns k where st: "t # ts = ns @ replicate k ''..''" "\<forall>x \<in> set ns. plain_elem x"
    "rooted \<longrightarrow> k = 0" by (auto simp: stack_ok_def)
  show ?thesis
  proof (cases ns)
    case Nil
    with st have "ts = [] @ replicate (k - 1) ''..''" by (cases k) auto
    with st(3) show ?thesis unfolding stack_ok_def
      by (metis diff_0_eq_0 empty_iff list.set(1))
  next
    case (Cons n ns')
    with st show ?thesis unfolding stack_ok_def by auto
  qed
qed

lemma stack_ok_dots:
  assumes "stack_ok rooted (''..'' # ts)"
  shows "stack_ok rooted (''..'' # ''..'' # ts)"
proof -
  from assms obtain ns k where st: "''..'' # ts = ns @ replicate k ''..''"
    "\<forall>x \<in> set ns. plain_elem x" "rooted \<longrightarrow> k = 0" by (auto simp: stack_ok_def)
  have ns: "ns = []"
  proof (cases ns)
    case (Cons n ns')
    with st(1) have "n = ''..''" by simp
    with st(2) Cons show ?thesis by (simp add: plain_elem_def)
  qed
  with st(1) have "k \<noteq> 0" by (cases k) auto
  with st(3) have "\<not> rooted" by auto
  moreover from st(1) ns have "''..'' # ''..'' # ts = [] @ replicate (Suc k) ''..''" by simp
  ultimately show ?thesis unfolding stack_ok_def by (metis empty_iff list.set(1))
qed

lemma clean_elems_ok:
  assumes "stack_ok rooted out" and "\<forall>x \<in> set xs. slash \<notin> set x"
  shows "stack_ok rooted (rev (clean_elems rooted xs out))"
  using assms
proof (induction rooted xs out rule: clean_elems.induct)
  case (2 rooted x xs out)
  show ?case
  proof (cases "x = [] \<or> x = ''.'' \<or> x = ''..''")
    case True
    then consider "x = [] \<or> x = ''.''" | "x = ''..''" "out = []"
      | t ts where "x = ''..''" "out = t # ts" by (cases out) auto
    then show ?thesis
    proof cases
      case 1
      with 2 show ?thesis by auto
    next
      case 2
      have "stack_ok False [''..'']" unfolding stack_ok_def
        by (rule exI[of _ "[]"], rule exI[of _ 1]) simp
      with 2 "2.prems" "2.IH"(2)[OF _ 2(1) 2(2)] show ?thesis by auto
    next
      case (3 t ts)
      with "2.prems" "2.IH"(3,4) stack_ok_pop stack_ok_dots show ?thesis by auto
    qed
  next
    case False
    then have "plain_elem x" using "2.prems"(2) by (simp add: plain_elem_def)
    with 2 False stack_ok_push show ?thesis by auto
  qed
qed simp

lemma clean_elems_plain:
  assumes "stack_ok rooted out" and "\<forall>x \<in> set xs. slash \<notin> set x"
    and "clean_elems rooted xs out = [] \<or> hd (clean_elems rooted xs out) \<noteq> ''..''"
  shows "\<forall>x \<in> set (clean_elems rooted xs out). plain_elem x"
proof -
  from clean_elems_ok[OF assms(1,2)] obtain ns k where
    st: "rev (clean_elems rooted xs out) = ns @ replicate k ''..''" "\<forall>x \<in> set ns. plain_elem x"
    by (auto simp: stack_ok_def)
  have "clean_elems rooted xs out = replicate k ''..'' @ rev ns"
    using arg_cong[OF st(1), of rev] by simp
  with st(2) assms(3) show ?thesis by (cases k) auto
qed

lemma clean_elems_fixed:
  "\<forall>x \<in> set xs. plain_elem x \<Longrightarrow> clean_elems rooted xs out = rev out @ xs"
  by (induction xs arbitrary: out) (auto simp: plain_elem_def)

subsection \<open>Cleaning never lengthens\<close>

definition elems_len :: "string list \<Rightarrow> nat" where
  "elems_len xs = sum_list (map (\<lambda>x. length x + 1) xs)"

lemma elems_len_simps [simp]:
  "elems_len [] = 0" "elems_len (x # xs) = length x + 1 + elems_len xs"
  "elems_len (rev xs) = elems_len xs"
  by (simp_all add: elems_len_def rev_map[symmetric])

lemma clean_elems_len: "elems_len (clean_elems rooted xs out) \<le> elems_len xs + elems_len out"
  by (induction rooted xs out rule: clean_elems.induct) (auto split: list.splits)

lemma length_Join_elems: "xs \<noteq> [] \<Longrightarrow> length (Join [c] xs) + 1 = elems_len xs"
  by (induction "[c]" xs rule: Join.induct) auto

lemma elems_len_Split1: "elems_len (Split1 c p) = length p + 1"
  by (metis Join_Split1 Split1_ne length_Join_elems)

subsection \<open>What \<open>path.Clean\<close> returns on relative paths\<close>

lemma path_Clean_rel:
  assumes "p \<noteq> []" and "hd p \<noteq> slash"
    and "path_Clean p \<noteq> ''.''"
  shows "clean_elems False (Split1 slash p) [] \<noteq> []"
    and "path_Clean p = Join ''/'' (clean_elems False (Split1 slash p) [])"
  using assms by (auto simp: path_Clean_def Let_def split: if_splits)

lemma path_Clean_inside:
  assumes "p \<noteq> []" "hd p \<noteq> slash" "path_Clean p \<noteq> ''.''"
    and "path_Clean p \<noteq> ''..''" "\<not> HasPrefix (path_Clean p) ''../''"
  shows "inside_root (path_Clean p)"
proof -
  let ?es = "clean_elems False (Split1 slash p) []"
  note c = path_Clean_rel[OF assms(1-3)]
  have noslash: "\<forall>x \<in> set (Split1 slash p). slash \<notin> set x" by (auto dest: Split1_no_sep)
  have "hd ?es \<noteq> ''..''"
  proof
    assume hd: "hd ?es = ''..''"
    show False
    proof (cases "tl ?es")
      case Nil
      with hd c(1) have "?es = [''..'']" by (metis list.collapse)
      with c(2) assms(4) show False by simp
    next
      case (Cons y ys)
      with hd c(1) have "?es = ''..'' # y # ys" by (metis list.collapse)
      with c(2) assms(5) show False by (simp add: HasPrefix_def)
    qed
  qed
  then have pl: "\<forall>x \<in> set ?es. plain_elem x"
    using clean_elems_plain[OF stack_ok_Nil noslash] by blast
  have "Split1 slash (path_Clean p) = ?es"
    unfolding c(2) using c(1) pl by (intro Split1_Join) (auto simp: plain_elem_def)
  with pl show ?thesis by (simp add: inside_root_def list_all_iff)
qed

lemma path_Clean_length:
  assumes "p \<noteq> []" "hd p \<noteq> slash"
  shows "length (path_Clean p) \<le> length p"
proof (cases "path_Clean p = ''.''")
  case True
  with assms show ?thesis by (cases p) auto
next
  case False
  note c = path_Clean_rel[OF assms False]
  have "length (path_Clean p) + 1 = elems_len (clean_elems False (Split1 slash p) [])"
    unfolding c(2) by (rule length_Join_elems[OF c(1)])
  also have "\<dots> \<le> elems_len (Split1 slash p)"
    using clean_elems_len[of False "Split1 slash p" "[]"] by simp
  finally show ?thesis by (simp add: elems_len_Split1)
qed

lemma inside_root_fixed:
  assumes "inside_root p"
  shows "p \<noteq> []" "hd p \<noteq> slash" "path_Clean p = p" "p \<noteq> ''.''" "p \<noteq> ''..''" "\<not> HasPrefix p ''../''"
proof -
  have pl: "\<forall>x \<in> set (Split1 slash p). plain_elem x"
    using assms by (simp add: inside_root_def list_all_iff)
  have notin: "x \<notin> set (Split1 slash p)" if "\<not> plain_elem x" for x
    using pl that by blast
  show ne: "p \<noteq> []" using notin[of "[]"] by (auto simp: plain_elem_def)
  show "p \<noteq> ''.''" using notin[of "''.''"] by (auto simp: plain_elem_def)
  show "p \<noteq> ''..''" using notin[of "''..''"] by (auto simp: plain_elem_def)
  show hd: "hd p \<noteq> slash"
    using notin[of "[]"] ne by (cases p) (auto simp: plain_elem_def)
  show "\<not> HasPrefix p ''../''"
  proof
    assume "HasPrefix p ''../''"
    then obtain t where "p = ''..'' @ slash # t" by (auto simp: HasPrefix_iff)
    then have "''..'' \<in> set (Split1 slash p)" by simp
    with notin[of "''..''"] show False by (simp add: plain_elem_def)
  qed
  have "clean_elems False (Split1 slash p) [] = Split1 slash p"
    using clean_elems_fixed[OF pl] by simp
  with ne hd show "path_Clean p = p"
    by (simp add: path_Clean_def Let_def)
qed

text \<open>A plain last element stays last.\<close>

lemma clean_elems_snoc: "plain_elem x \<Longrightarrow> clean_elems rooted (xs @ [x]) out = clean_elems rooted xs out @ [x]"
  by (induction rooted xs out rule: clean_elems.induct) (auto simp: plain_elem_def split: list.splits)

lemma Join_snoc: "Join c (xs @ [x]) = (if xs = [] then x else Join c xs @ c @ x)"
  by (induction c xs rule: Join.induct) auto

lemma path_Clean_snoc:
  assumes "plain_elem x"
  shows "\<exists>parent. path_Clean (a @ ''/'' @ x) = parent @ x \<and> (parent = [] \<or> last parent = slash)"
proof -
  have x: "slash \<notin> set x" "x \<noteq> []" using assms by (simp_all add: plain_elem_def)
  have "Split1 slash (a @ ''/'' @ x) = Split1 slash a @ [x]" using Split1_append[of slash a x] Split1_no_occ[OF x(1)] by simp
  then have "clean_elems rooted (Split1 slash (a @ ''/'' @ x)) [] = clean_elems rooted (Split1 slash a) [] @ [x]" for rooted
    by (simp only: clean_elems_snoc[OF assms])
  then show ?thesis using x(2)
    by (cases "hd (a @ ''/'' @ x) = slash") (auto simp: path_Clean_def Let_def Join_snoc simp del: Split1.simps)
qed

end
