(* ===== verification/Github_Commit.thy ===== *)
theory Github_Commit
  imports Github_Repository Go_Path Go_Encoding
begin

text \<open>
  \<open>backend/github/backend.go\<close>, second part: \<open>CommitFiles\<close>. One commit through the git data API:
  tree entries from the requested files, blobs for binary content, deletions filtered against
  the base tree, idempotency by a trailer in the commit message, and the recovery from a lost
  race for the branch. A tree entry that a pending blob points at is named by its index.
\<close>

subsection \<open>Idempotency trailer\<close>

definition repositoryCommitIdempotencyTrailer :: string where
  "repositoryCommitIdempotencyTrailer = ''Railgrid-RepositoryCommit:''"

abbreviation (input) newline :: char where "newline \<equiv> CHR 0x0A"

definition commitMessageWithIdempotencyKey :: "string \<Rightarrow> string \<Rightarrow> string" where
  "commitMessageWithIdempotencyKey message key =
     (let key = TrimSpace key in
      if key = [] \<or> Contains message repositoryCommitIdempotencyTrailer then message
      else message @ [newline, newline] @ repositoryCommitIdempotencyTrailer @ '' '' @ key)"

definition commitMessageHasIdempotencyKey :: "string \<Rightarrow> string \<Rightarrow> bool" where
  "commitMessageHasIdempotencyKey message key =
     (let key = TrimSpace key in
      if key = [] then False
      else list_ex (\<lambda>line. TrimSpace line = repositoryCommitIdempotencyTrailer @ '' '' @ key) (Split1 newline message))"

definition findRepositoryCommitByIdempotencyKey ::
  "'w client \<Rightarrow> string \<Rightarrow> string \<Rightarrow> string \<Rightarrow> string \<Rightarrow> ('w, repo_commit option) act"
where
  "findRepositoryCommitByIdempotencyKey c org repo branch key =
     (let key = TrimSpace key in
      if key = [] then ret None
      else try_api (Repositories_ListCommits (Repositories c) org repo branch)
        (\<lambda>commits resp. ret (case find (\<lambda>cm. case cm of None \<Rightarrow> False
             | Some k \<Rightarrow> (case rpCommit k of None \<Rightarrow> False
                 | Some g \<Rightarrow> commitMessageHasIdempotencyKey (gcMessage g) key)) commits of
           None \<Rightarrow> None | Some cm \<Rightarrow> cm))
        (\<lambda>resp err. if status_is 404 resp \<or> status_is 409 resp then ret None else classified c resp err))"

subsection \<open>Tree entries\<close>

definition backend_EncodingBase64 :: string where "backend_EncodingBase64 = ''base64''"

definition cleanRepositoryPath :: "string \<Rightarrow> gerror + string" where
  "cleanRepositoryPath raw =
     (let raw = TrimSpace (ReplaceAll1 raw (CHR 0x5C) slash) in
      if raw = [] then Inl (Plain ''github: file path cannot be empty'')
      else if HasPrefix raw ''/'' then Inl (Plain (''github: file path '' @ quoted raw @ '' must be relative''))
      else and_then (foldE (\<lambda>part u.
             if part = ''..'' then Inl (Plain (''github: file path '' @ quoted raw @ '' cannot contain parent traversal''))
             else if ContainsChar part (CHR 0x00) then Inl (Plain (''github: file path '' @ quoted raw @ '' cannot contain NUL''))
             else Inr u) (Split1 slash raw) ()) (\<lambda>u.
        let clean = TrimPrefix (path_Clean (slash # raw)) ''/'' in
        if clean = ''.'' \<or> clean = [] then Inl (Plain ''github: file path cannot be empty'')
        else Inr clean))"

text \<open>The text of a corrupt-input error also has the offset, which is left out.\<close>

definition validBase64 :: "string \<Rightarrow> gerror + unit" where
  "validBase64 content =
     (if ContainsAny content [CHR 0x0D, CHR 0x0A] then Inl (Plain ''line breaks are not allowed'')
      else case b64_decode content of None \<Rightarrow> Inl (Plain ''illegal base64 data'') | Some bs \<Rightarrow> Inr ())"

text \<open>One input file into the map \<open>byPath\<close>.\<close>

definition by_path_file ::
  "RepositoryCommitFile \<Rightarrow> (string \<times> RepositoryCommitFile) list \<Rightarrow> gerror + (string \<times> RepositoryCommitFile) list"
where
  "by_path_file f byPath =
     and_then (cleanRepositoryPath (cfPath f)) (\<lambda>clean.
       if map_of byPath clean \<noteq> None then Inl (Plain (''github: duplicate file path '' @ quoted clean))
       else if cfDelete f \<and> cfContent f \<noteq> []
       then Inl (Plain (''github: deleted file '' @ quoted clean @ '' cannot include content''))
       else and_then
         (if cfEncoding f = [] then Inr ()
          else if cfEncoding f = backend_EncodingBase64 then
            (if \<not> cfDelete f then
               (case validBase64 (cfContent f) of
                  Inl e \<Rightarrow> Inl (Wrapped (''github: file '' @ quoted clean @ '' has invalid base64 content: '') e [])
                | Inr u \<Rightarrow> Inr ())
             else Inr ())
          else Inl (Plain (''github: file '' @ quoted clean @ '' has unsupported encoding '' @ quoted (cfEncoding f))))
         (\<lambda>u. Inr ((clean, f\<lparr>cfPath := clean\<rparr>) # byPath)))"

record pendingBlob =
  pbEntry :: nat
  pbContent :: string

definition is_blob_file :: "RepositoryCommitFile \<Rightarrow> bool" where
  "is_blob_file f \<longleftrightarrow> \<not> cfDelete f \<and> cfEncoding f = backend_EncodingBase64"

definition file_entry :: "RepositoryCommitFile \<Rightarrow> tree_entry" where
  "file_entry f = \<lparr>tePath = cfPath f, teMode = ''100644'', teType = ''blob'', teSHA = None,
     teContent = (if cfDelete f then None else if cfEncoding f = backend_EncodingBase64 then None
                  else Some (cfContent f)), teSize = 0\<rparr>"

definition gitTreeEntries ::
  "RepositoryCommitFile list \<Rightarrow> gerror + (tree_entry list \<times> string list \<times> pendingBlob list)"
where
  "gitTreeEntries files =
     and_then (foldE by_path_file files []) (\<lambda>byPath.
       let paths = sort (map fst byPath);
           sorted = map (\<lambda>p. the (map_of byPath p)) paths
       in Inr (map file_entry sorted, paths,
               map (\<lambda>(i, f). \<lparr>pbEntry = i, pbContent = cfContent f\<rparr>)
                 (filter (\<lambda>(i, f). is_blob_file f) (enumerate 0 sorted))))"

definition is_deletion :: "tree_entry \<Rightarrow> bool" where
  "is_deletion e \<longleftrightarrow> teSHA e = None \<and> teContent e = None"

text \<open>One pending blob; the state is the map \<open>uploaded\<close> and the entries.\<close>

definition create_blob ::
  "'w client \<Rightarrow> string \<Rightarrow> string \<Rightarrow> pendingBlob \<Rightarrow> (string \<times> string) list \<times> tree_entry list \<Rightarrow>
     ('w, (string \<times> string) list \<times> tree_entry list) act"
where
  "create_blob c org repo blob st =
     (let path = tePath (snd st ! pbEntry blob);
          set_sha = (\<lambda>sha. (snd st)[pbEntry blob := (snd st ! pbEntry blob)\<lparr>teSHA := Some sha, teContent := None\<rparr>])
      in case map_of (fst st) (pbContent blob) of
           Some sha \<Rightarrow> ret (fst st, set_sha sha)
         | None \<Rightarrow>
             try_api (Git_CreateBlob (Git c) org repo (pbContent blob) backend_EncodingBase64)
               (\<lambda>sha resp.
                  if sha = [] then failA (Plain (''github: create blob '' @ path @ '' returned no SHA''))
                  else ret ((pbContent blob, sha) # fst st, set_sha sha))
               (\<lambda>resp err. classified c resp (Wrapped (''create blob '' @ path @ '': '') err [])))"

definition createPendingBlobs ::
  "'w client \<Rightarrow> string \<Rightarrow> string \<Rightarrow> pendingBlob list \<Rightarrow> tree_entry list \<Rightarrow> ('w, tree_entry list) act"
where
  "createPendingBlobs c org repo blobs entries =
     bindA (forA (create_blob c org repo) blobs ([], entries)) (\<lambda>st. ret (snd st))"

text \<open>\<open>filterNoopGitTreeDeletions\<close>: the filter itself, and the call that finds what is present.\<close>

definition effective_entries ::
  "string list \<Rightarrow> tree_entry list \<Rightarrow> string list \<Rightarrow> tree_entry list \<times> string list"
where
  "effective_entries present entries files =
     (let kept = filter (\<lambda>(i, e). \<not> (is_deletion e \<and> tePath e \<notin> set present)) (enumerate 0 entries)
      in (map snd kept, map (\<lambda>(i, e). files ! i) (filter (\<lambda>(i, e). i < length files) kept)))"

definition filterNoopGitTreeDeletions ::
  "'w client \<Rightarrow> string \<Rightarrow> string \<Rightarrow> string \<Rightarrow> tree_entry list \<Rightarrow> string list \<Rightarrow>
     ('w, tree_entry list \<times> string list) act"
where
  "filterNoopGitTreeDeletions c org repo baseTree entries files =
     (if \<not> list_ex is_deletion entries then ret (entries, files)
      else if baseTree = [] then ret (effective_entries [] entries files)
      else on_reply c (Git_GetTree (Git c) org repo baseTree) (\<lambda>tree resp.
        if gtTruncated tree then ret (entries, files)
        else ret (effective_entries (map tePath (gtEntries tree)) entries files)))"

subsection \<open>Commits\<close>

definition commitURL :: "string \<Rightarrow> Repository \<Rightarrow> git_commit \<Rightarrow> string" where
  "commitURL org repo commit =
     (if gcHTMLURL commit \<noteq> [] then gcHTMLURL commit
      else if gcSHA commit = [] then []
      else let repoURL = TrimRight (rtHTMLURL (rxStatus repo)) ''/'';
               repoURL = (if repoURL = [] then ''https://github.com/'' @ org @ ''/'' @ rsName (rxSpec repo) else repoURL)
           in repoURL @ ''/commit/'' @ gcSHA commit)"

definition shouldReuseHeadCommit :: "git_commit option \<Rightarrow> git_tree \<Rightarrow> string \<Rightarrow> bool" where
  "shouldReuseHeadCommit parent tree baseTree \<longleftrightarrow> parent \<noteq> None \<and> gtSHA tree \<noteq> [] \<and> gtSHA tree = baseTree"

definition isNotFastForward :: "gotime \<Rightarrow> response option \<Rightarrow> gerror \<Rightarrow> bool" where
  "isNotFastForward now resp err \<longleftrightarrow>
     status_is 422 resp \<and> Contains (ToLower (err_Error now err)) ''not a fast forward''"

definition isReferenceAlreadyExists :: "gotime \<Rightarrow> response option \<Rightarrow> gerror \<Rightarrow> bool" where
  "isReferenceAlreadyExists now resp err \<longleftrightarrow>
     status_is 422 resp \<and> Contains (ToLower (err_Error now err)) ''reference already exists''"

definition isRecoverableRefRace :: "gotime \<Rightarrow> response option \<Rightarrow> gerror \<Rightarrow> bool" where
  "isRecoverableRefRace now resp err \<longleftrightarrow>
     isNotFastForward now resp err \<or> isReferenceAlreadyExists now resp err"

definition concurrentHeadMatchesCommitRequest :: "git_commit \<Rightarrow> string \<Rightarrow> string \<Rightarrow> bool" where
  "concurrentHeadMatchesCommitRequest head attempted key \<longleftrightarrow>
     attempted \<noteq> [] \<and> gcSHA head = attempted \<or> commitMessageHasIdempotencyKey (gcMessage head) key"

definition currentBranchHead ::
  "'w client \<Rightarrow> string \<Rightarrow> Repository \<Rightarrow> string \<Rightarrow> ('w, git_commit option) act"
where
  "currentBranchHead c org repo branch =
     on_reply c (Git_GetRef (Git c) org (rsName (rxSpec repo)) (''heads/'' @ branch)) (\<lambda>ref resp.
       case grObject ref of
         None \<Rightarrow> ret None
       | Some sha \<Rightarrow>
           if sha = [] then ret None
           else on_reply c (Git_GetCommit (Git c) org (rsName (rxSpec repo)) sha) (\<lambda>head resp. ret (Some head)))"

definition commit_result :: "string \<Rightarrow> Repository \<Rightarrow> string \<Rightarrow> git_commit \<Rightarrow> string list \<Rightarrow> RepositoryCommitResult" where
  "commit_result org repo branch commit files =
     \<lparr>rcCommitSHA = gcSHA commit, rcCommitURL = commitURL org repo commit, rcBranch = branch, rcFiles = files\<rparr>"

definition commit_tree :: "git_commit \<Rightarrow> string" where
  "commit_tree commit = (case gcTree commit of None \<Rightarrow> [] | Some t \<Rightarrow> t)"

definition recoverOrRetryConcurrentCommit ::
  "'w client \<Rightarrow> string \<Rightarrow> Repository \<Rightarrow> string \<Rightarrow> string \<Rightarrow> string \<Rightarrow> string \<Rightarrow> tree_entry list \<Rightarrow> string list \<Rightarrow>
     ('w, RepositoryCommitResult option) act"
where
  "recoverOrRetryConcurrentCommit c org repo branch attempted key message entries files =
     bindA (currentBranchHead c org repo branch) (\<lambda>current.
       case current of
         None \<Rightarrow> ret None
       | Some head \<Rightarrow>
           if concurrentHeadMatchesCommitRequest head attempted key
           then ret (Some (commit_result org repo branch head files))
           else bindA (filterNoopGitTreeDeletions c org (rsName (rxSpec repo)) (commit_tree head) entries files) (\<lambda>ef.
             if fst ef = [] then ret (Some (commit_result org repo branch head (snd ef)))
             else on_reply c (Git_CreateTree (Git c) org (rsName (rxSpec repo)) (commit_tree head) (fst ef)) (\<lambda>tree resp.
               on_reply c (Git_CreateCommit (Git c) org (rsName (rxSpec repo))
                   \<lparr>ncMessage = message, ncTree = gtSHA tree, ncParents = [gcSHA head]\<rparr>) (\<lambda>commit resp.
                 on_reply c (Git_UpdateRef (Git c) org (rsName (rxSpec repo)) (''refs/heads/'' @ branch) (gcSHA commit) False)
                   (\<lambda>u resp. ret (Some (commit_result org repo branch commit (snd ef))))))))"

subsection \<open>CommitFiles\<close>

definition commit_message :: "RepositoryCommitInput \<Rightarrow> string" where
  "commit_message input =
     (let message = TrimSpace (ciMessage input);
          message = (if message = [] then ''Update generated application files'' else message)
      in commitMessageWithIdempotencyKey message (ciIdempotencyKey input))"

definition commit_branch :: "Repository \<Rightarrow> RepositoryCommitInput \<Rightarrow> string" where
  "commit_branch repo input =
     (let branch = TrimSpace (ciBranch input);
          branch = (if branch = [] then TrimSpace (rsDefaultBranch (rxSpec repo)) else branch)
      in if branch = [] then ''main'' else branch)"

definition confirm_identity :: "'w client \<Rightarrow> string \<Rightarrow> Repository \<Rightarrow> ('w, unit) act" where
  "confirm_identity c org repo =
     (if create_only repo
      then on_reply c (Repositories_Get (Repositories c) org (rsName (rxSpec repo)))
             (\<lambda>existing resp. lift (checkRepositoryIdentity repo existing))
      else ret ())"

definition head_sha :: "'w client \<Rightarrow> string \<Rightarrow> Repository \<Rightarrow> string \<Rightarrow> ('w, string) act" where
  "head_sha c org repo branch =
     try_api (Git_GetRef (Git c) org (rsName (rxSpec repo)) (''heads/'' @ branch))
       (\<lambda>ref resp. ret (case grObject ref of None \<Rightarrow> [] | Some sha \<Rightarrow> sha))
       (\<lambda>resp err. if status_is 404 resp then ret [] else classified c resp err)"

definition prior_commit ::
  "'w client \<Rightarrow> string \<Rightarrow> Repository \<Rightarrow> string \<Rightarrow> string \<Rightarrow> string \<Rightarrow> ('w, repo_commit option) act"
where
  "prior_commit c org repo branch headSHA key =
     (if headSHA \<noteq> [] \<and> TrimSpace key \<noteq> []
      then findRepositoryCommitByIdempotencyKey c org (rsName (rxSpec repo)) branch key
      else ret None)"

definition upload_blobs ::
  "'w github \<Rightarrow> Credential \<Rightarrow> Connection \<Rightarrow> string \<Rightarrow> Repository \<Rightarrow> pendingBlob list \<Rightarrow> tree_entry list \<Rightarrow> ('w, tree_entry list) act"
where
  "upload_blobs gh cred conn org repo blobs entries =
     (if blobs \<noteq> []
      then bindA (lift (blobClient gh cred (csBaseURL (cxSpec conn)))) (\<lambda>uploader.
             createPendingBlobs uploader org (rsName (rxSpec repo)) blobs entries)
      else ret entries)"

definition parent_commit :: "'w client \<Rightarrow> string \<Rightarrow> Repository \<Rightarrow> string \<Rightarrow> ('w, git_commit option) act" where
  "parent_commit c org repo headSHA =
     (if headSHA \<noteq> []
      then on_reply c (Git_GetCommit (Git c) org (rsName (rxSpec repo)) headSHA) (\<lambda>p resp. ret (Some p))
      else ret None)"

text \<open>The last step: create or move the branch, and recover when another writer moved it first.\<close>

definition publish_commit ::
  "'w client \<Rightarrow> string \<Rightarrow> Repository \<Rightarrow> string \<Rightarrow> string \<Rightarrow> git_commit \<Rightarrow> string \<Rightarrow> string \<Rightarrow>
     tree_entry list \<Rightarrow> string list \<Rightarrow> string list \<Rightarrow> ('w, RepositoryCommitResult) act"
where
  "publish_commit c org repo branch headSHA commit key message requestedEntries requestedFiles files =
     try_api
       (if headSHA = [] then Git_CreateRef (Git c) org (rsName (rxSpec repo)) (''refs/heads/'' @ branch) (gcSHA commit)
        else Git_UpdateRef (Git c) org (rsName (rxSpec repo)) (''refs/heads/'' @ branch) (gcSHA commit) False)
       (\<lambda>u resp. ret (commit_result org repo branch commit files))
       (\<lambda>resp err. bindA (readA (clNow c)) (\<lambda>now.
          if isRecoverableRefRace now resp err
          then bindA (recoverOrRetryConcurrentCommit c org repo branch (gcSHA commit) key message requestedEntries requestedFiles)
                 (\<lambda>recovered. case recovered of Some res \<Rightarrow> ret res | None \<Rightarrow> classified c resp err)
          else classified c resp err))"

text \<open>From the parent commit on: the effective entries, the tree, the commit.\<close>

definition commit_onto ::
  "'w client \<Rightarrow> string \<Rightarrow> Repository \<Rightarrow> RepositoryCommitInput \<Rightarrow> string \<Rightarrow> string \<Rightarrow> git_commit option \<Rightarrow>
     tree_entry list \<Rightarrow> string list \<Rightarrow> ('w, RepositoryCommitResult) act"
where
  "commit_onto c org repo input branch headSHA parent requestedEntries requestedFiles =
     (let name = rsName (rxSpec repo);
          baseTree = (case parent of None \<Rightarrow> [] | Some p \<Rightarrow> commit_tree p);
          message = commit_message input
      in bindA (filterNoopGitTreeDeletions c org name baseTree requestedEntries requestedFiles) (\<lambda>(entries, files).
         if entries = [] then
           (case parent of
              None \<Rightarrow> failA (Plain ''github: at least one effective file change is required'')
            | Some p \<Rightarrow> ret (commit_result org repo branch p files))
         else on_reply c (Git_CreateTree (Git c) org name baseTree entries) (\<lambda>tree resp.
           if shouldReuseHeadCommit parent tree baseTree
           then ret (commit_result org repo branch (the parent) files)
           else on_reply c (Git_CreateCommit (Git c) org name
               \<lparr>ncMessage = message, ncTree = gtSHA tree, ncParents = (if headSHA \<noteq> [] then [headSHA] else [])\<rparr>)
             (\<lambda>commit resp. publish_commit c org repo branch headSHA commit (ciIdempotencyKey input) message
                requestedEntries requestedFiles files))))"

definition CommitFiles ::
  "'w github \<Rightarrow> Connection \<Rightarrow> Credential \<Rightarrow> Repository \<Rightarrow> RepositoryCommitInput \<Rightarrow> ('w, RepositoryCommitResult) act"
where
  "CommitFiles gh conn cred repo input =
     (if ciFiles input = [] then failA (Plain ''github: at least one file is required'')
      else let branch = commit_branch repo input; org = repo_owner conn repo in
      bindA (lift (gitTreeEntries (ciFiles input))) (\<lambda>(entries, files, blobs).
      bindA (lift (default_client gh cred (csBaseURL (cxSpec conn)))) (\<lambda>c.
      bindA (confirm_identity c org repo) (\<lambda>u.
      bindA (head_sha c org repo branch) (\<lambda>headSHA.
      bindA (prior_commit c org repo branch headSHA (ciIdempotencyKey input)) (\<lambda>prior.
        case prior of
          Some k \<Rightarrow> ret \<lparr>rcCommitSHA = rpSHA k, rcCommitURL = rpHTMLURL k, rcBranch = branch, rcFiles = files\<rparr>
        | None \<Rightarrow>
            bindA (upload_blobs gh cred conn org repo blobs entries) (\<lambda>entries.
            bindA (parent_commit c org repo headSHA) (\<lambda>parent.
              commit_onto c org repo input branch headSHA parent entries files))))))))"

subsection \<open>The idempotency trailer identifies the request\<close>

text \<open>
  (C27) A commit message that received the trailer of a key is recognised by exactly that key
  (up to surrounding white space), provided that the message did not contain the trailer's name
  and the key is a single line.
\<close>

theorem idempotency_key_roundtrip:
  assumes "\<not> Contains message repositoryCommitIdempotencyTrailer"
    and "TrimSpace key \<noteq> []" and "newline \<notin> set (TrimSpace key)"
  shows "commitMessageHasIdempotencyKey (commitMessageWithIdempotencyKey message key) key' \<longleftrightarrow>
     TrimSpace key' = TrimSpace key"
proof -
  define k where "k = TrimSpace key"
  define L where "L = repositoryCommitIdempotencyTrailer @ '' '' @ k"
  have trimL: "TrimSpace L = L" unfolding L_def
  proof (rule TrimSpace_prefixed)
    show "space_at (repositoryCommitIdempotencyTrailer @ '' '') = None" by code_simp
  qed (use assms(2) in \<open>auto simp: k_def repositoryCommitIdempotencyTrailer_def\<close>)
  have "newline \<notin> set L"
    using assms(3) by (simp add: L_def k_def repositoryCommitIdempotencyTrailer_def)
  then have lines: "Split1 newline (commitMessageWithIdempotencyKey message key) = Split1 newline message @ [[], L]"
    using assms(1,2) by (simp add: commitMessageWithIdempotencyKey_def Let_def Split1_append Split1_no_occ L_def k_def)
  have none: "TrimSpace x \<noteq> repositoryCommitIdempotencyTrailer @ t" if "x \<in> set (Split1 newline message)" for x t
    using Contains_TrimSpace_line[OF that] assms(1) by blast
  have ne: "repositoryCommitIdempotencyTrailer \<noteq> []" by (simp add: repositoryCommitIdempotencyTrailer_def)
  have L_eq: "L = repositoryCommitIdempotencyTrailer @ '' '' @ t \<longleftrightarrow> k = t"
    "L = repositoryCommitIdempotencyTrailer @ CHR '' '' # t \<longleftrightarrow> k = t" for t by (simp_all add: L_def)
  show ?thesis
    using assms(2) none ne
    by (auto simp: commitMessageHasIdempotencyKey_def Let_def lines list_ex_iff trimL L_eq simp flip: k_def)
qed

theorem idempotency_key_roundtrip_witness:
  "commitMessageHasIdempotencyKey (commitMessageWithIdempotencyKey ''Add a page'' ''uid-1'') '' uid-1 ''"
proof -
  have "\<not> Contains ''Add a page'' repositoryCommitIdempotencyTrailer" "TrimSpace ''uid-1'' = ''uid-1''"
    "TrimSpace '' uid-1 '' = ''uid-1''"
    by code_simp+
  then show ?thesis using idempotency_key_roundtrip[of "''Add a page''" "''uid-1''" "'' uid-1 ''"] by simp
qed

text \<open>
  The proviso is necessary: a user's message that mentions the trailer's name is published
  without the key, so a retry of the request does not recognise its own commit; and it is
  recognised as the commit of whatever key the message names.
\<close>

theorem trailer_in_message_loses_key:
  "let message = ''Explain Railgrid-RepositoryCommit: a'' @ [newline] @ ''Railgrid-RepositoryCommit: other'';
       published = commitMessageWithIdempotencyKey message ''mine''
   in published = message \<and> \<not> commitMessageHasIdempotencyKey published ''mine'' \<and>
      commitMessageHasIdempotencyKey published ''other''"
  by code_simp

subsection \<open>Paths and tree entries\<close>

lemma clean_elems_no_dotdot:
  "''..'' \<notin> set xs \<Longrightarrow> clean_elems rooted xs out = rev out @ filter (\<lambda>x. x \<noteq> [] \<and> x \<noteq> ''.'') xs"
  by (induction xs arbitrary: out) auto

lemma foldE_unit_Inr:
  "foldE (\<lambda>x u. if P x then Inl (e x) else if Q x then Inl (d x) else Inr u) xs () = Inr u \<longleftrightarrow>
     (\<forall>x \<in> set xs. \<not> P x \<and> \<not> Q x)"
  by (induction xs) auto

text \<open>An accepted path is the request's path without empty and \<open>.\<close> elements.\<close>

lemma cleanRepositoryPath_Inr:
  assumes "cleanRepositoryPath raw = Inr p"
  shows "p = Join ''/'' (filter (\<lambda>x. x \<noteq> [] \<and> x \<noteq> ''.'') (Split1 slash (TrimSpace (ReplaceAll1 raw (CHR 0x5C) slash))))"
    and "inside_root p" and "CHR 0x00 \<notin> set p" and "CHR 0x5C \<notin> set p"
proof -
  define r where "r = TrimSpace (ReplaceAll1 raw (CHR 0x5C) slash)"
  define es where "es = filter (\<lambda>x. x \<noteq> [] \<and> x \<noteq> ''.'') (Split1 slash r)"
  have parts: "\<forall>x \<in> set (Split1 slash r). x \<noteq> ''..'' \<and> \<not> ContainsChar x (CHR 0x00)"
    and p: "p = TrimPrefix (path_Clean (slash # r)) ''/''" "p \<noteq> []"
    using assms unfolding cleanRepositoryPath_def Let_def r_def[symmetric]
    by (auto simp: foldE_unit_Inr split: if_splits)
  have "''..'' \<notin> set (Split1 slash r)" using parts by blast
  then have "path_Clean (slash # r) = slash # Join ''/'' es"
    by (simp add: path_Clean_def clean_elems_no_dotdot es_def Let_def)
  with p(1) show pe: "p = Join ''/'' es" by (simp add: TrimPrefix_def HasPrefix_def)
  with p(2) have "es \<noteq> []" by auto
  moreover have plain: "\<forall>x \<in> set es. plain_elem x"
    using parts Split1_no_sep[of _ slash r] by (auto simp: es_def plain_elem_def)
  ultimately have "Split1 slash p = es"
    unfolding pe by (intro Split1_Join) (auto simp: plain_elem_def)
  with plain show "inside_root p" by (simp add: inside_root_def list_all_iff)
  have es_set: "set x \<subseteq> set r" if "x \<in> set es" for x
    using set_Split1[of x slash r] that by (auto simp: es_def)
  have "CHR 0x00 \<notin> set x" if "x \<in> set es" for x
    using that parts by (auto simp: es_def ContainsChar_iff)
  then show "CHR 0x00 \<notin> set p"
    unfolding pe using set_Join[of "''/''" es] by auto
  have "CHR 0x5C \<notin> set r"
    using set_TrimSpace set_ReplaceAll1[of "CHR 0x5C" slash raw] by (auto simp: r_def)
  then show "CHR 0x5C \<notin> set p"
    unfolding pe using set_Join[of "''/''" es] es_set by auto
qed

lemma by_path_file_Inr:
  assumes "by_path_file f m = Inr m'"
  obtains p where "cleanRepositoryPath (cfPath f) = Inr p" "map_of m p = None" "m' = (p, f\<lparr>cfPath := p\<rparr>) # m"
    "cfDelete f \<longrightarrow> cfContent f = []" "cfEncoding f = [] \<or> cfEncoding f = backend_EncodingBase64"
  using assms unfolding by_path_file_def
  by (cases "cleanRepositoryPath (cfPath f)") (auto split: if_splits)

definition by_path_ok :: "RepositoryCommitFile list \<Rightarrow> (string \<times> RepositoryCommitFile) list \<Rightarrow> bool" where
  "by_path_ok files m \<longleftrightarrow> distinct (map fst m) \<and> length m = length files \<and>
     (\<forall>f \<in> set files. \<exists>p. cleanRepositoryPath (cfPath f) = Inr p \<and> (p, f\<lparr>cfPath := p\<rparr>) \<in> set m) \<and>
     (\<forall>(p, g) \<in> set m. cfPath g = p \<and> inside_root p \<and> (cfDelete g \<longrightarrow> cfContent g = []))"

lemma by_path_ok_step:
  assumes "by_path_ok fs m" and "by_path_file f m = Inr m'"
  shows "by_path_ok (fs @ [f]) m'"
  using assms(2)
proof (rule by_path_file_Inr)
  fix p assume p: "cleanRepositoryPath (cfPath f) = Inr p" "map_of m p = None" "m' = (p, f\<lparr>cfPath := p\<rparr>) # m"
    "cfDelete f \<longrightarrow> cfContent f = []"
  moreover have "inside_root p" using p(1) by (rule cleanRepositoryPath_Inr)
  ultimately show ?thesis using assms(1) by (auto simp: by_path_ok_def map_of_eq_None_iff)
qed

lemma by_path_ok_fold:
  "foldE by_path_file fs m = Inr m' \<Longrightarrow> by_path_ok gs m \<Longrightarrow> by_path_ok (gs @ fs) m'"
proof (induction fs arbitrary: gs m)
  case (Cons f fs)
  then obtain u where "by_path_file f m = Inr u" "foldE by_path_file fs u = Inr m'" by auto
  with Cons.IH[of u "gs @ [f]"] Cons.prems(2) by_path_ok_step show ?case by fastforce
qed simp

lemma by_path_ok_files: "foldE by_path_file files [] = Inr m \<Longrightarrow> by_path_ok files m"
  using by_path_ok_fold[of files "[]" m "[]"] by (simp add: by_path_ok_def)

text \<open>
  \<open>gitTreeEntries\<close> gives one entry per requested file, in strictly ascending order of the
  cleaned paths, all below the repository root: every file is found at the position of its
  path with the entry and, exactly when it is binary, the pending blob its content calls for.
\<close>

theorem gitTreeEntries_spec:
  assumes "gitTreeEntries files = Inr (entries, paths, blobs)"
  shows "sorted_wrt (<) paths \<and> map tePath entries = paths \<and> length paths = length files \<and>
    list_all inside_root paths \<and>
    (\<forall>f \<in> set files. \<exists>i < length paths. cleanRepositoryPath (cfPath f) = Inr (paths ! i) \<and>
       entries ! i = file_entry (f\<lparr>cfPath := paths ! i\<rparr>) \<and>
       (is_blob_file f \<longleftrightarrow> \<lparr>pbEntry = i, pbContent = cfContent f\<rparr> \<in> set blobs))"
proof -
  obtain m where m: "foldE by_path_file files [] = Inr m"
    and paths: "paths = sort (map fst m)" and ent: "entries = map (\<lambda>p. file_entry (the (map_of m p))) paths"
    and blobs: "blobs = map (\<lambda>(i, f). \<lparr>pbEntry = i, pbContent = cfContent f\<rparr>)
       (filter (\<lambda>(i, f). is_blob_file f) (enumerate 0 (map (\<lambda>p. the (map_of m p)) paths)))"
    using assms by (auto simp: gitTreeEntries_def Let_def)
  note ok = by_path_ok_files[OF m, unfolded by_path_ok_def]
  then have look: "map_of m p = Some g \<longleftrightarrow> (p, g) \<in> set m" for p g by (simp add: map_of_eq_Some_iff)
  have in_paths: "p \<in> set paths \<longleftrightarrow> p \<in> fst ` set m" for p by (simp add: paths)
  have at: "tePath (file_entry (the (map_of m p))) = p \<and> inside_root p" if "p \<in> set paths" for p
  proof -
    from that obtain g where "(p, g) \<in> set m" by (auto simp: in_paths)
    with ok look show ?thesis by (auto simp: file_entry_def)
  qed
  have "\<exists>i < length paths. cleanRepositoryPath (cfPath f) = Inr (paths ! i) \<and>
       entries ! i = file_entry (f\<lparr>cfPath := paths ! i\<rparr>) \<and>
       (is_blob_file f \<longleftrightarrow> \<lparr>pbEntry = i, pbContent = cfContent f\<rparr> \<in> set blobs)" if f: "f \<in> set files" for f
  proof -
    obtain p where p: "cleanRepositoryPath (cfPath f) = Inr p" "(p, f\<lparr>cfPath := p\<rparr>) \<in> set m"
      using ok f by blast
    then obtain i where i: "i < length paths" "paths ! i = p"
      using in_paths by (metis fst_conv image_eqI in_set_conv_nth)
    have g: "map_of m p = Some (f\<lparr>cfPath := p\<rparr>)" using p(2) look by simp
    have "is_blob_file f \<longleftrightarrow> \<lparr>pbEntry = i, pbContent = cfContent f\<rparr> \<in> set blobs"
      using i g by (auto simp: blobs in_set_enumerate_eq is_blob_file_def image_iff)
    with p(1) i g show ?thesis by (auto simp: ent)
  qed
  moreover have "map tePath entries = paths" unfolding ent map_map o_def using at by (intro map_idI) auto
  moreover have "sorted_wrt (<) paths" using ok by (simp add: paths sorted_wrt_less_distinct)
  moreover have "length paths = length files" using ok by (simp add: paths)
  ultimately show ?thesis using at by (auto simp: list_all_iff)
qed

subsection \<open>Deletions\<close>

lemma enumerate_filter_snd: "map snd (filter (\<lambda>(i, e). Q e) (enumerate n xs)) = filter Q xs"
  by (induction xs arbitrary: n) auto

lemma effective_entries_eq:
  assumes "files = map tePath entries"
  shows "effective_entries present entries files =
    (filter (\<lambda>e. is_deletion e \<longrightarrow> tePath e \<in> set present) entries,
     map tePath (filter (\<lambda>e. is_deletion e \<longrightarrow> tePath e \<in> set present) entries))"
proof -
  define Q where "Q = (\<lambda>e. is_deletion e \<longrightarrow> tePath e \<in> set present)"
  define kept where "kept = filter (\<lambda>(i, e). Q e) (enumerate 0 entries)"
  have snd: "map snd kept = filter Q entries" unfolding kept_def by (rule enumerate_filter_snd)
  have mem: "i < length files \<and> files ! i = tePath e" if "(i, e) \<in> set kept" for i e
    using that assms by (auto simp: kept_def in_set_enumerate_eq)
  then have all: "filter (\<lambda>(i, e). i < length files) kept = kept" by (intro filter_True) auto
  have "map (\<lambda>(i, e). files ! i) kept = map (\<lambda>x. tePath (snd x)) kept"
    using mem by (intro map_cong) auto
  also have "\<dots> = map tePath (map snd kept)" by simp
  finally have "map (\<lambda>(i, e). files ! i) kept = map tePath (filter Q entries)" unfolding snd .
  moreover have "effective_entries present entries files =
      (map snd kept, map (\<lambda>(i, e). files ! i) (filter (\<lambda>(i, e). i < length files) kept))"
    by (simp add: effective_entries_def kept_def Q_def Let_def)
  ultimately show ?thesis unfolding all snd by (simp add: Q_def)
qed

text \<open>
  \<open>filterNoopGitTreeDeletions\<close> drops exactly the deletions that would have no effect: every
  entry that is not a deletion stays, a deletion stays if its path is in the base tree, the
  reported files stay in step with the entries, and if the host's listing is truncated (so
  absence cannot be told) everything stays.
\<close>

theorem filterNoop_exact:
  assumes "filterNoopGitTreeDeletions c org repo baseTree entries files w = (Inr (es, fs), w')"
    and "files = map tePath entries"
  shows "fs = map tePath es \<and>
    (es = entries \<and> (list_ex is_deletion entries \<longrightarrow>
        (\<exists>tree r. Git_GetTree (Git c) org repo baseTree w = (Reply tree r, w') \<and> gtTruncated tree)) \<or>
     baseTree = [] \<and> es = filter (\<lambda>e. \<not> is_deletion e) entries \<and> w' = w \<or>
     (\<exists>tree r. Git_GetTree (Git c) org repo baseTree w = (Reply tree r, w') \<and> \<not> gtTruncated tree \<and>
        es = filter (\<lambda>e. is_deletion e \<longrightarrow> tePath e \<in> tePath ` set (gtEntries tree)) entries))"
proof (cases "list_ex is_deletion entries")
  case False
  with assms show ?thesis by (auto simp: filterNoopGitTreeDeletions_def)
next
  case del: True
  show ?thesis
  proof (cases "baseTree = []")
    case True
    with del assms show ?thesis by (auto simp: filterNoopGitTreeDeletions_def effective_entries_eq)
  next
    case False
    then obtain tree r where tree: "Git_GetTree (Git c) org repo baseTree w = (Reply tree r, w')"
      and res: "(es, fs) = (if gtTruncated tree then (entries, files)
        else effective_entries (map tePath (gtEntries tree)) entries files)"
      using del assms(1)
      by (auto simp: filterNoopGitTreeDeletions_def on_reply_Inr split: if_splits)
    then show ?thesis
      using assms(2) effective_entries_eq[OF assms(2), of "map tePath (gtEntries tree)"]
      by (cases "gtTruncated tree") auto
  qed
qed

subsection \<open>What a commit may touch\<close>

text \<open>
  The calls of \<open>CommitFiles\<close> that read or that create git objects no branch points at, on the
  repository \<open>name\<close> of \<open>org\<close>, and those that move the branch without force.
\<close>

definition object_calls_keep :: "('w \<Rightarrow> bool) \<Rightarrow> 'w client \<Rightarrow> string \<Rightarrow> string \<Rightarrow> bool" where
  "object_calls_keep P c org name \<longleftrightarrow>
     keeps P (Repositories_Get (Repositories c) org name) \<and>
     (\<forall>b. keeps P (Repositories_ListCommits (Repositories c) org name b)) \<and>
     (\<forall>r. keeps P (Git_GetRef (Git c) org name r)) \<and>
     (\<forall>s. keeps P (Git_GetCommit (Git c) org name s)) \<and>
     (\<forall>s. keeps P (Git_GetTree (Git c) org name s)) \<and>
     (\<forall>x e. keeps P (Git_CreateBlob (Git c) org name x e)) \<and>
     (\<forall>b es. keeps P (Git_CreateTree (Git c) org name b es)) \<and>
     (\<forall>k. keeps P (Git_CreateCommit (Git c) org name k))"

definition branch_calls_keep :: "('w \<Rightarrow> bool) \<Rightarrow> 'w client \<Rightarrow> string \<Rightarrow> string \<Rightarrow> string \<Rightarrow> bool" where
  "branch_calls_keep P c org name branch \<longleftrightarrow>
     (\<forall>s. keeps P (Git_CreateRef (Git c) org name (''refs/heads/'' @ branch) s)) \<and>
     (\<forall>s. keeps P (Git_UpdateRef (Git c) org name (''refs/heads/'' @ branch) s False))"

lemma object_callsD:
  assumes "object_calls_keep P c org name"
  shows "keeps P (Repositories_Get (Repositories c) org name)"
    "keeps P (Repositories_ListCommits (Repositories c) org name b)"
    "keeps P (Git_GetRef (Git c) org name r)" "keeps P (Git_GetCommit (Git c) org name s)"
    "keeps P (Git_GetTree (Git c) org name s)" "keeps P (Git_CreateBlob (Git c) org name x e)"
    "keeps P (Git_CreateTree (Git c) org name b' es)" "keeps P (Git_CreateCommit (Git c) org name k)"
  using assms by (simp_all add: object_calls_keep_def)

lemma branch_callsD:
  assumes "branch_calls_keep P c org name branch"
  shows "keeps P (Git_CreateRef (Git c) org name (''refs/heads/'' @ branch) s)"
    "keeps P (Git_UpdateRef (Git c) org name (''refs/heads/'' @ branch) s False)"
  using assms by (simp_all add: branch_calls_keep_def)

lemma keeps_prod [keeps]: "(\<And>a b. x = (a, b) \<Longrightarrow> keeps P (k a b)) \<Longrightarrow> keeps P (case x of (a, b) \<Rightarrow> k a b)"
  by (cases x) auto

lemma keeps_create_blob:
  assumes "object_calls_keep P c org name"
  shows "keeps P (create_blob c org name blob st)"
  unfolding create_blob_def Let_def by (intro keeps object_callsD[OF assms])

lemma keeps_filterNoop:
  assumes "object_calls_keep P c org name"
  shows "keeps P (filterNoopGitTreeDeletions c org name baseTree entries files)"
  unfolding filterNoopGitTreeDeletions_def by (intro keeps object_callsD[OF assms])

lemma keeps_recover:
  assumes "object_calls_keep P c org (rsName (rxSpec repo))" "branch_calls_keep P c org (rsName (rxSpec repo)) branch"
  shows "keeps P (recoverOrRetryConcurrentCommit c org repo branch attempted key message entries files)"
  unfolding recoverOrRetryConcurrentCommit_def currentBranchHead_def
  by (intro keeps keeps_filterNoop object_callsD[OF assms(1)] branch_callsD[OF assms(2)] assms(1))

lemma keeps_commit_onto:
  assumes "object_calls_keep P c org (rsName (rxSpec repo))" "branch_calls_keep P c org (rsName (rxSpec repo)) branch"
  shows "keeps P (commit_onto c org repo input branch headSHA parent entries files)"
  unfolding commit_onto_def publish_commit_def Let_def
  by (intro keeps keeps_filterNoop keeps_recover object_callsD[OF assms(1)] branch_callsD[OF assms(2)] assms conjI)

text \<open>
  (C3) \<open>CommitFiles\<close> never forces a branch and never touches another one: whatever is preserved by
  reading the repository, by creating blobs, trees and commits in it and by creating or
  fast-forwarding the requested branch is preserved by \<open>CommitFiles\<close>, races and failures included.
\<close>

theorem CommitFiles_moves_only_its_branch:
  assumes "object_calls_keep P (conn_client gh conn cred) (repo_owner conn repo) (rsName (rxSpec repo))"
    and "branch_calls_keep P (conn_client gh conn cred) (repo_owner conn repo) (rsName (rxSpec repo)) (commit_branch repo input)"
    and "object_calls_keep P (ghClient gh cred (csBaseURL (cxSpec conn)) githubBlobRequestTimeout)
       (repo_owner conn repo) (rsName (rxSpec repo))"
  shows "keeps P (CommitFiles gh conn cred repo input)"
proof -
  have up: "x = ghClient gh cred (csBaseURL (cxSpec conn)) githubBlobRequestTimeout"
    if "blobClient gh cred (csBaseURL (cxSpec conn)) = Inr x" for x
    using that by (auto simp: blobClient_def clientWithTimeout_def split: if_splits option.splits)
  have upload: "keeps P (upload_blobs gh cred conn (repo_owner conn repo) repo blobs entries)" for blobs entries
    unfolding upload_blobs_def createPendingBlobs_def using assms(3)
    by (intro keeps_if keeps_lift_bind keeps_bindA keeps_forA keeps_ret) (auto dest!: up intro: keeps_create_blob)
  have early: "keeps P (confirm_identity c org repo)" "keeps P (head_sha c org repo branch)"
    "keeps P (prior_commit c org repo branch headSHA key)" "keeps P (parent_commit c org repo headSHA)"
    if "object_calls_keep P c org (rsName (rxSpec repo))" for c org branch headSHA key
    unfolding confirm_identity_def head_sha_def prior_commit_def parent_commit_def
      findRepositoryCommitByIdempotencyKey_def Let_def
    by (intro keeps object_callsD[OF that])+
  show ?thesis
    unfolding CommitFiles_def Let_def
    by (intro keeps_if keeps_failA keeps_lift_bind keeps_prod keeps_with_client keeps_bindA keeps_option keeps_ret
        upload early keeps_commit_onto assms(1,2))
qed

lemma find_first: "\<forall>x \<in> set pre. \<not> Q x \<Longrightarrow> Q y \<Longrightarrow> find Q (pre @ y # post) = Some y"
  by (induction pre) simp_all

definition carries_key :: "string \<Rightarrow> repo_commit option \<Rightarrow> bool" where
  "carries_key key cm \<longleftrightarrow> (\<exists>k g. cm = Some k \<and> rpCommit k = Some g \<and> commitMessageHasIdempotencyKey (gcMessage g) key)"

text \<open>
  (C26) A retried request does not commit twice: when the branch exists and its recent commits, as
  the host lists them, have a first one that carries the request's key, \<open>CommitFiles\<close> returns that
  very commit and stops there. It has then only looked up the branch and its commits and, for a
  create-only repository, confirmed before that the repository is the one it created.
\<close>

theorem CommitFiles_retry_finds_commit:
  assumes "gitTreeEntries (ciFiles input) = Inr (entries, files, blobs)" and "ciFiles input \<noteq> []"
    and "default_client gh cred (csBaseURL (cxSpec conn)) = Inr c"
    and "confirm_identity c (repo_owner conn repo) repo w0 = (Inr (), w)"
    and "TrimSpace (ciIdempotencyKey input) \<noteq> []"
    and "Git_GetRef (Git c) (repo_owner conn repo) (rsName (rxSpec repo)) (''heads/'' @ commit_branch repo input) w =
      (Reply ref r1, w1)" and "grObject ref = Some sha" and "sha \<noteq> []"
    and "Repositories_ListCommits (Repositories c) (repo_owner conn repo) (rsName (rxSpec repo)) (commit_branch repo input) w1 =
      (Reply (newer @ Some k # rest) r2, w2)"
    and "carries_key (ciIdempotencyKey input) (Some k)" and "\<And>cm. cm \<in> set newer \<Longrightarrow> \<not> carries_key (ciIdempotencyKey input) cm"
  shows "CommitFiles gh conn cred repo input w0 =
      (Inr \<lparr>rcCommitSHA = rpSHA k, rcCommitURL = rpHTMLURL k, rcBranch = commit_branch repo input, rcFiles = files\<rparr>, w2)"
proof -
  define key where "key = TrimSpace (ciIdempotencyKey input)"
  define Q where "Q = (\<lambda>cm :: repo_commit option. case cm of None \<Rightarrow> False | Some k \<Rightarrow> (case rpCommit k of None \<Rightarrow> False
      | Some g \<Rightarrow> commitMessageHasIdempotencyKey (gcMessage g) key))"
  have "Q cm = carries_key (ciIdempotencyKey input) cm" for cm
    by (auto simp: Q_def carries_key_def commitMessageHasIdempotencyKey_def key_def split: option.splits)
  then have "find Q (newer @ Some k # rest) = Some (Some k)"
    using assms(10,11) by (intro find_first) simp_all
  then have "findRepositoryCommitByIdempotencyKey c (repo_owner conn repo) (rsName (rxSpec repo)) (commit_branch repo input)
      (ciIdempotencyKey input) w1 = (Inr (Some k), w2)"
    using assms(5,9) unfolding findRepositoryCommitByIdempotencyKey_def Let_def key_def[symmetric] Q_def[symmetric]
    by (simp add: key_def)
  then have "prior_commit c (repo_owner conn repo) repo (commit_branch repo input) sha (ciIdempotencyKey input) w1 = (Inr (Some k), w2)"
    using assms(5,8) by (simp add: prior_commit_def)
  moreover have "head_sha c (repo_owner conn repo) repo (commit_branch repo input) w = (Inr sha, w1)"
    using assms(6,7) by (simp add: head_sha_def)
  ultimately show ?thesis
    using assms(1-4) by (simp add: CommitFiles_def Let_def)
qed

subsection \<open>Instances\<close>

definition text_file :: "string \<Rightarrow> string \<Rightarrow> RepositoryCommitFile" where
  "text_file p x = \<lparr>cfPath = p, cfContent = x, cfEncoding = [], cfDelete = False\<rparr>"

definition gone_file :: "string \<Rightarrow> RepositoryCommitFile" where
  "gone_file p = \<lparr>cfPath = p, cfContent = [], cfEncoding = [], cfDelete = True\<rparr>"

definition example_commit :: git_commit where
  "example_commit = \<lparr>gcSHA = ''c1'', gcMessage = ''Railgrid-RepositoryCommit: uid-1'', gcTree = Some ''t1'', gcHTMLURL = []\<rparr>"

text \<open>A host with one branch, whose only commit has the tree of one file \<open>a\<close>.\<close>

definition one_commit_client :: "nat client" where
  "one_commit_client = (down_client (\<lambda>_. 0))\<lparr>
     Repositories := down_repositories\<lparr>Repositories_ListCommits :=
       (\<lambda>_ _ _ w. (Reply [None, Some \<lparr>rpSHA = ''c1'', rpHTMLURL = ''u1'', rpCommit = Some example_commit\<rparr>] (answered 200), w))\<rparr>,
     Git := down_git\<lparr>Git_GetRef := (\<lambda>_ _ _ w. (Reply \<lparr>grRef = ''refs/heads/main'', grObject = Some ''c1''\<rparr> (answered 200), w)),
       Git_GetTree := (\<lambda>_ _ _ w. (Reply \<lparr>gtSHA = ''t1'', gtEntries = [file_entry (text_file ''a'' [])], gtTruncated = False\<rparr>
          (answered 200), w))\<rparr>\<rparr>"

definition example_input :: RepositoryCommitInput where
  "example_input = \<lparr>ciMessage = ''Add'', ciBranch = [], ciIdempotencyKey = ''uid-1'', ciFiles = [text_file ''./b'' ''x'', gone_file ''a'']\<rparr>"

lemmas commit_examples = text_file_def gone_file_def example_commit_def one_commit_client_def example_input_def
  example_credential_def down_defs zero_defs answered_def

theorem gitTreeEntries_spec_witness:
  "sorted_wrt (<) [''a'', ''b''] \<and> length [''a'', ''b''] = length (ciFiles example_input)"
proof -
  have "gitTreeEntries (ciFiles example_input) =
      Inr (map file_entry [gone_file ''a'', text_file ''b'' ''x''], [''a'', ''b''], [])" by code_simp
  from gitTreeEntries_spec[OF this] show ?thesis by blast
qed

theorem filterNoop_exact_witness:
  "let es = map file_entry [gone_file ''a'', gone_file ''b''] in
   filterNoopGitTreeDeletions one_commit_client ''acme'' ''app'' ''t1'' es [''a'', ''b''] 0 =
     (Inr ([file_entry (gone_file ''a'')], [''a'']), 0) \<and>
   [''a''] = map tePath [file_entry (gone_file ''a'')]"
proof -
  have "filterNoopGitTreeDeletions one_commit_client ''acme'' ''app'' ''t1'' (map file_entry [gone_file ''a'', gone_file ''b''])
      [''a'', ''b''] 0 = (Inr ([file_entry (gone_file ''a'')], [''a'']), 0)" by code_simp
  from filterNoop_exact[OF this] this show ?thesis unfolding Let_def by (simp add: file_entry_def gone_file_def)
qed

theorem CommitFiles_moves_only_its_branch_witness:
  "snd (CommitFiles (github_of (down_client (\<lambda>_. 0))) zero_connection example_credential zero_repository example_input 0) = (0 :: nat)"
proof -
  have "keeps (\<lambda>w. w = (0 :: nat)) (CommitFiles (github_of (down_client (\<lambda>_. 0))) zero_connection
      example_credential zero_repository example_input)"
    by (rule CommitFiles_moves_only_its_branch)
      (simp_all add: object_calls_keep_def branch_calls_keep_def keeps_def down_defs down_def)
  then show ?thesis by (rule keepsD) simp
qed

theorem CommitFiles_retry_finds_commit_witness:
  "CommitFiles (github_of one_commit_client) zero_connection example_credential zero_repository example_input 5 =
     (Inr \<lparr>rcCommitSHA = ''c1'', rcCommitURL = ''u1'', rcBranch = ''main'', rcFiles = [''a'', ''b'']\<rparr>, 5)"
proof -
  let ?k = "\<lparr>rpSHA = ''c1'', rpHTMLURL = ''u1'', rpCommit = Some example_commit\<rparr>"
  have pre: "gitTreeEntries (ciFiles example_input) =
      Inr (map file_entry [gone_file ''a'', text_file ''b'' ''x''], [''a'', ''b''], [])"
    "commit_branch zero_repository example_input = ''main''" "\<not> create_only zero_repository"
    "TrimSpace (ciIdempotencyKey example_input) \<noteq> []"
    "commitMessageHasIdempotencyKey (gcMessage example_commit) (ciIdempotencyKey example_input)"
    by code_simp+
  have calls: "ciFiles example_input \<noteq> []"
    "default_client (github_of one_commit_client) example_credential (csBaseURL (cxSpec zero_connection)) = Inr one_commit_client"
    "confirm_identity one_commit_client (repo_owner zero_connection zero_repository) zero_repository 5 = (Inr (), 5)"
    "Git_GetRef (Git one_commit_client) (repo_owner zero_connection zero_repository) (rsName (rxSpec zero_repository))
       (''heads/'' @ commit_branch zero_repository example_input) 5 =
       (Reply \<lparr>grRef = ''refs/heads/main'', grObject = Some ''c1''\<rparr> (answered 200), 5)"
    "grObject \<lparr>grRef = ''refs/heads/main'', grObject = Some ''c1''\<rparr> = Some ''c1''" "''c1'' \<noteq> ([] :: string)"
    "Repositories_ListCommits (Repositories one_commit_client) (repo_owner zero_connection zero_repository)
       (rsName (rxSpec zero_repository)) (commit_branch zero_repository example_input) 5 =
       (Reply ([None] @ Some ?k # []) (answered 200), 5)"
    using pre(3) by (simp_all add: confirm_identity_def default_client_def clientWithTimeout_def commit_examples)
  have carried: "carries_key (ciIdempotencyKey example_input) (Some ?k)"
    "carries_key (ciIdempotencyKey example_input) cm \<Longrightarrow> cm \<notin> set [None]" for cm
    using pre(5) by (auto simp: carries_key_def)
  show ?thesis
    using CommitFiles_retry_finds_commit[OF pre(1) calls(1-3) pre(4) calls(4-7) carried(1)] carried(2)
    unfolding pre(2) by (simp only: repo_commit.select_convs) blast
qed

end
