(* ===== verification/Github_Checkout.thy ===== *)
theory Github_Checkout
  imports Github_Commit Go_Json
begin

text \<open>
  \<open>backend/github/checkout.go\<close>: \<open>CheckoutFiles\<close> reads a repository's tree within limits on the number
  of files, the size of each and their total, and reports what it left out. The long-timeout
  client is built when the first large blob is met; building a client is a pure function of
  the credential and URL, so it is built where it is used here.
\<close>

definition defaultCheckoutMaxFiles :: int where "defaultCheckoutMaxFiles = 500"
definition defaultCheckoutMaxFileBytes :: int where "defaultCheckoutMaxFileBytes = 256 * 2 ^ 10"
definition defaultCheckoutMaxBinaryFileBytes :: int where "defaultCheckoutMaxBinaryFileBytes = 25 * 2 ^ 20"
definition defaultCheckoutMaxTotalBytes :: int where "defaultCheckoutMaxTotalBytes = 16 * 2 ^ 20"
definition defaultCheckoutMaxTotalBytesWithBinary :: int where
  "defaultCheckoutMaxTotalBytesWithBinary = 48 * 2 ^ 20"
definition largeBlobBytes :: int where "largeBlobBytes = 2 ^ 20"

definition isBinaryContent :: "bytes \<Rightarrow> bool" where
  "isBinaryContent raw =
     (if raw = [] then False else if CHR 0x00 \<in> set raw then True else \<not> utf8_Valid raw)"

definition appendSkip :: "string list \<Rightarrow> string \<Rightarrow> string list" where
  "appendSkip skipped entry =
     (if length skipped \<ge> 100 then skipped
      else if length skipped = 99 then skipped @ [''(more paths skipped)'']
      else skipped @ [entry])"

text \<open>The limits in force: the caller's, or the defaults.\<close>

record checkout_limits =
  limFiles :: int
  limFileBytes :: int
  limBinaryFileBytes :: int
  limTotalBytes :: int
  limAnyFileBytes :: int

definition checkout_limits_of :: "RepositoryCheckoutInput \<Rightarrow> checkout_limits" where
  "checkout_limits_of input =
     (let maxFiles = (if koMaxFiles input \<le> 0 then defaultCheckoutMaxFiles else koMaxFiles input);
          maxFileBytes = (if koMaxFileBytes input \<le> 0 then defaultCheckoutMaxFileBytes else koMaxFileBytes input);
          maxBinaryFileBytes = (if koMaxBinaryFileBytes input \<le> 0 then defaultCheckoutMaxBinaryFileBytes
                                else koMaxBinaryFileBytes input);
          maxTotalBytes = (if koMaxTotalBytes input \<le> 0
                           then (if koIncludeBinary input then defaultCheckoutMaxTotalBytesWithBinary
                                 else defaultCheckoutMaxTotalBytes)
                           else koMaxTotalBytes input)
      in \<lparr>limFiles = maxFiles, limFileBytes = maxFileBytes, limBinaryFileBytes = maxBinaryFileBytes,
          limTotalBytes = maxTotalBytes,
          limAnyFileBytes = (if koIncludeBinary input then max maxFileBytes maxBinaryFileBytes else maxFileBytes)\<rparr>)"

record checkout_state =
  csFiles :: "RepositoryCommitFile list"
  csSkipped :: "string list"
  csTotal :: int

definition skip_path :: "string \<Rightarrow> string \<Rightarrow> checkout_state \<Rightarrow> checkout_state" where
  "skip_path path reason st = st\<lparr>csSkipped := appendSkip (csSkipped st) (path @ reason)\<rparr>"

text \<open>What happens to a blob once it has been read.\<close>

definition checkout_blob :: "checkout_limits \<Rightarrow> bool \<Rightarrow> string \<Rightarrow> bytes \<Rightarrow> checkout_state \<Rightarrow> checkout_state" where
  "checkout_blob lim includeBinary path raw st =
     (let size = int (length raw); binary = isBinaryContent raw in
      if binary \<and> \<not> includeBinary then skip_path path '' (binary)'' st
      else if binary \<and> size > limBinaryFileBytes lim \<or> \<not> binary \<and> size > limFileBytes lim
      then skip_path path '' (file too large)'' st
      else if csTotal st + size > limTotalBytes lim then skip_path path '' (total-size cap)'' st
      else st\<lparr>csTotal := csTotal st + size,
              csFiles := csFiles st @ [\<lparr>cfPath = path,
                cfContent = (if binary then b64_encode raw else raw),
                cfEncoding = (if binary then backend_EncodingBase64 else []), cfDelete = False\<rparr>]\<rparr>)"

definition checkout_entry ::
  "'w github \<Rightarrow> Connection \<Rightarrow> Credential \<Rightarrow> 'w client \<Rightarrow> string \<Rightarrow> Repository \<Rightarrow> bool \<Rightarrow> checkout_limits \<Rightarrow>
     tree_entry \<Rightarrow> checkout_state \<Rightarrow> ('w, checkout_state) act"
where
  "checkout_entry gh conn cred c org repo includeBinary lim entry st =
     (let path = tePath entry in
      if int (length (csFiles st)) \<ge> limFiles lim then ret (skip_path path '' (file-count cap)'' st)
      else if teSize entry > limAnyFileBytes lim then ret (skip_path path '' (file too large)'' st)
      else if csTotal st + teSize entry > limTotalBytes lim then ret (skip_path path '' (total-size cap)'' st)
      else bindA (if teSize entry > largeBlobBytes then lift (blobClient gh cred (csBaseURL (cxSpec conn))) else ret c)
        (\<lambda>bc. try_api (Git_GetBlobRaw (Git bc) org (rsName (rxSpec repo)) (case teSHA entry of None \<Rightarrow> [] | Some s \<Rightarrow> s))
          (\<lambda>raw resp. ret (checkout_blob lim includeBinary path raw st))
          (\<lambda>resp err. classified c resp (Wrapped (''read blob '' @ path @ '': '') err []))))"

definition truncated_notice :: string where
  "truncated_notice = ''(tree truncated by the host: repository has more entries than the tree API returns)''"

definition checkout_ref :: "'w client \<Rightarrow> string \<Rightarrow> Repository \<Rightarrow> RepositoryCheckoutInput \<Rightarrow> ('w, string) act" where
  "checkout_ref c org repo input =
     (let ref = (if koRef input = [] then rsDefaultBranch (rxSpec repo) else koRef input) in
      if ref = [] then on_reply c (Repositories_Get (Repositories c) org (rsName (rxSpec repo)))
        (\<lambda>current resp. ret (hrDefaultBranch current))
      else ret ref)"

definition blob_entries :: "git_tree \<Rightarrow> tree_entry list" where
  "blob_entries tree = sort_key tePath (filter (\<lambda>e. teType e = ''blob'') (gtEntries tree))"

definition CheckoutFiles ::
  "'w github \<Rightarrow> Connection \<Rightarrow> Credential \<Rightarrow> Repository \<Rightarrow> RepositoryCheckoutInput \<Rightarrow> ('w, RepositoryCheckoutResult) act"
where
  "CheckoutFiles gh conn cred repo input =
     bindA (lift (default_client gh cred (csBaseURL (cxSpec conn)))) (\<lambda>c.
     let org = repo_owner conn repo; name = rsName (rxSpec repo); lim = checkout_limits_of input in
     bindA (checkout_ref c org repo input) (\<lambda>ref.
     try_api (Repositories_GetCommitSHA1 (Repositories c) org name ref)
       (\<lambda>sha resp. try_api (Git_GetTree (Git c) org name sha)
         (\<lambda>tree resp.
            bindA (forA (checkout_entry gh conn cred c org repo (koIncludeBinary input) lim) (blob_entries tree)
                \<lparr>csFiles = [], csSkipped = (if gtTruncated tree then [truncated_notice] else []), csTotal = 0\<rparr>)
              (\<lambda>st. ret \<lparr>kkRef = ref, kkCommitSHA = sha, kkFiles = csFiles st, kkSkipped = csSkipped st\<rparr>))
         (\<lambda>resp err. classified c resp (Wrapped (''read tree at '' @ sha @ '': '') err [])))
       (\<lambda>resp err. classified c resp (Wrapped (''resolve ref '' @ quoted ref @ '': '') err []))))"

subsection \<open>Limits and completeness\<close>

lemma length_appendSkip: "length ss \<le> 100 \<Longrightarrow> length (appendSkip ss e) \<le> 100"
  by (simp add: appendSkip_def)

lemma appendSkip_mem: "length (appendSkip ss e) < 100 \<Longrightarrow> set (appendSkip ss e) = insert e (set ss) \<and> length ss < 100"
  by (auto simp: appendSkip_def split: if_splits)

text \<open>The bytes a checked-out file stands for, and when it is within the limits.\<close>

definition file_bytes :: "RepositoryCommitFile \<Rightarrow> bytes" where
  "file_bytes f = (if cfEncoding f = [] then cfContent f
     else case b64_decode (cfContent f) of None \<Rightarrow> [] | Some raw \<Rightarrow> raw)"

definition file_within :: "checkout_limits \<Rightarrow> bool \<Rightarrow> RepositoryCommitFile \<Rightarrow> bool" where
  "file_within lim includeBinary f \<longleftrightarrow> \<not> cfDelete f \<and>
     (if isBinaryContent (file_bytes f)
      then includeBinary \<and> cfEncoding f = backend_EncodingBase64 \<and> cfContent f = b64_encode (file_bytes f) \<and>
           int (length (file_bytes f)) \<le> limBinaryFileBytes lim
      else cfEncoding f = [] \<and> int (length (file_bytes f)) \<le> limFileBytes lim)"

definition checkout_ok :: "checkout_limits \<Rightarrow> bool \<Rightarrow> checkout_state \<Rightarrow> bool" where
  "checkout_ok lim includeBinary st \<longleftrightarrow>
     int (length (csFiles st)) \<le> limFiles lim \<and> csTotal st \<le> limTotalBytes lim \<and>
     csTotal st = sum_list (map (\<lambda>f. int (length (file_bytes f))) (csFiles st)) \<and>
     length (csSkipped st) \<le> 100 \<and> list_all (file_within lim includeBinary) (csFiles st)"

definition skip_reasons :: "string list" where
  "skip_reasons = ['' (file-count cap)'', '' (file too large)'', '' (total-size cap)'', '' (binary)'']"

text \<open>Where the loop stands after the entries \<open>es\<close>.\<close>

definition checkout_covers :: "tree_entry list \<Rightarrow> checkout_state \<Rightarrow> bool" where
  "checkout_covers es st \<longleftrightarrow> subseq (map cfPath (csFiles st)) (map tePath es) \<and>
     (length (csSkipped st) < 100 \<longrightarrow>
        (\<forall>e \<in> set es. tePath e \<in> cfPath ` set (csFiles st) \<or>
           (\<exists>r \<in> set skip_reasons. tePath e @ r \<in> set (csSkipped st))))"

lemma skip_path_ok [simp]: "checkout_ok lim b st \<Longrightarrow> checkout_ok lim b (skip_path p r st)"
  by (simp add: checkout_ok_def skip_path_def length_appendSkip)

lemma skip_path_covers:
  assumes "checkout_covers es st" and "r \<in> set skip_reasons"
  shows "checkout_covers (es @ [e]) (skip_path (tePath e) r st)"
proof -
  have "subseq (map cfPath (csFiles st)) (map tePath es @ [tePath e])"
    using assms(1) unfolding checkout_covers_def by (metis list_emb_append2 append_Nil2 subseq_rev_drop_many)
  with assms show ?thesis
    unfolding checkout_covers_def skip_path_def by (auto dest!: appendSkip_mem)
qed

lemma checkout_file:
  fixes raw :: bytes and path :: string
  defines "f \<equiv> \<lparr>cfPath = path, cfContent = (if isBinaryContent raw then b64_encode raw else raw),
    cfEncoding = (if isBinaryContent raw then backend_EncodingBase64 else []), cfDelete = False\<rparr>"
  shows "file_bytes f = raw" "cfPath f = path"
    and "isBinaryContent raw \<longrightarrow> b \<and> int (length raw) \<le> limBinaryFileBytes lim \<Longrightarrow>
      \<not> isBinaryContent raw \<longrightarrow> int (length raw) \<le> limFileBytes lim \<Longrightarrow> file_within lim b f"
proof -
  show fb: "file_bytes f = raw"
    by (simp add: file_bytes_def f_def b64_decode_encode backend_EncodingBase64_def)
  show "cfPath f = path" by (simp add: f_def)
  show "isBinaryContent raw \<longrightarrow> b \<and> int (length raw) \<le> limBinaryFileBytes lim \<Longrightarrow>
      \<not> isBinaryContent raw \<longrightarrow> int (length raw) \<le> limFileBytes lim \<Longrightarrow> file_within lim b f"
    unfolding file_within_def fb by (auto simp: f_def)
qed

text \<open>The three outcomes of a blob that was read.\<close>

lemma checkout_blob_cases:
  obtains r where "r \<in> set skip_reasons" "checkout_blob lim b path raw st = skip_path path r st"
  | f where "checkout_blob lim b path raw st =
        st\<lparr>csTotal := csTotal st + int (length raw), csFiles := csFiles st @ [f]\<rparr>"
      "file_bytes f = raw" "cfPath f = path" "file_within lim b f" "csTotal st + int (length raw) \<le> limTotalBytes lim"
proof -
  define size where "size = int (length raw)"
  consider "isBinaryContent raw \<and> \<not> b" | "\<not> (isBinaryContent raw \<and> \<not> b)"
      "isBinaryContent raw \<and> size > limBinaryFileBytes lim \<or> \<not> isBinaryContent raw \<and> size > limFileBytes lim"
    | "\<not> (isBinaryContent raw \<and> \<not> b)"
      "\<not> (isBinaryContent raw \<and> size > limBinaryFileBytes lim \<or> \<not> isBinaryContent raw \<and> size > limFileBytes lim)"
    by blast
  then show thesis
  proof cases
    case 1
    with that(1)[of "'' (binary)''"] show ?thesis by (simp add: checkout_blob_def skip_reasons_def Let_def)
  next
    case 2
    with that(1)[of "'' (file too large)''"] show ?thesis
      by (simp add: checkout_blob_def skip_reasons_def Let_def size_def)
  next
    case 3
    show ?thesis
    proof (cases "csTotal st + size > limTotalBytes lim")
      case True
      have "checkout_blob lim b path raw st = skip_path path '' (total-size cap)'' st"
        unfolding checkout_blob_def Let_def using 3 True unfolding size_def by (simp only: if_False if_True)
      then show ?thesis by (rule that(1)[rotated]) (simp add: skip_reasons_def)
    next
      case False
      have "checkout_blob lim b path raw st = st\<lparr>csTotal := csTotal st + int (length raw),
          csFiles := csFiles st @ [\<lparr>cfPath = path, cfContent = (if isBinaryContent raw then b64_encode raw else raw),
            cfEncoding = (if isBinaryContent raw then backend_EncodingBase64 else []), cfDelete = False\<rparr>]\<rparr>"
        unfolding checkout_blob_def Let_def using 3 False unfolding size_def by (simp only: if_False)
      from that(2)[OF this checkout_file(1) checkout_file(2) checkout_file(3)] 3 False show ?thesis
        by (auto simp: size_def)
    qed
  qed
qed

lemma checkout_blob_step:
  assumes "checkout_ok lim b st" "checkout_covers es st" "int (length (csFiles st)) < limFiles lim"
  shows "checkout_ok lim b (checkout_blob lim b (tePath e) raw st) \<and>
    checkout_covers (es @ [e]) (checkout_blob lim b (tePath e) raw st)"
proof (cases rule: checkout_blob_cases[where lim = lim and b = b and path = "tePath e" and raw = raw and st = st])
  case (1 r)
  with assms show ?thesis by (simp add: skip_path_covers)
next
  case (2 f)
  have "subseq (map cfPath (csFiles st) @ [tePath e]) (map tePath es @ [tePath e])"
    using assms(2) by (simp add: checkout_covers_def)
  then have "checkout_covers (es @ [e]) (checkout_blob lim b (tePath e) raw st)"
    using assms(2) 2(1,3) by (auto simp: checkout_covers_def)
  moreover have "checkout_ok lim b (checkout_blob lim b (tePath e) raw st)"
    using assms(1,3) 2 by (auto simp: checkout_ok_def)
  ultimately show ?thesis by blast
qed

lemma checkout_entry_step:
  assumes "checkout_entry gh conn cred c org repo b lim e st w = (Inr st', w')"
    and "checkout_ok lim b st" "checkout_covers es st"
  shows "checkout_ok lim b st' \<and> checkout_covers (es @ [e]) st'"
proof -
  consider r where "r \<in> set skip_reasons" "st' = skip_path (tePath e) r st"
    | raw where "st' = checkout_blob lim b (tePath e) raw st" "int (length (csFiles st)) < limFiles lim"
    using assms(1)
    by (auto simp: checkout_entry_def Let_def skip_reasons_def bindA_Inr_iff try_classified_Inr split: if_splits)
  then show ?thesis
    using assms(2,3) checkout_blob_step skip_path_covers skip_path_ok by cases blast+
qed

lemma limits_positive:
  "0 \<le> limFiles (checkout_limits_of input)" "0 \<le> limTotalBytes (checkout_limits_of input)"
  by (auto simp: checkout_limits_of_def Let_def defaultCheckoutMaxFiles_def defaultCheckoutMaxTotalBytes_def
      defaultCheckoutMaxTotalBytesWithBinary_def)

lemma CheckoutFiles_loop:
  assumes "CheckoutFiles gh conn cred repo input w = (Inr res, w')"
  obtains tree resp w1 w2 st where
    "Git_GetTree (Git (conn_client gh conn cred)) (repo_owner conn repo) (rsName (rxSpec repo)) (kkCommitSHA res) w1 = (Reply tree resp, w2)"
    "kkFiles res = csFiles st" "kkSkipped res = csSkipped st"
    "checkout_ok (checkout_limits_of input) (koIncludeBinary input) st" "checkout_covers (blob_entries tree) st"
proof -
  define c where "c = conn_client gh conn cred"
  define lim where "lim = checkout_limits_of input"
  define loop where "loop = (\<lambda>tree. forA (checkout_entry gh conn cred c (repo_owner conn repo) repo (koIncludeBinary input) lim)
      (blob_entries tree) \<lparr>csFiles = [], csSkipped = (if gtTruncated tree then [truncated_notice] else []), csTotal = 0\<rparr>)"
  have "\<exists>ref sha tree resp w1 w2 st. Git_GetTree (Git c) (repo_owner conn repo) (rsName (rxSpec repo)) sha w1 = (Reply tree resp, w2) \<and>
      loop tree w2 = (Inr st, w') \<and> res = \<lparr>kkRef = ref, kkCommitSHA = sha, kkFiles = csFiles st, kkSkipped = csSkipped st\<rparr>"
    using assms[unfolded CheckoutFiles_def, THEN with_client_Inr]
    unfolding Let_def c_def[symmetric] lim_def[symmetric] loop_def
    unfolding bindA_Inr_iff try_classified_Inr ret_iff by blast
  then obtain ref sha tree resp w1 w2 st where
      tree: "Git_GetTree (Git c) (repo_owner conn repo) (rsName (rxSpec repo)) sha w1 = (Reply tree resp, w2)"
    and loop: "loop tree w2 = (Inr st, w')"
    and res: "res = \<lparr>kkRef = ref, kkCommitSHA = sha, kkFiles = csFiles st, kkSkipped = csSkipped st\<rparr>"
    by blast
  have "checkout_ok lim (koIncludeBinary input) st \<and> checkout_covers (blob_entries tree) st"
    using loop unfolding loop_def
  proof (rule forA_prefix[where I = "\<lambda>es st. checkout_ok lim (koIncludeBinary input) st \<and> checkout_covers es st"])
    show "checkout_ok lim (koIncludeBinary input) \<lparr>csFiles = [], csSkipped = (if gtTruncated tree then [truncated_notice] else []), csTotal = 0\<rparr> \<and>
      checkout_covers [] \<lparr>csFiles = [], csSkipped = (if gtTruncated tree then [truncated_notice] else []), csTotal = 0\<rparr>"
      using limits_positive[of input] by (simp add: checkout_ok_def checkout_covers_def lim_def)
  qed (metis checkout_entry_step)
  with that[of w1 tree resp w2 st] tree res show thesis by (simp add: c_def lim_def)
qed

text \<open>
  (C29) A checkout stays within the limits in force whatever the host reports about sizes: no
  more files than allowed, each file within the cap of its kind, binary files only when asked
  for and encoded so that they decode to the bytes that were read, the total of all bytes
  within the total cap, and at most 100 lines about what was left out.
\<close>

theorem CheckoutFiles_within_limits:
  assumes "CheckoutFiles gh conn cred repo input w = (Inr res, w')"
  shows "int (length (kkFiles res)) \<le> limFiles (checkout_limits_of input) \<and>
    sum_list (map (\<lambda>f. int (length (file_bytes f))) (kkFiles res)) \<le> limTotalBytes (checkout_limits_of input) \<and>
    list_all (file_within (checkout_limits_of input) (koIncludeBinary input)) (kkFiles res) \<and>
    length (kkSkipped res) \<le> 100"
  using assms by (rule CheckoutFiles_loop) (simp add: checkout_ok_def)

text \<open>
  A checkout loses nothing silently: the files are, in path order, some of the blobs of the
  tree at the reported commit, and unless the report is full every blob of that tree is either
  returned or reported with the reason why it is not.
\<close>

theorem CheckoutFiles_complete:
  assumes "CheckoutFiles gh conn cred repo input w = (Inr res, w')"
  shows "\<exists>tree resp w1 w2.
    Git_GetTree (Git (conn_client gh conn cred)) (repo_owner conn repo) (rsName (rxSpec repo)) (kkCommitSHA res) w1 = (Reply tree resp, w2) \<and>
    subseq (map cfPath (kkFiles res)) (map tePath (blob_entries tree)) \<and>
    (length (kkSkipped res) < 100 \<longrightarrow>
       (\<forall>e \<in> set (gtEntries tree). teType e = ''blob'' \<longrightarrow> tePath e \<in> cfPath ` set (kkFiles res) \<or>
          (\<exists>r \<in> set skip_reasons. tePath e @ r \<in> set (kkSkipped res))))"
  using assms
proof (rule CheckoutFiles_loop)
  fix tree resp w1 w2 st
  assume "Git_GetTree (Git (conn_client gh conn cred)) (repo_owner conn repo) (rsName (rxSpec repo)) (kkCommitSHA res) w1 = (Reply tree resp, w2)"
    and "kkFiles res = csFiles st" "kkSkipped res = csSkipped st" and "checkout_covers (blob_entries tree) st"
  then show ?thesis
    by (intro exI[of _ tree] exI[of _ resp] exI[of _ w1] exI[of _ w2])
      (auto simp: checkout_covers_def blob_entries_def)
qed

subsection \<open>Instance\<close>

text \<open>A tree of a text file, a binary file and a directory; the limits allow one file.\<close>

definition example_entry :: "string \<Rightarrow> string \<Rightarrow> int \<Rightarrow> tree_entry" where
  "example_entry p t n = \<lparr>tePath = p, teMode = [], teType = t, teSHA = Some p, teContent = None, teSize = n\<rparr>"

definition checkout_client :: "nat client" where
  "checkout_client = (down_client (\<lambda>_. 0))\<lparr>
     Repositories := down_repositories\<lparr>Repositories_GetCommitSHA1 := (\<lambda>_ _ _ w. (Reply ''c1'' (answered 200), w))\<rparr>,
     Git := down_git\<lparr>Git_GetTree := (\<lambda>_ _ _ w. (Reply \<lparr>gtSHA = ''t1'', gtEntries =
            [example_entry ''b'' ''blob'' 2, example_entry ''a'' ''blob'' 2, example_entry ''d'' ''tree'' 0], gtTruncated = False\<rparr>
          (answered 200), w)),
       Git_GetBlobRaw := (\<lambda>_ _ s w. (Reply (if s = ''a'' then ''hi'' else [CHR 0x00, CHR 0x01]) (answered 200), Suc w))\<rparr>\<rparr>"

definition checkout_input :: RepositoryCheckoutInput where
  "checkout_input = \<lparr>koRef = ''main'', koMaxFiles = 5, koMaxFileBytes = 10, koIncludeBinary = False,
     koMaxBinaryFileBytes = 0, koMaxTotalBytes = 10\<rparr>"

lemma checkout_example:
  "CheckoutFiles (github_of checkout_client) zero_connection example_credential zero_repository checkout_input 0 =
     (Inr \<lparr>kkRef = ''main'', kkCommitSHA = ''c1'', kkFiles = [text_file ''a'' ''hi''], kkSkipped = [''b (binary)'']\<rparr>, 2)"
  by code_simp

theorem CheckoutFiles_within_limits_witness:
  "list_all (file_within (checkout_limits_of checkout_input) False) [text_file ''a'' ''hi'']"
  using CheckoutFiles_within_limits[OF checkout_example] by (simp add: checkout_input_def)

theorem CheckoutFiles_complete_witness:
  "\<exists>tree :: git_tree. subseq [''a''] (map tePath (blob_entries tree)) \<and>
     (\<forall>e \<in> set (gtEntries tree). teType e = ''blob'' \<longrightarrow> tePath e = ''a'' \<or> (\<exists>r \<in> set skip_reasons. tePath e @ r = ''b (binary)''))"
  using CheckoutFiles_complete[OF checkout_example] by (auto simp: text_file_def)

end
