(* ===== verification/Github_Actions.thy ===== *)
theory Github_Actions
  imports Github_Commit
begin

text \<open>
  \<open>backend/github/actions.go\<close>: the latest run of a workflow with the tails of the logs of its
  failed jobs, and the dispatch of a new run. The jobs and their logs are best effort: their
  failure is not an error of the call.
\<close>

definition workflowJobLogMaxBytes :: nat where "workflowJobLogMaxBytes = 2 ^ 20"
definition workflowJobLogDefaultLines :: int where "workflowJobLogDefaultLines = 200"

definition tailLines :: "string \<Rightarrow> int \<Rightarrow> string" where
  "tailLines s n =
     (let lines = Split1 newline (TrimRight s [newline]);
          lines = (if int (length lines) > n then drop (length lines - nat n) lines else lines)
      in Join [newline] lines)"

text \<open>The log URL is followed with the default client and read up to \<open>workflowJobLogMaxBytes\<close>.\<close>

definition jobLogTail :: "'w client \<Rightarrow> string \<Rightarrow> string \<Rightarrow> int \<Rightarrow> int \<Rightarrow> ('w, string) act" where
  "jobLogTail c org repo jobID maxLines =
     (let maxLines = (if maxLines \<le> 0 then workflowJobLogDefaultLines else maxLines) in
      try_api (Actions_GetWorkflowJobLogs (Actions c) org repo jobID)
        (\<lambda>logURL resp. case logURL of
           None \<Rightarrow> ret []
         | Some url \<Rightarrow> try_api (HTTP_Get (Actions c) url)
             (\<lambda>body resp. ret (tailLines (take workflowJobLogMaxBytes body) maxLines))
             (\<lambda>resp err. ret []))
        (\<lambda>resp err. ret []))"

definition job_status :: "'w client \<Rightarrow> string \<Rightarrow> string \<Rightarrow> int \<Rightarrow> workflow_job \<Rightarrow> WorkflowJobStatus list \<Rightarrow> ('w, WorkflowJobStatus list) act" where
  "job_status c org repo maxLines j jobs =
     bindA (if hjConclusion j = ''failure'' then jobLogTail c org repo (hjID j) maxLines else ret [])
       (\<lambda>log. ret (jobs @ [\<lparr>wjName = hjName j, wjStatus = hjStatus j, wjConclusion = hjConclusion j, wjFailureLog = log\<rparr>]))"

definition no_run :: WorkflowRunStatus where
  "no_run = \<lparr>wrFound = False, wrRunID = 0, wrHTMLURL = [], wrHeadSHA = [], wrStatus = [], wrConclusion = [], wrJobs = []\<rparr>"

definition LatestWorkflowRun ::
  "'w github \<Rightarrow> Connection \<Rightarrow> Credential \<Rightarrow> Repository \<Rightarrow> WorkflowRunQuery \<Rightarrow> ('w, WorkflowRunStatus) act"
where
  "LatestWorkflowRun gh conn cred repo query =
     bindA (lift (default_client gh cred (csBaseURL (cxSpec conn)))) (\<lambda>c.
     let org = repo_owner conn repo; name = rsName (rxSpec repo) in
     on_reply c (Actions_ListWorkflowRunsByFileName (Actions c) org name (wqWorkflowFileName query) (wqHeadSHA query))
       (\<lambda>runs resp. case snd runs of
          [] \<Rightarrow> ret no_run
        | run # rest \<Rightarrow>
            if fst runs = 0 then ret no_run
            else let out = \<lparr>wrFound = True, wrRunID = hwID run, wrHTMLURL = hwHTMLURL run, wrHeadSHA = hwHeadSHA run,
                            wrStatus = hwStatus run, wrConclusion = hwConclusion run, wrJobs = []\<rparr>
              in try_api (Actions_ListWorkflowJobs (Actions c) org name (hwID run))
                (\<lambda>jobs resp. bindA (forA (job_status c org name (wqMaxLogLines query)) jobs [])
                   (\<lambda>js. ret (out\<lparr>wrJobs := js\<rparr>)))
                (\<lambda>resp err. ret out)))"

definition DispatchWorkflow ::
  "'w github \<Rightarrow> Connection \<Rightarrow> Credential \<Rightarrow> Repository \<Rightarrow> string \<Rightarrow> string \<Rightarrow> ('w, unit) act"
where
  "DispatchWorkflow gh conn cred repo workflowFileName ref =
     bindA (lift (default_client gh cred (csBaseURL (cxSpec conn)))) (\<lambda>c.
     let ref = (if TrimSpace ref = [] then ''main'' else ref) in
     try_api (Actions_CreateWorkflowDispatchEventByFileName (Actions c) (repo_owner conn repo) (rsName (rxSpec repo)) workflowFileName ref)
       (\<lambda>u resp. ret ())
       (\<lambda>resp err. classified c None err))"

subsection \<open>Log tails\<close>

lemma tailLines_lines:
  assumes "0 < n"
  shows "Split1 newline (tailLines s n) =
      drop (length (Split1 newline (TrimRight s [newline])) - nat n) (Split1 newline (TrimRight s [newline]))"
proof -
  define ls where "ls = Split1 newline (TrimRight s [newline])"
  define ks where "ks = drop (length ls - nat n) ls"
  have "tailLines s n = Join [newline] ks"
    using assms by (auto simp: tailLines_def ls_def[symmetric] ks_def Let_def)
  moreover have "ks \<noteq> []"
  proof -
    have "0 < length ls" "0 < nat n" using assms by (simp_all add: ls_def)
    then have "length ls - nat n < length ls" by (rule diff_less[rotated])
    then show ?thesis by (simp add: ks_def)
  qed
  moreover have "\<forall>x \<in> set ks. newline \<notin> set x"
    unfolding ks_def ls_def by (meson Split1_no_sep in_set_dropD)
  ultimately have "Split1 newline (tailLines s n) = ks" by (simp add: Split1_Join)
  then show ?thesis by (simp add: ls_def[symmetric] ks_def)
qed

text \<open>
  \<open>tailLines s n\<close> is the last \<open>n\<close> lines of the text without its trailing newlines: the lines
  it gives are a suffix of the text's lines, \<open>n\<close> of them, or all if there are no more than \<open>n\<close>.
\<close>

theorem tailLines_last:
  assumes "0 < n"
  shows "suffix (Split1 newline (tailLines s n)) (Split1 newline (TrimRight s [newline])) \<and>
    length (Split1 newline (tailLines s n)) = min (nat n) (length (Split1 newline (TrimRight s [newline])))"
  unfolding tailLines_lines[OF assms] by (auto simp: suffix_drop)

theorem tailLines_last_witness:
  "suffix (Split1 newline (tailLines (''a'' @ [newline] @ ''b'' @ [newline] @ ''c'' @ [newline]) 2)) [''a'', ''b'', ''c'']"
proof -
  have "TrimRight (''a'' @ [newline] @ ''b'' @ [newline] @ ''c'' @ [newline]) [newline] = ''a'' @ [newline] @ ''b'' @ [newline] @ ''c''"
    by (simp add: TrimRight_def)
  then show ?thesis
    using tailLines_last[of 2 "''a'' @ [newline] @ ''b'' @ [newline] @ ''c'' @ [newline]"] by simp
qed

text \<open>What is known of the statuses of the jobs after the jobs \<open>js\<close>.\<close>

definition jobs_reported :: "int \<Rightarrow> workflow_job list \<Rightarrow> WorkflowJobStatus list \<Rightarrow> bool" where
  "jobs_reported maxLines js out \<longleftrightarrow>
     map wjName out = map hjName js \<and> map wjStatus out = map hjStatus js \<and> map wjConclusion out = map hjConclusion js \<and>
     (\<forall>s \<in> set out. wjFailureLog s \<noteq> [] \<longrightarrow> wjConclusion s = ''failure'' \<and>
        length (Split1 newline (wjFailureLog s)) \<le> nat (if maxLines \<le> 0 then workflowJobLogDefaultLines else maxLines))"

lemma jobLogTail_lines:
  assumes "jobLogTail c org repo i maxLines w = (Inr log, w')" and "log \<noteq> []"
  shows "length (Split1 newline log) \<le> nat (if maxLines \<le> 0 then workflowJobLogDefaultLines else maxLines)"
proof -
  define n where "n = (if maxLines \<le> 0 then workflowJobLogDefaultLines else maxLines)"
  have "0 < n" by (simp add: n_def workflowJobLogDefaultLines_def)
  moreover obtain body where "log = tailLines body n"
    using assms unfolding jobLogTail_def Let_def n_def[symmetric]
    by (auto simp: try_api_def split: prod.splits reply.splits option.splits)
  ultimately have "length (Split1 newline log) \<le> nat n" by (simp add: tailLines_lines)
  then show ?thesis by (simp add: n_def)
qed

lemma jobs_reported_loop:
  assumes "forA (job_status c org repo maxLines) js [] w = (Inr out, w')"
  shows "jobs_reported maxLines js out"
  using assms
proof (rule forA_prefix[where I = "jobs_reported maxLines"])
  fix ys x zs s t w w'
  assume I: "jobs_reported maxLines ys s" and "job_status c org repo maxLines x s w = (Inr t, w')"
  then obtain log where t: "t = s @ [\<lparr>wjName = hjName x, wjStatus = hjStatus x, wjConclusion = hjConclusion x, wjFailureLog = log\<rparr>]"
    and log: "hjConclusion x = ''failure'' \<and> (\<exists>w w'. jobLogTail c org repo (hjID x) maxLines w = (Inr log, w')) \<or> log = []"
    by (auto simp: job_status_def bindA_Inr_iff split: if_splits)
  show "jobs_reported maxLines (ys @ [x]) t"
    using I log jobLogTail_lines unfolding t by (fastforce simp: jobs_reported_def)
qed (simp add: jobs_reported_def)

text \<open>
  What \<open>LatestWorkflowRun\<close> reports is what the host listed: no run if the host listed none,
  and otherwise the first run listed, with either no jobs (their listing failed) or exactly
  the jobs of that run in order; only failed jobs have a log, of at most the requested lines.
\<close>

theorem LatestWorkflowRun_reports:
  assumes "LatestWorkflowRun gh conn cred repo query w = (Inr out, w')"
  shows "\<exists>total runs resp w1. Actions_ListWorkflowRunsByFileName (Actions (conn_client gh conn cred)) (repo_owner conn repo)
       (rsName (rxSpec repo)) (wqWorkflowFileName query) (wqHeadSHA query) w = (Reply (total, runs) resp, w1) \<and>
    (if total = 0 \<or> runs = [] then out = no_run \<and> w' = w1
     else wrFound out \<and> wrRunID out = hwID (hd runs) \<and> wrHeadSHA out = hwHeadSHA (hd runs) \<and>
       wrStatus out = hwStatus (hd runs) \<and> wrConclusion out = hwConclusion (hd runs) \<and>
       (wrJobs out = [] \<or> (\<exists>jobs r w2. Actions_ListWorkflowJobs (Actions (conn_client gh conn cred)) (repo_owner conn repo)
            (rsName (rxSpec repo)) (hwID (hd runs)) w1 = (Reply jobs r, w2) \<and> jobs_reported (wqMaxLogLines query) jobs (wrJobs out))))"
proof -
  define c where "c = conn_client gh conn cred"
  from assms[unfolded LatestWorkflowRun_def Let_def, THEN with_client_Inr, folded c_def]
  obtain a resp w1 where list: "Actions_ListWorkflowRunsByFileName (Actions c) (repo_owner conn repo)
       (rsName (rxSpec repo)) (wqWorkflowFileName query) (wqHeadSHA query) w = (Reply a resp, w1)"
    and rest: "(case snd a of [] \<Rightarrow> ret no_run
        | run # rest \<Rightarrow>
            if fst a = 0 then ret no_run
            else try_api (Actions_ListWorkflowJobs (Actions c) (repo_owner conn repo) (rsName (rxSpec repo)) (hwID run))
                (\<lambda>jobs resp. bindA (forA (job_status c (repo_owner conn repo) (rsName (rxSpec repo)) (wqMaxLogLines query)) jobs [])
                   (\<lambda>js. ret (\<lparr>wrFound = True, wrRunID = hwID run, wrHTMLURL = hwHTMLURL run, wrHeadSHA = hwHeadSHA run,
                            wrStatus = hwStatus run, wrConclusion = hwConclusion run, wrJobs = []\<rparr>\<lparr>wrJobs := js\<rparr>)))
                (\<lambda>resp err. ret \<lparr>wrFound = True, wrRunID = hwID run, wrHTMLURL = hwHTMLURL run, wrHeadSHA = hwHeadSHA run,
                            wrStatus = hwStatus run, wrConclusion = hwConclusion run, wrJobs = []\<rparr>)) w1 = (Inr out, w')"
    unfolding on_reply_Inr by blast
  obtain total runs where a: "a = (total, runs)" by (cases a)
  show ?thesis
  proof (cases "total = 0 \<or> runs = []")
    case True
    then have "out = no_run \<and> w' = w1" using rest by (auto simp: a split: list.splits)
    with True list show ?thesis
      by (intro exI[of _ total] exI[of _ runs] exI[of _ resp] exI[of _ w1]) (simp add: c_def a)
  next
    case False
    then obtain run more where runs: "runs = run # more" by (cases runs) auto
    from False rest have
      "wrFound out \<and> wrRunID out = hwID run \<and> wrHeadSHA out = hwHeadSHA run \<and>
       wrStatus out = hwStatus run \<and> wrConclusion out = hwConclusion run \<and>
       (wrJobs out = [] \<or> (\<exists>jobs r w2. Actions_ListWorkflowJobs (Actions c) (repo_owner conn repo)
            (rsName (rxSpec repo)) (hwID run) w1 = (Reply jobs r, w2) \<and> jobs_reported (wqMaxLogLines query) jobs (wrJobs out)))"
      unfolding a runs
      by (auto elim!: try_api_Inr_cases simp: bindA_Inr_iff dest!: jobs_reported_loop)
    with list False runs show ?thesis by (intro exI[of _ total] exI[of _ runs] exI[of _ resp] exI[of _ w1]) (simp add: c_def a)
  qed
qed

text \<open>A host whose latest run has one failed job.\<close>

definition actions_client :: "nat client" where
  "actions_client = (down_client (\<lambda>_. 0))\<lparr>Actions := down_actions\<lparr>
     Actions_ListWorkflowRunsByFileName := (\<lambda>_ _ _ _ w. (Reply (1, [\<lparr>hwID = 9, hwHTMLURL = [], hwHeadSHA = ''c1'',
        hwStatus = ''completed'', hwConclusion = ''failure''\<rparr>]) (answered 200), w)),
     Actions_ListWorkflowJobs := (\<lambda>_ _ _ w. (Reply [\<lparr>hjID = 1, hjName = ''build'', hjStatus = ''completed'',
        hjConclusion = ''failure''\<rparr>] (answered 200), w)),
     Actions_GetWorkflowJobLogs := (\<lambda>_ _ _ w. (Reply (Some ''u'') (answered 302), w)),
     HTTP_Get := (\<lambda>_ w. (Reply (''a'' @ [newline] @ ''b'') (answered 200), Suc w))\<rparr>\<rparr>"

theorem LatestWorkflowRun_reports_witness:
  "jobs_reported 1 [\<lparr>hjID = 1, hjName = ''build'', hjStatus = ''completed'', hjConclusion = ''failure''\<rparr>]
     [\<lparr>wjName = ''build'', wjStatus = ''completed'', wjConclusion = ''failure'', wjFailureLog = ''b''\<rparr>]"
proof -
  have run: "LatestWorkflowRun (github_of actions_client) zero_connection example_credential zero_repository
      \<lparr>wqWorkflowFileName = ''ci.yml'', wqHeadSHA = [], wqMaxLogLines = 1\<rparr> 0 =
      (Inr \<lparr>wrFound = True, wrRunID = 9, wrHTMLURL = [], wrHeadSHA = ''c1'', wrStatus = ''completed'',
         wrConclusion = ''failure'', wrJobs = [\<lparr>wjName = ''build'', wjStatus = ''completed'', wjConclusion = ''failure'',
           wjFailureLog = ''b''\<rparr>]\<rparr>, 1)"
    by code_simp
  from LatestWorkflowRun_reports[OF run] show ?thesis
    by (simp add: actions_client_def github_of_def down_client_def)
qed

end
