(* ===== verification/Github_Collaboration.thy ===== *)
theory Github_Collaboration
  imports Github_Commit
begin

text \<open>
  \<open>backend/github/collaboration.go\<close>: branches, pull requests and comments. Every operation first
  confirms that the host's repository is the registered one; pull requests are accepted only
  when they are bound to the requested head, base and commit.
\<close>

subsection \<open>Identities\<close>

text \<open>The regular expression \<open>^[0-9a-f]{40}$\<close>.\<close>

definition objectID :: "string \<Rightarrow> bool" where
  "objectID s \<longleftrightarrow> length s = 40 \<and> list_all (\<lambda>c. c \<in> set ''0123456789abcdef'') s"

definition collaborationClient ::
  "'w github \<Rightarrow> Connection \<Rightarrow> Credential \<Rightarrow> Repository \<Rightarrow> ('w, 'w client) act"
where
  "collaborationClient gh conn cred repo =
     (if rtRepoID (rxStatus repo) = [] \<or> omDeletion (rxMeta repo) \<noteq> None \<or> omDeletion (cxMeta conn) \<noteq> None
      then failA IdentityConflict
      else bindA (lift (default_client gh cred (csBaseURL (cxSpec conn)))) (\<lambda>c.
        on_reply c (Repositories_Get (Repositories c) (repo_owner conn repo) (rsName (rxSpec repo))) (\<lambda>remote resp.
          if hrID remote \<le> 0 \<or> FormatInt (hrID remote) \<noteq> rtRepoID (rxStatus repo) \<or>
             \<not> EqualFold (hrFullName remote) (repo_owner conn repo @ ''/'' @ rsName (rxSpec repo))
          then failA IdentityConflict
          else ret c)))"

definition validBranch :: "string \<Rightarrow> bool" where
  "validBranch branch =
     (if branch = [] \<or> length branch > 255 \<or> HasPrefix branch ''-'' \<or> HasPrefix branch ''/'' \<or>
         HasSuffix branch ''/'' \<or> HasSuffix branch ''.'' \<or>
         ContainsAny branch ('' ~^:?*['' @ [CHR 0x5C, CHR 0x09, CHR 0x0D, CHR 0x0A, CHR 0x00]) \<or>
         Contains branch ''..'' \<or> Contains branch [CHR ''@'', CHR 0x7B] \<or> Contains branch ''//'' \<or> branch = ''@''
      then False
      else list_all (\<lambda>part. \<not> (HasPrefix part ''.'' \<or> HasSuffix part ''.lock'')) (Split1 slash branch))"

subsection \<open>Branches\<close>

definition BranchHead ::
  "'w github \<Rightarrow> Connection \<Rightarrow> Credential \<Rightarrow> Repository \<Rightarrow> string \<Rightarrow> ('w, string) act"
where
  "BranchHead gh conn cred repo branch =
     (if \<not> validBranch branch then failA (Plain ''invalid branch'')
      else bindA (collaborationClient gh conn cred repo) (\<lambda>c.
        try_api (Git_GetRef (Git c) (repo_owner conn repo) (rsName (rxSpec repo)) (''heads/'' @ branch))
          (\<lambda>ref resp.
             if status_is 404 resp then ret []
             else let sha = (case grObject ref of None \<Rightarrow> [] | Some s \<Rightarrow> s) in
               if grRef ref \<noteq> ''refs/heads/'' @ branch \<or> \<not> objectID sha then failA IdentityConflict
               else ret sha)
          (\<lambda>resp err. if status_is 404 resp then ret [] else classified c resp err)))"

definition branch_step :: "string option \<Rightarrow> string list \<Rightarrow> gerror + string list" where
  "branch_step b out =
     (case b of
        None \<Rightarrow> Inl (Plain ''invalid branch observation'')
      | Some n \<Rightarrow> if \<not> validBranch n then Inl (Plain ''invalid branch observation'') else Inr (out @ [n]))"

definition ListBranches ::
  "'w github \<Rightarrow> Connection \<Rightarrow> Credential \<Rightarrow> Repository \<Rightarrow> int \<Rightarrow> ('w, BranchPage) act"
where
  "ListBranches gh conn cred repo page =
     (let page = (if page = 0 then 1 else page) in
      if page < 1 \<or> page > 10000 then failA (Plain ''invalid branch page'')
      else bindA (collaborationClient gh conn cred repo) (\<lambda>c.
        on_reply c (Repositories_ListBranches (Repositories c) (repo_owner conn repo) (rsName (rxSpec repo)) page)
          (\<lambda>branches resp.
             if length branches > 50 then failA (Plain ''branch page exceeds limit'')
             else bindA (lift (foldE branch_step branches [])) (\<lambda>names.
               let next = next_page resp in
               if next \<noteq> 0 \<and> (next \<le> page \<or> next > 10000) then failA (Plain ''invalid next branch page'')
               else ret \<lparr>bpBranches = names, bpNextPage = next\<rparr>))))"

subsection \<open>Pull requests\<close>

definition pullResult :: "host_pull \<Rightarrow> PullRequest" where
  "pullResult pr =
     \<lparr>puNumber = hlNumber pr, puURL = hlHTMLURL pr, puRepository = psRepo (hlBase pr),
      puHeadRepository = psRepo (hlHead pr), puHead = psRef (hlHead pr), puBase = psRef (hlBase pr),
      puCommit = psSHA (hlHead pr), puState = hlState pr, puMerged = hlMerged pr,
      puMergeCommit = hlMergeCommit pr, puMergedAt = hlMergedAt pr,
      puMerger = haLogin (hlMergedBy pr), puMergerType = haType (hlMergedBy pr)\<rparr>"

definition validPullInput :: "PullRequestInput \<Rightarrow> bool" where
  "validPullInput i \<longleftrightarrow> validBranch (prHead i) \<and> validBranch (prBase i) \<and> prHead i \<noteq> prBase i \<and> objectID (prCommit i)"

definition pullMatches :: "PullRequest option \<Rightarrow> Connection \<Rightarrow> Repository \<Rightarrow> PullRequestInput \<Rightarrow> bool" where
  "pullMatches p conn repo i =
     (let canonical = repo_owner conn repo @ ''/'' @ rsName (rxSpec repo) in
      case p of
        None \<Rightarrow> False
      | Some pr \<Rightarrow> puNumber pr > 0 \<and> EqualFold (puRepository pr) canonical \<and> EqualFold (puHeadRepository pr) canonical \<and>
          puHead pr = prHead i \<and> puBase pr = prBase i \<and> puCommit pr = prCommit i)"

text \<open>The pages \<open>1\<close> to \<open>20\<close> of a listing.\<close>

definition pages20 :: "int list" where
  "pages20 = [1..20]"

definition find_pull :: "Connection \<Rightarrow> Repository \<Rightarrow> PullRequestInput \<Rightarrow> host_pull option \<Rightarrow>
  PullRequest option \<Rightarrow> gerror + PullRequest option" where
  "find_pull conn repo i raw found =
     (let result = map_option pullResult raw in
      if \<not> pullMatches result conn repo i then Inr found
      else if found \<noteq> None then Inl (Plain ''ambiguous pull request identity'')
      else Inr result)"

fun find_pull_pages :: "'w client \<Rightarrow> Connection \<Rightarrow> Repository \<Rightarrow> PullRequestInput \<Rightarrow> int list \<Rightarrow>
  PullRequest option \<Rightarrow> ('w, PullRequest option) act" where
  "find_pull_pages c conn repo i [] found = failA (Plain ''pull request search exceeds limit'')"
| "find_pull_pages c conn repo i (page # pages) found =
     on_reply c (PullRequests_List (Collaboration c) (repo_owner conn repo) (rsName (rxSpec repo))
         (repo_owner conn repo @ '':'' @ prHead i) (prBase i) page) (\<lambda>list resp.
       bindA (lift (foldE (find_pull conn repo i) list found)) (\<lambda>found.
         if next_page resp = 0 then ret found else find_pull_pages c conn repo i pages found))"

definition FindPullRequest ::
  "'w github \<Rightarrow> Connection \<Rightarrow> Credential \<Rightarrow> Repository \<Rightarrow> PullRequestInput \<Rightarrow> ('w, PullRequest option) act"
where
  "FindPullRequest gh conn cred repo i =
     (if \<not> validPullInput i then failA (Plain ''invalid pull request binding'')
      else bindA (collaborationClient gh conn cred repo) (\<lambda>c. find_pull_pages c conn repo i pages20 None))"

definition ReadPullRequest ::
  "'w github \<Rightarrow> Connection \<Rightarrow> Credential \<Rightarrow> Repository \<Rightarrow> int \<Rightarrow> ('w, PullRequest) act"
where
  "ReadPullRequest gh conn cred repo number =
     (if number \<le> 0 then failA (Plain ''pull request number required'')
      else bindA (collaborationClient gh conn cred repo) (\<lambda>c.
        on_reply c (PullRequests_Get (Collaboration c) (repo_owner conn repo) (rsName (rxSpec repo)) number) (\<lambda>raw resp.
          let result = pullResult raw in
          if puNumber result \<noteq> number \<or> \<not> EqualFold (puRepository result) (repo_owner conn repo @ ''/'' @ rsName (rxSpec repo))
          then failA IdentityConflict
          else ret result)))"

definition valid_pull_text :: "PullRequestInput \<Rightarrow> bool" where
  "valid_pull_text i \<longleftrightarrow> validPullInput i \<and> TrimSpace (prTitle i) \<noteq> [] \<and> length (prTitle i) \<le> 256 \<and> length (prBody i) \<le> 32768"

definition CreatePullRequest ::
  "'w github \<Rightarrow> Connection \<Rightarrow> Credential \<Rightarrow> Repository \<Rightarrow> PullRequestInput \<Rightarrow> ('w, PullRequest) act"
where
  "CreatePullRequest gh conn cred repo i =
     (if \<not> valid_pull_text i then failA (Plain ''invalid pull request input'')
      else bindA (BranchHead gh conn cred repo (prHead i)) (\<lambda>head.
        if head \<noteq> prCommit i then failA IdentityConflict
        else bindA (collaborationClient gh conn cred repo) (\<lambda>c.
          on_reply c (PullRequests_Create (Collaboration c) (repo_owner conn repo) (rsName (rxSpec repo))
              (prTitle i) (prBody i) (prHead i) (prBase i)) (\<lambda>raw resp.
            let result = pullResult raw in
            if \<not> pullMatches (Some result) conn repo i then failA IdentityConflict else ret result))))"

definition UpdatePullRequest ::
  "'w github \<Rightarrow> Connection \<Rightarrow> Credential \<Rightarrow> Repository \<Rightarrow> int \<Rightarrow> PullRequestInput \<Rightarrow> ('w, PullRequest) act"
where
  "UpdatePullRequest gh conn cred repo number i =
     (if \<not> valid_pull_text i then failA (Plain ''invalid pull request input'')
      else bindA (ReadPullRequest gh conn cred repo number) (\<lambda>current.
        if \<not> pullMatches (Some current) conn repo i then failA IdentityConflict
        else bindA (collaborationClient gh conn cred repo) (\<lambda>c.
          on_reply c (PullRequests_Edit (Collaboration c) (repo_owner conn repo) (rsName (rxSpec repo)) number
              (prTitle i) (prBody i)) (\<lambda>raw resp.
            let result = pullResult raw in
            if \<not> pullMatches (Some result) conn repo i then failA IdentityConflict else ret result))))"

subsection \<open>Comments\<close>

definition issueComment :: "issue_comment \<Rightarrow> Comment" where
  "issueComment raw =
     \<lparr>cmID = icID raw, cmURL = icURL raw, cmBody = icBody raw, cmAuthor = haLogin (icUser raw),
      cmAuthorType = haType (icUser raw), cmUpdatedAt = icUpdatedAt raw\<rparr>"

definition ListComments ::
  "'w github \<Rightarrow> Connection \<Rightarrow> Credential \<Rightarrow> Repository \<Rightarrow> int \<Rightarrow> int \<Rightarrow> ('w, CommentPage) act"
where
  "ListComments gh conn cred repo number page =
     (if number \<le> 0 \<or> page < 1 \<or> page > 20 then failA (Plain ''invalid comment page'')
      else bindA (collaborationClient gh conn cred repo) (\<lambda>c.
        on_reply c (Issues_ListComments (Collaboration c) (repo_owner conn repo) (rsName (rxSpec repo)) number page)
          (\<lambda>list resp. ret \<lparr>cpComments = map issueComment list, cpNextPage = next_page resp\<rparr>)))"

definition AddComment ::
  "'w github \<Rightarrow> Connection \<Rightarrow> Credential \<Rightarrow> Repository \<Rightarrow> int \<Rightarrow> string \<Rightarrow> ('w, Comment) act"
where
  "AddComment gh conn cred repo number body =
     (if number \<le> 0 \<or> TrimSpace body = [] \<or> length body > 32768 then failA (Plain ''invalid comment input'')
      else bindA (collaborationClient gh conn cred repo) (\<lambda>c.
        on_reply c (Issues_CreateComment (Collaboration c) (repo_owner conn repo) (rsName (rxSpec repo)) number body)
          (\<lambda>raw resp. ret (issueComment raw))))"

definition ReplyToReview ::
  "'w github \<Rightarrow> Connection \<Rightarrow> Credential \<Rightarrow> Repository \<Rightarrow> int \<Rightarrow> int \<Rightarrow> string \<Rightarrow> ('w, Comment) act"
where
  "ReplyToReview gh conn cred repo number parent body =
     (if number \<le> 0 \<or> parent \<le> 0 \<or> TrimSpace body = [] \<or> length body > 32768
      then failA (Plain ''invalid review reply input'')
      else bindA (collaborationClient gh conn cred repo) (\<lambda>c.
        on_reply c (PullRequests_CreateCommentInReplyTo (Collaboration c) (repo_owner conn repo) (rsName (rxSpec repo))
            number body parent)
          (\<lambda>raw resp. ret (issueComment raw))))"

subsection \<open>Branch names\<close>

lemma Split1_not_Nil_elem:
  assumes "\<not> Contains s [c, c]" and "s \<noteq> []" and "hd s \<noteq> c" and "last s \<noteq> c"
  shows "[] \<notin> set (Split1 c s)"
proof
  assume "[] \<in> set (Split1 c s)"
  then obtain us vs where sp: "Split1 c s = us @ [] # vs" by (auto simp: in_set_conv_decomp)
  have join: "Join [c] (us @ [] # vs) = s" using Join_Split1[of c s] sp by simp
  have app: "Join [c] (xs @ ys) = Join [c] xs @ c # Join [c] ys" if "xs \<noteq> []" "ys \<noteq> []" for xs ys
    using that
  proof (induction xs)
    case (Cons x xs)
    then show ?case by (cases xs; cases ys) auto
  qed simp
  show False
  proof (cases us)
    case Nil
    with join assms(2,3) show False by (cases vs) auto
  next
    case us: (Cons u us')
    show False
    proof (cases vs)
      case Nil
      with join us app[of us "[[]]"] assms(4) show False by auto
    next
      case (Cons v vs')
      with join us app[of us "[] # vs"] have "s = Join [c] us @ [c, c] @ Join [c] vs" by simp
      then show False using assms(1) by (auto simp: Contains_iff)
    qed
  qed
qed

text \<open>
  A branch name that \<open>validBranch\<close> accepts is safe as a ref and as a command argument: all of
  its components are proper path elements (none empty, \<open>.\<close> or \<open>..\<close>), it is no option, and it has
  no white space, control character of the list, or character that is special in a refspec.
\<close>

theorem validBranch_safe:
  assumes "validBranch branch"
  shows "inside_root branch \<and> \<not> HasPrefix branch ''-'' \<and> length branch \<le> 255 \<and>
    set branch \<inter> set ('' ~^:?*['' @ [CHR 0x5C, CHR 0x09, CHR 0x0D, CHR 0x0A, CHR 0x00]) = {}"
proof -
  have v: "branch \<noteq> []" "length branch \<le> 255" "\<not> HasPrefix branch ''-''" "\<not> HasPrefix branch ''/''"
      "\<not> HasSuffix branch ''/''" "\<not> ContainsAny branch ('' ~^:?*['' @ [CHR 0x5C, CHR 0x09, CHR 0x0D, CHR 0x0A, CHR 0x00])"
      "\<not> Contains branch ''//''"
      "\<forall>part \<in> set (Split1 slash branch). \<not> HasPrefix part ''.''"
    using assms by (auto simp: validBranch_def list_all_iff split: if_splits)
  have "hd branch \<noteq> slash" using v(1,4) by (cases branch) (auto simp: HasPrefix_Cons)
  moreover have "last branch \<noteq> slash"
  proof
    assume "last branch = slash"
    then have "branch = butlast branch @ ''/''" using v(1) by (metis append_butlast_last_id)
    with v(5) show False by (auto simp: HasSuffix_iff)
  qed
  ultimately have "[] \<notin> set (Split1 slash branch)" using v(1,7) by (intro Split1_not_Nil_elem) auto
  moreover have "x \<noteq> ''.'' \<and> x \<noteq> ''..''" if "x \<in> set (Split1 slash branch)" for x
    using that v(8) by (auto simp: HasPrefix_Cons)
  ultimately have "inside_root branch"
    by (auto simp: inside_root_def list_all_iff plain_elem_def dest: Split1_no_sep)
  with v show ?thesis by (simp add: ContainsAny_iff)
qed

theorem validBranch_safe_witness: "inside_root ''feature/x-1''"
  using validBranch_safe[of "''feature/x-1''"] by code_simp

subsection \<open>Registered repositories\<close>

text \<open>The remote repository is the one that is registered, and neither it nor its connection is being deleted.\<close>

definition registered :: "Connection \<Rightarrow> Repository \<Rightarrow> host_repo \<Rightarrow> bool" where
  "registered conn repo remote \<longleftrightarrow>
     rtRepoID (rxStatus repo) = FormatInt (hrID remote) \<and> 0 < hrID remote \<and>
     EqualFold (hrFullName remote) (repo_owner conn repo @ ''/'' @ rsName (rxSpec repo)) \<and>
     omDeletion (rxMeta repo) = None \<and> omDeletion (cxMeta conn) = None"

lemma collaborationClient_Inr:
  assumes "collaborationClient gh conn cred repo w = (Inr c, w')"
  shows "c = conn_client gh conn cred \<and> (\<exists>remote r. Repositories_Get (Repositories c) (repo_owner conn repo)
    (rsName (rxSpec repo)) w = (Reply remote r, w') \<and> registered conn repo remote)"
proof -
  have reg: "rtRepoID (rxStatus repo) \<noteq> []" "omDeletion (rxMeta repo) = None" "omDeletion (cxMeta conn) = None"
    using assms by (auto simp: collaborationClient_def split: if_splits)
  with assms have "bindA (lift (default_client gh cred (csBaseURL (cxSpec conn)))) (\<lambda>c.
        on_reply c (Repositories_Get (Repositories c) (repo_owner conn repo) (rsName (rxSpec repo))) (\<lambda>remote resp.
          if hrID remote \<le> 0 \<or> FormatInt (hrID remote) \<noteq> rtRepoID (rxStatus repo) \<or>
             \<not> EqualFold (hrFullName remote) (repo_owner conn repo @ ''/'' @ rsName (rxSpec repo))
          then failA IdentityConflict
          else ret c)) w = (Inr c, w')"
    by (simp add: collaborationClient_def)
  from with_client_Inr[OF this] reg show ?thesis
    by (auto simp: on_reply_Inr registered_def split: if_splits)
qed

lemma keeps_collaborationClient:
  assumes "keeps P (Repositories_Get (Repositories (conn_client gh conn cred)) (repo_owner conn repo) (rsName (rxSpec repo)))"
  shows "keeps P (collaborationClient gh conn cred repo)"
  unfolding collaborationClient_def by (intro keeps_if keeps_failA keeps_with_client keeps_on_reply keeps_ret assms)

text \<open>Without a registered remote, what follows the client does not happen.\<close>

definition unregistered :: "'w github \<Rightarrow> Connection \<Rightarrow> Credential \<Rightarrow> Repository \<Rightarrow> bool" where
  "unregistered gh conn cred repo \<longleftrightarrow> (\<forall>v remote r v'.
     Repositories_Get (Repositories (conn_client gh conn cred)) (repo_owner conn repo) (rsName (rxSpec repo)) v =
       (Reply remote r, v') \<longrightarrow> \<not> registered conn repo remote)"

lemma refuses_unregistered:
  assumes "unregistered gh conn cred repo"
    and "keeps P (Repositories_Get (Repositories (conn_client gh conn cred)) (repo_owner conn repo) (rsName (rxSpec repo)))"
  shows "refuses P (collaborationClient gh conn cred repo)"
proof -
  have "\<exists>e. fst (collaborationClient gh conn cred repo v) = Inl e" for v
  proof (cases "collaborationClient gh conn cred repo v")
    case (Pair r v')
    with assms(1) show ?thesis
      by (cases r) (auto dest!: collaborationClient_Inr simp: unregistered_def)
  qed
  then show ?thesis using keeps_collaborationClient[OF assms(2)] by (simp add: refuses_def)
qed

text \<open>
  (C36) No collaboration operation writes to a repository that is not the registered one: if the
  host never answers the lookup with the registered identity, then comments, replies, new and
  updated pull requests all fail, and they preserve everything that the lookup preserves.
\<close>

theorem collaboration_needs_registration:
  assumes "unregistered gh conn cred repo"
    and "keeps P (Repositories_Get (Repositories (conn_client gh conn cred)) (repo_owner conn repo) (rsName (rxSpec repo)))"
  shows "refuses P (AddComment gh conn cred repo number body) \<and> refuses P (ReplyToReview gh conn cred repo number parent body) \<and>
    refuses P (CreatePullRequest gh conn cred repo i) \<and> refuses P (UpdatePullRequest gh conn cred repo number i)"
proof -
  note un = refuses_unregistered[OF assms]
  show ?thesis
    unfolding AddComment_def ReplyToReview_def CreatePullRequest_def UpdatePullRequest_def BranchHead_def ReadPullRequest_def
    using un by blast
qed

definition acme_client :: "nat client" where
  "acme_client = (down_client (\<lambda>_. 0))\<lparr>Repositories := down_repositories\<lparr>
     Repositories_Get := (\<lambda>_ _ w. (Reply acme_repo (answered 200), w))\<rparr>\<rparr>"

theorem collaboration_needs_registration_witness:
  "refuses (\<lambda>w. w = 4) (AddComment (github_of acme_client) zero_connection example_credential
     (example_repository [] ''8'') 1 ''hi'')"
proof -
  have "FormatInt 7 = ''7''" by code_simp
  then have "unregistered (github_of acme_client) zero_connection example_credential (example_repository [] ''8'')"
    by (simp add: unregistered_def registered_def example_repository_def acme_client_def acme_repo_def github_of_def zero_defs)
  moreover have "keeps (\<lambda>w. w = 4) (Repositories_Get (Repositories (conn_client (github_of acme_client)
      zero_connection example_credential)) (repo_owner zero_connection (example_repository [] ''8''))
      (rsName (rxSpec (example_repository [] ''8''))))"
    by (simp add: keeps_def acme_client_def github_of_def)
  ultimately show ?thesis using collaboration_needs_registration by blast
qed

text \<open>What was read before the pages ends in a match or none.\<close>

lemma find_pull_pages_Inr:
  "find_pull_pages c conn repo i pages found w = (Inr r, w') \<Longrightarrow>
     (\<forall>p. found = Some p \<longrightarrow> pullMatches found conn repo i) \<Longrightarrow> r = Some p \<Longrightarrow> pullMatches r conn repo i"
proof (induction pages arbitrary: found w)
  case (Cons page pages)
  then obtain list resp w1 found' where
      fold: "foldE (find_pull conn repo i) list found = Inr found'"
    and rest: "(if next_page resp = 0 then ret found' else find_pull_pages c conn repo i pages found') w1 = (Inr r, w')"
    by (auto simp: on_reply_Inr bindA_Inr_iff)
  have "\<forall>p. found' = Some p \<longrightarrow> pullMatches found' conn repo i"
    using fold by (rule foldE_invariant[where P = "\<lambda>f. \<forall>p. f = Some p \<longrightarrow> pullMatches f conn repo i"])
      (use Cons.prems(2) in \<open>auto simp: find_pull_def Let_def split: if_splits\<close>)
  with rest Cons show ?case by (auto split: if_splits)
qed simp

text \<open>
  Every pull request that is found, created or updated is bound to the request: it belongs
  to the registered repository on both sides and has exactly the requested head, base and
  commit; and one is created only when the head branch points at that commit.
\<close>

theorem returned_pulls_match:
  "(FindPullRequest gh conn cred repo i w = (Inr (Some p), w') \<longrightarrow> pullMatches (Some p) conn repo i) \<and>
   (UpdatePullRequest gh conn cred repo number i w = (Inr p, w') \<longrightarrow> pullMatches (Some p) conn repo i) \<and>
   (CreatePullRequest gh conn cred repo i w = (Inr p, w') \<longrightarrow> pullMatches (Some p) conn repo i \<and>
      (\<exists>w1. BranchHead gh conn cred repo (prHead i) w = (Inr (prCommit i), w1)))"
proof (intro conjI impI)
  assume "FindPullRequest gh conn cred repo i w = (Inr (Some p), w')"
  then obtain c w1 where "find_pull_pages c conn repo i pages20 None w1 = (Inr (Some p), w')"
    by (auto simp: FindPullRequest_def bindA_Inr_iff split: if_splits)
  then show "pullMatches (Some p) conn repo i" by (rule find_pull_pages_Inr) simp_all
next
  assume "UpdatePullRequest gh conn cred repo number i w = (Inr p, w')"
  then show "pullMatches (Some p) conn repo i"
    by (auto simp: UpdatePullRequest_def bindA_Inr_iff on_reply_Inr Let_def split: if_splits)
next
  assume c: "CreatePullRequest gh conn cred repo i w = (Inr p, w')"
  then show "pullMatches (Some p) conn repo i"
    by (auto simp: CreatePullRequest_def bindA_Inr_iff on_reply_Inr Let_def split: if_splits)
  from c show "\<exists>w1. BranchHead gh conn cred repo (prHead i) w = (Inr (prCommit i), w1)"
    by (auto simp: CreatePullRequest_def bindA_Inr_iff split: if_splits)
qed

definition example_pull_input :: PullRequestInput where
  "example_pull_input = \<lparr>prHead = ''work'', prBase = ''main'', prCommit = replicate 40 (CHR ''a''), prTitle = ''T'', prBody = []\<rparr>"

text \<open>A host whose only pull request is the one asked for.\<close>

definition pull_client :: "nat client" where
  "pull_client = acme_client\<lparr>Collaboration := down_collaboration\<lparr>PullRequests_List := (\<lambda>_ _ _ _ _ w.
     (Reply [None, Some \<lparr>hlNumber = 2, hlHTMLURL = [], hlBase = \<lparr>psRepo = ''acme/app'', psRef = ''main'', psSHA = []\<rparr>,
        hlHead = \<lparr>psRepo = ''Acme/app'', psRef = ''work'', psSHA = replicate 40 (CHR ''a'')\<rparr>, hlState = ''open'', hlMerged = False,
        hlMergeCommit = [], hlMergedAt = None, hlMergedBy = \<lparr>haLogin = [], haType = []\<rparr>\<rparr>] (answered 200), w))\<rparr>\<rparr>"

theorem returned_pulls_match_witness:
  "\<exists>p. FindPullRequest (github_of pull_client) zero_connection example_credential (example_repository [] ''7'')
       example_pull_input 0 = (Inr (Some p), 0) \<and>
     pullMatches (Some p) zero_connection (example_repository [] ''7'') example_pull_input"
proof -
  define r where "r = FindPullRequest (github_of pull_client) zero_connection example_credential (example_repository [] ''7'')
       example_pull_input 0"
  have "(case fst r of Inr (Some p) \<Rightarrow> True | _ \<Rightarrow> False) \<and> snd r = 0" unfolding r_def by code_simp
  then obtain p where "r = (Inr (Some p), 0)" by (cases r) (auto split: sum.splits option.splits)
  then have "FindPullRequest (github_of pull_client) zero_connection example_credential (example_repository [] ''7'')
       example_pull_input 0 = (Inr (Some p), 0)" by (simp add: r_def)
  with returned_pulls_match[THEN conjunct1, rule_format, OF this] show ?thesis by blast
qed

end
