(* ===== verification/Github_Feedback.thy ===== *)
theory Github_Feedback
  imports Github_Collaboration Go_Json
begin

text \<open>
  \<open>PullRequestFeedback\<close> of \<open>backend/github/collaboration.go\<close> with \<open>feedback_diagnostics.go\<close>: the checks
  and reviews of one commit of a pull request. The listing is rejected as a whole when any
  part of it is incomplete, oversized, inconsistent or about another commit.
\<close>

subsection \<open>Diagnostics\<close>

definition diagnosticText :: "string \<Rightarrow> gerror + unit" where
  "diagnosticText text =
     (if length text > 16384 \<or> \<not> utf8_Valid text \<or> ContainsAny text [CHR 0x00, CHR 0x1B]
      then Inl (Plain ''invalid or oversized diagnostic text'') else Inr ())"

definition annotation_text :: "annotation \<Rightarrow> string" where
  "annotation_text a =
     [CHR 0x0A, CHR 0x0A] @ haPath a @ '':'' @ FormatInt (haStartLine a) @ ''-'' @ FormatInt (haEndLine a) @
     '' ['' @ haLevel a @ ''] '' @ haTitle a @ [CHR 0x0A] @ haMessage a @ [CHR 0x0A] @ haRawDetails a"

text \<open>One annotation onto the text and the count.\<close>

definition add_annotation :: "annotation \<Rightarrow> string \<times> int \<Rightarrow> gerror + (string \<times> int)" where
  "add_annotation a st =
     (if haPath a = [] \<or> haStartLine a < 1 \<or> haEndLine a < haStartLine a
      then Inl (Plain ''invalid annotation location'')
      else let text = fst st @ annotation_text a in
        and_then (diagnosticText text) (\<lambda>u. Inr (text, snd st + 1)))"

fun annotation_pages ::
  "'w client \<Rightarrow> string \<Rightarrow> string \<Rightarrow> check_run \<Rightarrow> int list \<Rightarrow> string \<times> int \<Rightarrow> ('w, string) act"
where
  "annotation_pages c org repo chk [] st = failA (Plain ''annotation pagination exceeds limit'')"
| "annotation_pages c org repo chk (page # pages) st =
     on_reply c (Checks_ListCheckRunAnnotations (Collaboration c) org repo (hcID chk) page) (\<lambda>annotations resp.
       if length annotations > 50 then failA (Plain ''annotation page exceeds limit'')
       else bindA (lift (foldE add_annotation annotations st)) (\<lambda>st.
         if next_page resp = 0
         then (if snd st \<noteq> hcAnnotations chk then failA (Plain ''incomplete annotation listing'') else ret (fst st))
         else annotation_pages c org repo chk pages st))"

definition checkDiagnostic :: "'w client \<Rightarrow> string \<Rightarrow> string \<Rightarrow> check_run \<Rightarrow> string \<Rightarrow> ('w, string) act" where
  "checkDiagnostic c org repo chk text =
     bindA (lift (diagnosticText text)) (\<lambda>u.
       if hcAnnotations chk < 0 \<or> hcAnnotations chk > 1000 then failA (Plain ''annotation count exceeds limit'')
       else if hcAnnotations chk = 0 then ret text
       else annotation_pages c org repo chk pages20 (text, 0))"

text \<open>One comment of a review onto the text and the ids seen.\<close>

definition add_review_comment ::
  "host_review \<Rightarrow> string \<Rightarrow> review_comment \<Rightarrow> string \<times> int list \<Rightarrow> gerror + (string \<times> int list)"
where
  "add_review_comment review commit cm st =
     (if rmID cm \<le> 0 \<or> rmID cm \<in> set (snd st) \<or> rmReviewID cm \<noteq> hvwID review \<or> \<not> objectID (rmCommit cm)
      then Inl (Plain ''invalid review comment identity'')
      else if rmCommit cm \<noteq> commit then Inr (fst st, rmID cm # snd st)
      else if rmPath cm = [] \<or> rmLine cm < 0 then Inl (Plain ''invalid review comment location'')
      else let text = fst st @ [CHR 0x0A, CHR 0x0A] @ rmPath cm @ '':'' @ FormatInt (rmLine cm) @ [CHR 0x0A] @ rmBody cm in
        and_then (diagnosticText text) (\<lambda>u. Inr (text, rmID cm # snd st)))"

fun review_comment_pages ::
  "'w client \<Rightarrow> string \<Rightarrow> string \<Rightarrow> int \<Rightarrow> host_review \<Rightarrow> string \<Rightarrow> int list \<Rightarrow> string \<times> int list \<Rightarrow> ('w, string) act"
where
  "review_comment_pages c org repo number review commit [] st = failA (Plain ''review comment pagination exceeds limit'')"
| "review_comment_pages c org repo number review commit (page # pages) st =
     on_reply c (PullRequests_ListReviewComments (Collaboration c) org repo number (hvwID review) page) (\<lambda>comments resp.
       if length comments > 50 then failA (Plain ''review comment page exceeds limit'')
       else bindA (lift (foldE (add_review_comment review commit) comments st)) (\<lambda>st.
         if next_page resp = 0 then ret (fst st)
         else review_comment_pages c org repo number review commit pages st))"

definition reviewDiagnostic ::
  "'w client \<Rightarrow> string \<Rightarrow> string \<Rightarrow> int \<Rightarrow> host_review \<Rightarrow> string \<Rightarrow> ('w, string) act"
where
  "reviewDiagnostic c org repo number review commit =
     bindA (lift (diagnosticText (hvwBody review))) (\<lambda>u.
       review_comment_pages c org repo number review commit pages20 (hvwBody review, []))"

subsection \<open>The size of the answer\<close>

definition check_json :: "Check \<Rightarrow> json" where
  "check_json k = JObj
     [(''id'', JNum (FormatInt (ckID k))), (''name'', JStr (ckName k)), (''appID'', JNum (FormatInt (ckAppID k))),
      (''head'', JStr (ckHead k)), (''status'', JStr (ckStatus k)), (''conclusion'', JStr (ckConclusion k)),
      (''detailsURL'', JStr (ckDetailsURL k)), (''output'', JStr (ckOutput k))]"

definition review_json :: "Review \<Rightarrow> json option" where
  "review_json r = map_option (\<lambda>t. JObj
     [(''id'', JNum (FormatInt (rvID r))), (''login'', JStr (rvLogin r)), (''actorType'', JStr (rvActorType r)),
      (''commit'', JStr (rvCommit r)), (''state'', JStr (rvState r)), (''body'', JStr (rvBody r)),
      (''submittedAt'', JStr t)]) (json_time (rvSubmittedAt r))"

definition marshal_feedback :: "Feedback \<Rightarrow> string option" where
  "marshal_feedback f =
     (if list_all (\<lambda>r. review_json r \<noteq> None) (fbReviews f)
      then Some (compact_json (JObj [(''checks'', JArr (map check_json (fbChecks f))),
                                     (''reviews'', JArr (map (\<lambda>r. the (review_json r)) (fbReviews f)))]))
      else None)"

subsection \<open>Feedback\<close>

text \<open>The loop variables of the two listings: ids seen and results; \<open>-1\<close> checks are expected before the first page.\<close>

record check_list =
  klExpected :: int
  klSeen :: "int list"
  klChecks :: "Check list"

definition add_check ::
  "'w client \<Rightarrow> string \<Rightarrow> string \<Rightarrow> string \<Rightarrow> check_run \<Rightarrow> check_list \<Rightarrow> ('w, check_list) act"
where
  "add_check c org repo commit chk st =
     (if hcID chk \<le> 0 \<or> hcAppID chk \<le> 0 \<or> hcName chk = [] \<or> hcID chk \<in> set (klSeen st)
      then failA (Plain ''invalid or duplicate check identity'')
      else if hcHeadSHA chk \<noteq> commit then failA IdentityConflict
      else bindA (checkDiagnostic c org repo chk (hcTitle chk @ [CHR 0x0A] @ hcSummary chk @ [CHR 0x0A] @ hcText chk))
        (\<lambda>output. ret (st\<lparr>klSeen := hcID chk # klSeen st, klChecks := klChecks st @
           [\<lparr>ckID = hcID chk, ckName = hcName chk, ckAppID = hcAppID chk, ckHead = commit, ckStatus = hcStatus chk,
             ckConclusion = hcConclusion chk, ckDetailsURL = hcDetailsURL chk, ckOutput = output\<rparr>]\<rparr>)))"

fun check_pages ::
  "'w client \<Rightarrow> string \<Rightarrow> string \<Rightarrow> string \<Rightarrow> int list \<Rightarrow> check_list \<Rightarrow> ('w, check_list) act"
where
  "check_pages c org repo commit [] st = ret st"
| "check_pages c org repo commit (page # pages) st =
     on_reply c (Checks_ListCheckRunsForRef (Collaboration c) org repo commit page) (\<lambda>checks resp.
       case checks of
         None \<Rightarrow> failA (Plain ''invalid check page'')
       | Some (count, runs) \<Rightarrow>
           if length runs > 50 \<or> count < 0 then failA (Plain ''invalid check page'')
           else if \<not> klExpected st < 0 \<and> klExpected st \<noteq> count then failA (Plain ''check count changed'')
           else bindA (forA (add_check c org repo commit) runs (st\<lparr>klExpected := count\<rparr>)) (\<lambda>st.
             if next_page resp = 0 then ret st
             else if page = 20 then failA (Plain ''check pagination exceeds limit'')
             else check_pages c org repo commit pages st))"

record review_list =
  vlSeen :: "int list"
  vlReviews :: "Review list"

definition add_review ::
  "'w client \<Rightarrow> string \<Rightarrow> string \<Rightarrow> int \<Rightarrow> string \<Rightarrow> host_review \<Rightarrow> review_list \<Rightarrow> ('w, review_list) act"
where
  "add_review c org repo number commit review st =
     (if hvwID review \<le> 0 \<or> hvwID review \<in> set (vlSeen st) \<or> haLogin (hvwUser review) = [] \<or>
         haType (hvwUser review) = [] \<or> \<not> objectID (hvwCommit review)
      then failA (Plain ''invalid or duplicate review identity'')
      else let st = st\<lparr>vlSeen := hvwID review # vlSeen st\<rparr> in
        if hvwCommit review \<noteq> commit \<or> hvwState review = ''PENDING'' then ret st
        else (case hvwSubmittedAt review of
          None \<Rightarrow> failA (Plain ''review timestamp missing'')
        | Some t \<Rightarrow> bindA (reviewDiagnostic c org repo number review commit) (\<lambda>body.
            ret (st\<lparr>vlReviews := vlReviews st @
              [\<lparr>rvID = hvwID review, rvLogin = haLogin (hvwUser review), rvActorType = haType (hvwUser review),
                rvCommit = hvwCommit review, rvState = hvwState review, rvBody = body, rvSubmittedAt = t\<rparr>]\<rparr>))))"

fun review_pages ::
  "'w client \<Rightarrow> string \<Rightarrow> string \<Rightarrow> int \<Rightarrow> string \<Rightarrow> int list \<Rightarrow> review_list \<Rightarrow> ('w, review_list) act"
where
  "review_pages c org repo number commit [] st = ret st"
| "review_pages c org repo number commit (page # pages) st =
     on_reply c (PullRequests_ListReviews (Collaboration c) org repo number page) (\<lambda>reviews resp.
       if length reviews > 50 then failA (Plain ''invalid review page'')
       else bindA (forA (add_review c org repo number commit) reviews st) (\<lambda>st.
         if next_page resp = 0 then ret st
         else if page = 20 then failA (Plain ''review pagination exceeds limit'')
         else review_pages c org repo number commit pages st))"

definition maxFeedbackBytes :: nat where "maxFeedbackBytes = 480 * 2 ^ 10"

definition PullRequestFeedback ::
  "'w github \<Rightarrow> Connection \<Rightarrow> Credential \<Rightarrow> Repository \<Rightarrow> int \<Rightarrow> string \<Rightarrow> ('w, Feedback) act"
where
  "PullRequestFeedback gh conn cred repo number commit =
     (if \<not> objectID commit then failA (Plain ''feedback commit required'')
      else bindA (ReadPullRequest gh conn cred repo number) (\<lambda>before.
        if puCommit before \<noteq> commit \<or> \<not> EqualFold (puHeadRepository before) (puRepository before)
        then failA IdentityConflict
        else bindA (collaborationClient gh conn cred repo) (\<lambda>c.
        let org = repo_owner conn repo; name = rsName (rxSpec repo) in
        bindA (check_pages c org name commit pages20 \<lparr>klExpected = -1, klSeen = [], klChecks = []\<rparr>) (\<lambda>checks.
        if int (length (klChecks checks)) \<noteq> klExpected checks then failA (Plain ''incomplete check listing'')
        else bindA (review_pages c org name number commit pages20 \<lparr>vlSeen = [], vlReviews = []\<rparr>) (\<lambda>reviews.
        bindA (ReadPullRequest gh conn cred repo number) (\<lambda>after.
        if puCommit after \<noteq> puCommit before \<or> puHead after \<noteq> puHead before \<or>
           puHeadRepository after \<noteq> puHeadRepository before \<or> puBase after \<noteq> puBase before \<or>
           puState after \<noteq> puState before \<or> puMerged after \<noteq> puMerged before
        then failA IdentityConflict
        else let result = \<lparr>fbChecks = klChecks checks, fbReviews = vlReviews reviews\<rparr> in
          case marshal_feedback result of
            None \<Rightarrow> failA (Plain ''feedback exceeds bounded response'')
          | Some encoded \<Rightarrow>
              if length encoded > maxFeedbackBytes then failA (Plain ''feedback exceeds bounded response'')
              else ret result))))))"

subsection \<open>What an accepted feedback is\<close>

lemma annotation_pages_text:
  "annotation_pages c org repo chk pages st w = (Inr text, w') \<Longrightarrow> diagnosticText (fst st) = Inr () \<Longrightarrow>
     diagnosticText text = Inr ()"
proof (induction pages arbitrary: st w)
  case (Cons page pages)
  then obtain as resp w1 st' where
      fold: "foldE add_annotation as st = Inr st'"
    and rest: "(if next_page resp = 0
         then (if snd st' \<noteq> hcAnnotations chk then failA (Plain ''incomplete annotation listing'') else ret (fst st'))
         else annotation_pages c org repo chk pages st') w1 = (Inr text, w')"
    by (auto simp: on_reply_Inr bindA_Inr_iff)
  have "diagnosticText (fst st') = Inr ()"
    using fold by (rule foldE_invariant[where P = "\<lambda>st. diagnosticText (fst st) = Inr ()"])
      (use Cons.prems(2) in \<open>auto simp: add_annotation_def Let_def split: if_splits\<close>)
  with rest Cons.IH show ?case by (auto split: if_splits)
qed simp

lemma checkDiagnostic_text:
  "checkDiagnostic c org repo chk text w = (Inr out, w') \<Longrightarrow> diagnosticText out = Inr ()"
  by (auto simp: checkDiagnostic_def bindA_Inr_iff split: if_splits dest: annotation_pages_text)

lemma review_comment_pages_text:
  "review_comment_pages c org repo number review commit pages st w = (Inr text, w') \<Longrightarrow>
     diagnosticText (fst st) = Inr () \<Longrightarrow> diagnosticText text = Inr ()"
proof (induction pages arbitrary: st w)
  case (Cons page pages)
  then obtain cs resp w1 st' where
      fold: "foldE (add_review_comment review commit) cs st = Inr st'"
    and rest: "(if next_page resp = 0 then ret (fst st')
         else review_comment_pages c org repo number review commit pages st') w1 = (Inr text, w')"
    by (auto simp: on_reply_Inr bindA_Inr_iff)
  have "diagnosticText (fst st') = Inr ()"
    using fold by (rule foldE_invariant[where P = "\<lambda>st. diagnosticText (fst st) = Inr ()"])
      (use Cons.prems(2) in \<open>auto simp: add_review_comment_def Let_def split: if_splits\<close>)
  with rest Cons.IH show ?case by (auto split: if_splits)
qed simp

lemma reviewDiagnostic_text:
  "reviewDiagnostic c org repo number review commit w = (Inr out, w') \<Longrightarrow> diagnosticText out = Inr ()"
  by (auto simp: reviewDiagnostic_def bindA_Inr_iff dest: review_comment_pages_text)

text \<open>The loop invariants: everything listed so far is about the commit, with distinct positive ids.\<close>

definition checks_ok :: "string \<Rightarrow> check_list \<Rightarrow> bool" where
  "checks_ok commit st \<longleftrightarrow> distinct (map ckID (klChecks st)) \<and> set (map ckID (klChecks st)) \<subseteq> set (klSeen st) \<and>
     list_all (\<lambda>k. ckHead k = commit \<and> 0 < ckID k \<and> 0 < ckAppID k \<and> ckName k \<noteq> [] \<and> diagnosticText (ckOutput k) = Inr ())
       (klChecks st)"

definition reviews_ok :: "string \<Rightarrow> review_list \<Rightarrow> bool" where
  "reviews_ok commit st \<longleftrightarrow> distinct (map rvID (vlReviews st)) \<and> set (map rvID (vlReviews st)) \<subseteq> set (vlSeen st) \<and>
     list_all (\<lambda>r. rvCommit r = commit \<and> 0 < rvID r \<and> rvLogin r \<noteq> [] \<and> rvState r \<noteq> ''PENDING'' \<and>
         diagnosticText (rvBody r) = Inr ()) (vlReviews st)"

lemma add_check_ok:
  assumes "add_check c org repo commit chk st w = (Inr st', w')" and "checks_ok commit st"
  shows "checks_ok commit st'"
proof -
  from assms(1) obtain out w1 where
    new: "0 < hcID chk" "0 < hcAppID chk" "hcName chk \<noteq> []" "hcID chk \<notin> set (klSeen st)" "diagnosticText out = Inr ()"
    and st': "st' = st\<lparr>klSeen := hcID chk # klSeen st, klChecks := klChecks st @
           [\<lparr>ckID = hcID chk, ckName = hcName chk, ckAppID = hcAppID chk, ckHead = commit, ckStatus = hcStatus chk,
             ckConclusion = hcConclusion chk, ckDetailsURL = hcDetailsURL chk, ckOutput = out\<rparr>]\<rparr>"
    by (auto simp: add_check_def bindA_Inr_iff split: if_splits dest: checkDiagnostic_text)
  from assms(2) new show ?thesis unfolding st' by (auto simp: checks_ok_def)
qed

lemma check_pages_ok:
  "check_pages c org repo commit pages st w = (Inr st', w') \<Longrightarrow> checks_ok commit st \<Longrightarrow> checks_ok commit st'"
proof (induction pages arbitrary: st w)
  case (Cons page pages)
  from Cons.prems(1) obtain a resp w1 where
    "(case a of None \<Rightarrow> failA (Plain ''invalid check page'')
       | Some p \<Rightarrow> (case p of (count, runs) \<Rightarrow>
           if length runs > 50 \<or> count < 0 then failA (Plain ''invalid check page'')
           else if \<not> klExpected st < 0 \<and> klExpected st \<noteq> count then failA (Plain ''check count changed'')
           else bindA (forA (add_check c org repo commit) runs (st\<lparr>klExpected := count\<rparr>)) (\<lambda>st.
             if next_page resp = 0 then ret st
             else if page = 20 then failA (Plain ''check pagination exceeds limit'')
             else check_pages c org repo commit pages st))) w1 = (Inr st', w')"
    unfolding check_pages.simps on_reply_Inr by blast
  then obtain count runs u w2 where
      loop: "forA (add_check c org repo commit) runs (st\<lparr>klExpected := count\<rparr>) w1 = (Inr u, w2)"
    and rest: "(if next_page resp = 0 then ret u
             else if page = 20 then failA (Plain ''check pagination exceeds limit'')
             else check_pages c org repo commit pages u) w2 = (Inr st', w')"
    unfolding option_failA_Inr prod.case_eq_if if_failA_Inr bindA_Inr_iff by blast
  have "checks_ok commit (st\<lparr>klExpected := count\<rparr>)" using Cons.prems(2) by (simp add: checks_ok_def)
  with loop have "checks_ok commit u" using add_check_ok by (rule forA_invariant[where I = "checks_ok commit"])
  with rest Cons.IH show ?case by (auto split: if_splits)
qed simp

lemma add_review_ok:
  assumes "add_review c org repo number commit review st w = (Inr st', w')" and "reviews_ok commit st"
  shows "reviews_ok commit st'"
proof -
  let ?seen = "st\<lparr>vlSeen := hvwID review # vlSeen st\<rparr>"
  have new: "0 < hvwID review" "hvwID review \<notin> set (vlSeen st)" "haLogin (hvwUser review) \<noteq> []"
    using assms(1) by (auto simp: add_review_def split: if_splits)
  consider "st' = ?seen" | t out where "hvwCommit review = commit" "hvwState review \<noteq> ''PENDING''" "diagnosticText out = Inr ()"
     "st' = ?seen\<lparr>vlReviews := vlReviews st @
              [\<lparr>rvID = hvwID review, rvLogin = haLogin (hvwUser review), rvActorType = haType (hvwUser review),
                rvCommit = hvwCommit review, rvState = hvwState review, rvBody = out, rvSubmittedAt = t\<rparr>]\<rparr>"
    using assms(1) by (auto simp: add_review_def bindA_Inr_iff Let_def split: if_splits option.splits dest: reviewDiagnostic_text)
  then show ?thesis
    using assms(2) new by cases (auto simp: reviews_ok_def)
qed

lemma review_pages_ok:
  "review_pages c org repo number commit pages st w = (Inr st', w') \<Longrightarrow> reviews_ok commit st \<Longrightarrow> reviews_ok commit st'"
proof (induction pages arbitrary: st w)
  case (Cons page pages)
  then obtain rs resp w1 w2 u where
      loop: "forA (add_review c org repo number commit) rs st w1 = (Inr u, w2)"
    and rest: "(if next_page resp = 0 then ret u
         else if page = 20 then failA (Plain ''review pagination exceeds limit'')
         else review_pages c org repo number commit pages u) w2 = (Inr st', w')"
    by (auto simp: on_reply_Inr bindA_Inr_iff)
  from loop Cons.prems(2) have "reviews_ok commit u" using add_review_ok by (rule forA_invariant[where I = "reviews_ok commit"])
  with rest Cons.IH show ?case by (auto split: if_splits)
qed simp

subsection \<open>Nothing is left out\<close>

text \<open>
  A listing read to its end: the answers for the pages from \<open>page\<close> on, each asked after the work on
  the one before, up to the first answer that names no next page.
\<close>

inductive listed ::
  "(int \<Rightarrow> ('w, 'a) api) \<Rightarrow> ('a \<Rightarrow> 'w \<Rightarrow> 'w \<Rightarrow> bool) \<Rightarrow> int \<Rightarrow> 'w \<Rightarrow> 'a list \<Rightarrow> 'w \<Rightarrow> bool"
  for ask work
where
  last_page: "ask page w = (Reply x resp, w1) \<Longrightarrow> work x w1 w2 \<Longrightarrow> next_page resp = 0 \<Longrightarrow> listed ask work page w [x] w2"
| more_pages: "ask page w = (Reply x resp, w1) \<Longrightarrow> work x w1 w2 \<Longrightarrow> next_page resp \<noteq> 0 \<Longrightarrow>
    listed ask work (page + 1) w2 xs w3 \<Longrightarrow> listed ask work page w (x # xs) w3"

text \<open>The work on a page: the diagnostics of its checks or reviews are read, in their order.\<close>

definition read_checks :: "'w client \<Rightarrow> string \<Rightarrow> string \<Rightarrow> string \<Rightarrow> (int \<times> check_run list) option \<Rightarrow> 'w \<Rightarrow> 'w \<Rightarrow> bool" where
  "read_checks c org repo commit answer w w' \<longleftrightarrow>
     (\<exists>count runs st st'. answer = Some (count, runs) \<and> forA (add_check c org repo commit) runs st w = (Inr st', w'))"

definition read_reviews :: "'w client \<Rightarrow> string \<Rightarrow> string \<Rightarrow> int \<Rightarrow> string \<Rightarrow> host_review list \<Rightarrow> 'w \<Rightarrow> 'w \<Rightarrow> bool" where
  "read_reviews c org repo number commit reviews w w' \<longleftrightarrow>
     (\<exists>st st'. forA (add_review c org repo number commit) reviews st w = (Inr st', w'))"

text \<open>What the feedback says of a check and of a review, besides the commit and the text.\<close>

definition check_facts :: "Check \<Rightarrow> int \<times> string \<times> int \<times> string \<times> string \<times> string" where
  "check_facts k = (ckID k, ckName k, ckAppID k, ckStatus k, ckConclusion k, ckDetailsURL k)"

definition run_facts :: "check_run \<Rightarrow> int \<times> string \<times> int \<times> string \<times> string \<times> string" where
  "run_facts r = (hcID r, hcName r, hcAppID r, hcStatus r, hcConclusion r, hcDetailsURL r)"

definition review_facts :: "Review \<Rightarrow> int \<times> string \<times> string \<times> string \<times> gotime option" where
  "review_facts r = (rvID r, rvLogin r, rvActorType r, rvState r, Some (rvSubmittedAt r))"

definition host_review_facts :: "host_review \<Rightarrow> int \<times> string \<times> string \<times> string \<times> gotime option" where
  "host_review_facts r = (hvwID r, haLogin (hvwUser r), haType (hvwUser r), hvwState r, hvwSubmittedAt r)"

lemma checks_added:
  assumes "forA (add_check c org repo commit) runs st w = (Inr st', w')"
  shows "klExpected st' = klExpected st \<and> map check_facts (klChecks st') = map check_facts (klChecks st) @ map run_facts runs"
  by (rule forA_prefix[OF assms, where I = "\<lambda>ys s. klExpected s = klExpected st \<and>
      map check_facts (klChecks s) = map check_facts (klChecks st) @ map run_facts ys"])
    (auto simp: add_check_def bindA_Inr_iff check_facts_def run_facts_def split: if_splits)

lemma reviews_added:
  assumes "forA (add_review c org repo number commit) rs st w = (Inr st', w')"
  shows "map review_facts (vlReviews st') = map review_facts (vlReviews st) @
    map host_review_facts (filter (\<lambda>r. hvwCommit r = commit \<and> hvwState r \<noteq> ''PENDING'') rs)"
  by (rule forA_prefix[OF assms, where I = "\<lambda>ys s. map review_facts (vlReviews s) = map review_facts (vlReviews st) @
      map host_review_facts (filter (\<lambda>r. hvwCommit r = commit \<and> hvwState r \<noteq> ''PENDING'') ys)"])
    (auto simp: add_review_def bindA_Inr_iff Let_def review_facts_def host_review_facts_def split: if_splits option.splits)

lemma check_pages_listed:
  assumes "check_pages c org repo commit pages st w = (Inr st', w')" and "pages = [page..20]" and "page \<le> 20"
  shows "\<exists>answers. listed (Checks_ListCheckRunsForRef (Collaboration c) org repo commit) (read_checks c org repo commit)
      page w (map Some answers) w' \<and>
    (\<forall>a \<in> set answers. fst a = klExpected st') \<and> (0 \<le> klExpected st \<longrightarrow> klExpected st' = klExpected st) \<and>
    map check_facts (klChecks st') = map check_facts (klChecks st) @ map run_facts (concat (map snd answers))"
  using assms
proof (induction pages arbitrary: st w page)
  case (Cons p pages)
  then have pages: "p = page" "pages = [page + 1..20]" by (simp_all add: upto.simps[of page 20])
  from Cons.prems(1) obtain a resp w1 where ask: "Checks_ListCheckRunsForRef (Collaboration c) org repo commit page w = (Reply a resp, w1)"
    and "(case a of None \<Rightarrow> failA (Plain ''invalid check page'')
       | Some p \<Rightarrow> (case p of (count, runs) \<Rightarrow>
           if length runs > 50 \<or> count < 0 then failA (Plain ''invalid check page'')
           else if \<not> klExpected st < 0 \<and> klExpected st \<noteq> count then failA (Plain ''check count changed'')
           else bindA (forA (add_check c org repo commit) runs (st\<lparr>klExpected := count\<rparr>)) (\<lambda>st.
             if next_page resp = 0 then ret st
             else if page = 20 then failA (Plain ''check pagination exceeds limit'')
             else check_pages c org repo commit pages st))) w1 = (Inr st', w')"
    unfolding check_pages.simps on_reply_Inr pages(1) by blast
  then obtain count runs u w2 where a: "a = Some (count, runs)" and count: "0 \<le> count" "0 \<le> klExpected st \<longrightarrow> count = klExpected st"
    and loop: "forA (add_check c org repo commit) runs (st\<lparr>klExpected := count\<rparr>) w1 = (Inr u, w2)"
    and rest: "(if next_page resp = 0 then ret u
             else if page = 20 then failA (Plain ''check pagination exceeds limit'')
             else check_pages c org repo commit pages u) w2 = (Inr st', w')"
    unfolding option_failA_Inr prod.case_eq_if if_failA_Inr bindA_Inr_iff by (auto simp: not_less)
  have work: "read_checks c org repo commit a w1 w2" using loop by (auto simp: read_checks_def a)
  note added = checks_added[OF loop]
  show ?case
  proof (cases "next_page resp = 0")
    case True
    with rest have "st' = u" "w' = w2" by (simp_all add: ret_def)
    then show ?thesis
      using last_page[where ask = "Checks_ListCheckRunsForRef (Collaboration c) org repo commit"
        and work = "read_checks c org repo commit", OF ask work True] added count(2)
      by (intro exI[of _ "[(count, runs)]"]) (auto simp: a)
  next
    case False
    with rest have more: "page \<noteq> 20" "check_pages c org repo commit pages u w2 = (Inr st', w')" by (simp_all split: if_splits)
    then obtain answers where rec: "listed (Checks_ListCheckRunsForRef (Collaboration c) org repo commit) (read_checks c org repo commit)
        (page + 1) w2 (map Some answers) w'" "\<forall>a \<in> set answers. fst a = klExpected st'" "klExpected st' = klExpected u"
        "map check_facts (klChecks st') = map check_facts (klChecks u) @ map run_facts (concat (map snd answers))"
      using Cons.IH[OF more(2) pages(2)] Cons.prems(3) added count(1) by auto
    with more_pages[where ask = "Checks_ListCheckRunsForRef (Collaboration c) org repo commit"
        and work = "read_checks c org repo commit", OF ask work False rec(1)] added count(2)
    show ?thesis by (intro exI[of _ "(count, runs) # answers"]) (auto simp: a)
  qed
qed simp

lemma review_pages_listed:
  assumes "review_pages c org repo number commit pages st w = (Inr st', w')" and "pages = [page..20]" and "page \<le> 20"
  shows "\<exists>answers. listed (PullRequests_ListReviews (Collaboration c) org repo number) (read_reviews c org repo number commit)
      page w answers w' \<and>
    map review_facts (vlReviews st') = map review_facts (vlReviews st) @
      map host_review_facts (filter (\<lambda>r. hvwCommit r = commit \<and> hvwState r \<noteq> ''PENDING'') (concat answers))"
  using assms
proof (induction pages arbitrary: st w page)
  case (Cons p pages)
  then have pages: "p = page" "pages = [page + 1..20]" by (simp_all add: upto.simps[of page 20])
  from Cons.prems(1) obtain rs resp w1 u w2 where ask: "PullRequests_ListReviews (Collaboration c) org repo number page w = (Reply rs resp, w1)"
    and loop: "forA (add_review c org repo number commit) rs st w1 = (Inr u, w2)"
    and rest: "(if next_page resp = 0 then ret u
         else if page = 20 then failA (Plain ''review pagination exceeds limit'')
         else review_pages c org repo number commit pages u) w2 = (Inr st', w')"
    unfolding review_pages.simps on_reply_Inr pages(1) if_failA_Inr bindA_Inr_iff by blast
  have work: "read_reviews c org repo number commit rs w1 w2" using loop by (auto simp: read_reviews_def)
  note added = reviews_added[OF loop]
  show ?case
  proof (cases "next_page resp = 0")
    case True
    with rest have "st' = u" "w' = w2" by (simp_all add: ret_def)
    then show ?thesis
      using last_page[where ask = "PullRequests_ListReviews (Collaboration c) org repo number"
        and work = "read_reviews c org repo number commit", OF ask work True] added
      by (intro exI[of _ "[rs]"]) simp
  next
    case False
    with rest have more: "page \<noteq> 20" "review_pages c org repo number commit pages u w2 = (Inr st', w')" by (simp_all split: if_splits)
    then obtain answers where rec: "listed (PullRequests_ListReviews (Collaboration c) org repo number) (read_reviews c org repo number commit)
        (page + 1) w2 answers w'"
        "map review_facts (vlReviews st') = map review_facts (vlReviews u) @
          map host_review_facts (filter (\<lambda>r. hvwCommit r = commit \<and> hvwState r \<noteq> ''PENDING'') (concat answers))"
      using Cons.IH[OF more(2) pages(2)] Cons.prems(3) by auto
    with more_pages[where ask = "PullRequests_ListReviews (Collaboration c) org repo number"
        and work = "read_reviews c org repo number commit", OF ask work False rec(1)] added
    show ?thesis by (intro exI[of _ "rs # answers"]) simp
  qed
qed simp

text \<open>
  (C35) An accepted feedback is complete and about the requested commit only. The pull request had
  that head commit before and after the listings. The checks are those of all pages the host has
  for the commit, in order, and as many as every page announces; the reviews are those of all pages
  of the pull request that are on the commit and not pending. Every check and review has a positive
  id that occurs once, belongs to the commit and carries a diagnostic text within its bounds, and the
  encoded answer has at most 480 KiB.
\<close>

theorem PullRequestFeedback_sound:
  fixes w :: 'w
  assumes "PullRequestFeedback gh conn cred repo number commit w = (Inr fb, w')"
  shows "objectID commit \<and> distinct (map ckID (fbChecks fb)) \<and> distinct (map rvID (fbReviews fb)) \<and>
    (\<forall>k \<in> set (fbChecks fb). ckHead k = commit \<and> 0 < ckID k \<and> length (ckOutput k) \<le> 16384 \<and> utf8_Valid (ckOutput k)) \<and>
    (\<forall>r \<in> set (fbReviews fb). rvCommit r = commit \<and> 0 < rvID r \<and> rvState r \<noteq> ''PENDING'' \<and>
        length (rvBody r) \<le> 16384 \<and> utf8_Valid (rvBody r)) \<and>
    (\<exists>encoded. marshal_feedback fb = Some encoded \<and> length encoded \<le> maxFeedbackBytes) \<and>
    (let c = conn_client gh conn cred; org = repo_owner conn repo; name = rsName (rxSpec repo) in
     \<exists>first w1 w2 checks w3 reviews w4 again.
       ReadPullRequest gh conn cred repo number w = (Inr first, w1) \<and> puCommit first = commit \<and>
       listed (Checks_ListCheckRunsForRef (Collaboration c) org name commit) (read_checks c org name commit) 1 w2 (map Some checks) w3 \<and>
       (\<forall>answer \<in> set checks. fst answer = int (length (fbChecks fb))) \<and>
       map check_facts (fbChecks fb) = map run_facts (concat (map snd checks)) \<and>
       listed (PullRequests_ListReviews (Collaboration c) org name number) (read_reviews c org name number commit) 1 w3 reviews w4 \<and>
       map review_facts (fbReviews fb) =
         map host_review_facts (filter (\<lambda>r. hvwCommit r = commit \<and> hvwState r \<noteq> ''PENDING'') (concat reviews)) \<and>
       ReadPullRequest gh conn cred repo number w4 = (Inr again, w') \<and> puCommit again = commit)"
proof -
  define c where "c = conn_client gh conn cred"
  define org where "org = repo_owner conn repo"
  define name where "name = rsName (rxSpec repo)"
  have "objectID commit \<and> (\<exists>first w1 (d :: 'w client) w2 checks w3 reviews w4 again encoded.
      ReadPullRequest gh conn cred repo number w = (Inr first, w1) \<and> puCommit first = commit \<and>
      collaborationClient gh conn cred repo w1 = (Inr d, w2) \<and>
      check_pages d org name commit pages20 \<lparr>klExpected = -1, klSeen = [], klChecks = []\<rparr> w2 = (Inr checks, w3) \<and>
      int (length (klChecks checks)) = klExpected checks \<and>
      review_pages d org name number commit pages20 \<lparr>vlSeen = [], vlReviews = []\<rparr> w3 = (Inr reviews, w4) \<and>
      ReadPullRequest gh conn cred repo number w4 = (Inr again, w') \<and> puCommit again = puCommit first \<and>
      fb = \<lparr>fbChecks = klChecks checks, fbReviews = vlReviews reviews\<rparr> \<and>
      marshal_feedback \<lparr>fbChecks = klChecks checks, fbReviews = vlReviews reviews\<rparr> = Some encoded \<and> length encoded \<le> maxFeedbackBytes)"
    using assms
    unfolding PullRequestFeedback_def Let_def if_failA_Inr option_failA_Inr bindA_Inr_iff ret_iff sum.inject not_less not_not de_Morgan_disj
      org_def[symmetric] name_def[symmetric]
    by blast
  then obtain first w1 d w2 checks w3 reviews w4 again encoded
    where commit: "objectID commit"
    and pull: "ReadPullRequest gh conn cred repo number w = (Inr first, w1)" "puCommit first = commit"
    and d: "collaborationClient gh conn cred repo w1 = (Inr d, w2)"
    and ch: "check_pages d org name commit pages20 \<lparr>klExpected = -1, klSeen = [], klChecks = []\<rparr> w2 = (Inr checks, w3)"
    and count: "int (length (klChecks checks)) = klExpected checks"
    and rv: "review_pages d org name number commit pages20 \<lparr>vlSeen = [], vlReviews = []\<rparr> w3 = (Inr reviews, w4)"
    and last: "ReadPullRequest gh conn cred repo number w4 = (Inr again, w')" "puCommit again = commit"
    and fb: "fb = \<lparr>fbChecks = klChecks checks, fbReviews = vlReviews reviews\<rparr>"
    and enc: "marshal_feedback \<lparr>fbChecks = klChecks checks, fbReviews = vlReviews reviews\<rparr> = Some encoded" "length encoded \<le> maxFeedbackBytes"
    by blast
  have "d = c" using collaborationClient_Inr[OF d] by (simp add: c_def)
  with check_pages_listed[OF ch pages20_def] review_pages_listed[OF rv pages20_def] obtain answers ranswers where
      lists: "listed (Checks_ListCheckRunsForRef (Collaboration c) org name commit) (read_checks c org name commit) 1 w2 (map Some answers) w3"
        "\<forall>a \<in> set answers. fst a = klExpected checks" "map check_facts (klChecks checks) = map run_facts (concat (map snd answers))"
        "listed (PullRequests_ListReviews (Collaboration c) org name number) (read_reviews c org name number commit) 1 w3 ranswers w4"
        "map review_facts (vlReviews reviews) =
          map host_review_facts (filter (\<lambda>r. hvwCommit r = commit \<and> hvwState r \<noteq> ''PENDING'') (concat ranswers))"
    by auto
  have complete: "let c = conn_client gh conn cred; org = repo_owner conn repo; name = rsName (rxSpec repo) in
     \<exists>first w1 w2 checks w3 reviews w4 again.
       ReadPullRequest gh conn cred repo number w = (Inr first, w1) \<and> puCommit first = commit \<and>
       listed (Checks_ListCheckRunsForRef (Collaboration c) org name commit) (read_checks c org name commit) 1 w2 (map Some checks) w3 \<and>
       (\<forall>answer \<in> set checks. fst answer = int (length (fbChecks fb))) \<and>
       map check_facts (fbChecks fb) = map run_facts (concat (map snd checks)) \<and>
       listed (PullRequests_ListReviews (Collaboration c) org name number) (read_reviews c org name number commit) 1 w3 reviews w4 \<and>
       map review_facts (fbReviews fb) =
         map host_review_facts (filter (\<lambda>r. hvwCommit r = commit \<and> hvwState r \<noteq> ''PENDING'') (concat reviews)) \<and>
       ReadPullRequest gh conn cred repo number w4 = (Inr again, w') \<and> puCommit again = commit"
    unfolding Let_def c_def[symmetric] org_def[symmetric] name_def[symmetric] fb Feedback.select_convs count
    using pull lists last by blast
  have in_bounds: "diagnosticText t = Inr () \<Longrightarrow> length t \<le> 16384 \<and> utf8_Valid t" for t
    by (auto simp: diagnosticText_def split: if_splits)
  have "checks_ok commit checks" using check_pages_ok[OF ch] by (simp add: checks_ok_def)
  moreover have "reviews_ok commit reviews" using review_pages_ok[OF rv] by (simp add: reviews_ok_def)
  ultimately show ?thesis
    using commit enc in_bounds complete unfolding checks_ok_def reviews_ok_def list_all_iff by (simp add: fb)
qed

subsection \<open>Instance\<close>

definition example_sha :: string where "example_sha = replicate 40 (CHR ''a'')"

definition example_check :: check_run where
  "example_check = \<lparr>hcID = 5, hcName = ''ci'', hcAppID = 1, hcHeadSHA = example_sha, hcStatus = ''completed'', hcConclusion = ''success'',
     hcDetailsURL = [], hcTitle = ''ok'', hcSummary = [], hcText = [], hcAnnotations = 1\<rparr>"

definition example_review :: host_review where
  "example_review = \<lparr>hvwID = 6, hvwUser = \<lparr>haLogin = ''ann'', haType = ''User''\<rparr>, hvwCommit = example_sha, hvwState = ''APPROVED'',
     hvwBody = ''fine'', hvwSubmittedAt = Some 0\<rparr>"

definition feedback_client :: "nat client" where
  "feedback_client = acme_client\<lparr>Collaboration := down_collaboration\<lparr>
     PullRequests_Get := (\<lambda>_ _ n w. (Reply \<lparr>hlNumber = n, hlHTMLURL = [], hlBase = \<lparr>psRepo = ''acme/app'', psRef = ''main'', psSHA = []\<rparr>,
        hlHead = \<lparr>psRepo = ''acme/app'', psRef = ''work'', psSHA = example_sha\<rparr>, hlState = ''open'', hlMerged = False,
        hlMergeCommit = [], hlMergedAt = None, hlMergedBy = \<lparr>haLogin = [], haType = []\<rparr>\<rparr> (answered 200), w)),
     Checks_ListCheckRunsForRef := (\<lambda>_ _ _ page w.
       if page = 1 then (Reply (Some (2, [example_check])) (map_option (\<lambda>r. r\<lparr>respNextPage := 2\<rparr>) (answered 200)), w)
       else (Reply (Some (2, [example_check\<lparr>hcID := 7\<rparr>])) (answered 200), w)),
     Checks_ListCheckRunAnnotations := (\<lambda>_ _ _ _ w. (Reply [\<lparr>haPath = ''a'', haStartLine = 1, haEndLine = 2, haLevel = ''notice'',
        haTitle = [], haMessage = ''m'', haRawDetails = []\<rparr>] (answered 200), w)),
     PullRequests_ListReviews := (\<lambda>_ _ _ _ w. (Reply [example_review] (answered 200), w)),
     PullRequests_ListReviewComments := (\<lambda>_ _ _ _ _ w. (Reply [\<lparr>rmID = 1, rmReviewID = 6, rmCommit = example_sha, rmPath = ''a'',
        rmLine = 3, rmBody = ''nit''\<rparr>] (answered 200), w))\<rparr>\<rparr>"

theorem PullRequestFeedback_sound_witness:
  "\<exists>fb. PullRequestFeedback (github_of feedback_client) zero_connection example_credential (example_repository [] ''7'') 2 example_sha 0
     = (Inr fb, 0) \<and> map ckID (fbChecks fb) = [5, 7] \<and> map rvID (fbReviews fb) = [6] \<and>
     (\<forall>k \<in> set (fbChecks fb). ckHead k = example_sha) \<and> (\<forall>r \<in> set (fbReviews fb). rvCommit r = example_sha)"
proof -
  define r where "r = PullRequestFeedback (github_of feedback_client) zero_connection example_credential
    (example_repository [] ''7'') 2 example_sha 0"
  have "(case fst r of Inr fb \<Rightarrow> map ckID (fbChecks fb) = [5, 7] \<and> map rvID (fbReviews fb) = [6] | _ \<Rightarrow> False) \<and> snd r = 0"
    unfolding r_def by code_simp
  then obtain fb where r: "r = (Inr fb, 0)" "map ckID (fbChecks fb) = [5, 7] \<and> map rvID (fbReviews fb) = [6]"
    by (cases r) (auto split: sum.splits)
  from PullRequestFeedback_sound[OF r(1)[unfolded r_def]] r show ?thesis unfolding r_def
    by (intro exI[of _ fb]) simp
qed

end
