(* ===== verification/Github_Snapshot.thy ===== *)
theory Github_Snapshot
  imports Github_Collaboration
begin

text \<open>
  \<open>backend/github/snapshot.go\<close>: a snapshot is a git bundle with one commit. It is verified with
  the git program in a temporary directory and may then be pushed to one branch under a lease.
  The program, the file system and \<open>url.Parse\<close> are parameters: \<open>geRun\<close> runs git in a directory
  with an environment and arguments and gives whether it succeeded and the chunks it wrote.
\<close>

record 'w git_env =
  geRun :: "string \<Rightarrow> string list \<Rightarrow> string list \<Rightarrow> 'w \<Rightarrow> (bool \<times> bytes list) \<times> 'w"
  geMkdirTemp :: "('w, string) act"
  geRemoveAll :: "string \<Rightarrow> 'w \<Rightarrow> 'w"
  geWriteFile :: "string \<Rightarrow> bytes \<Rightarrow> ('w, unit) act"
  geParseURL :: "string \<Rightarrow> url option"
  gePATH :: string

definition MaxSnapshotBundleBytes :: nat where "MaxSnapshotBundleBytes = 25 * 2 ^ 20"

subsection \<open>Running git\<close>

record snapshotGit =
  sgDir :: string
  sgToken :: string

record boundedGitOutput =
  boBuffer :: bytes
  boOverflow :: bool

text \<open>\<open>Write\<close> reports the whole chunk as written, so the process is not disturbed.\<close>

definition bounded_Write :: "bytes \<Rightarrow> boundedGitOutput \<Rightarrow> boundedGitOutput" where
  "bounded_Write p b =
     (let remaining = 2 ^ 20 - length (boBuffer b) in
      if length p > remaining then \<lparr>boBuffer = boBuffer b @ take remaining p, boOverflow = True\<rparr>
      else b\<lparr>boBuffer := boBuffer b @ p\<rparr>)"

definition git_environment :: "string \<Rightarrow> snapshotGit \<Rightarrow> string list" where
  "git_environment path g =
     [''PATH='' @ path, ''HOME='' @ sgDir g, ''LANG=C'', ''GIT_TERMINAL_PROMPT=0'', ''GIT_CONFIG_NOSYSTEM=1'',
      ''GIT_CONFIG_GLOBAL=/dev/null'', ''GIT_CONFIG_COUNT=5'', ''GIT_CONFIG_KEY_0=http.extraHeader'',
      ''GIT_CONFIG_VALUE_0=Authorization: Basic '' @ b64_encode (''x-access-token:'' @ sgToken g),
      ''GIT_CONFIG_KEY_1=core.hooksPath'', ''GIT_CONFIG_VALUE_1=/dev/null'',
      ''GIT_CONFIG_KEY_2=protocol.file.allow'', ''GIT_CONFIG_VALUE_2=never'',
      ''GIT_CONFIG_KEY_3=protocol.ext.allow'', ''GIT_CONFIG_VALUE_3=never'',
      ''GIT_CONFIG_KEY_4=http.followRedirects'', ''GIT_CONFIG_VALUE_4=false'']"

definition git_run :: "'w git_env \<Rightarrow> snapshotGit \<Rightarrow> string list \<Rightarrow> ('w, string) act" where
  "git_run ge g args w =
     (case geRun ge (sgDir g) (git_environment (gePATH ge) g) args w of ((ok, chunks), w') \<Rightarrow>
        if \<not> ok then (Inl (Plain ''git snapshot command failed''), w')
        else let output = fold bounded_Write chunks \<lparr>boBuffer = [], boOverflow = False\<rparr> in
          if boOverflow output then (Inl (Plain ''git snapshot command output exceeds limit''), w')
          else (Inr (boBuffer output), w'))"

text \<open>A command any failure of which is reported by one message.\<close>

definition git_step :: "'w git_env \<Rightarrow> snapshotGit \<Rightarrow> string list \<Rightarrow> string \<Rightarrow> (string \<Rightarrow> ('w, 'a) act) \<Rightarrow> ('w, 'a) act" where
  "git_step ge g args msg k = handle (git_run ge g args) (\<lambda>e. failA (Plain msg)) k"

definition snapshot_text :: "Snapshot \<Rightarrow> string" where
  "snapshot_text i =
     ''tree '' @ snTree i @ [newline] @ ''parent '' @ snBaseCommit i @ [newline] @
     ''author Railgrid Runner <runner@localhost> 946684800 +0000'' @ [newline] @
     ''committer Railgrid Runner <runner@localhost> 946684800 +0000'' @ [newline, newline] @
     ''Implementation snapshot'' @ [newline]"

definition snapshot_verify :: "'w git_env \<Rightarrow> snapshotGit \<Rightarrow> Snapshot \<Rightarrow> ('w, unit) act" where
  "snapshot_verify ge g i =
     (let bundlePath = path_Clean (sgDir g @ ''/snapshot.bundle'') in
      bindA (geWriteFile ge bundlePath (snBundle i)) (\<lambda>u.
      git_step ge g [''bundle'', ''verify'', bundlePath] ''snapshot bundle prerequisites invalid'' (\<lambda>out.
      git_step ge g [''bundle'', ''list-heads'', bundlePath] ''snapshot bundle must expose only the exact result commit'' (\<lambda>heads.
      if TrimSpace heads \<noteq> snCommit i @ '' refs/heads/runner-result''
      then failA (Plain ''snapshot bundle must expose only the exact result commit'')
      else git_step ge g [''bundle'', ''unbundle'', bundlePath] ''snapshot bundle import failed'' (\<lambda>out.
      git_step ge g [''cat-file'', ''commit'', snCommit i] ''snapshot commit unavailable'' (\<lambda>raw.
      if raw \<noteq> snapshot_text i then failA (Plain ''snapshot must contain one parent and canonical public metadata'')
      else git_step ge g [''rev-parse'', snCommit i @ ''^{tree}''] ''snapshot tree mismatch'' (\<lambda>tree.
      if TrimSpace tree \<noteq> snTree i then failA (Plain ''snapshot tree mismatch'') else ret ())))))))"

definition push_args :: "string \<Rightarrow> string \<Rightarrow> string \<Rightarrow> string \<Rightarrow> string list" where
  "push_args remote commit branch expected =
     [''push'', ''--porcelain'', ''--force-with-lease=refs/heads/'' @ branch @ '':'' @ expected, remote,
      commit @ '':refs/heads/'' @ branch]"

definition snapshot_advance ::
  "'w git_env \<Rightarrow> snapshotGit \<Rightarrow> string \<Rightarrow> string \<Rightarrow> string \<Rightarrow> string \<Rightarrow> ('w, unit) act"
where
  "snapshot_advance ge g remote commit branch expected =
     (if \<not> validBranch branch \<or> \<not> objectID commit \<or> expected \<noteq> [] \<and> \<not> objectID expected
      then failA (Plain ''invalid branch lease'')
      else git_step ge g (push_args remote commit branch expected)
        ''git branch publication failed; inspect the exact branch head before retrying'' (\<lambda>out. ret ()))"

subsection \<open>Snapshots\<close>

definition snapshot_bounded :: "Snapshot \<Rightarrow> bool" where
  "snapshot_bounded i \<longleftrightarrow> objectID (snBaseCommit i) \<and> objectID (snCommit i) \<and> objectID (snTree i) \<and>
     snBaseCommit i \<noteq> snCommit i \<and> snBundle i \<noteq> [] \<and> length (snBundle i) \<le> MaxSnapshotBundleBytes"

definition git_origin :: "'w git_env \<Rightarrow> Connection \<Rightarrow> gerror + string" where
  "git_origin ge conn =
     (if csBaseURL (cxSpec conn) = [] then Inr ''https://github.com''
      else case geParseURL ge (csBaseURL (cxSpec conn)) of
          None \<Rightarrow> Inl (Plain ''invalid Git host'')
        | Some u \<Rightarrow>
            if urlScheme u \<noteq> ''https'' \<or> urlHost u = [] \<or> urlUser u \<or> urlRawQuery u \<noteq> [] \<or> urlFragment u \<noteq> []
            then Inl (Plain ''invalid Git host'')
            else Inr (urlScheme u @ ''://'' @ urlHost u))"

definition snapshot_remote :: "string \<Rightarrow> Connection \<Rightarrow> Repository \<Rightarrow> string" where
  "snapshot_remote base conn repo =
     base @ ''/'' @ PathEscape (repo_owner conn repo) @ ''/'' @ PathEscape (rsName (rxSpec repo)) @ ''.git''"

text \<open>\<open>defer os.RemoveAll(dir)\<close>.\<close>

definition deferA :: "('w \<Rightarrow> 'w) \<Rightarrow> ('w, 'a) act \<Rightarrow> ('w, 'a) act" where
  "deferA f m w = (case m w of (r, w') \<Rightarrow> (r, f w'))"

text \<open>What runs in the temporary directory.\<close>

definition in_snapshot_dir ::
  "'w git_env \<Rightarrow> snapshotGit \<Rightarrow> string \<Rightarrow> Snapshot \<Rightarrow> (snapshotGit \<Rightarrow> string \<Rightarrow> ('w, unit) act) option \<Rightarrow> ('w, unit) act"
where
  "in_snapshot_dir ge g remote i after =
     bindA (git_run ge g [''init'', ''--bare'', ''.'']) (\<lambda>out.
     git_step ge g [''fetch'', ''--no-tags'', ''--depth=1'', ''--filter=blob:none'', remote, snBaseCommit i]
       ''snapshot base commit unavailable'' (\<lambda>out.
     bindA (snapshot_verify ge g i) (\<lambda>u.
     case after of None \<Rightarrow> ret () | Some f \<Rightarrow> f g remote)))"

definition withSnapshot ::
  "'w github \<Rightarrow> 'w git_env \<Rightarrow> Connection \<Rightarrow> Credential \<Rightarrow> Repository \<Rightarrow> Snapshot \<Rightarrow>
     (snapshotGit \<Rightarrow> string \<Rightarrow> ('w, unit) act) option \<Rightarrow> ('w, unit) act"
where
  "withSnapshot gh ge conn cred repo i after =
     (if \<not> snapshot_bounded i then failA (Plain ''invalid bounded Git snapshot'')
      else bindA (collaborationClient gh conn cred repo) (\<lambda>c.
        bindA (lift (git_origin ge conn)) (\<lambda>base.
        bindA (geMkdirTemp ge) (\<lambda>dir.
          deferA (geRemoveAll ge dir)
            (in_snapshot_dir ge \<lparr>sgDir = dir, sgToken = crToken cred\<rparr> (snapshot_remote base conn repo) i after)))))"

definition VerifySnapshot ::
  "'w github \<Rightarrow> 'w git_env \<Rightarrow> Connection \<Rightarrow> Credential \<Rightarrow> Repository \<Rightarrow> Snapshot \<Rightarrow> ('w, unit) act"
where
  "VerifySnapshot gh ge conn cred repo i = withSnapshot gh ge conn cred repo i None"

definition PublishSnapshot ::
  "'w github \<Rightarrow> 'w git_env \<Rightarrow> Connection \<Rightarrow> Credential \<Rightarrow> Repository \<Rightarrow> Snapshot \<Rightarrow> string \<Rightarrow> string \<Rightarrow> ('w, unit) act"
where
  "PublishSnapshot gh ge conn cred repo i branch expected =
     (if \<not> validBranch branch \<or> expected \<noteq> [] \<and> \<not> objectID expected then failA (Plain ''invalid branch lease'')
      else withSnapshot gh ge conn cred repo i
        (Some (\<lambda>g remote. snapshot_advance ge g remote (snCommit i) branch expected)))"

subsection \<open>Bounded output\<close>

text \<open>
  However git splits its output, the collected text is the first MiB of it, and the overflow
  flag says exactly whether there was more.
\<close>

theorem bounded_output:
  "fold bounded_Write chunks \<lparr>boBuffer = [], boOverflow = False\<rparr> =
     \<lparr>boBuffer = take (2 ^ 20) (concat chunks), boOverflow = (length (concat chunks) > 2 ^ 20)\<rparr>"
proof -
  have step: "bounded_Write p \<lparr>boBuffer = take N xs, boOverflow = (length xs > N)\<rparr> =
      \<lparr>boBuffer = take N (xs @ p), boOverflow = (length (xs @ p) > N)\<rparr>" if "N = 2 ^ 20" for p xs N
    using that[symmetric] by (auto simp: bounded_Write_def Let_def min_def)
  have "fold bounded_Write chunks \<lparr>boBuffer = take N xs, boOverflow = (length xs > N)\<rparr> =
      \<lparr>boBuffer = take N (xs @ concat chunks), boOverflow = (length (xs @ concat chunks) > N)\<rparr>"
    if "N = 2 ^ 20" for xs N
  proof (induction chunks arbitrary: xs)
    case (Cons p chunks)
    show ?case using step[OF that, of p xs] Cons.IH[of "xs @ p"] by (simp del: take_append length_append)
  qed simp
  from this[OF refl, of "[]"] show ?thesis by simp
qed

subsection \<open>Publication follows verification\<close>

lemma git_step_Inr:
  "git_step ge g args msg k w = (Inr x, w') \<longleftrightarrow>
     (\<exists>out w1. git_run ge g args w = (Inr out, w1) \<and> k out w1 = (Inr x, w'))"
  by (auto simp: git_step_def handle_def failA_def split: prod.splits sum.splits)

text \<open>What git answered when a snapshot was accepted.\<close>

lemma snapshot_verify_Inr:
  assumes "snapshot_verify ge g i w = (Inr (), w')"
  shows "\<exists>heads tree w1 w2 w3 w4 w5.
    git_run ge g [''bundle'', ''list-heads'', path_Clean (sgDir g @ ''/snapshot.bundle'')] w1 = (Inr heads, w2) \<and>
    TrimSpace heads = snCommit i @ '' refs/heads/runner-result'' \<and>
    git_run ge g [''cat-file'', ''commit'', snCommit i] w3 = (Inr (snapshot_text i), w4) \<and>
    git_run ge g [''rev-parse'', snCommit i @ ''^{tree}''] w5 = (Inr tree, w') \<and> TrimSpace tree = snTree i"
  using assms unfolding snapshot_verify_def Let_def bindA_Inr_iff git_step_Inr if_failA_Inr ret_iff not_not by blast

lemma keeps_git_step:
  assumes "keeps P (git_run ge g args)" and "\<And>out. keeps P (k out)"
  shows "keeps P (git_step ge g args msg k)"
  unfolding git_step_def by (intro keeps assms)

text \<open>
  The step that first breaks \<open>P\<close>: an action that keeps \<open>P\<close> cannot be it, so it succeeded and what
  follows is.
\<close>

lemma broken_after_step:
  assumes "git_step ge g args msg k w = (r, w')" "keeps P (git_run ge g args)" "P w" "\<not> P w'"
  obtains out v where "P v" "k out v = (r, w')"
proof -
  obtain rm v where m: "git_run ge g args w = (rm, v)" by fastforce
  have "P v" using keepsD[OF assms(2,3)] m by simp
  with assms(1,4) m that show thesis by (cases rm) (auto simp: git_step_def failA_def)
qed

lemma keeps_git_run:
  assumes "\<And>dir env. keeps P (geRun ge dir env args)"
  shows "keeps P (git_run ge g args)"
proof (rule keepsI)
  fix v assume "P v"
  then have "P (snd (geRun ge (sgDir g) (git_environment (gePATH ge) g) args v))" by (rule keepsD[OF assms])
  then show "P (snd (git_run ge g args v))" by (auto simp: git_run_def Let_def split: prod.splits)
qed

lemma broken_by_push:
  assumes "in_snapshot_dir ge g remote i (Some f) v = (r, v')" "P v" "\<not> P v'"
    and files: "\<And>path data. keeps P (geWriteFile ge path data)"
    and run: "\<And>a args. a \<noteq> ''push'' \<Longrightarrow> keeps P (git_run ge g (a # args))"
  obtains v1 v2 where "snapshot_verify ge g i v1 = (Inr (), v2)" "P v2" "f g remote v2 = (r, v')"
proof -
  have verify: "keeps P (snapshot_verify ge g i)"
    unfolding snapshot_verify_def Let_def by (intro keeps keeps_git_step run files) simp_all
  have ne: "''init'' \<noteq> ''push''" "''fetch'' \<noteq> ''push''" by simp_all
  obtain out v1 where v1: "P v1" "git_step ge g [''fetch'', ''--no-tags'', ''--depth=1'', ''--filter=blob:none'', remote, snBaseCommit i]
       ''snapshot base commit unavailable'' (\<lambda>out. bindA (snapshot_verify ge g i) (\<lambda>u. f g remote)) v1 = (r, v')"
    by (rule broken_later[OF assms(1)[unfolded in_snapshot_dir_def option.case] run[OF ne(1)] assms(2,3)])
  obtain v2 where v2: "P v2" "bindA (snapshot_verify ge g i) (\<lambda>u. f g remote) v2 = (r, v')"
    by (rule broken_after_step[OF v1(2) run[OF ne(2)] v1(1) assms(3)])
  show thesis by (rule broken_later[OF v2(2) verify v2(1) assms(3)]) (rule that, simp_all)
qed

text \<open>
  (C30) A branch is only ever moved to a verified snapshot: if \<open>PublishSnapshot\<close> changes anything
  that host lookups, the file operations and all git commands except \<open>push\<close> preserve, then the
  snapshot is bounded, the repository is the registered one, git has confirmed that the bundle
  contains exactly the named commit with the canonical metadata, parent and tree, and what
  followed was the one push under the lease, from the directory of the verification.
\<close>

theorem PublishSnapshot_pushes_verified:
  fixes w :: 'w
  assumes "PublishSnapshot gh ge conn cred repo i branch expected w = (r, w')"
    and "P w" and "\<not> P w'"
    and "keeps P (Repositories_Get (Repositories (conn_client gh conn cred)) (repo_owner conn repo) (rsName (rxSpec repo)))"
    and "keeps P (geMkdirTemp ge)" and "\<And>path data. keeps P (geWriteFile ge path data)"
    and "\<And>dir v. P v \<Longrightarrow> P (geRemoveAll ge dir v)"
    and "\<And>dir env a args. a \<noteq> ''push'' \<Longrightarrow> keeps P (geRun ge dir env (a # args))"
  shows "snapshot_bounded i \<and> validBranch branch \<and> (expected = [] \<or> objectID expected) \<and>
    (\<exists>base dir w1 w2 w3. git_origin ge conn = Inr base \<and>
      snapshot_verify ge \<lparr>sgDir = dir, sgToken = crToken cred\<rparr> i w1 = (Inr (), w2) \<and>
      git_step ge \<lparr>sgDir = dir, sgToken = crToken cred\<rparr> (push_args (snapshot_remote base conn repo) (snCommit i) branch expected)
        ''git branch publication failed; inspect the exact branch head before retrying'' (\<lambda>out. ret ()) w2 = (r, w3) \<and>
      w' = geRemoveAll ge dir w3)"
proof -
  define push where "push = (\<lambda>g remote. snapshot_advance ge g remote (snCommit i) branch expected)"
  have guard: "validBranch branch" "expected = [] \<or> objectID expected" "snapshot_bounded i"
    using assms(1-3) by (auto simp: PublishSnapshot_def withSnapshot_def split: if_splits)
  have whole: "bindA (collaborationClient gh conn cred repo) (\<lambda>c.
        bindA (lift (git_origin ge conn)) (\<lambda>base.
        bindA (geMkdirTemp ge) (\<lambda>dir.
          deferA (geRemoveAll ge dir)
            (in_snapshot_dir ge \<lparr>sgDir = dir, sgToken = crToken cred\<rparr> (snapshot_remote base conn repo) i (Some push))))) w = (r, w')"
    using assms(1) guard by (auto simp: PublishSnapshot_def withSnapshot_def push_def)
  obtain c u1 where u1: "P u1" "bindA (lift (git_origin ge conn)) (\<lambda>base. bindA (geMkdirTemp ge) (\<lambda>dir. deferA (geRemoveAll ge dir)
      (in_snapshot_dir ge \<lparr>sgDir = dir, sgToken = crToken cred\<rparr> (snapshot_remote base conn repo) i (Some push)))) u1 = (r, w')"
    by (rule broken_later[OF whole keeps_collaborationClient[OF assms(4)] assms(2,3)])
  obtain base u2 where base: "lift (git_origin ge conn) u1 = (Inr base, u2)" and u2: "P u2" "bindA (geMkdirTemp ge) (\<lambda>dir.
      deferA (geRemoveAll ge dir) (in_snapshot_dir ge \<lparr>sgDir = dir, sgToken = crToken cred\<rparr>
        (snapshot_remote base conn repo) i (Some push))) u2 = (r, w')"
    by (rule broken_later[OF u1(2) keeps_lift u1(1) assms(3)])
  obtain dir v where v: "P v" "deferA (geRemoveAll ge dir) (in_snapshot_dir ge \<lparr>sgDir = dir, sgToken = crToken cred\<rparr>
      (snapshot_remote base conn repo) i (Some push)) v = (r, w')"
    by (rule broken_later[OF u2(2) assms(5) u2(1) assms(3)])
  let ?g = "\<lparr>sgDir = dir, sgToken = crToken cred\<rparr>" and ?remote = "snapshot_remote base conn repo"
  obtain v' where run: "in_snapshot_dir ge ?g ?remote i (Some push) v = (r, v')" and w': "w' = geRemoveAll ge dir v'"
    using v(2) by (auto simp: deferA_def split: prod.splits)
  have broken: "\<not> P v'" using assms(3,7) w' by blast
  obtain v1 v2 where verified: "snapshot_verify ge ?g i v1 = (Inr (), v2)" and "P v2" "push ?g ?remote v2 = (r, v')"
    by (rule broken_by_push[OF run v(1) broken assms(6) keeps_git_run[OF assms(8)]])
  then have "git_step ge ?g (push_args ?remote (snCommit i) branch expected)
      ''git branch publication failed; inspect the exact branch head before retrying'' (\<lambda>out. ret ()) v2 = (r, v')"
    using broken by (auto simp: push_def snapshot_advance_def split: if_splits)
  moreover have "git_origin ge conn = Inr base" using base by (simp add: lift_def)
  ultimately show ?thesis using guard verified w' by blast
qed

text \<open>A git program that accepts the example snapshot; the world says whether it has pushed.\<close>

definition example_snapshot :: Snapshot where
  "example_snapshot = \<lparr>snBaseCommit = replicate 40 (CHR ''b''), snCommit = replicate 40 (CHR ''a''),
     snTree = replicate 40 (CHR ''c''), snBundle = ''bundle''\<rparr>"

definition accepting_git :: "nat git_env" where
  "accepting_git = \<lparr>geRun = (\<lambda>dir env args w.
       ((True, [if take 2 args = [''bundle'', ''list-heads''] then snCommit example_snapshot @ '' refs/heads/runner-result''
         else if hd args = ''cat-file'' then snapshot_text example_snapshot
         else if hd args = ''rev-parse'' then snTree example_snapshot else []]),
        if hd args = ''push'' then 1 else w)),
     geMkdirTemp = ret ''/tmp/x'', geRemoveAll = (\<lambda>_ w. w), geWriteFile = (\<lambda>_ _. ret ()),
     geParseURL = (\<lambda>_. None), gePATH = ''/bin''\<rparr>"

theorem PublishSnapshot_pushes_verified_witness:
  "snapshot_bounded example_snapshot \<and> (\<exists>base. git_origin accepting_git zero_connection = Inr base)"
proof -
  define g where "g = \<lparr>sgDir = ''/tmp/x'', sgToken = ''token''\<rparr>"
  have run: "git_run accepting_git g args w =
      (Inr (if take 2 args = [''bundle'', ''list-heads''] then snCommit example_snapshot @ '' refs/heads/runner-result''
         else if hd args = ''cat-file'' then snapshot_text example_snapshot
         else if hd args = ''rev-parse'' then snTree example_snapshot else []), if hd args = ''push'' then 1 else w)" for args w
    by (simp add: git_run_def bounded_output accepting_git_def example_snapshot_def snapshot_text_def)
  have wrote: "geWriteFile accepting_git p d w = (Inr (), w)" for p d w by (simp add: accepting_git_def)
  have facts: "snapshot_bounded example_snapshot" "validBranch ''main''" "objectID (snCommit example_snapshot)"
    "TrimSpace (snCommit example_snapshot @ '' refs/heads/runner-result'') = snCommit example_snapshot @ '' refs/heads/runner-result''"
    "TrimSpace (snTree example_snapshot) = snTree example_snapshot"
    "EqualFold ''acme/app'' ''acme/app''" "FormatInt 7 = ''7''" by code_simp+
  have client: "collaborationClient (github_of acme_client) zero_connection example_credential (example_repository [] ''7'') 0 =
      (Inr acme_client, 0)"
    using facts(6,7)
    by (simp add: collaborationClient_def on_reply_def default_client_def clientWithTimeout_def owner_def acme_client_def
        acme_repo_def example_repository_def example_credential_def github_of_def zero_defs answered_def)
  have "PublishSnapshot (github_of acme_client) accepting_git zero_connection example_credential (example_repository [] ''7'')
      example_snapshot ''main'' [] 0 =
    deferA (\<lambda>w. w) (in_snapshot_dir accepting_git g (snapshot_remote ''https://github.com'' zero_connection (example_repository [] ''7''))
      example_snapshot (Some (\<lambda>g remote. snapshot_advance accepting_git g remote (snCommit example_snapshot) ''main'' []))) 0"
    using facts(1,2) client
    by (simp add: PublishSnapshot_def withSnapshot_def git_origin_def g_def example_credential_def zero_connection_def)
      (simp add: accepting_git_def)
  also have "\<dots> = (Inr (), 1)"
    using facts
    by (simp add: deferA_def in_snapshot_dir_def snapshot_verify_def git_step_def handle_def snapshot_advance_def push_args_def
        run wrote bindA_def Let_def ret_def)
  finally have published: "PublishSnapshot (github_of acme_client) accepting_git zero_connection example_credential (example_repository [] ''7'')
      example_snapshot ''main'' [] 0 = (Inr (), 1)" .
  have lookup: "keeps (\<lambda>w. w = 0) (Repositories_Get (Repositories (conn_client (github_of acme_client) zero_connection example_credential))
      (repo_owner zero_connection (example_repository [] ''7'')) (rsName (rxSpec (example_repository [] ''7''))))"
    by (simp add: keeps_def acme_client_def github_of_def)
  have tools: "keeps (\<lambda>w. w = 0) (geMkdirTemp accepting_git)" "\<And>p d. keeps (\<lambda>w. w = 0) (geWriteFile accepting_git p d)"
    "\<And>d v. v = 0 \<Longrightarrow> geRemoveAll accepting_git d v = 0"
    "\<And>dir env a args. a \<noteq> ''push'' \<Longrightarrow> keeps (\<lambda>w. w = 0) (geRun accepting_git dir env (a # args))"
    by (simp_all add: keeps_def accepting_git_def ret_def)
  have "\<not> (1 :: nat) = 0" by simp
  from PublishSnapshot_pushes_verified[OF published refl this lookup tools] show ?thesis by blast
qed

end
