(* ===== verification/Github_Packages.thy ===== *)
theory Github_Packages
  imports Github_Repository Request_Cache Go_Path
begin

text \<open>
  The packages part of \<open>backend/github/backend.go\<close> with \<open>cachedPackageListing\<close> of
  \<open>backend/github/package_cache.go\<close>. Paging goes on until the host names no next page, so it need
  not end: an action here may diverge, which is \<open>None\<close>. The request budget of the credential is
  reached through \<open>budget\<close>: its state, and the waiting operations, during which other callers
  may do anything to the world. The serialized form of a listing is a parameter with its
  inverse.
\<close>

subsection \<open>Actions that may diverge\<close>

type_synonym ('w, 'a) loop = "'w \<Rightarrow> ((gerror + 'a) \<times> 'w) option"

definition once :: "('w, 'a) act \<Rightarrow> ('w, 'a) loop" where
  "once m w = Some (m w)"

definition bindL :: "('w, 'a) loop \<Rightarrow> ('a \<Rightarrow> ('w, 'b) loop) \<Rightarrow> ('w, 'b) loop" where
  "bindL m k w = (case m w of
       None \<Rightarrow> None
     | Some (r, w') \<Rightarrow> (case r of Inl e \<Rightarrow> Some (Inl e, w') | Inr x \<Rightarrow> k x w'))"

fun forL :: "('a \<Rightarrow> 's \<Rightarrow> ('w, 's) loop) \<Rightarrow> 'a list \<Rightarrow> 's \<Rightarrow> ('w, 's) loop" where
  "forL f [] s = once (ret s)"
| "forL f (x # xs) s = bindL (f x s) (forL f xs)"

lemma once_iff [simp]: "once m w = Some (r, w') \<longleftrightarrow> m w = (r, w')"
  by (simp add: once_def)

lemma bindL_Inr_iff:
  "bindL m k w = Some (Inr y, w2) \<longleftrightarrow> (\<exists>x w1. m w = Some (Inr x, w1) \<and> k x w1 = Some (Inr y, w2))"
  by (auto simp: bindL_def split: option.splits sum.splits)

lemma forL_invariant:
  assumes "forL f xs s w = Some (Inr t, w')" and "I s"
    and "\<And>x s t w w'. x \<in> set xs \<Longrightarrow> I s \<Longrightarrow> f x s w = Some (Inr t, w') \<Longrightarrow> I t"
  shows "I t"
  using assms
proof (induction xs arbitrary: s w)
  case (Cons x xs)
  then obtain u w1 where "f x s w = Some (Inr u, w1)" and "forL f xs u w1 = Some (Inr t, w')"
    by (auto simp: bindL_Inr_iff)
  with Cons.prems Cons.IH show ?case by (metis list.set_intros(1,2))
qed simp

subsection \<open>Paging\<close>

text \<open>One page after another from \<open>page\<close> until there is no next one or enough was collected.\<close>

partial_function (option) list_pages ::
  "(int \<Rightarrow> ('w, 'a list) api) \<Rightarrow> 'w client \<Rightarrow> ('a list \<Rightarrow> bool) \<Rightarrow> int \<Rightarrow> 'a list \<Rightarrow> ('w, 'a list) loop"
where
  [code]: "list_pages fetch c enough page acc w =
     (case fetch page w of
        (Failure r e, w') \<Rightarrow> Some (classified c r e w')
      | (Reply p r, w') \<Rightarrow>
          if next_page r = 0 \<or> enough (acc @ p) then Some (Inr (acc @ p), w')
          else list_pages fetch c enough (next_page r) (acc @ p) w')"

definition packageVersionsMax :: nat where "packageVersionsMax = 100"

definition rfc3339_or_empty :: "gotime option \<Rightarrow> string" where
  "rfc3339_or_empty t = (case t of None \<Rightarrow> [] | Some x \<Rightarrow> RFC3339 x)"

definition version_info :: "package_version \<Rightarrow> PackageVersion" where
  "version_info v = \<lparr>pvDigest = hvName v, pvTags = hvTags v, pvCreatedAt = rfc3339_or_empty (hvCreatedAt v)\<rparr>"

definition listPackageVersions ::
  "'w client \<Rightarrow> string \<Rightarrow> string \<Rightarrow> string \<Rightarrow> bool \<Rightarrow> ('w, PackageVersion list) loop"
where
  "listPackageVersions c org pkgType pkgName asUser =
     bindL (list_pages
         (\<lambda>page. if asUser then Users_PackageGetAllVersions (Accounts c) org pkgType (PathEscape pkgName) page
                 else Organizations_PackageGetAllVersions (Accounts c) org pkgType pkgName page)
         c (\<lambda>vs. length vs \<ge> packageVersionsMax) 0 [])
       (\<lambda>versions. once (ret (map version_info versions)))"

definition listPackagesOfType :: "'w client \<Rightarrow> string \<Rightarrow> string \<Rightarrow> bool \<Rightarrow> ('w, host_package list) loop" where
  "listPackagesOfType c org pkgType asUser =
     list_pages
       (\<lambda>page. if asUser then Users_ListPackages (Accounts c) org pkgType page
               else Organizations_ListPackages (Accounts c) org pkgType page)
       c (\<lambda>ps. False) 0 []"

definition packageInfo :: "host_package \<Rightarrow> PackageInfo" where
  "packageInfo p =
     \<lparr>piName = hpName p, piType = hpType p, piVisibility = hpVisibility p, piHTMLURL = hpHTMLURL p,
      piImageRepository = [], piVersionCount = hpVersionCount p, piUpdatedAt = rfc3339_or_empty (hpUpdatedAt p),
      piVersions = []\<rparr>"

subsection \<open>Shared listings\<close>

text \<open>
  The request budget of the credential and host: \<open>bgAcquire\<close> waits for the gate, \<open>bgRelease\<close> gives
  it back, \<open>bgTakeGate\<close> and \<open>bgGiveGate\<close> are the bare channel operations, \<open>bgAwait\<close> waits for another
  caller's refresh, and \<open>bgFlight\<close> names a new one.
\<close>

record 'w budget =
  bgAcquire :: "('w, unit) act"
  bgRelease :: "'w \<Rightarrow> 'w"
  bgTakeGate :: "'w \<Rightarrow> 'w"
  bgGiveGate :: "'w \<Rightarrow> 'w"
  bgGet :: "'w \<Rightarrow> requestState"
  bgPut :: "requestState \<Rightarrow> 'w \<Rightarrow> 'w"
  bgAwait :: "nat \<Rightarrow> ('w, bytes) act"
  bgFlight :: "'w \<Rightarrow> nat"
  bgNow :: "'w \<Rightarrow> gotime"

record 'a codec =
  cdMarshal :: "'a list \<Rightarrow> bytes"
  cdUnmarshal :: "bytes \<Rightarrow> gerror + 'a list"

text \<open>After the fetch: publish with the gate held. The outcome of the flight is the caller's.\<close>

definition finish_listing ::
  "'w budget \<Rightarrow> 'a codec \<Rightarrow> bytes \<Rightarrow> gerror + 'a list \<Rightarrow> 'w \<Rightarrow> (gerror + 'a list) \<times> 'w"
where
  "finish_listing bg cd key result w =
     (let w1 = bgTakeGate bg w;
          (outcome, s) = listing_end key (case result of Inl e \<Rightarrow> Inl e | Inr xs \<Rightarrow> Inr (cdMarshal cd xs))
             (bgNow bg w1) (bgNow bg w1) (bgGet bg w1);
          w2 = bgGiveGate bg (bgPut bg s w1)
      in case outcome of
           Inl e \<Rightarrow> (Inl e, w2)
         | Inr body \<Rightarrow> (case result of Inl e \<Rightarrow> (Inl e, w2) | Inr xs \<Rightarrow> (Inr xs, w2)))"

definition cachedPackageListing ::
  "'w budget \<Rightarrow> 'a codec \<Rightarrow> bytes \<Rightarrow> bool \<Rightarrow> ('w, 'a list) loop \<Rightarrow> ('w, 'a list) loop"
where
  "cachedPackageListing bg cd key fresh fetch =
     bindL (once (bgAcquire bg)) (\<lambda>u w.
       case listing_begin key fresh (bgFlight bg w) (expire (bgNow bg w) (bgGet bg w)) of
         (Hit body, s) \<Rightarrow> Some (cdUnmarshal cd body, bgRelease bg (bgPut bg s w))
       | (JoinFlight f, s) \<Rightarrow>
           Some (bindA (bgAwait bg f) (\<lambda>body. lift (cdUnmarshal cd body)) (bgRelease bg (bgPut bg s w)))
       | (Refused, s) \<Rightarrow>
           Some (Inl (Plain ''github: package refresh capacity reached; retry later''), bgRelease bg (bgPut bg s w))
       | (Start f, s) \<Rightarrow>
           (case fetch (bgRelease bg (bgPut bg s w)) of
              None \<Rightarrow> None
            | Some (result, w') \<Rightarrow> Some (finish_listing bg cd key result w')))"

subsection \<open>ListPackages\<close>

definition packageTypes :: "string list" where
  "packageTypes = [''container'', ''docker'', ''npm'', ''maven'', ''rubygems'', ''nuget'']"

text \<open>The codecs and keys of the two kinds of listings.\<close>

record 'w package_env =
  peBudget :: "'w budget"
  pePackages :: "host_package codec"
  peVersions :: "PackageVersion codec"
  peKey :: "string list \<Rightarrow> bytes"

definition image_types :: "string list" where
  "image_types = [''container'', ''docker'']"

definition add_package ::
  "'w package_env \<Rightarrow> 'w client \<Rightarrow> string \<Rightarrow> Repository \<Rightarrow> bool \<Rightarrow> string \<Rightarrow> bool \<Rightarrow> host_package \<Rightarrow>
     PackageInfo list \<Rightarrow> ('w, PackageInfo list) loop"
where
  "add_package pe c org repo asUser pt fresh p out =
     (if (case hpRepository p of None \<Rightarrow> True | Some n \<Rightarrow> \<not> EqualFold n (rsName (rxSpec repo))) then once (ret out)
      else let info = packageInfo p in
        if pt \<in> set image_types then
          bindL (cachedPackageListing (peBudget pe) (peVersions pe) (peKey pe [''versions'', org, pt, hpName p]) fresh
              (listPackageVersions c org pt (hpName p) asUser)) (\<lambda>versions.
            once (ret (out @ [info\<lparr>piImageRepository := ''ghcr.io/'' @ ToLower org @ ''/'' @ ToLower (hpName p),
              piVersions := versions,
              piVersionCount := (if int (length versions) > hpVersionCount p then int (length versions) else hpVersionCount p)\<rparr>])))
        else once (ret (out @ [info])))"

definition add_packages_of_type ::
  "'w package_env \<Rightarrow> 'w client \<Rightarrow> string \<Rightarrow> Repository \<Rightarrow> bool \<Rightarrow> bool \<Rightarrow> string \<Rightarrow> PackageInfo list \<Rightarrow> ('w, PackageInfo list) loop"
where
  "add_packages_of_type pe c org repo asUser wantFresh pt out =
     (let fresh = (pt = ''container'' \<and> wantFresh) in
      bindL (cachedPackageListing (peBudget pe) (pePackages pe) (peKey pe [''packages'', org, pt]) fresh
          (listPackagesOfType c org pt asUser))
        (\<lambda>pkgs. forL (add_package pe c org repo asUser pt fresh) pkgs out))"

definition ListPackages ::
  "'w github \<Rightarrow> 'w package_env \<Rightarrow> Connection \<Rightarrow> Credential \<Rightarrow> Repository \<Rightarrow> bool \<Rightarrow> ('w, PackageInfo list) loop"
where
  "ListPackages gh pe conn cred repo wantFresh =
     bindL (once (lift (default_client gh cred (csBaseURL (cxSpec conn))))) (\<lambda>c.
     let org = repo_owner conn repo in
     bindL (once (on_reply c (Users_Get (Accounts c) org) (\<lambda>account resp. ret account))) (\<lambda>account.
       if haType account \<noteq> ''User'' \<and> haType account \<noteq> ''Organization''
       then once (failA (Plain (''github: unknown package owner type '' @ quoted (haType account))))
       else forL (add_packages_of_type pe c org repo (haType account = ''User'') wantFresh) packageTypes []))"

subsection \<open>Paging is complete and ends\<close>

text \<open>The pages the host gives from \<open>page\<close> on, up to the one that names no next page.\<close>

inductive pages_from :: "(int \<Rightarrow> ('w, 'a list) api) \<Rightarrow> int \<Rightarrow> 'w \<Rightarrow> 'a list \<Rightarrow> 'w \<Rightarrow> bool"
  for fetch where
  last_page: "fetch page w = (Reply p r, w') \<Longrightarrow> next_page r = 0 \<Longrightarrow> pages_from fetch page w p w'"
| more_pages: "fetch page w = (Reply p r, w1) \<Longrightarrow> next_page r \<noteq> 0 \<Longrightarrow>
    pages_from fetch (next_page r) w1 ps w' \<Longrightarrow> pages_from fetch page w (p @ ps) w'"

lemma list_pages_if_pages_from:
  "pages_from fetch page w ps w' \<Longrightarrow> list_pages fetch c (\<lambda>_. False) page acc w = Some (Inr (acc @ ps), w')"
proof (induction arbitrary: acc rule: pages_from.induct)
  case (last_page page w p r w')
  then show ?case by (subst list_pages.simps) simp
next
  case (more_pages page w p r w1 ps w')
  then show ?case by (subst list_pages.simps) simp
qed

lemma list_pages_from:
  assumes "list_pages fetch c enough page acc w = Some rw"
  shows "enough = (\<lambda>_. False) \<longrightarrow> (\<forall>xs. fst rw = Inr xs \<longrightarrow> (\<exists>ps. xs = acc @ ps \<and> pages_from fetch page w ps (snd rw)))"
  using assms
proof (induction rule: list_pages.raw_induct[rotated, consumes 1, case_names 1])
  case (1 lp fetch c enough page acc w rw)
  obtain a w1 where f: "fetch page w = (a, w1)" by fastforce
  show ?case
  proof (intro impI allI)
    fix xs assume eq: "enough = (\<lambda>_. False)" and xs: "fst rw = Inr xs"
    show "\<exists>ps. xs = acc @ ps \<and> pages_from fetch page w ps (snd rw)"
    proof (cases a)
      case (Failure r e)
      with 1(2) f xs show ?thesis by (auto simp: classified_def)
    next
      case (Reply p r)
      show ?thesis
      proof (cases "next_page r = 0")
        case True
        with Reply 1(2) f have "rw = (Inr (acc @ p), w1)" by simp
        with xs pages_from.last_page[of fetch page w p r w1] f Reply True
        show ?thesis by (intro exI[of _ p]) auto
      next
        case False
        with Reply 1(2) f eq have "lp fetch c enough (next_page r) (acc @ p) w1 = Some rw" by simp
        from 1(1)[OF this, THEN mp, OF eq] xs obtain ps where
            "xs = (acc @ p) @ ps" "pages_from fetch (next_page r) w1 ps (snd rw)" by blast
        with pages_from.more_pages[of fetch page w p r w1] Reply False f show ?thesis by force
      qed
    qed
  qed
qed

text \<open>
  A complete listing is complete: the paging loop ends with a list exactly when the host's
  pages from the first on end, and the list is their concatenation in order.
\<close>

theorem list_pages_complete:
  "list_pages fetch c (\<lambda>_. False) page [] w = Some (Inr ps, w') \<longleftrightarrow> pages_from fetch page w ps w'"
  using list_pages_if_pages_from[of fetch page w ps w' c "[]"]
    list_pages_from[of fetch c "\<lambda>_. False" page "[]" w "(Inr ps, w')"] by auto

text \<open>
  A listing ends: if the next page that the host names, when it names one, comes after the
  page that was asked for and is never beyond a bound, then the loop returns, from any page.
\<close>

theorem list_pages_terminates:
  assumes "\<And>page w p r w'. fetch page w = (Reply p r, w') \<Longrightarrow> next_page r = 0 \<or> page < next_page r \<and> next_page r \<le> bound"
  shows "\<exists>result. list_pages fetch c enough page acc w = Some result"
proof (induction "nat (bound - page)" arbitrary: page acc w rule: less_induct)
  case less
  obtain a w1 where f: "fetch page w = (a, w1)" by fastforce
  show ?case
  proof (cases a)
    case (Failure r e)
    with f show ?thesis by (subst list_pages.simps) simp
  next
    case (Reply p r)
    show ?thesis
    proof (cases "next_page r = 0 \<or> enough (acc @ p)")
      case True
      with Reply f show ?thesis by (subst list_pages.simps) simp
    next
      case False
      with assms[of page w p r w1] Reply f have "nat (bound - next_page r) < nat (bound - page)" by auto
      from less[OF this] False Reply f show ?thesis by (subst list_pages.simps) simp
    qed
  qed
qed

subsection \<open>Shared listings\<close>

text \<open>
  A shared listing serves a snapshot that has not expired or what it fetched: when
  \<open>cachedPackageListing\<close> returns without an error and did not join another caller's refresh,
  then either the result is the decoded snapshot under the key, still valid at the time it was
  served and not for a caller who wants fresh data; or it is exactly the list that the fetch
  returned.
\<close>

theorem cachedPackageListing_serves:
  fixes w :: 'w
  assumes "cachedPackageListing bg cd key fresh fetch w = Some (Inr xs, w')"
    and "bgAcquire bg w = (Inr (), w1)"
    and "map_of (stListings (bgGet bg w1)) key = None"
    and "state_ok (bgGet bg w1)"
  shows "(\<exists>entry. \<not> fresh \<and> (key, entry) \<in> set (stResponses (bgGet bg w1)) \<and> bgNow bg w1 < crExpires entry \<and>
            cdUnmarshal cd (crBody entry) = Inr xs) \<or>
         (\<exists>w2 w3. fetch w2 = Some (Inr xs, w3))"
proof -
  define s where "s = expire (bgNow bg w1) (bgGet bg w1)"
  have listings: "stListings s = stListings (bgGet bg w1)" using assms(4) by (simp add: s_def)
  have run: "(case listing_begin key fresh (bgFlight bg w1) s of
         (Hit body, s) \<Rightarrow> Some (cdUnmarshal cd body, bgRelease bg (bgPut bg s w1))
       | (JoinFlight f, s) \<Rightarrow>
           Some (bindA (bgAwait bg f) (\<lambda>body. lift (cdUnmarshal cd body)) (bgRelease bg (bgPut bg s w1)))
       | (Refused, s) \<Rightarrow>
           Some (Inl (Plain ''github: package refresh capacity reached; retry later''), bgRelease bg (bgPut bg s w1))
       | (Start f, s) \<Rightarrow>
           (case fetch (bgRelease bg (bgPut bg s w1)) of
              None \<Rightarrow> None
            | Some (result, w') \<Rightarrow> Some (finish_listing bg cd key result w'))) = Some (Inr xs, w')"
    using assms(1,2) by (simp add: cachedPackageListing_def bindL_def once_def s_def)
  show ?thesis
  proof (cases "fresh \<or> map_of (stResponses s) key = None")
    case False
    then obtain entry where e: "map_of (stResponses s) key = Some entry" "\<not> fresh" by auto
    then have "cdUnmarshal cd (crBody entry) = Inr xs" using run by (simp add: listing_begin_def)
    moreover have "(key, entry) \<in> set (stResponses (bgGet bg w1)) \<and> bgNow bg w1 < crExpires entry"
      using e(1) assms(4) unfolding s_def by (auto dest!: map_of_SomeD simp: expire_lookup)
    ultimately show ?thesis using e(2) by blast
  next
    case True
    then have none: "(if fresh then None else map_of (stResponses s) key) = None" by auto
    obtain f s' where "listing_begin key fresh (bgFlight bg w1) s = (Start f, s')"
      using none run assms(3) by (auto simp: listing_begin_def listings split: if_splits)
    with run obtain result w3 where fetch: "fetch (bgRelease bg (bgPut bg s' w1)) = Some (result, w3)"
        and fin: "finish_listing bg cd key result w3 = (Inr xs, w')"
      by (auto split: option.splits)
    have "result = Inr xs"
      using fin by (auto simp: finish_listing_def Let_def listing_end_def split: sum.splits prod.splits)
    with fetch show ?thesis by blast
  qed
qed

subsection \<open>What is listed\<close>

definition listed_package :: "string \<Rightarrow> string \<Rightarrow> PackageInfo \<Rightarrow> bool" where
  "listed_package org name i \<longleftrightarrow> (\<exists>(p :: host_package) n pt. hpRepository p = Some n \<and> EqualFold n name \<and>
    piName i = hpName p \<and> piType i = hpType p \<and> pt \<in> set packageTypes \<and>
    (if pt \<in> set image_types
     then piImageRepository i = ''ghcr.io/'' @ ToLower org @ ''/'' @ ToLower (hpName p) \<and>
       int (length (piVersions i)) \<le> piVersionCount i \<and> hpVersionCount p \<le> piVersionCount i
     else piImageRepository i = [] \<and> piVersions i = [] \<and> piVersionCount i = hpVersionCount p))"

text \<open>
  \<open>ListPackages\<close> reports only packages whose repository has the requested name, image
  packages with a pullable path and at least as many versions counted as are listed.
\<close>

theorem ListPackages_reports:
  fixes w :: 'w
  assumes "ListPackages gh pe conn cred repo wantFresh w = Some (Inr out, w')"
  shows "\<forall>i \<in> set out. listed_package (repo_owner conn repo) (rsName (rxSpec repo)) i"
proof -
  define Q where Q_eq: "Q = listed_package (repo_owner conn repo) (rsName (rxSpec repo))"
  have one: "\<forall>i \<in> set o2. Q i"
    if "add_package pe c (repo_owner conn repo) repo asUser pt fresh p o1 v = Some (Inr o2, v')" "\<forall>i \<in> set o1. Q i"
      "pt \<in> set packageTypes" for c :: "'w client" and asUser pt fresh p o1 v o2 v'
  proof (cases "hpRepository p = None \<or> (\<exists>n. hpRepository p = Some n \<and> \<not> EqualFold n (rsName (rxSpec repo)))")
    case True
    with that show ?thesis by (auto simp: add_package_def)
  next
    case False
    then obtain n where n: "hpRepository p = Some n" "EqualFold n (rsName (rxSpec repo))" by auto
    show ?thesis
    proof (cases "pt \<in> set image_types")
      case True
      with that(1) n obtain vs where "o2 = o1 @ [(packageInfo p)\<lparr>piImageRepository := ''ghcr.io/'' @ ToLower (repo_owner conn repo) @ ''/'' @ ToLower (hpName p),
              piVersions := vs,
              piVersionCount := (if int (length vs) > hpVersionCount p then int (length vs) else hpVersionCount p)\<rparr>]"
        by (auto simp: add_package_def bindL_Inr_iff)
      moreover have "Q ((packageInfo p)\<lparr>piImageRepository := ''ghcr.io/'' @ ToLower (repo_owner conn repo) @ ''/'' @ ToLower (hpName p),
              piVersions := vs,
              piVersionCount := (if int (length vs) > hpVersionCount p then int (length vs) else hpVersionCount p)\<rparr>)"
        unfolding Q_eq listed_package_def by (rule exI[of _ p], rule exI[of _ n], rule exI[of _ pt]) (use n True that(3) in \<open>simp add: packageInfo_def\<close>)
      ultimately show ?thesis using that(2) by simp
    next
      case False
      with that(1) n have "o2 = o1 @ [packageInfo p]" by (simp add: add_package_def)
      moreover have "Q (packageInfo p)"
        unfolding Q_eq listed_package_def by (rule exI[of _ p], rule exI[of _ n], rule exI[of _ pt]) (use n False that(3) in \<open>simp add: packageInfo_def\<close>)
      ultimately show ?thesis using that(2) by simp
    qed
  qed
  have many: "\<forall>i \<in> set o2. Q i"
    if "add_packages_of_type pe c (repo_owner conn repo) repo asUser wantFresh pt o1 v = Some (Inr o2, v')" "\<forall>i \<in> set o1. Q i"
      "pt \<in> set packageTypes" for c :: "'w client" and asUser pt o1 v o2 v'
  proof -
    from that(1) obtain pkgs v1 where
      "forL (add_package pe c (repo_owner conn repo) repo asUser pt (pt = ''container'' \<and> wantFresh)) pkgs o1 v1 = Some (Inr o2, v')"
      unfolding add_packages_of_type_def Let_def bindL_Inr_iff by blast
    then show ?thesis using that(2)
      by (rule forL_invariant[where I = "\<lambda>os. \<forall>i \<in> set os. Q i"]) (use one that(3) in blast)
  qed
  from assms obtain c :: "'w client" and asUser v where
    "forL (add_packages_of_type pe c (repo_owner conn repo) repo asUser wantFresh) packageTypes [] v = Some (Inr out, w')"
    unfolding ListPackages_def Let_def bindL_Inr_iff by (auto split: if_splits)
  then have "\<forall>i \<in> set out. Q i"
    by (rule forL_invariant[where I = "\<lambda>os. \<forall>i \<in> set os. Q i"]) (use many in auto)
  then show ?thesis unfolding Q_eq .
qed

subsection \<open>Examples\<close>

text \<open>A host with two pages of one package each, and a budget that nobody else uses.\<close>

definition example_package :: "string \<Rightarrow> host_package" where
  "example_package name = \<lparr>hpName = name, hpType = ''container'', hpVisibility = ''private'', hpHTMLURL = [],
     hpVersionCount = 1, hpUpdatedAt = None, hpRepository = Some ''App''\<rparr>"

definition two_pages :: "int \<Rightarrow> ('w, host_package list) api" where
  "two_pages page w = (if page < 2
     then (Reply [example_package ''Web''] (Some \<lparr>respStatus = 200, respNextPage = 2, respScopes = []\<rparr>), w)
     else (Reply [example_package ''worker''] (answered 200), w))"

definition package_client :: "requestState client" where
  "package_client = (down_client (\<lambda>_. 0))\<lparr>Accounts := down_accounts\<lparr>
     Users_Get := (\<lambda>_ w. (Reply \<lparr>haLogin = ''acme'', haType = ''Organization''\<rparr> (answered 200), w)),
     Organizations_ListPackages := (\<lambda>_ pt page w.
        if pt = ''container'' then two_pages page w else (Reply [] (answered 200), w)),
     Organizations_PackageGetAllVersions := (\<lambda>_ _ _ _ w.
        (Reply [\<lparr>hvName = ''sha256:1'', hvCreatedAt = None, hvTags = [''latest'']\<rparr>,
                \<lparr>hvName = ''sha256:0'', hvCreatedAt = None, hvTags = []\<rparr>] (answered 200), w))\<rparr>\<rparr>"

definition lone_budget :: "requestState budget" where
  "lone_budget = \<lparr>bgAcquire = ret (), bgRelease = (\<lambda>w. w), bgTakeGate = (\<lambda>w. w), bgGiveGate = (\<lambda>w. w),
     bgGet = (\<lambda>w. w), bgPut = (\<lambda>s w. s), bgAwait = (\<lambda>_. failA ContextErr), bgFlight = (\<lambda>_. 0), bgNow = (\<lambda>_. 0)\<rparr>"

definition empty_codec :: "'a codec" where
  "empty_codec = \<lparr>cdMarshal = (\<lambda>_. []), cdUnmarshal = (\<lambda>_. Inr [])\<rparr>"

definition example_packages :: "requestState package_env" where
  "example_packages = \<lparr>peBudget = lone_budget, pePackages = empty_codec, peVersions = empty_codec,
     peKey = concat\<rparr>"

definition app_repository :: Repository where
  "app_repository = zero_repository\<lparr>rxSpec := (rxSpec zero_repository)\<lparr>rsName := ''app''\<rparr>\<rparr>"

theorem list_pages_terminates_witness:
  "\<exists>result. list_pages two_pages (package_client) (\<lambda>_. False) 0 [] new_state = Some result"
proof (rule list_pages_terminates[where bound = 2])
  fix page w p r w'
  assume "two_pages page w = (Reply p r, w')"
  then show "next_page r = 0 \<or> page < next_page r \<and> next_page r \<le> 2"
    by (auto simp: two_pages_def next_page_def answered_def split: if_splits)
qed

theorem cachedPackageListing_serves_witness:
  "\<exists>w2 w3. once (ret [1::nat]) w2 = Some (Inr [1::nat], w3 :: requestState)"
proof -
  have "cachedPackageListing lone_budget empty_codec [] True (once (ret [1::nat])) new_state
      = Some (Inr [1], store [] \<lparr>crStatus = 200, crHeader = [], crBody = [], crExpires = packageCacheTTL\<rparr> new_state)"
    by code_simp
  moreover have "bgAcquire lone_budget new_state = (Inr (), new_state)" by code_simp
  moreover have "map_of (stListings (bgGet lone_budget new_state)) [] = None"
    by (simp add: lone_budget_def new_state_def)
  moreover have "state_ok (bgGet lone_budget new_state)" by (simp add: lone_budget_def new_state_ok)
  ultimately show ?thesis
    using cachedPackageListing_serves[of lone_budget empty_codec "[]" True "once (ret [1::nat])" new_state] by blast
qed

theorem ListPackages_reports_witness:
  "\<exists>out. length out = 2 \<and> (\<forall>i \<in> set out. listed_package [] ''app'' i)"
proof -
  have "map_option (\<lambda>r. case fst r of Inl e \<Rightarrow> 0 | Inr out \<Rightarrow> length out)
     (ListPackages (github_of package_client) example_packages zero_connection example_credential app_repository True new_state)
     = Some 2"
    by code_simp
  then obtain r where r: "ListPackages (github_of package_client) example_packages zero_connection
      example_credential app_repository True new_state = Some r" "(case fst r of Inl e \<Rightarrow> 0 | Inr out \<Rightarrow> length out) = 2"
    by auto
  then obtain out w' where "r = (Inr out, w')" and two: "length out = 2" by (cases r; cases "fst r") auto
  with r(1) have run: "ListPackages (github_of package_client) example_packages zero_connection
      example_credential app_repository True new_state = Some (Inr out, w')" by simp
  have "repo_owner zero_connection app_repository = []" "rsName (rxSpec app_repository) = ''app''" by code_simp+
  with two ListPackages_reports[OF run] show ?thesis by auto
qed

end
