(* ===== verification/Tenant.thy ===== *)
theory Tenant
  imports Effects Api_Types Go_Json Go_Path Go_Encoding
begin

text \<open>
  \<open>tenant/\<close>: the credentials of a connection. \<open>CredentialResolver.Resolve\<close> of \<open>github_app.go\<close> turns
  the data of a Secret into a token, for a GitHub App by exchanging a signed assertion;
  \<open>credentials.go\<close> decodes Secrets read through the dynamic client; \<open>ClientFactory\<close> of \<open>client.go\<close>
  keeps one client per workspace and caller. PEM, X.509, RSA, URL and time parsing, HTTP and
  the dynamic client are parameters.
\<close>

subsection \<open>Parameters\<close>

record rsa_key =
  rsaBitLen :: int
  rsaBytes :: bytes

record http_request =
  hqMethod :: string
  hqURL :: string
  hqHeader :: "(string \<times> string) list"
  hqBody :: bytes

text \<open>\<open>hzReadErr\<close>: reading the body fails within the prefix that is read.\<close>

record http_answer =
  hzStatus :: int
  hzBody :: bytes
  hzReadErr :: bool

text \<open>
  \<open>tePem\<close> is \<open>pem.Decode\<close> (type, bytes and rest of the first block); \<open>tePKCS8\<close> gives the key when
  parsing succeeds with an RSA key. \<open>teDo\<close> is the HTTP client with its timeout and without
  following redirects.
\<close>

record 'w token_env =
  teParseURL :: "string \<Rightarrow> url option"
  teURLString :: "url \<Rightarrow> string"
  tePem :: "bytes \<Rightarrow> (string \<times> bytes \<times> bytes) option"
  tePKCS1 :: "bytes \<Rightarrow> rsa_key option"
  tePKCS8 :: "bytes \<Rightarrow> rsa_key option"
  teSign :: "rsa_key \<Rightarrow> bytes \<Rightarrow> ('w, bytes) act"
  teNow :: "'w \<Rightarrow> gotime"
  teNewRequest :: "string \<Rightarrow> gerror option"
  teDo :: "http_request \<Rightarrow> ('w, http_answer) act"
  teParseTime :: "string \<Rightarrow> gotime option"

subsection \<open>Tokens from Secrets\<close>

definition DefaultTokenKey :: string where "DefaultTokenKey = ''token''"

definition DefaultCredentialsNamespace :: "string \<Rightarrow> string" where
  "DefaultCredentialsNamespace env = (if env \<noteq> [] then env else ''default'')"

text \<open>A personal or OAuth token: the trimmed value of the configured key.\<close>

definition static_token :: "Connection \<Rightarrow> (string \<times> bytes) list \<Rightarrow> gerror + Credential" where
  "static_token conn data =
     (if csType (cxSpec conn) \<noteq> CredentialTypePAT \<and> csType (cxSpec conn) \<noteq> CredentialTypeOAuth \<and> csType (cxSpec conn) \<noteq> []
      then Inl (Plain ''unsupported Code credential type'')
      else
        let key = (if lsKey (csSecretRef (cxSpec conn)) = [] then DefaultTokenKey else lsKey (csSecretRef (cxSpec conn)));
            token = TrimSpace (map_get data key)
        in if token = [] then Inl (Plain ''code credential token missing'') else Inr \<lparr>crToken = token\<rparr>)"

text \<open>An App's identity: its id, the installation and the key.\<close>

definition positive_id :: "(string \<times> bytes) list \<Rightarrow> string \<Rightarrow> gerror + int" where
  "positive_id data name =
     (case ParseInt (TrimSpace (map_get data name)) 64 of
        None \<Rightarrow> Inl (Plain (''GitHub App '' @ name @ '' must be positive''))
      | Some n \<Rightarrow> if n \<le> 0 then Inl (Plain (''GitHub App '' @ name @ '' must be positive'')) else Inr n)"

definition app_key :: "'w token_env \<Rightarrow> bytes \<Rightarrow> gerror + rsa_key" where
  "app_key te pem =
     (if length pem > 32768 then Inl (Plain ''GitHub App private key exceeds limit'')
      else case tePem te pem of
          None \<Rightarrow> Inl (Plain ''GitHub App privateKey must contain one RSA private key'')
        | Some (type, der, rest) \<Rightarrow>
            if TrimSpace rest \<noteq> [] then Inl (Plain ''GitHub App privateKey must contain one RSA private key'')
            else case (if type = ''RSA PRIVATE KEY'' then tePKCS1 te der else tePKCS8 te der) of
                None \<Rightarrow> Inl (Plain ''GitHub App requires a valid RSA key of at least 2048 bits'')
              | Some key \<Rightarrow>
                  if rsaBitLen key < 2048 then Inl (Plain ''GitHub App requires a valid RSA key of at least 2048 bits'')
                  else Inr key)"

text \<open>The assertion: \<open>header.claims\<close> to be signed; \<open>json.Marshal\<close> sorts the keys of a map.\<close>

definition jwt_header :: string where
  "jwt_header = compact_json (JObj [(''alg'', JStr ''RS256''), (''typ'', JStr ''JWT'')])"

definition Unix :: "gotime \<Rightarrow> int" where
  "Unix t = t div Second"

definition jwt_unsigned :: "int \<Rightarrow> gotime \<Rightarrow> string" where
  "jwt_unsigned appID now =
     b64_raw_url jwt_header @ ''.'' @
     b64_raw_url (compact_json (JObj [(''exp'', JNum (FormatInt (Unix (now + 9 * Minute)))),
       (''iat'', JNum (FormatInt (Unix (now - Minute)))), (''iss'', JStr (FormatInt appID))]))"

definition api_base :: "'w token_env \<Rightarrow> Connection \<Rightarrow> gerror + string" where
  "api_base te conn =
     (if csBaseURL (cxSpec conn) = [] then Inr ''https://api.github.com''
      else case teParseURL te (csBaseURL (cxSpec conn)) of
          None \<Rightarrow> Inl (Plain ''GitHub App baseURL must be an HTTPS API endpoint'')
        | Some u \<Rightarrow>
            if urlScheme u \<noteq> ''https'' \<or> urlHost u = [] \<or> urlUser u \<or> urlRawQuery u \<noteq> [] \<or> urlFragment u \<noteq> []
            then Inl (Plain ''GitHub App baseURL must be an HTTPS API endpoint'')
            else let base = TrimRight (teURLString te u) ''/'' in
              Inr (if HasSuffix base ''/api/v3'' then base else base @ ''/api/v3''))"

definition token_request :: "string \<Rightarrow> int \<Rightarrow> string \<Rightarrow> bytes \<Rightarrow> http_request" where
  "token_request base installationID assertion signature =
     \<lparr>hqMethod = ''POST'',
      hqURL = base @ ''/app/installations/'' @ FormatInt installationID @ ''/access_tokens'',
      hqHeader = [(''Authorization'', ''Bearer '' @ assertion @ ''.'' @ b64_raw_url signature),
        (''Accept'', ''application/vnd.github+json''), (''Content-Type'', ''application/json''),
        (''X-GitHub-Api-Version'', ''2022-11-28'')],
      hqBody = ''{}''\<rparr>"

record token_json =
  tjToken :: string
  tjExpiresAt :: gotime

definition token_member :: "(string \<Rightarrow> gotime option) \<Rightarrow> bytes \<times> json \<Rightarrow> token_json \<Rightarrow> token_json option" where
  "token_member parseTime kv t =
     (let k = field_name [''token'', ''expires_at''] (fst kv); v = snd kv in
      if k = ''token'' then map_option (\<lambda>x. t\<lparr>tjToken := x\<rparr>) (decode_str v (tjToken t))
      else if k = ''expires_at'' then
        (case v of JStr s \<Rightarrow> map_option (\<lambda>x. t\<lparr>tjExpiresAt := x\<rparr>) (parseTime s) | JNull \<Rightarrow> Some t | _ \<Rightarrow> None)
      else Some t)"

definition decode_token :: "(string \<Rightarrow> gotime option) \<Rightarrow> bytes \<Rightarrow> token_json option" where
  "decode_token parseTime body =
     Option.bind (parse_json body)
       (\<lambda>v. decode_members (token_member parseTime) v \<lparr>tjToken = [], tjExpiresAt = zeroTime\<rparr>)"

text \<open>What is made of the answer; at most 65537 bytes of the body are read.\<close>

definition accept_token :: "'w token_env \<Rightarrow> gotime \<Rightarrow> http_answer \<Rightarrow> gerror + Credential" where
  "accept_token te now answer =
     (if hzStatus answer \<noteq> 201
      then Inl (Plain (''GitHub installation token returned HTTP '' @ FormatInt (hzStatus answer)))
      else if hzReadErr answer \<or> length (take 65537 (hzBody answer)) > 65536
      then Inl (Plain ''invalid installation token response'')
      else case decode_token (teParseTime te) (take 65537 (hzBody answer)) of
          None \<Rightarrow> Inl (Plain ''invalid or expiring installation token'')
        | Some t \<Rightarrow>
            if tjToken t = [] \<or> \<not> tjExpiresAt t > now + 5 * Minute
            then Inl (Plain ''invalid or expiring installation token'')
            else Inr \<lparr>crToken = tjToken t\<rparr>)"

definition app_token :: "'w token_env \<Rightarrow> Connection \<Rightarrow> (string \<times> bytes) list \<Rightarrow> ('w, Credential) act" where
  "app_token te conn data =
     bindA (lift (positive_id data ''appID'')) (\<lambda>appID.
     bindA (lift (positive_id data ''installationID'')) (\<lambda>installationID.
     bindA (lift (app_key te (map_get data ''privateKey''))) (\<lambda>key.
     bindA (readA (teNow te)) (\<lambda>now.
     let assertion = jwt_unsigned appID now in
     handle (teSign te key (sha256 assertion)) (\<lambda>e. failA (Plain ''GitHub App signing failed'')) (\<lambda>signature.
     bindA (lift (api_base te conn)) (\<lambda>base.
     let req = token_request base installationID assertion signature in
     case teNewRequest te (hqURL req) of
       Some e \<Rightarrow> failA e
     | None \<Rightarrow> handle (teDo te req) (\<lambda>e. failA (Plain ''GitHub installation token request failed'')) (\<lambda>answer.
         lift (accept_token te now answer))))))))"

definition Resolve :: "'w token_env \<Rightarrow> Connection \<Rightarrow> (string \<times> bytes) list \<Rightarrow> ('w, Credential) act" where
  "Resolve te conn data =
     (if csType (cxSpec conn) \<noteq> CredentialTypeGitHubApp then lift (static_token conn data)
      else app_token te conn data)"

subsection \<open>Secrets through the dynamic client\<close>

text \<open>An unstructured Secret: its \<open>data\<close> and \<open>stringData\<close> when they are objects.\<close>

record unstructured_secret =
  usData :: "(string \<times> json) list option"
  usStringData :: "(string \<times> json) list option"

definition decode_data_entry :: "string \<times> json \<Rightarrow> (string \<times> bytes) list \<Rightarrow> gerror + (string \<times> bytes) list" where
  "decode_data_entry kv out =
     (case snd kv of
        JStr s \<Rightarrow> (case b64_DecodeString s of
            None \<Rightarrow> Inl (Wrapped (''decoding secret data key '' @ quoted (fst kv) @ '': '') (Plain ''illegal base64 data'') [])
          | Some dec \<Rightarrow> Inr ((fst kv, dec) # out))
      | _ \<Rightarrow> Inr out)"

definition add_string_entry :: "string \<times> json \<Rightarrow> (string \<times> bytes) list \<Rightarrow> (string \<times> bytes) list" where
  "add_string_entry kv out = (case snd kv of JStr s \<Rightarrow> (fst kv, s) # out | _ \<Rightarrow> out)"

definition decodeSecretData :: "unstructured_secret \<Rightarrow> gerror + (string \<times> bytes) list" where
  "decodeSecretData obj =
     and_then (case usData obj of None \<Rightarrow> Inr [] | Some kvs \<Rightarrow> foldE decode_data_entry kvs []) (\<lambda>out.
       Inr (case usStringData obj of None \<Rightarrow> out | Some kvs \<Rightarrow> fold add_string_entry kvs out))"

fun kube_reason_of :: "gerror \<Rightarrow> kube_reason option" where
  "kube_reason_of (KubeError r s) = Some r"
| "kube_reason_of (Wrapped p e s) = kube_reason_of e"
| "kube_reason_of (RateLimitError t (Some e)) = kube_reason_of e"
| "kube_reason_of _ = None"

text \<open>\<open>apierrors.IsNotFound\<close>, \<open>IsForbidden\<close> and \<open>IsAlreadyExists\<close>.\<close>

definition is_reason :: "kube_reason \<Rightarrow> gerror \<Rightarrow> bool" where
  "is_reason r e \<longleftrightarrow> kube_reason_of e = Some r"

definition ResolveToken ::
  "string \<Rightarrow> (string \<Rightarrow> string \<Rightarrow> ('w, unstructured_secret) act) \<Rightarrow> string \<Rightarrow> string \<Rightarrow> string \<Rightarrow> ('w, string) act"
where
  "ResolveToken env dyn namespace0 name key0 =
     (if name = [] then failA (Plain ''connection secretRef.name is empty'')
      else
        let namespace = (if namespace0 = [] then DefaultCredentialsNamespace env else namespace0);
            key = (if key0 = [] then DefaultTokenKey else key0)
        in handle (dyn namespace name)
             (\<lambda>err. if is_reason NotFound err then failA CredentialsMissing
                else if is_reason Forbidden err then failA APIBindingMissing
                else failA (Wrapped (''get secret '' @ namespace @ ''/'' @ name @ '': '') err []))
             (\<lambda>obj. bindA (lift (decodeSecretData obj)) (\<lambda>data.
                case map_of data key of
                  None \<Rightarrow> failA (Plain (''secret '' @ namespace @ ''/'' @ name @ '' has no key '' @ quoted key))
                | Some v \<Rightarrow> ret v)))"

subsection \<open>Clients of one caller\<close>

record tls_config =
  tcInsecure :: bool
  tcServerName :: string
  tcCertFile :: string
  tcKeyFile :: string
  tcCAFile :: string
  tcCertData :: bytes
  tcKeyData :: bytes
  tcCAData :: bytes

record rest_config =
  rfHost :: string
  rfBearerToken :: string
  rfTLS :: tls_config

record ClientFactory =
  ctyBaseHost :: string
  ctyBaseTLS :: tls_config

text \<open>\<open>before sep s\<close>: what precedes the first occurrence of \<open>sep\<close> in \<open>s\<close>.\<close>

fun before :: "string \<Rightarrow> string \<Rightarrow> string option" where
  "before sep [] = (if sep = [] then Some [] else None)"
| "before sep (c # s) = (if HasPrefix (c # s) sep then Some [] else map_option (Cons c) (before sep s))"

definition stripClusterSuffix :: "'w token_env \<Rightarrow> string \<Rightarrow> string option" where
  "stripClusterSuffix te host =
     (case teParseURL te host of
        None \<Rightarrow> None
      | Some u \<Rightarrow> (case before ''/clusters/'' (urlPath u) of
            None \<Rightarrow> Some (TrimRight host ''/'')
          | Some p \<Rightarrow> Some (TrimRight (teURLString te (u\<lparr>urlPath := p\<rparr>)) ''/'')))"

definition NewClientFactory :: "'w token_env \<Rightarrow> rest_config option \<Rightarrow> ClientFactory option" where
  "NewClientFactory te base =
     (case base of
        None \<Rightarrow> None
      | Some b \<Rightarrow> Some
          \<lparr>ctyBaseHost = (case stripClusterSuffix te (rfHost b) of None \<Rightarrow> TrimRight (rfHost b) ''/'' | Some h \<Rightarrow> h),
           ctyBaseTLS = (rfTLS b)\<lparr>tcCertData := [], tcCertFile := [], tcKeyData := [], tcKeyFile := []\<rparr>\<rparr>)"

definition hashToken :: "string \<Rightarrow> string" where
  "hashToken token = hex_encode (take 8 (sha256 token))"

definition client_key :: "string \<Rightarrow> string \<Rightarrow> string" where
  "client_key clusterID token = clusterID @ '':'' @ hashToken token"

text \<open>
  The map \<open>hot\<close> is part of the world, since callers share it: \<open>feNew\<close> (\<open>dynamic.NewForConfig\<close>) runs
  without the lock, so other callers may have filled it when it returns.
\<close>

record ('w, 'd) factory_env =
  feHot :: "'w \<Rightarrow> (string \<times> 'd) list"
  fePut :: "string \<Rightarrow> 'd \<Rightarrow> 'w \<Rightarrow> 'w"
  feNew :: "rest_config \<Rightarrow> ('w, 'd) act"

definition publish_client :: "('w, 'd) factory_env \<Rightarrow> string \<Rightarrow> 'd \<Rightarrow> ('w, 'd) act" where
  "publish_client fe key d w =
     (case map_of (feHot fe w) key of
        Some existing \<Rightarrow> (Inr existing, w)
      | None \<Rightarrow> (Inr d, fePut fe key d w))"

definition client_config :: "ClientFactory \<Rightarrow> string \<Rightarrow> string \<Rightarrow> rest_config" where
  "client_config f clusterID token =
     \<lparr>rfHost = ctyBaseHost f @ ''/clusters/'' @ clusterID, rfBearerToken = token, rfTLS = ctyBaseTLS f\<rparr>"

definition factory_For :: "ClientFactory \<Rightarrow> ('w, 'd) factory_env \<Rightarrow> string \<Rightarrow> string \<Rightarrow> ('w, 'd) act" where
  "factory_For f fe clusterID token =
     (if token = [] then failA (Plain (''no bearer token on request '' @ [CHR 0xE2, CHR 0x80, CHR 0x94] @ '' cannot act on the tenant'' @ CHR 0x27 # ''s behalf''))
      else let key = client_key clusterID token in
        bindA (readA (\<lambda>w. map_of (feHot fe w) key)) (\<lambda>found.
        case found of
          Some dyn \<Rightarrow> ret dyn
        | None \<Rightarrow> handle (feNew fe (client_config f clusterID token))
            (\<lambda>err. failA (Wrapped (''dynamic client for cluster '' @ quoted clusterID @ '': '') err []))
            (\<lambda>d. publish_client fe key d)))"

subsection \<open>What a credential rests on\<close>

text \<open>The host an assertion may be sent to: GitHub, or the host of the connection's base URL.\<close>

definition token_host :: "'w token_env \<Rightarrow> Connection \<Rightarrow> string \<Rightarrow> bool" where
  "token_host te conn host \<longleftrightarrow>
     (if csBaseURL (cxSpec conn) = [] then host = ''api.github.com''
      else \<exists>u. teParseURL te (csBaseURL (cxSpec conn)) = Some u \<and> host = escape_host (urlHost u))"

text \<open>
  \<open>u.String()\<close> of a parsed URL with a host and without user information, query and fragment: the
  scheme, the escaped host, the path, which is empty or starts with a slash, and a question mark
  when the URL ended in one.
\<close>

definition url_printer :: "(string \<Rightarrow> url option) \<Rightarrow> (url \<Rightarrow> string) \<Rightarrow> bool" where
  "url_printer parse print \<longleftrightarrow>
     (\<forall>s u. parse s = Some u \<longrightarrow> urlHost u \<noteq> [] \<longrightarrow> \<not> urlUser u \<longrightarrow> urlRawQuery u = [] \<longrightarrow> urlFragment u = [] \<longrightarrow>
        (\<exists>path q. print u = urlScheme u @ ''://'' @ escape_host (urlHost u) @ path @ q \<and>
           (path = [] \<or> hd path = slash) \<and> (q = [] \<or> q = ''?'')))"

text \<open>What may follow the host in a URL without changing it.\<close>

definition after_host :: "string \<Rightarrow> bool" where
  "after_host r \<longleftrightarrow> r = [] \<or> hd r = slash \<or> hd r = CHR ''?''"

lemma after_host_append: "after_host r \<Longrightarrow> after_host t \<Longrightarrow> after_host (r @ t)"
  by (cases r) (auto simp: after_host_def)

lemma TrimRight_prefix: "\<exists>t. r = TrimRight r cutset @ t"
  unfolding TrimRight_def by (metis rev_append rev_rev_ident takeWhile_dropWhile_id)

lemma TrimRight_keeps:
  assumes "s \<noteq> []" and "last s \<notin> set cutset"
  shows "TrimRight (s @ r) cutset = s @ TrimRight r cutset"
proof -
  obtain p c where s: "s = p @ [c]" using assms(1) by (cases s rule: rev_cases) auto
  with assms(2) have "c \<notin> set cutset" by simp
  then have "dropWhile (\<lambda>c. c \<in> set cutset) (rev r @ rev s) = dropWhile (\<lambda>c. c \<in> set cutset) (rev r) @ rev s"
    unfolding s by (induction r rule: rev_induct) simp_all
  then show ?thesis by (simp add: TrimRight_def)
qed

lemma after_host_TrimRight: "after_host r \<Longrightarrow> after_host (TrimRight r cutset)"
  using TrimRight_prefix[of r cutset] by (cases "TrimRight r cutset") (auto simp: after_host_def)

lemma api_base_host:
  assumes "api_base te conn = Inr base" and "url_printer (teParseURL te) (teURLString te)"
  shows "\<exists>host rest. token_host te conn host \<and> base = ''https://'' @ host @ rest \<and> after_host rest"
proof (cases "csBaseURL (cxSpec conn) = []")
  case True
  with assms show ?thesis by (auto simp: api_base_def token_host_def after_host_def)
next
  case False
  with assms(1) obtain u where u: "teParseURL te (csBaseURL (cxSpec conn)) = Some u" "urlScheme u = ''https''"
      "urlHost u \<noteq> []" "\<not> urlUser u" "urlRawQuery u = []" "urlFragment u = []"
    and base: "base = TrimRight (teURLString te u) ''/'' \<or> base = TrimRight (teURLString te u) ''/'' @ ''/api/v3''"
    by (auto simp: api_base_def Let_def split: option.splits if_splits)
  let ?host = "escape_host (urlHost u)"
  from assms(2)[unfolded url_printer_def, rule_format, OF u(1,3,4,5,6)] obtain path q where
    "teURLString te u = ''https://'' @ ?host @ path @ q" and pq: "path = [] \<or> hd path = slash" "q = [] \<or> q = ''?''"
    unfolding u(2) append.simps by auto
  then have str: "teURLString te u = (''https://'' @ ?host) @ (path @ q)" by simp
  have "?host \<noteq> []" using u(3) by simp
  then have "last (''https://'' @ ?host) \<in> set ?host" by simp
  then have "last (''https://'' @ ?host) \<notin> set ''/''" using escape_host_authority[of "urlHost u"] by auto
  then have trim: "TrimRight (teURLString te u) ''/'' = ''https://'' @ ?host @ TrimRight (path @ q) ''/''"
    unfolding str by (subst TrimRight_keeps) simp_all
  have "after_host (path @ q)" using pq by (intro after_host_append) (auto simp: after_host_def)
  then have "after_host (TrimRight (path @ q) ''/'')" by (rule after_host_TrimRight)
  moreover from this have "after_host (TrimRight (path @ q) ''/'' @ ''/api/v3'')"
    by (rule after_host_append) (simp add: after_host_def)
  moreover have "token_host te conn ?host" using u(1) False by (auto simp: token_host_def)
  ultimately show ?thesis using base unfolding trim by (metis append_assoc)
qed

lemma accept_token_Inr:
  assumes "accept_token te now answer = Inr cred"
  shows "hzStatus answer = 201 \<and> crToken cred \<noteq> [] \<and>
    (\<exists>t. decode_token (teParseTime te) (take 65537 (hzBody answer)) = Some t \<and> crToken cred = tjToken t \<and>
       now + 5 * Minute < tjExpiresAt t)"
  using assms by (auto simp: accept_token_def split: option.splits if_splits)

text \<open>
  (C31) The assertion of a GitHub App goes to no other host: for every connection, all requests
  that \<open>Resolve\<close> makes are \<open>POST\<close>s to \<open>https://\<close>, the host of that connection (GitHub's, or the one of the
  base URL), and a path or a question mark that ends the host, up to the access tokens of the
  installation that the Secret names; so whatever requests of that kind preserve, \<open>Resolve\<close> preserves.
\<close>

theorem Resolve_asks_only_the_host:
  assumes "url_printer (teParseURL te) (teURLString te)"
    and "\<And>key m. keeps P (teSign te key m)"
    and "\<And>req host rest n. token_host te conn host \<Longrightarrow> set host \<inter> set ''/?#@'' = {} \<Longrightarrow>
      hqURL req = ''https://'' @ host @ rest @ ''/app/installations/'' @ FormatInt n @ ''/access_tokens'' \<Longrightarrow>
      rest = [] \<or> hd rest = slash \<or> hd rest = CHR ''?'' \<Longrightarrow> hqMethod req = ''POST'' \<Longrightarrow>
      ParseInt (TrimSpace (map_get data ''installationID'')) 64 = Some n \<Longrightarrow> 0 < n \<Longrightarrow> keeps P (teDo te req)"
  shows "keeps P (Resolve te conn data)"
proof -
  have "keeps P (teDo te (token_request base n a sig))"
    if base: "api_base te conn = Inr base" and n: "positive_id data ''installationID'' = Inr n" for base n a sig
  proof -
    obtain host rest where h: "token_host te conn host" "base = ''https://'' @ host @ rest" "after_host rest"
      using api_base_host[OF base assms(1)] by blast
    have "set host \<inter> set ''/?#@'' = {}"
      using h(1) escape_host_authority by (auto simp: token_host_def split: if_splits)
    then show ?thesis
      using n h(3)
      by (intro assms(3)[OF h(1), of _ rest n])
        (auto simp: token_request_def h(2) after_host_def positive_id_def split: option.splits if_splits)
  qed
  then show ?thesis
    unfolding Resolve_def app_token_def Let_def
    by (intro keeps_if keeps_lift keeps_lift_bind keeps_bindA keeps_readA keeps_handle keeps_failA assms(2))
      (auto split: option.splits intro: keeps_handle keeps_lift keeps_failA)
qed

text \<open>
  A resolved credential is never empty and rests on the right source: a static token is the
  trimmed value of the configured key of the Secret and nothing is asked; an App's token was
  issued (HTTP 201) for its own installation against an assertion signed with its key, which
  has at least 2048 bits, and is valid for more than five minutes.
\<close>

theorem Resolve_credential:
  fixes w :: 'w
  assumes "Resolve te conn data w = (Inr cred, w')"
  shows "crToken cred \<noteq> [] \<and>
    (if csType (cxSpec conn) \<noteq> CredentialTypeGitHubApp
     then w' = w \<and> crToken cred = TrimSpace (map_get data
            (if lsKey (csSecretRef (cxSpec conn)) = [] then DefaultTokenKey else lsKey (csSecretRef (cxSpec conn)))) \<and>
       csType (cxSpec conn) \<in> {CredentialTypePAT, CredentialTypeOAuth, []}
     else \<exists>n m key sig base answer t w1.
       ParseInt (TrimSpace (map_get data ''appID'')) 64 = Some n \<and> 0 < n \<and>
       ParseInt (TrimSpace (map_get data ''installationID'')) 64 = Some m \<and> 0 < m \<and>
       app_key te (map_get data ''privateKey'') = Inr key \<and> 2048 \<le> rsaBitLen key \<and>
       teSign te key (sha256 (jwt_unsigned n (teNow te w))) w = (Inr sig, w1) \<and>
       api_base te conn = Inr base \<and>
       teDo te (token_request base m (jwt_unsigned n (teNow te w)) sig) w1 = (Inr answer, w') \<and>
       hzStatus answer = 201 \<and> decode_token (teParseTime te) (take 65537 (hzBody answer)) = Some t \<and>
       crToken cred = tjToken t \<and> teNow te w + 5 * Minute < tjExpiresAt t)"
proof (cases "csType (cxSpec conn) = CredentialTypeGitHubApp")
  case False
  with assms show ?thesis by (auto simp: Resolve_def static_token_def lift_def Let_def split: if_splits)
next
  case True
  with assms have "app_token te conn data w = (Inr cred, w')" by (simp add: Resolve_def)
  then obtain n m key sig base answer w1 where
    "positive_id data ''appID'' = Inr n" "positive_id data ''installationID'' = Inr m"
    and key: "app_key te (map_get data ''privateKey'') = Inr key"
    and rest: "teSign te key (sha256 (jwt_unsigned n (teNow te w))) w = (Inr sig, w1)" "api_base te conn = Inr base"
      "teDo te (token_request base m (jwt_unsigned n (teNow te w)) sig) w1 = (Inr answer, w')"
      "accept_token te (teNow te w) answer = Inr cred"
    unfolding app_token_def Let_def bindA_Inr_iff handle_failA_Inr none_failA_Inr lift_iff readA_iff by blast
  moreover from calculation(1,2) have
    "ParseInt (TrimSpace (map_get data ''appID'')) 64 = Some n \<and> 0 < n"
    "ParseInt (TrimSpace (map_get data ''installationID'')) 64 = Some m \<and> 0 < m"
    by (auto simp: positive_id_def split: option.splits if_splits)
  moreover have "2048 \<le> rsaBitLen key"
    using key by (auto simp: app_key_def split: option.splits if_splits prod.splits)
  ultimately show ?thesis using True accept_token_Inr[OF rest(4)] by auto
qed

subsection \<open>Clients are not shared between callers\<close>

text \<open>
  A client of a workspace and a token: its configuration has the host of the workspace, the token
  and no certificate or key of the provider. Every client kept is one for the workspace and some
  token of \<open>S\<close>, the tokens in use, that its key is made of.
\<close>

definition client_for :: "ClientFactory \<Rightarrow> (rest_config \<Rightarrow> 'd \<Rightarrow> bool) \<Rightarrow> string \<Rightarrow> string \<Rightarrow> 'd \<Rightarrow> bool" where
  "client_for f built clusterID token d \<longleftrightarrow>
     (\<exists>cfg. built cfg d \<and> rfHost cfg = ctyBaseHost f @ ''/clusters/'' @ clusterID \<and> rfBearerToken cfg = token \<and> rfTLS cfg = ctyBaseTLS f \<and>
        tcCertData (rfTLS cfg) = [] \<and> tcCertFile (rfTLS cfg) = [] \<and> tcKeyData (rfTLS cfg) = [] \<and> tcKeyFile (rfTLS cfg) = [])"

definition hot_ok ::
  "string set \<Rightarrow> ClientFactory \<Rightarrow> (rest_config \<Rightarrow> 'd \<Rightarrow> bool) \<Rightarrow> ('w, 'd) factory_env \<Rightarrow> 'w \<Rightarrow> bool"
where
  "hot_ok S f built fe w \<longleftrightarrow>
     (\<forall>(k, d) \<in> set (feHot fe w). \<exists>c t. t \<in> S \<and> k = client_key c t \<and> client_for f built c t d)"

lemma client_key_inj:
  assumes "client_key c t = client_key c' t'"
  shows "c = c' \<and> hashToken t = hashToken t'"
proof -
  have "length (hashToken x) = 16" for x by (simp add: hashToken_def length_hex_encode length_sha256)
  then have "length (hashToken t) = length (hashToken t')" by simp
  moreover have "(c @ '':'') @ hashToken t = (c' @ '':'') @ hashToken t'" using assms by (simp add: client_key_def)
  ultimately show ?thesis using append_eq_append_conv[of "c @ '':''" "c' @ '':''"] by (metis butlast_snoc)
qed

lemma hot_ok_lookup:
  assumes "hot_ok S f built fe w" and "inj_on hashToken S" and "token \<in> S" and "map_of (feHot fe w) (client_key c token) = Some d"
  shows "client_for f built c token d"
proof -
  from map_of_SomeD[OF assms(4)] assms(1) obtain c' t' where
    "t' \<in> S" "client_key c token = client_key c' t'" "client_for f built c' t' d" by (auto simp: hot_ok_def)
  then show ?thesis using client_key_inj inj_onD[OF assms(2)] assms(3) by metis
qed

lemma client_config_for:
  assumes "NewClientFactory te base = Some f" and "built (client_config f c t) d"
  shows "client_for f built c t d"
  using assms by (auto simp: client_for_def client_config_def NewClientFactory_def split: option.splits)

text \<open>
  (C32) A caller never gets another caller's client, nor one with the provider's credentials: if no
  two tokens in use share the 64 bits of hash in the keys, every client kept is one of its key's
  workspace and token, and other callers preserve that, then the client that \<open>For\<close> returns was built
  for the host of the requested workspace with exactly the caller's token, and what \<open>For\<close> adds to the
  shared map is again of that kind. (Two tokens whose hashes agree would share a client.)
\<close>

theorem factory_For_own_client:
  fixes w :: 'w
  assumes "NewClientFactory te base = Some f" and "inj_on hashToken S" and "token \<in> S" and "hot_ok S f built fe w"
    and "\<And>cfg. keeps (hot_ok S f built fe) (feNew fe cfg)"
    and "\<And>cfg w d w'. feNew fe cfg w = (Inr d, w') \<Longrightarrow> built cfg d"
    and "\<And>k d w. feHot fe (fePut fe k d w) = (k, d) # feHot fe w"
    and "factory_For f fe clusterID token w = (r, w')"
  shows "hot_ok S f built fe w' \<and> (\<forall>d. r = Inr d \<longrightarrow> token \<noteq> [] \<and> client_for f built clusterID token d)"
proof (cases "token = []")
  case True
  with assms(4,8) show ?thesis by (auto simp: factory_For_def failA_def)
next
  case False
  define key where "key = client_key clusterID token"
  note found = hot_ok_lookup[OF _ assms(2,3), of f built fe _ clusterID, folded key_def]
  have run: "(case map_of (feHot fe w) key of Some dyn \<Rightarrow> ret dyn
      | None \<Rightarrow> handle (feNew fe (client_config f clusterID token))
            (\<lambda>err. failA (Wrapped (''dynamic client for cluster '' @ quoted clusterID @ '': '') err []))
            (\<lambda>d. publish_client fe key d)) w = (r, w')"
    using assms(8) False unfolding factory_For_def Let_def key_def[symmetric] bind_read if_False by simp
  show ?thesis
  proof (cases "map_of (feHot fe w) key")
    case (Some d)
    with run have "r = Inr d" "w' = w" by (auto simp: ret_def)
    with False assms(4) found[OF assms(4) Some] show ?thesis by simp
  next
    case None
    obtain a w1 where new: "feNew fe (client_config f clusterID token) w = (a, w1)" by fastforce
    then have ok: "hot_ok S f built fe w1" using keepsD[OF assms(5,4)] by (metis snd_conv)
    show ?thesis
    proof (cases a)
      case (Inl e)
      with run None new ok show ?thesis by (auto simp: failA_def)
    next
      case (Inr d)
      with run None new have publish: "publish_client fe key d w1 = (r, w')" by simp
      have own: "client_for f built clusterID token d"
        using new Inr by (intro client_config_for[OF assms(1)] assms(6)) simp
      show ?thesis
      proof (cases "map_of (feHot fe w1) key")
        case (Some e)
        with publish have "r = Inr e" "w' = w1" by (auto simp: publish_client_def)
        with False ok found[OF ok Some] show ?thesis by simp
      next
        case None
        with publish have "r = Inr d" "w' = fePut fe key d w1" by (auto simp: publish_client_def)
        with ok own False assms(3) show ?thesis by (auto simp: hot_ok_def assms(7) key_def)
      qed
    qed
  qed
qed

subsection \<open>Instances\<close>

text \<open>A world that records the URLs asked, and one with the shared clients, named by their configuration.\<close>

definition ghe_connection :: Connection where
  "ghe_connection = zero_connection\<lparr>cxSpec := (cxSpec zero_connection)\<lparr>
     csBaseURL := ''https://ghe.example/'', csType := CredentialTypeGitHubApp\<rparr>\<rparr>"

definition logged_tokens :: "string list token_env" where
  "logged_tokens = \<lparr>
     teParseURL = (\<lambda>s. Some \<lparr>urlScheme = ''https'', urlHost = ''ghe.example'', urlPath = ''/'', urlUser = False,
       urlRawQuery = [], urlFragment = []\<rparr>),
     teURLString = (\<lambda>u. urlScheme u @ ''://'' @ urlHost u @ urlPath u),
     tePem = (\<lambda>pem. Some (''RSA PRIVATE KEY'', pem, [])), tePKCS1 = (\<lambda>der. Some \<lparr>rsaBitLen = 2048, rsaBytes = der\<rparr>),
     tePKCS8 = (\<lambda>_. None), teSign = (\<lambda>key m. ret m), teNow = (\<lambda>_. 0), teNewRequest = (\<lambda>_. None),
     teDo = (\<lambda>req w. (Inr \<lparr>hzStatus = 201, hzBody = [], hzReadErr = False\<rparr>, w @ [hqURL req])),
     teParseTime = (\<lambda>_. None)\<rparr>"

definition client_map :: "((string \<times> rest_config) list, rest_config) factory_env" where
  "client_map = \<lparr>feHot = (\<lambda>w. w), fePut = (\<lambda>k d w. (k, d) # w), feNew = ret\<rparr>"

definition provider_config :: rest_config where
  "provider_config = \<lparr>rfHost = ''https://kcp/'', rfBearerToken = ''provider'', rfTLS = \<lparr>tcInsecure = False, tcServerName = [],
     tcCertFile = ''c'', tcKeyFile = ''k'', tcCAFile = [], tcCertData = [], tcKeyData = [], tcCAData = []\<rparr>\<rparr>"

definition example_factory :: ClientFactory where
  "example_factory = \<lparr>ctyBaseHost = ''https://kcp'', ctyBaseTLS = \<lparr>tcInsecure = False, tcServerName = [], tcCertFile = [],
     tcKeyFile = [], tcCAFile = [], tcCertData = [], tcKeyData = [], tcCAData = []\<rparr>\<rparr>"

theorem Resolve_asks_only_the_host_witness:
  "keeps (list_all (\<lambda>u. HasPrefix u ''https://ghe.example/'' \<or> HasPrefix u ''https://ghe.example?''))
     (Resolve logged_tokens ghe_connection [(''appID'', ''1'')])"
proof (rule Resolve_asks_only_the_host)
  have plain: "escape_host ''ghe.example'' = ''ghe.example''" by code_simp
  have "\<exists>path q. ''/'' = path @ q \<and> (path = [] \<or> hd path = slash) \<and> (q = [] \<or> q = ''?'')"
    by (intro exI[of _ "''/''"] exI[of _ "[]"]) simp
  then show "url_printer (teParseURL logged_tokens) (teURLString logged_tokens)"
    using plain by (simp add: url_printer_def logged_tokens_def)
  fix req :: http_request and host rest n
  assume "token_host logged_tokens ghe_connection host" and "rest = [] \<or> hd rest = slash \<or> hd rest = CHR ''?''"
    and "hqURL req = ''https://'' @ host @ rest @ ''/app/installations/'' @ FormatInt n @ ''/access_tokens''"
  then have "HasPrefix (hqURL req) ''https://ghe.example/'' \<or> HasPrefix (hqURL req) ''https://ghe.example?''"
    using plain by (cases rest) (auto simp: logged_tokens_def token_host_def ghe_connection_def zero_defs HasPrefix_iff split: if_splits)
  then show "keeps (list_all (\<lambda>u. HasPrefix u ''https://ghe.example/'' \<or> HasPrefix u ''https://ghe.example?'')) (teDo logged_tokens req)"
    by (auto simp: keeps_def logged_tokens_def)
qed (simp add: logged_tokens_def keeps_ret)

theorem Resolve_credential_witness:
  "''abc'' = TrimSpace (map_get [(''token'', ''abc'' @ [CHR 0x0A])] ''token'')"
proof -
  have run: "Resolve logged_tokens zero_connection [(''token'', ''abc'' @ [CHR 0x0A])] [] = (Inr \<lparr>crToken = ''abc''\<rparr>, [])"
    by code_simp
  define v where "v = ''abc'' @ [CHR 0x0A]"
  from Resolve_credential[OF run[folded v_def]]
  have "''abc'' = TrimSpace (map_get [(''token'', v)] ''token'')"
    unfolding zero_defs CredentialTypeGitHubApp_def DefaultTokenKey_def by simp
  then show ?thesis unfolding v_def .
qed

theorem factory_For_own_client_witness:
  "\<exists>w' d. factory_For example_factory client_map ''ws'' ''t'' [] = (Inr d, w') \<and>
     client_for example_factory (=) ''ws'' ''t'' d \<and> hot_ok {''t''} example_factory (=) client_map w'"
proof -
  have run: "factory_For example_factory client_map ''ws'' ''t'' [] = (Inr (client_config example_factory ''ws'' ''t''),
     [(client_key ''ws'' ''t'', client_config example_factory ''ws'' ''t'')])"
    by (simp add: factory_For_def Let_def client_map_def publish_client_def handle_def bind_read ret_def)
  have f: "NewClientFactory logged_tokens (Some provider_config) = Some example_factory" by code_simp
  show ?thesis
    using factory_For_own_client[OF f _ _ _ _ _ _ run, of "{''t''}" "(=)"] run
    by (auto simp: hot_ok_def client_map_def keeps_ret ret_def)
qed

end
