(* ===== verification/Kube.thy ===== *)
theory Kube
  imports Tenant
begin

text \<open>
  What the controllers share: the Kubernetes client of one workspace as an interface, the
  helpers of \<open>controller-runtime\<close> and \<open>apimachinery\<close> the program uses, and \<open>controller/shared/shared.go\<close>.
  The API server is behind the operations of \<open>resource_api\<close>; they may do anything to the world,
  including what other clients do meanwhile. Custom resources are cluster scoped: their
  namespace is empty.
\<close>

subsection \<open>The client of a workspace\<close>

record Secret =
  scMeta :: ObjectMeta
  scType :: string
  scData :: "(string \<times> bytes) list"

text \<open>\<open>kList\<close> takes the labels to match; \<open>kCreate\<close> and \<open>kUpdate\<close> give the object as stored.\<close>

record ('w, 'a) resource_api =
  kGet :: "string \<Rightarrow> string \<Rightarrow> ('w, 'a) act"
  kList :: "(string \<times> string) list \<Rightarrow> ('w, 'a list) act"
  kCreate :: "'a \<Rightarrow> ('w, 'a) act"
  kUpdate :: "'a \<Rightarrow> ('w, 'a) act"
  kUpdateStatus :: "'a \<Rightarrow> ('w, 'a) act"
  kDelete :: "string \<Rightarrow> string \<Rightarrow> ('w, unit) act"

record 'w kube =
  kcConnections :: "('w, Connection) resource_api"
  kcRepositories :: "('w, Repository) resource_api"
  kcCommits :: "('w, RepositoryCommit) resource_api"
  kcCheckouts :: "('w, RepositoryCheckout) resource_api"
  kcBuilds :: "('w, RepositoryBuildStatus) resource_api"
  kcDeployKeys :: "('w, DeployKey) resource_api"
  kcCollaborators :: "('w, Collaborator) resource_api"
  kcPackages :: "('w, Package) resource_api"
  kcSecrets :: "('w, Secret) resource_api"

text \<open>The multicluster manager with the clock, the credential environment and its variable.\<close>

record 'w manager =
  mgGetCluster :: "string \<Rightarrow> ('w, 'w kube) act"
  mgNow :: "'w \<Rightarrow> gotime"
  mgNamespaceEnv :: string
  mgTokens :: "'w token_env"

record Request =
  rqCluster :: string
  rqName :: string

record Result =
  reRequeue :: bool
  reAfter :: duration

definition done_result :: Result where "done_result = \<lparr>reRequeue = False, reAfter = 0\<rparr>"
definition requeue_result :: Result where "requeue_result = \<lparr>reRequeue = True, reAfter = 0\<rparr>"
definition after_result :: "duration \<Rightarrow> Result" where "after_result d = \<lparr>reRequeue = False, reAfter = d\<rparr>"

lemmas result_defs = done_result_def requeue_result_def after_result_def

text \<open>\<open>err.Error()\<close> at the time it is called.\<close>

definition with_text :: "'w manager \<Rightarrow> gerror \<Rightarrow> (string \<Rightarrow> ('w, 'a) act) \<Rightarrow> ('w, 'a) act" where
  "with_text m e k = bindA (readA (mgNow m)) (\<lambda>t. k (err_Error t e))"

subsection \<open>Conditions and finalizers\<close>

text \<open>\<open>meta.SetStatusCondition\<close>: the transition time changes only with the status.\<close>

fun set_status_condition :: "gotime \<Rightarrow> Condition \<Rightarrow> Condition list \<Rightarrow> Condition list" where
  "set_status_condition now new [] = [new\<lparr>cnTransition := now\<rparr>]"
| "set_status_condition now new (c # cs) =
     (if cnType c = cnType new
      then new\<lparr>cnTransition := (if cnStatus c \<noteq> cnStatus new then now else cnTransition c)\<rparr> # cs
      else c # set_status_condition now new cs)"

definition SetCondition ::
  "gotime \<Rightarrow> string \<Rightarrow> bool \<Rightarrow> string \<Rightarrow> string \<Rightarrow> int \<Rightarrow> Condition list \<Rightarrow> Condition list"
where
  "SetCondition now condType status reason msg observedGen conds =
     set_status_condition now
       \<lparr>cnType = condType, cnStatus = status, cnReason = reason, cnMessage = msg, cnObserved = observedGen,
        cnTransition = zeroTime\<rparr> conds"

definition find_condition :: "string \<Rightarrow> Condition list \<Rightarrow> Condition option" where
  "find_condition t cs = find (\<lambda>c. cnType c = t) cs"

definition IsStatusConditionTrue :: "Condition list \<Rightarrow> string \<Rightarrow> bool" where
  "IsStatusConditionTrue cs t = (case find_condition t cs of None \<Rightarrow> False | Some c \<Rightarrow> cnStatus c)"

definition with_finalizer :: "string \<Rightarrow> ObjectMeta \<Rightarrow> ObjectMeta" where
  "with_finalizer f m = m\<lparr>omFinalizers := omFinalizers m @ [f]\<rparr>"

definition without_finalizer :: "string \<Rightarrow> ObjectMeta \<Rightarrow> ObjectMeta" where
  "without_finalizer f m = m\<lparr>omFinalizers := filter (\<lambda>g. g \<noteq> f) (omFinalizers m)\<rparr>"

lemma find_SetCondition:
  "find_condition t (SetCondition now ct st reason msg gen cs) =
     (if t = ct then Some \<lparr>cnType = ct, cnStatus = st, cnReason = reason, cnMessage = msg, cnObserved = gen,
        cnTransition = (case find_condition ct cs of None \<Rightarrow> now
          | Some c \<Rightarrow> if cnStatus c \<noteq> st then now else cnTransition c)\<rparr>
      else find_condition t cs)"
  unfolding SetCondition_def find_condition_def by (induction cs) auto

lemma distinct_SetCondition:
  "distinct (map cnType cs) \<Longrightarrow> distinct (map cnType (SetCondition now ct st reason msg gen cs))"
proof -
  have "cnType ` set (set_status_condition now c cs) = insert (cnType c) (cnType ` set cs)" for c cs
    by (induction cs) auto
  then show "distinct (map cnType cs) \<Longrightarrow> ?thesis"
    unfolding SetCondition_def by (induction cs) auto
qed

subsection \<open>Shared helpers of the reconcilers\<close>

definition ClusterClient :: "'w manager \<Rightarrow> string \<Rightarrow> ('w, 'w kube) act" where
  "ClusterClient m clusterName =
     handle (mgGetCluster m clusterName)
       (\<lambda>e. failA (Wrapped (''getting cluster '' @ clusterName @ '': '') e [])) ret"

definition RateLimitWait :: "gerror \<Rightarrow> gotime \<Rightarrow> (duration \<times> string) option" where
  "RateLimitWait err now =
     (case as_rate_limit err of
        None \<Rightarrow> None
      | Some at \<Rightarrow> Some (max (at - now) Second, ''GitHub rate limit; retrying at '' @ RFC3339 at))"

definition ResolveConnection :: "'w kube \<Rightarrow> string \<Rightarrow> ('w, Connection) act" where
  "ResolveConnection c ref =
     handle (kGet (kcConnections c) [] ref)
       (\<lambda>e. if is_reason NotFound e then failA (Plain (''connection '' @ quoted ref @ '' not found''))
          else failA (Wrapped (''get connection '' @ quoted ref @ '': '') e [])) ret"

definition ResolveRepository :: "'w kube \<Rightarrow> string \<Rightarrow> ('w, Repository) act" where
  "ResolveRepository c ref =
     handle (kGet (kcRepositories c) [] ref)
       (\<lambda>e. if is_reason NotFound e then failA (Plain (''repository '' @ quoted ref @ '' not found''))
          else failA (Wrapped (''get repository '' @ quoted ref @ '': '') e [])) ret"

definition ResolveCredential :: "'w manager \<Rightarrow> 'w kube \<Rightarrow> Connection \<Rightarrow> ('w, Credential) act" where
  "ResolveCredential m c conn =
     (let ref = csSecretRef (cxSpec conn);
          ns = (if lsNamespace ref = [] then DefaultCredentialsNamespace (mgNamespaceEnv m) else lsNamespace ref)
      in handle (kGet (kcSecrets c) ns (lsName ref))
           (\<lambda>e. if is_reason NotFound e then failA CredentialsMissing
              else if is_reason Forbidden e then failA APIBindingMissing
              else failA (Wrapped (''get credential secret '' @ ns @ ''/'' @ lsName ref @ '': '') e []))
           (\<lambda>secret. Resolve (mgTokens m) conn (scData secret)))"

text \<open>The object of a request, with \<open>client.IgnoreNotFound\<close>.\<close>

definition for_object ::
  "('w, 'a) resource_api \<Rightarrow> string \<Rightarrow> ('a \<Rightarrow> ('w, Result) act) \<Rightarrow> ('w, Result) act"
where
  "for_object api name k =
     handle (kGet api [] name) (\<lambda>e. if is_reason NotFound e then ret done_result else failA e) k"

subsection \<open>Calls that leave something alone\<close>

text \<open>The operations of a workspace's client, and everything but the git host.\<close>

definition resource_keeps :: "('w \<Rightarrow> bool) \<Rightarrow> ('w, 'a) resource_api \<Rightarrow> bool" where
  "resource_keeps P api \<longleftrightarrow>
     (\<forall>ns n. keeps P (kGet api ns n)) \<and> (\<forall>ls. keeps P (kList api ls)) \<and> (\<forall>x. keeps P (kCreate api x)) \<and>
     (\<forall>x. keeps P (kUpdate api x)) \<and> (\<forall>x. keeps P (kUpdateStatus api x)) \<and> (\<forall>ns n. keeps P (kDelete api ns n))"

definition kube_keeps :: "('w \<Rightarrow> bool) \<Rightarrow> 'w kube \<Rightarrow> bool" where
  "kube_keeps P c \<longleftrightarrow>
     resource_keeps P (kcConnections c) \<and> resource_keeps P (kcRepositories c) \<and> resource_keeps P (kcCommits c) \<and>
     resource_keeps P (kcCheckouts c) \<and> resource_keeps P (kcBuilds c) \<and> resource_keeps P (kcDeployKeys c) \<and>
     resource_keeps P (kcCollaborators c) \<and> resource_keeps P (kcPackages c) \<and> resource_keeps P (kcSecrets c)"

definition manager_keeps :: "('w \<Rightarrow> bool) \<Rightarrow> 'w manager \<Rightarrow> bool" where
  "manager_keeps P m \<longleftrightarrow>
     (\<forall>n. keeps P (mgGetCluster m n)) \<and> (\<forall>n c w w'. mgGetCluster m n w = (Inr c, w') \<longrightarrow> kube_keeps P c) \<and>
     (\<forall>k x. keeps P (teSign (mgTokens m) k x)) \<and> (\<forall>r. keeps P (teDo (mgTokens m) r))"

lemma resource_keepsD:
  assumes "resource_keeps P api"
  shows "keeps P (kGet api ns n)" "keeps P (kList api ls)" "keeps P (kCreate api x)" "keeps P (kUpdate api x)"
    "keeps P (kUpdateStatus api x)" "keeps P (kDelete api ns n)"
  using assms by (simp_all add: resource_keeps_def)

lemma kube_keepsD:
  assumes "kube_keeps P c"
  shows "resource_keeps P (kcConnections c)" "resource_keeps P (kcRepositories c)" "resource_keeps P (kcCommits c)"
    "resource_keeps P (kcCheckouts c)" "resource_keeps P (kcBuilds c)" "resource_keeps P (kcDeployKeys c)"
    "resource_keeps P (kcCollaborators c)" "resource_keeps P (kcPackages c)" "resource_keeps P (kcSecrets c)"
  using assms by (simp_all add: kube_keeps_def)

lemma ClusterClient_Inr [simp]: "ClusterClient m n w = (Inr c, w') \<longleftrightarrow> mgGetCluster m n w = (Inr c, w')"
  by (auto simp: ClusterClient_def handle_def ret_def failA_def split: prod.splits sum.splits)

lemma keeps_ClusterClient:
  assumes "manager_keeps P m" and "\<And>c w w'. mgGetCluster m n w = (Inr c, w') \<Longrightarrow> kube_keeps P c \<Longrightarrow> keeps P (k c)"
  shows "keeps P (bindA (ClusterClient m n) k)"
proof (rule keeps_bindA_val)
  show "keeps P (ClusterClient m n)"
    using assms(1) unfolding ClusterClient_def manager_keeps_def by (intro keeps_handle keeps_failA keeps_ret) auto
  show "keeps P (k c)" if "ClusterClient m n w = (Inr c, w')" for c w w'
    using that assms unfolding manager_keeps_def ClusterClient_Inr by blast
qed

lemma keeps_for_object:
  assumes "resource_keeps P api" and "\<And>x w w'. kGet api [] n w = (Inr x, w') \<Longrightarrow> keeps P (k x)"
  shows "keeps P (for_object api n k)"
  unfolding for_object_def using assms
  by (intro keeps_handle_val keeps_if keeps_ret keeps_failA resource_keepsD) auto

lemma keeps_with_text [keeps]: "(\<And>s. keeps P (k s)) \<Longrightarrow> keeps P (with_text m e k)"
  unfolding with_text_def by (intro keeps_bindA keeps_readA)

lemma keeps_shared:
  assumes "kube_keeps P c" and "manager_keeps P m"
  shows "keeps P (ResolveConnection c ref)" "keeps P (ResolveRepository c ref)" "keeps P (ResolveCredential m c conn)"
proof -
  show "keeps P (ResolveConnection c ref)" "keeps P (ResolveRepository c ref)"
    unfolding ResolveConnection_def ResolveRepository_def
    by (intro keeps_handle keeps_if keeps_ret keeps_failA resource_keepsD kube_keepsD[OF assms(1)])+
  have "keeps P (Resolve (mgTokens m) conn data)" for data
    unfolding Resolve_def app_token_def Let_def using assms(2) unfolding manager_keeps_def
    by (intro keeps_if keeps_lift keeps_lift_bind keeps_bindA keeps_readA keeps_handle keeps_failA)
      (auto split: option.splits intro: keeps_handle keeps_lift keeps_failA)
  then show "keeps P (ResolveCredential m c conn)"
    unfolding ResolveCredential_def Let_def
    by (intro keeps_handle keeps_if keeps_failA resource_keepsD kube_keepsD[OF assms(1)])
qed

subsection \<open>Clusters for the examples\<close>

text \<open>An API server that answers nothing, and a world whose second part the cluster never touches.\<close>

definition down_api :: "('w, 'a) resource_api" where
  "down_api =
     \<lparr>kGet = (\<lambda>_ _. failA (KubeError OtherReason ''down'')), kList = (\<lambda>_. failA (KubeError OtherReason ''down'')),
      kCreate = (\<lambda>_. failA (KubeError OtherReason ''down'')), kUpdate = (\<lambda>_. failA (KubeError OtherReason ''down'')),
      kUpdateStatus = (\<lambda>_. failA (KubeError OtherReason ''down'')), kDelete = (\<lambda>_ _. failA (KubeError OtherReason ''down''))\<rparr>"

definition down_kube :: "'w kube" where
  "down_kube = \<lparr>kcConnections = down_api, kcRepositories = down_api, kcCommits = down_api, kcCheckouts = down_api,
     kcBuilds = down_api, kcDeployKeys = down_api, kcCollaborators = down_api, kcPackages = down_api, kcSecrets = down_api\<rparr>"

text \<open>One object in the first part of the world, which is read and replaced.\<close>

definition one_object :: "('a \<times> 'b, 'a) resource_api" where
  "one_object = down_api\<lparr>kGet := (\<lambda>_ _ w. (Inr (fst w), w)), kUpdate := (\<lambda>x w. (Inr x, (x, snd w))),
     kUpdateStatus := (\<lambda>x w. (Inr x, (x, snd w)))\<rparr>"

definition down_tokens :: "'w token_env" where
  "down_tokens = \<lparr>teParseURL = (\<lambda>_. None), teURLString = (\<lambda>_. []), tePem = (\<lambda>_. None), tePKCS1 = (\<lambda>_. None),
     tePKCS8 = (\<lambda>_. None), teSign = (\<lambda>_ _. failA ContextErr), teNow = (\<lambda>_. 0), teNewRequest = (\<lambda>_. None),
     teDo = (\<lambda>_. failA ContextErr), teParseTime = (\<lambda>_. None)\<rparr>"

definition manager_of :: "'w kube \<Rightarrow> 'w manager" where
  "manager_of c = \<lparr>mgGetCluster = (\<lambda>_. ret c), mgNow = (\<lambda>_. 0), mgNamespaceEnv = [], mgTokens = down_tokens\<rparr>"

lemma down_api_keeps: "resource_keeps P down_api"
  by (simp add: resource_keeps_def down_api_def keeps_failA)

lemma one_object_keeps: "resource_keeps (\<lambda>w. P (snd w)) one_object"
  by (simp add: resource_keeps_def one_object_def down_api_def keeps_failA) (simp add: keeps_def)

lemma manager_of_keeps: "kube_keeps P c \<Longrightarrow> manager_keeps P (manager_of c)"
  by (simp add: manager_keeps_def manager_of_def down_tokens_def keeps_ret keeps_failA)

lemmas cluster_examples = manager_of_def down_tokens_def one_object_def down_kube_def down_api_def

subsection \<open>Backends as the controllers see them\<close>

text \<open>
  \<open>backend.GitBackend\<close> with its optional interfaces (\<open>RepositoryCommitter\<close>, \<open>RepositoryReader\<close>,
  \<open>PackageLister\<close>, \<open>WorkflowRunReader\<close>, \<open>WorkflowDispatcher\<close>): a type assertion succeeds when the
  field is present. A listing may not end; it takes whether fresh container packages are wanted.
\<close>

record 'w git_backend =
  gbName :: string
  gbValidateConnection :: "Connection \<Rightarrow> Credential \<Rightarrow> ('w, string \<times> string list) act"
  gbEnsureRepository :: "Connection \<Rightarrow> Credential \<Rightarrow> Repository \<Rightarrow> ('w, RepositoryResult) act"
  gbDeleteRepository :: "Connection \<Rightarrow> Credential \<Rightarrow> Repository \<Rightarrow> ('w, unit) act"
  gbEnsureDeployKey :: "Connection \<Rightarrow> Credential \<Rightarrow> Repository \<Rightarrow> DeployKey \<Rightarrow> string \<Rightarrow> ('w, DeployKeyResult) act"
  gbDeleteDeployKey :: "Connection \<Rightarrow> Credential \<Rightarrow> Repository \<Rightarrow> string \<Rightarrow> ('w, unit) act"
  gbEnsureCollaborator :: "Connection \<Rightarrow> Credential \<Rightarrow> Repository \<Rightarrow> Collaborator \<Rightarrow> ('w, CollaboratorResult) act"
  gbRemoveCollaborator :: "Connection \<Rightarrow> Credential \<Rightarrow> Repository \<Rightarrow> Collaborator \<Rightarrow> ('w, unit) act"
  gbCommitFiles :: "(Connection \<Rightarrow> Credential \<Rightarrow> Repository \<Rightarrow> RepositoryCommitInput \<Rightarrow> ('w, RepositoryCommitResult) act) option"
  gbCheckoutFiles :: "(Connection \<Rightarrow> Credential \<Rightarrow> Repository \<Rightarrow> RepositoryCheckoutInput \<Rightarrow> ('w, RepositoryCheckoutResult) act) option"
  gbLatestWorkflowRun :: "(Connection \<Rightarrow> Credential \<Rightarrow> Repository \<Rightarrow> WorkflowRunQuery \<Rightarrow> ('w, WorkflowRunStatus) act) option"
  gbDispatchWorkflow :: "(Connection \<Rightarrow> Credential \<Rightarrow> Repository \<Rightarrow> string \<Rightarrow> string \<Rightarrow> ('w, unit) act) option"
  gbListPackages :: "(Connection \<Rightarrow> Credential \<Rightarrow> Repository \<Rightarrow> bool \<Rightarrow> 'w \<Rightarrow> ((gerror + PackageInfo list) \<times> 'w) option) option"

end
