(* ===== verification/Stub_Backend.thy ===== *)
theory Stub_Backend
  imports Kube
begin

text \<open>
  \<open>backend/stub/stub.go\<close>: the backend that answers every call with canned success and touches
  nothing. It implements \<open>GitBackend\<close> and \<open>RepositoryCommitter\<close> and no other optional interface.
\<close>

definition stub_owner :: "Connection \<Rightarrow> Repository \<Rightarrow> string" where
  "stub_owner conn repo = (if rsOwner (rxSpec repo) = [] then csOwner (cxSpec conn) else rsOwner (rxSpec repo))"

definition stub_ValidateConnection :: "Connection \<Rightarrow> Credential \<Rightarrow> ('w, string \<times> string list) act" where
  "stub_ValidateConnection conn cred =
     ret (if csOwner (cxSpec conn) = [] then ''stub-user'' else csOwner (cxSpec conn), [''repo''])"

definition stub_EnsureRepository :: "Connection \<Rightarrow> Credential \<Rightarrow> Repository \<Rightarrow> ('w, RepositoryResult) act" where
  "stub_EnsureRepository conn cred repo =
     (let full = stub_owner conn repo @ ''/'' @ rsName (rxSpec repo) in
      ret \<lparr>rrRepoID = ''stub-'' @ rsName (rxSpec repo), rrHTMLURL = ''https://stub.example/'' @ full,
           rrCloneURL = ''https://stub.example/'' @ full @ ''.git'', rrSSHURL = ''git@stub.example:'' @ full @ ''.git''\<rparr>)"

definition stub_DeleteRepository :: "Connection \<Rightarrow> Credential \<Rightarrow> Repository \<Rightarrow> ('w, unit) act" where
  "stub_DeleteRepository conn cred repo = ret ()"

definition stub_CommitFiles :: "Connection \<Rightarrow> Credential \<Rightarrow> Repository \<Rightarrow> RepositoryCommitInput \<Rightarrow> ('w, RepositoryCommitResult) act" where
  "stub_CommitFiles conn cred repo input =
     (let branch = (if ciBranch input = [] then rsDefaultBranch (rxSpec repo) else ciBranch input) in
      ret \<lparr>rcCommitSHA = ''stub-commit-'' @ rsName (rxSpec repo),
           rcCommitURL = ''https://stub.example/'' @ stub_owner conn repo @ ''/'' @ rsName (rxSpec repo) @
             ''/commit/stub-commit-'' @ rsName (rxSpec repo),
           rcBranch = (if branch = [] then ''main'' else branch), rcFiles = map cfPath (ciFiles input)\<rparr>)"

definition stub_EnsureDeployKey ::
  "Connection \<Rightarrow> Credential \<Rightarrow> Repository \<Rightarrow> DeployKey \<Rightarrow> string \<Rightarrow> ('w, DeployKeyResult) act"
where
  "stub_EnsureDeployKey conn cred repo key publicKey =
     (if publicKey = [] then failA (Plain (''stub: no public key supplied for deploy key '' @ quoted (omName (dxMeta key))))
      else ret \<lparr>dkKeyID = ''stub-key-'' @ omName (dxMeta key)\<rparr>)"

definition stub_DeleteDeployKey :: "Connection \<Rightarrow> Credential \<Rightarrow> Repository \<Rightarrow> string \<Rightarrow> ('w, unit) act" where
  "stub_DeleteDeployKey conn cred repo keyID = ret ()"

definition stub_EnsureCollaborator ::
  "Connection \<Rightarrow> Credential \<Rightarrow> Repository \<Rightarrow> Collaborator \<Rightarrow> ('w, CollaboratorResult) act"
where
  "stub_EnsureCollaborator conn cred repo l =
     ret \<lparr>clPending = False, clInvitationID = ''stub-invite-'' @ omName (lxMeta l)\<rparr>"

definition stub_RemoveCollaborator :: "Connection \<Rightarrow> Credential \<Rightarrow> Repository \<Rightarrow> Collaborator \<Rightarrow> ('w, unit) act" where
  "stub_RemoveCollaborator conn cred repo l = ret ()"

definition NewNamed :: "string \<Rightarrow> 'w git_backend" where
  "NewNamed name =
     \<lparr>gbName = name, gbValidateConnection = stub_ValidateConnection, gbEnsureRepository = stub_EnsureRepository,
      gbDeleteRepository = stub_DeleteRepository, gbEnsureDeployKey = stub_EnsureDeployKey,
      gbDeleteDeployKey = stub_DeleteDeployKey, gbEnsureCollaborator = stub_EnsureCollaborator,
      gbRemoveCollaborator = stub_RemoveCollaborator, gbCommitFiles = Some stub_CommitFiles, gbCheckoutFiles = None,
      gbLatestWorkflowRun = None, gbDispatchWorkflow = None, gbListPackages = None\<rparr>"

definition stub_New :: "'w git_backend" where
  "stub_New = NewNamed ProviderGitHub"

lemmas stub_defs = stub_New_def NewNamed_def stub_ValidateConnection_def stub_EnsureRepository_def
  stub_DeleteRepository_def stub_CommitFiles_def stub_EnsureDeployKey_def stub_DeleteDeployKey_def
  stub_EnsureCollaborator_def stub_RemoveCollaborator_def stub_owner_def

text \<open>The stub touches nothing, whatever the world.\<close>

lemma stub_keeps:
  "keeps P (gbEnsureRepository stub_New conn cred repo)" "keeps P (gbDeleteRepository stub_New conn cred repo)"
  "keeps P (gbEnsureDeployKey stub_New conn cred repo key pub)" "keeps P (gbDeleteDeployKey stub_New conn cred repo i)"
  "keeps P (gbEnsureCollaborator stub_New conn cred repo l)" "keeps P (gbRemoveCollaborator stub_New conn cred repo l)"
  by (auto simp: stub_defs Let_def intro: keeps_ret keeps_failA)

definition stub_registry :: "'w git_backend Registry" where
  "stub_registry = [(ProviderGitHub, stub_New)]"

subsection \<open>A workspace for the examples\<close>

text \<open>One connection with its Secret; the kinds under test are one object in the world.\<close>

definition example_connection :: Connection where
  "example_connection = zero_connection\<lparr>cxMeta := zero_meta\<lparr>omName := ''gh''\<rparr>,
     cxSpec := (cxSpec zero_connection)\<lparr>csProvider := ProviderGitHub, csOwner := ''acme'',
       csSecretRef := \<lparr>lsName = ''cred'', lsNamespace = [], lsKey = []\<rparr>\<rparr>\<rparr>"

definition constant_object :: "'a \<Rightarrow> ('w, 'a) resource_api" where
  "constant_object x = down_api\<lparr>kGet := (\<lambda>_ _. ret x)\<rparr>"

definition example_secret :: Secret where
  "example_secret = \<lparr>scMeta = zero_meta, scType = [], scData = [(''token'', ''abc'')]\<rparr>"

definition example_workspace :: "'w kube" where
  "example_workspace = down_kube\<lparr>kcConnections := constant_object example_connection,
     kcRepositories := constant_object zero_repository, kcSecrets := constant_object example_secret\<rparr>"

lemma constant_object_keeps: "resource_keeps P (constant_object x)"
  by (simp add: resource_keeps_def constant_object_def down_api_def keeps_failA keeps_ret)

lemma example_workspace_keeps: "kube_keeps P example_workspace"
  by (simp add: kube_keeps_def example_workspace_def down_kube_def constant_object_keeps down_api_keeps)

text \<open>Its connection and credential resolve, whatever the manager.\<close>

lemma example_credential_resolves:
  assumes "kcSecrets c = constant_object example_secret"
  shows "ResolveCredential m c example_connection w = (Inr \<lparr>crToken = ''abc''\<rparr>, w)"
proof -
  have "TrimSpace ''abc'' = ''abc''" by code_simp
  then show ?thesis
    by (simp add: ResolveCredential_def Let_def assms constant_object_def handle_def Resolve_def static_token_def
        example_connection_def example_secret_def zero_defs lift_def ret_def map_get_def DefaultTokenKey_def
        CredentialTypeGitHubApp_def CredentialTypePAT_def CredentialTypeOAuth_def)
qed

lemma example_connection_resolves:
  assumes "kcConnections c = constant_object example_connection"
  shows "ResolveConnection c ref w = (Inr example_connection, w)"
  by (simp add: ResolveConnection_def assms constant_object_def handle_def ret_def)

lemma stub_registered: "registry_Get stub_registry (csProvider (cxSpec example_connection)) = Some stub_New"
  by (simp add: registry_Get_def stub_registry_def example_connection_def)

end
