(* ===== verification/Host_Controllers.thy ===== *)
theory Host_Controllers
  imports Stub_Backend
begin

text \<open>
  The reconcilers that keep host-side state in step with an object:
  \<open>controller/connection\<close>, \<open>controller/repository\<close>, \<open>controller/collaborator\<close> and
  \<open>controller/deploykey\<close>. The four \<open>Reconcile\<close> methods have the same skeleton: on deletion
  clean up and release the finalizer, otherwise first place the finalizer, then ensure. It is
  \<open>finalized_reconcile\<close>; what they share is proved once, in the locale \<open>finalized\<close>.
\<close>

subsection \<open>The skeleton\<close>

text \<open>\<open>cleanup\<close> gives a result to return at once, or nothing when the finalizer may be released.\<close>

definition finalized_reconcile ::
  "('a \<Rightarrow> ObjectMeta) \<Rightarrow> (ObjectMeta \<Rightarrow> 'a \<Rightarrow> 'a) \<Rightarrow> string \<Rightarrow> ('a \<Rightarrow> ('w, 'a) act) \<Rightarrow> ('a \<Rightarrow> ('w, Result option) act) \<Rightarrow>
     ('a \<Rightarrow> ('w, Result) act) \<Rightarrow> 'a \<Rightarrow> ('w, Result) act"
where
  "finalized_reconcile meta set_meta fin update cleanup ensure obj =
     (if omDeletion (meta obj) \<noteq> None then
        if fin \<in> set (omFinalizers (meta obj)) then
          bindA (cleanup obj) (\<lambda>stop. case stop of
              Some res \<Rightarrow> ret res
            | None \<Rightarrow> bindA (update (set_meta (without_finalizer fin (meta obj)) obj)) (\<lambda>u. ret done_result))
        else ret done_result
      else if fin \<notin> set (omFinalizers (meta obj)) then
        bindA (update (set_meta (with_finalizer fin (meta obj)) obj)) (\<lambda>u. ret requeue_result)
      else ensure obj)"

locale finalized =
  fixes meta :: "'a \<Rightarrow> ObjectMeta" and set_meta :: "ObjectMeta \<Rightarrow> 'a \<Rightarrow> 'a" and fin :: string
  assumes meta_set [simp]: "meta (set_meta m a) = m"
begin

lemma released: "fin \<notin> set (omFinalizers (meta (set_meta (without_finalizer fin (meta a)) a)))"
  by (simp add: without_finalizer_def)

lemma placed: "fin \<in> set (omFinalizers (meta (set_meta (with_finalizer fin (meta a)) a)))"
  by (simp add: with_finalizer_def)

text \<open>
  What only the release breaks: if cleaning up, ensuring and every update that leaves the finalizer
  in place keep \<open>P\<close>, then \<open>P\<close> is broken only for an object marked for deletion, by the update
  that releases it, right after cleaning up let it go.
\<close>

lemma release_run:
  assumes run: "finalized_reconcile meta set_meta fin update cleanup ensure obj w = (r, w')" and broken: "P w" "\<not> P w'"
    and kept: "keeps P (cleanup obj)" "keeps P (ensure obj)" "\<And>x. fin \<in> set (omFinalizers (meta x)) \<Longrightarrow> keeps P (update x)"
  obtains w1 s where "omDeletion (meta obj) \<noteq> None" "fin \<in> set (omFinalizers (meta obj))" "cleanup obj w = (Inr None, w1)" "P w1"
    "update (set_meta (without_finalizer fin (meta obj)) obj) w1 = (s, w')"
proof -
  have "\<not> (omDeletion (meta obj) = None \<or> fin \<notin> set (omFinalizers (meta obj)))"
  proof
    assume "omDeletion (meta obj) = None \<or> fin \<notin> set (omFinalizers (meta obj))"
    then have "keeps P (finalized_reconcile meta set_meta fin update cleanup ensure obj)"
      unfolding finalized_reconcile_def using kept(2,3) placed[of obj] by (auto intro: keeps_bindA keeps_ret)
    then show False using keepsD[of P _ w] run broken by fastforce
  qed
  then have guarded: "omDeletion (meta obj) \<noteq> None" "fin \<in> set (omFinalizers (meta obj))" by auto
  with run have "bindA (cleanup obj) (\<lambda>stop. case stop of Some res \<Rightarrow> ret res
      | None \<Rightarrow> bindA (update (set_meta (without_finalizer fin (meta obj)) obj)) (\<lambda>u. ret done_result)) w = (r, w')"
    by (simp add: finalized_reconcile_def)
  from broken_later[OF this kept(1) broken] obtain stop w1 where c: "cleanup obj w = (Inr stop, w1)" "P w1"
    and rest: "(case stop of Some res \<Rightarrow> ret res
      | None \<Rightarrow> bindA (update (set_meta (without_finalizer fin (meta obj)) obj)) (\<lambda>u. ret done_result)) w1 = (r, w')" .
  from rest c(2) broken(2) have stop: "stop = None" by (cases stop) (auto simp: ret_def)
  obtain s v where u: "update (set_meta (without_finalizer fin (meta obj)) obj) w1 = (s, v)" by fastforce
  with rest stop have "v = w'" by (cases s) (auto simp: ret_def)
  with guarded c stop u show thesis by (intro that) auto
qed

end

interpretation connection: finalized cxMeta "\<lambda>m c. c\<lparr>cxMeta := m\<rparr>" FinalizerConnection
  by unfold_locales simp

interpretation repository: finalized rxMeta "\<lambda>m r. r\<lparr>rxMeta := m\<rparr>" FinalizerRepository
  by unfold_locales simp

interpretation collaborator: finalized lxMeta "\<lambda>m l. l\<lparr>lxMeta := m\<rparr>" FinalizerCollaborator
  by unfold_locales simp

interpretation deploykey: finalized dxMeta "\<lambda>m d. d\<lparr>dxMeta := m\<rparr>" FinalizerDeployKey
  by unfold_locales simp

subsection \<open>Connections\<close>

definition connection_fail ::
  "'w manager \<Rightarrow> 'w kube \<Rightarrow> Connection \<Rightarrow> string \<Rightarrow> string \<Rightarrow> duration \<Rightarrow> ('w, Result) act"
where
  "connection_fail m c conn reason msg requeueAfter =
     bindA (readA (mgNow m)) (\<lambda>now.
     let gen = omGeneration (cxMeta conn); st = cxStatus conn;
         conds = SetCondition now ConditionReady False reason msg gen
                   (SetCondition now ConditionValidated False reason msg gen (ctConditions st))
     in bindA (kUpdateStatus (kcConnections c) (conn\<lparr>cxStatus := st\<lparr>ctObserved := gen, ctConditions := conds\<rparr>\<rparr>))
          (\<lambda>u. ret (after_result requeueAfter)))"

definition connection_ensure :: "'w manager \<Rightarrow> 'w git_backend Registry \<Rightarrow> 'w kube \<Rightarrow> Connection \<Rightarrow> ('w, Result) act" where
  "connection_ensure m backends c conn =
     (case registry_Get backends (csProvider (cxSpec conn)) of
        None \<Rightarrow> connection_fail m c conn ''ProviderNotFound''
          (''no backend registered for provider '' @ quoted (csProvider (cxSpec conn))) 0
      | Some b \<Rightarrow>
          handle (ResolveCredential m c conn)
            (\<lambda>err. with_text m err (\<lambda>msg. connection_fail m c conn ''CredentialUnavailable'' msg (30 * Second)))
            (\<lambda>cred.
          handle (gbValidateConnection b conn cred)
            (\<lambda>err. bindA (readA (mgNow m)) (\<lambda>now.
               case RateLimitWait err now of
                 Some (wait, msg) \<Rightarrow> connection_fail m c conn ReasonRateLimited msg wait
               | None \<Rightarrow> with_text m err (\<lambda>msg. connection_fail m c conn ''ValidationFailed'' msg 0)))
            (\<lambda>(login, scopes). bindA (readA (mgNow m)) (\<lambda>now.
               let gen = omGeneration (cxMeta conn); st = cxStatus conn;
                   conds = SetCondition now ConditionReady True ReasonReady [] gen
                     (SetCondition now ConditionValidated True ReasonReady (''credential authenticated as '' @ login) gen (ctConditions st))
               in bindA (kUpdateStatus (kcConnections c)
                     (conn\<lparr>cxStatus := st\<lparr>ctObserved := gen, ctLogin := login, ctScopes := scopes, ctConditions := conds\<rparr>\<rparr>))
                    (\<lambda>u. ret done_result)))))"

definition connection_Reconcile :: "'w manager \<Rightarrow> 'w git_backend Registry \<Rightarrow> Request \<Rightarrow> ('w, Result) act" where
  "connection_Reconcile m backends req =
     bindA (ClusterClient m (rqCluster req)) (\<lambda>c.
     for_object (kcConnections c) (rqName req) (\<lambda>conn.
     finalized_reconcile cxMeta (\<lambda>md x. x\<lparr>cxMeta := md\<rparr>) FinalizerConnection (kUpdate (kcConnections c))
       (\<lambda>x. ret None) (connection_ensure m backends c) conn))"

subsection \<open>Repositories\<close>

definition repository_setNotReady ::
  "'w manager \<Rightarrow> 'w kube \<Rightarrow> Repository \<Rightarrow> string \<Rightarrow> string \<Rightarrow> ('w, Repository) act"
where
  "repository_setNotReady m c repo reason msg =
     bindA (readA (mgNow m)) (\<lambda>now.
     let gen = omGeneration (rxMeta repo); st = rxStatus repo in
     kUpdateStatus (kcRepositories c) (repo\<lparr>rxStatus := st\<lparr>rtObserved := gen,
       rtConditions := SetCondition now ConditionReady False reason msg gen (rtConditions st)\<rparr>\<rparr>))"

definition repository_fail ::
  "'w manager \<Rightarrow> 'w kube \<Rightarrow> Repository \<Rightarrow> string \<Rightarrow> string \<Rightarrow> ('w, 'r) act"
where
  "repository_fail m c repo reason msg =
     bindA (repository_setNotReady m c repo reason msg) (\<lambda>u. failA (Plain (reason @ '': '' @ msg)))"

definition repository_waitForRateLimit ::
  "'w manager \<Rightarrow> 'w kube \<Rightarrow> Repository \<Rightarrow> string \<Rightarrow> duration \<Rightarrow> ('w, Result) act"
where
  "repository_waitForRateLimit m c repo msg wait =
     bindA (repository_setNotReady m c repo ReasonRateLimited msg) (\<lambda>u. ret (after_result wait))"

text \<open>The backend, connection and credential, or what is missing.\<close>

definition repository_resolve ::
  "'w manager \<Rightarrow> 'w git_backend Registry \<Rightarrow> 'w kube \<Rightarrow> Repository \<Rightarrow>
     ('w, string + ('w git_backend \<times> Connection \<times> Credential)) act"
where
  "repository_resolve m backends c repo =
     handle (ResolveConnection c (rsConnectionRef (rxSpec repo)))
       (\<lambda>err. with_text m err (\<lambda>msg. ret (Inl msg)))
       (\<lambda>conn. case registry_Get backends (csProvider (cxSpec conn)) of
          None \<Rightarrow> ret (Inl (''no backend registered for provider '' @ quoted (csProvider (cxSpec conn)) @
            '' (connection '' @ quoted (omName (cxMeta conn)) @ '')''))
        | Some b \<Rightarrow> handle (ResolveCredential m c conn)
            (\<lambda>err. with_text m err (\<lambda>msg. ret (Inl (''credential for connection '' @ quoted (omName (cxMeta conn)) @
               '' unavailable: '' @ msg))))
            (\<lambda>cred. ret (Inr (b, conn, cred))))"

definition repository_cleanup ::
  "'w manager \<Rightarrow> 'w kube \<Rightarrow> string + ('w git_backend \<times> Connection \<times> Credential) \<Rightarrow> Repository \<Rightarrow> ('w, Result option) act"
where
  "repository_cleanup m c resolved repo =
     (case resolved of
        Inl notReady \<Rightarrow> ret None
      | Inr (b, conn, cred) \<Rightarrow>
          handle (gbDeleteRepository b conn cred repo)
            (\<lambda>err. bindA (readA (mgNow m)) (\<lambda>now.
               case RateLimitWait err now of
                 Some (wait, msg) \<Rightarrow> bindA (repository_waitForRateLimit m c repo msg wait) (\<lambda>r. ret (Some r))
               | None \<Rightarrow> with_text m err (\<lambda>msg. repository_fail m c repo ''DeleteFailed'' msg)))
            (\<lambda>u. ret None))"

definition repository_ensure ::
  "'w manager \<Rightarrow> 'w kube \<Rightarrow> string + ('w git_backend \<times> Connection \<times> Credential) \<Rightarrow> Repository \<Rightarrow> ('w, Result) act"
where
  "repository_ensure m c resolved repo =
     (case resolved of
        Inl notReady \<Rightarrow> repository_fail m c repo ''ConnectionNotReady'' notReady
      | Inr (b, conn, cred) \<Rightarrow>
          handle (gbEnsureRepository b conn cred repo)
            (\<lambda>err. bindA (readA (mgNow m)) (\<lambda>now.
               case RateLimitWait err now of
                 Some (wait, msg) \<Rightarrow> repository_waitForRateLimit m c repo msg wait
               | None \<Rightarrow> with_text m err (\<lambda>msg.
                   if err_Is err IdentityConflict then repository_fail m c repo ''RepositoryIdentityConflict'' msg
                   else repository_fail m c repo ''EnsureFailed'' msg)))
            (\<lambda>res. bindA (readA (mgNow m)) (\<lambda>now.
               let gen = omGeneration (rxMeta repo); st = rxStatus repo in
               bindA (kUpdateStatus (kcRepositories c) (repo\<lparr>rxStatus := st\<lparr>rtObserved := gen, rtRepoID := rrRepoID res,
                   rtHTMLURL := rrHTMLURL res, rtCloneURL := rrCloneURL res, rtSSHURL := rrSSHURL res,
                   rtConditions := SetCondition now ConditionReady True ReasonReady [] gen (rtConditions st)\<rparr>\<rparr>))
                 (\<lambda>u. ret done_result))))"

definition repository_Reconcile :: "'w manager \<Rightarrow> 'w git_backend Registry \<Rightarrow> Request \<Rightarrow> ('w, Result) act" where
  "repository_Reconcile m backends req =
     bindA (ClusterClient m (rqCluster req)) (\<lambda>c.
     for_object (kcRepositories c) (rqName req) (\<lambda>repo.
     bindA (repository_resolve m backends c repo) (\<lambda>resolved.
     finalized_reconcile rxMeta (\<lambda>md x. x\<lparr>rxMeta := md\<rparr>) FinalizerRepository (kUpdate (kcRepositories c))
       (repository_cleanup m c resolved) (repository_ensure m c resolved) repo)))"

subsection \<open>Collaborators\<close>

text \<open>\<open>resolve\<close> of the collaborator and deploy key controllers: nothing when any piece is missing.\<close>

definition resolve_repository_ref ::
  "'w manager \<Rightarrow> 'w git_backend Registry \<Rightarrow> 'w kube \<Rightarrow> string \<Rightarrow>
     ('w, ('w git_backend \<times> Connection \<times> Repository \<times> Credential) option) act"
where
  "resolve_repository_ref m backends c ref =
     handle (ResolveRepository c ref) (\<lambda>err. ret None) (\<lambda>repo.
     handle (ResolveConnection c (rsConnectionRef (rxSpec repo))) (\<lambda>err. ret None) (\<lambda>conn.
     case registry_Get backends (csProvider (cxSpec conn)) of
       None \<Rightarrow> ret None
     | Some b \<Rightarrow> handle (ResolveCredential m c conn) (\<lambda>err. ret None) (\<lambda>cred. ret (Some (b, conn, repo, cred)))))"

definition not_available :: string where
  "not_available = ''referenced repository, connection, or credential is not available yet''"

definition collaborator_setNotReady ::
  "'w manager \<Rightarrow> 'w kube \<Rightarrow> Collaborator \<Rightarrow> string \<Rightarrow> string \<Rightarrow> ('w, Collaborator) act"
where
  "collaborator_setNotReady m c l reason msg =
     bindA (readA (mgNow m)) (\<lambda>now.
     let gen = omGeneration (lxMeta l); st = lxStatus l in
     kUpdateStatus (kcCollaborators c) (l\<lparr>lxStatus := st\<lparr>ltObserved := gen,
       ltConditions := SetCondition now ConditionReady False reason msg gen (ltConditions st)\<rparr>\<rparr>))"

definition collaborator_fail :: "'w manager \<Rightarrow> 'w kube \<Rightarrow> Collaborator \<Rightarrow> string \<Rightarrow> string \<Rightarrow> ('w, 'r) act" where
  "collaborator_fail m c l reason msg =
     bindA (collaborator_setNotReady m c l reason msg) (\<lambda>u. failA (Plain (reason @ '': '' @ msg)))"

definition collaborator_waitForRateLimit ::
  "'w manager \<Rightarrow> 'w kube \<Rightarrow> Collaborator \<Rightarrow> string \<Rightarrow> duration \<Rightarrow> ('w, Result) act"
where
  "collaborator_waitForRateLimit m c l msg wait =
     bindA (collaborator_setNotReady m c l ReasonRateLimited msg) (\<lambda>u. ret (after_result wait))"

definition collaborator_cleanup ::
  "'w manager \<Rightarrow> 'w kube \<Rightarrow> ('w git_backend \<times> Connection \<times> Repository \<times> Credential) option \<Rightarrow> Collaborator \<Rightarrow>
     ('w, Result option) act"
where
  "collaborator_cleanup m c resolved l =
     (case resolved of
        None \<Rightarrow> ret None
      | Some (b, conn, repo, cred) \<Rightarrow>
          handle (gbRemoveCollaborator b conn cred repo l)
            (\<lambda>err. bindA (readA (mgNow m)) (\<lambda>now.
               case RateLimitWait err now of
                 Some (wait, msg) \<Rightarrow> bindA (collaborator_waitForRateLimit m c l msg wait) (\<lambda>r. ret (Some r))
               | None \<Rightarrow> with_text m err (\<lambda>msg. collaborator_fail m c l ''RemoveFailed'' msg)))
            (\<lambda>u. ret None))"

text \<open>The conditions after a grant: pending until the invitation is accepted.\<close>

definition grant_conditions :: "gotime \<Rightarrow> int \<Rightarrow> bool \<Rightarrow> Condition list \<Rightarrow> Condition list" where
  "grant_conditions now gen pending conds =
     (if pending
      then SetCondition now ConditionReady True ReasonReady ''invitation pending acceptance'' gen
             (SetCondition now ConditionInvitationPending True ''Invited'' ''invitation sent; awaiting acceptance'' gen conds)
      else SetCondition now ConditionReady True ReasonReady [] gen
             (SetCondition now ConditionInvitationPending False ReasonReady [] gen conds))"

definition collaborator_ensure ::
  "'w manager \<Rightarrow> 'w kube \<Rightarrow> ('w git_backend \<times> Connection \<times> Repository \<times> Credential) option \<Rightarrow> Collaborator \<Rightarrow>
     ('w, Result) act"
where
  "collaborator_ensure m c resolved l =
     (case resolved of
        None \<Rightarrow> collaborator_fail m c l ''RepositoryNotReady'' not_available
      | Some (b, conn, repo, cred) \<Rightarrow>
          handle (gbEnsureCollaborator b conn cred repo l)
            (\<lambda>err. bindA (readA (mgNow m)) (\<lambda>now.
               case RateLimitWait err now of
                 Some (wait, msg) \<Rightarrow> collaborator_waitForRateLimit m c l msg wait
               | None \<Rightarrow> with_text m err (\<lambda>msg. collaborator_fail m c l ''EnsureFailed'' msg)))
            (\<lambda>res. bindA (readA (mgNow m)) (\<lambda>now.
               let gen = omGeneration (lxMeta l); st = lxStatus l in
               bindA (kUpdateStatus (kcCollaborators c) (l\<lparr>lxStatus := st\<lparr>ltObserved := gen,
                   ltInvitationID := clInvitationID res,
                   ltConditions := grant_conditions now gen (clPending res) (ltConditions st)\<rparr>\<rparr>))
                 (\<lambda>u. ret done_result))))"

definition collaborator_Reconcile :: "'w manager \<Rightarrow> 'w git_backend Registry \<Rightarrow> Request \<Rightarrow> ('w, Result) act" where
  "collaborator_Reconcile m backends req =
     bindA (ClusterClient m (rqCluster req)) (\<lambda>c.
     for_object (kcCollaborators c) (rqName req) (\<lambda>l.
     bindA (resolve_repository_ref m backends c (lpRepositoryRef (lxSpec l))) (\<lambda>resolved.
     finalized_reconcile lxMeta (\<lambda>md x. x\<lparr>lxMeta := md\<rparr>) FinalizerCollaborator (kUpdate (kcCollaborators c))
       (collaborator_cleanup m c resolved) (collaborator_ensure m c resolved) l)))"

subsection \<open>Deploy keys\<close>

definition secretDataKeyPrivate :: string where "secretDataKeyPrivate = ''ssh-privatekey''"
definition secretDataKeyPublic :: string where "secretDataKeyPublic = ''ssh-publickey''"

definition secretName :: "DeployKey \<Rightarrow> string" where
  "secretName key = ''deploykey-'' @ omName (dxMeta key)"

definition deploykey_setNotReady ::
  "'w manager \<Rightarrow> 'w kube \<Rightarrow> DeployKey \<Rightarrow> string \<Rightarrow> string \<Rightarrow> ('w, DeployKey) act"
where
  "deploykey_setNotReady m c key reason msg =
     bindA (readA (mgNow m)) (\<lambda>now.
     let gen = omGeneration (dxMeta key); st = dxStatus key in
     kUpdateStatus (kcDeployKeys c) (key\<lparr>dxStatus := st\<lparr>dtObserved := gen,
       dtConditions := SetCondition now ConditionReady False reason msg gen (dtConditions st)\<rparr>\<rparr>))"

definition deploykey_fail :: "'w manager \<Rightarrow> 'w kube \<Rightarrow> DeployKey \<Rightarrow> string \<Rightarrow> string \<Rightarrow> ('w, 'r) act" where
  "deploykey_fail m c key reason msg =
     bindA (deploykey_setNotReady m c key reason msg) (\<lambda>u. failA (Plain (reason @ '': '' @ msg)))"

definition deploykey_waitForRateLimit ::
  "'w manager \<Rightarrow> 'w kube \<Rightarrow> DeployKey \<Rightarrow> string \<Rightarrow> duration \<Rightarrow> ('w, Result) act"
where
  "deploykey_waitForRateLimit m c key msg wait =
     bindA (deploykey_setNotReady m c key ReasonRateLimited msg) (\<lambda>u. ret (after_result wait))"

definition key_secret :: "string \<Rightarrow> DeployKey \<Rightarrow> bytes \<Rightarrow> bytes \<Rightarrow> Secret" where
  "key_secret ns key priv pub =
     \<lparr>scMeta = zero_meta\<lparr>omName := secretName key, omNamespace := ns,
        omOwners := [\<lparr>orKind = ''DeployKey'', orName = omName (dxMeta key), orUID = omUID (dxMeta key), orController = True\<rparr>]\<rparr>,
      scType = ''kubernetes.io/ssh-auth'', scData = [(secretDataKeyPrivate, priv), (secretDataKeyPublic, pub)]\<rparr>"

text \<open>
  The key to register and the Secret that holds it. \<open>keygen\<close> is \<open>generateED25519\<close> of \<open>keygen.go\<close>: the
  private key and the public key, or an error.
\<close>

definition create_key_secret ::
  "'w manager \<Rightarrow> (string \<Rightarrow> ('w, bytes \<times> bytes) act) \<Rightarrow> 'w kube \<Rightarrow> DeployKey \<Rightarrow>
     ('w, string \<times> LocalSecretReference option) act"
where
  "create_key_secret m keygen c key =
     (let ns = DefaultCredentialsNamespace (mgNamespaceEnv m); name = secretName key;
          ref = \<lparr>lsName = name, lsNamespace = ns, lsKey = secretDataKeyPrivate\<rparr>
      in bindA (keygen (omName (dxMeta key))) (\<lambda>(priv, pub).
         handle (kCreate (kcSecrets c) (key_secret ns key priv pub))
           (\<lambda>err. if is_reason AlreadyExists err
              then handle (kGet (kcSecrets c) ns name)
                (\<lambda>gerr. failA (Wrapped ''create key secret: '' err []))
                (\<lambda>existing. case map_of (scData existing) secretDataKeyPublic of
                    Some p \<Rightarrow> ret (TrimSpace p, Some ref)
                  | None \<Rightarrow> failA (Wrapped ''create key secret: '' err []))
              else failA (Wrapped ''create key secret: '' err []))
           (\<lambda>created. ret (TrimSpace pub, Some ref))))"

definition ensurePublicKey ::
  "'w manager \<Rightarrow> (string \<Rightarrow> ('w, bytes \<times> bytes) act) \<Rightarrow> 'w kube \<Rightarrow> DeployKey \<Rightarrow>
     ('w, string \<times> LocalSecretReference option) act"
where
  "ensurePublicKey m keygen c key =
     (if TrimSpace (dsPublicKey (dxSpec key)) \<noteq> [] then ret (TrimSpace (dsPublicKey (dxSpec key)), None)
      else
        let ns = DefaultCredentialsNamespace (mgNamespaceEnv m); name = secretName key;
            ref = \<lparr>lsName = name, lsNamespace = ns, lsKey = secretDataKeyPrivate\<rparr>
        in handle (kGet (kcSecrets c) ns name)
             (\<lambda>err. if is_reason NotFound err then create_key_secret m keygen c key
                else failA (Wrapped ''get existing key secret: '' err []))
             (\<lambda>existing. case map_of (scData existing) secretDataKeyPublic of
                 Some pub \<Rightarrow> if pub \<noteq> [] then ret (TrimSpace pub, Some ref) else create_key_secret m keygen c key
               | None \<Rightarrow> create_key_secret m keygen c key))"

definition deleteSecret :: "'w manager \<Rightarrow> 'w kube \<Rightarrow> DeployKey \<Rightarrow> ('w, unit) act" where
  "deleteSecret m c key =
     (case dtSecretRef (dxStatus key) of
        None \<Rightarrow> ret ()
      | Some ref \<Rightarrow>
          let ns = (if lsNamespace ref = [] then DefaultCredentialsNamespace (mgNamespaceEnv m) else lsNamespace ref)
          in handle (kDelete (kcSecrets c) ns (lsName ref))
               (\<lambda>err. if is_reason NotFound err then ret () else failA err) ret)"

definition deploykey_cleanup ::
  "'w manager \<Rightarrow> 'w kube \<Rightarrow> ('w git_backend \<times> Connection \<times> Repository \<times> Credential) option \<Rightarrow> DeployKey \<Rightarrow>
     ('w, Result option) act"
where
  "deploykey_cleanup m c resolved key =
     (let secret = handle (deleteSecret m c key)
            (\<lambda>err. with_text m err (\<lambda>msg. deploykey_fail m c key ''SecretCleanupFailed'' msg)) (\<lambda>u. ret None)
      in case resolved of
           None \<Rightarrow> secret
         | Some (b, conn, repo, cred) \<Rightarrow>
             if dtKeyID (dxStatus key) = [] then secret
             else handle (gbDeleteDeployKey b conn cred repo (dtKeyID (dxStatus key)))
               (\<lambda>err. bindA (readA (mgNow m)) (\<lambda>now.
                  case RateLimitWait err now of
                    Some (wait, msg) \<Rightarrow> bindA (deploykey_waitForRateLimit m c key msg wait) (\<lambda>r. ret (Some r))
                  | None \<Rightarrow> with_text m err (\<lambda>msg. deploykey_fail m c key ''DeleteFailed'' msg)))
               (\<lambda>u. secret))"

definition deploykey_ensure ::
  "'w manager \<Rightarrow> (string \<Rightarrow> ('w, bytes \<times> bytes) act) \<Rightarrow> 'w kube \<Rightarrow>
     ('w git_backend \<times> Connection \<times> Repository \<times> Credential) option \<Rightarrow> DeployKey \<Rightarrow> ('w, Result) act"
where
  "deploykey_ensure m keygen c resolved key =
     (case resolved of
        None \<Rightarrow> deploykey_fail m c key ''RepositoryNotReady'' not_available
      | Some (b, conn, repo, cred) \<Rightarrow>
          handle (ensurePublicKey m keygen c key)
            (\<lambda>err. with_text m err (\<lambda>msg. deploykey_fail m c key ''KeyMaterialError'' msg))
            (\<lambda>(publicKey, secretRef).
          handle (gbEnsureDeployKey b conn cred repo key publicKey)
            (\<lambda>err. bindA (readA (mgNow m)) (\<lambda>now.
               case RateLimitWait err now of
                 Some (wait, msg) \<Rightarrow> deploykey_waitForRateLimit m c key msg wait
               | None \<Rightarrow> with_text m err (\<lambda>msg. deploykey_fail m c key ''EnsureFailed'' msg)))
            (\<lambda>res. bindA (readA (mgNow m)) (\<lambda>now.
               let gen = omGeneration (dxMeta key); st = dxStatus key in
               bindA (kUpdateStatus (kcDeployKeys c) (key\<lparr>dxStatus := st\<lparr>dtObserved := gen, dtKeyID := dkKeyID res,
                   dtSecretRef := secretRef,
                   dtConditions := SetCondition now ConditionReady True ReasonReady [] gen (dtConditions st)\<rparr>\<rparr>))
                 (\<lambda>u. ret done_result)))))"

definition deploykey_Reconcile ::
  "'w manager \<Rightarrow> (string \<Rightarrow> ('w, bytes \<times> bytes) act) \<Rightarrow> 'w git_backend Registry \<Rightarrow> Request \<Rightarrow> ('w, Result) act"
where
  "deploykey_Reconcile m keygen backends req =
     bindA (ClusterClient m (rqCluster req)) (\<lambda>c.
     for_object (kcDeployKeys c) (rqName req) (\<lambda>key.
     bindA (resolve_repository_ref m backends c (dsRepositoryRef (dxSpec key))) (\<lambda>resolved.
     finalized_reconcile dxMeta (\<lambda>md x. x\<lparr>dxMeta := md\<rparr>) FinalizerDeployKey (kUpdate (kcDeployKeys c))
       (deploykey_cleanup m c resolved) (deploykey_ensure m keygen c resolved) key)))"

subsection \<open>The host is touched only under a finalizer\<close>

lemma keeps_setNotReady:
  assumes "kube_keeps P c"
  shows "keeps P (repository_setNotReady m c repo reason msg)" "keeps P (collaborator_setNotReady m c l reason msg)"
    "keeps P (deploykey_setNotReady m c key reason msg)"
  unfolding repository_setNotReady_def collaborator_setNotReady_def deploykey_setNotReady_def Let_def
  by (intro keeps_bindA keeps_readA resource_keepsD kube_keepsD[OF assms])+

lemma keeps_resolve:
  assumes "kube_keeps P c" "manager_keeps P m"
  shows "keeps P (repository_resolve m backends c repo)" "keeps P (resolve_repository_ref m backends c ref)"
  unfolding repository_resolve_def resolve_repository_ref_def
  by (intro keeps keeps_shared[OF assms])+

lemma keeps_finalized:
  assumes "fin \<notin> set (omFinalizers (meta obj))" and "\<And>x. keeps P (update x)"
  shows "keeps P (finalized_reconcile meta set_meta fin update cleanup ensure obj)"
  using assms unfolding finalized_reconcile_def by (auto intro: keeps_bindA keeps_ret)

text \<open>
  (C12) Nothing is done on the host for an object that does not carry the finalizer: whatever the
  calls to the API server and the token exchange preserve is preserved by a whole
  \<open>Reconcile\<close> of a repository, collaborator or deploy key that is read without its finalizer, so
  no host object is ever created before the finalizer that guards its deletion is stored, and
  none is deleted after it was released.
\<close>

theorem host_calls_need_finalizer:
  assumes "manager_keeps P m"
    and "\<And>c w w' v v' x. mgGetCluster m (rqCluster req) w = (Inr c, w') \<Longrightarrow>
      (kGet (kcRepositories c) [] (rqName req) v = (Inr x, v') \<longrightarrow> FinalizerRepository \<notin> set (omFinalizers (rxMeta x)))"
    and "\<And>c w w' v v' x. mgGetCluster m (rqCluster req) w = (Inr c, w') \<Longrightarrow>
      (kGet (kcCollaborators c) [] (rqName req) v = (Inr x, v') \<longrightarrow> FinalizerCollaborator \<notin> set (omFinalizers (lxMeta x)))"
    and "\<And>c w w' v v' x. mgGetCluster m (rqCluster req) w = (Inr c, w') \<Longrightarrow>
      (kGet (kcDeployKeys c) [] (rqName req) v = (Inr x, v') \<longrightarrow> FinalizerDeployKey \<notin> set (omFinalizers (dxMeta x)))"
  shows "keeps P (repository_Reconcile m backends req) \<and> keeps P (collaborator_Reconcile m backends req) \<and>
    keeps P (deploykey_Reconcile m keygen backends req)"
proof (intro conjI)
  show "keeps P (repository_Reconcile m backends req)"
    unfolding repository_Reconcile_def
    by (intro keeps_ClusterClient[OF assms(1)] keeps_for_object keeps_bindA keeps_finalized)
      (auto intro: keeps_resolve assms(1) resource_keepsD kube_keepsD dest: assms(2))
  show "keeps P (collaborator_Reconcile m backends req)"
    unfolding collaborator_Reconcile_def
    by (intro keeps_ClusterClient[OF assms(1)] keeps_for_object keeps_bindA keeps_finalized)
      (auto intro: keeps_resolve assms(1) resource_keepsD kube_keepsD dest: assms(3))
  show "keeps P (deploykey_Reconcile m keygen backends req)"
    unfolding deploykey_Reconcile_def
    by (intro keeps_ClusterClient[OF assms(1)] keeps_for_object keeps_bindA keeps_finalized)
      (auto intro: keeps_resolve assms(1) resource_keepsD kube_keepsD dest: assms(4))
qed

subsection \<open>Release after cleanup\<close>

lemma repository_cleanup_None:
  assumes "repository_cleanup m c resolved repo w = (Inr None, w')"
  shows "case resolved of Inl notReady \<Rightarrow> w' = w
    | Inr (b, conn, cred) \<Rightarrow> gbDeleteRepository b conn cred repo w = (Inr (), w')"
proof (cases resolved)
  case (Inr bcc)
  obtain b conn cred where bcc: "bcc = (b, conn, cred)" by (cases bcc)
  obtain a w1 where d: "gbDeleteRepository b conn cred repo w = (a, w1)" by fastforce
  show ?thesis
  proof (cases a)
    case (Inl e)
    with assms d Inr bcc have "(case RateLimitWait e (mgNow m w1) of
                 Some (wait, msg) \<Rightarrow> bindA (repository_waitForRateLimit m c repo msg wait) (\<lambda>r. ret (Some r))
               | None \<Rightarrow> with_text m e (\<lambda>msg. repository_fail m c repo ''DeleteFailed'' msg)) w1 = (Inr None, w')"
      by (simp add: repository_cleanup_def bind_read)
    then show ?thesis
      by (auto simp: repository_waitForRateLimit_def repository_fail_def with_text_def bindA_Inr_iff split: option.splits)
  qed (use assms d Inr bcc in \<open>simp add: repository_cleanup_def\<close>)
qed (use assms in \<open>simp add: repository_cleanup_def\<close>)

text \<open>
  Everything keeps \<open>P\<close> except storing a repository without its finalizer: all calls of the client of
  a workspace, and the rest of what a manager reaches.
\<close>

definition all_but_release :: "('w \<Rightarrow> bool) \<Rightarrow> 'w kube \<Rightarrow> bool" where
  "all_but_release P c \<longleftrightarrow>
     kube_keeps P (c\<lparr>kcRepositories := (kcRepositories c)\<lparr>kUpdate := ret\<rparr>\<rparr>) \<and>
     (\<forall>x. FinalizerRepository \<in> set (omFinalizers (rxMeta x)) \<longrightarrow> keeps P (kUpdate (kcRepositories c) x))"

definition manager_all_but_release :: "('w \<Rightarrow> bool) \<Rightarrow> 'w manager \<Rightarrow> bool" where
  "manager_all_but_release P m \<longleftrightarrow>
     (\<forall>n. keeps P (mgGetCluster m n)) \<and> (\<forall>n c w w'. mgGetCluster m n w = (Inr c, w') \<longrightarrow> all_but_release P c) \<and>
     (\<forall>k x. keeps P (teSign (mgTokens m) k x)) \<and> (\<forall>r. keeps P (teDo (mgTokens m) r))"

lemma all_but_release_calls:
  assumes "all_but_release P c"
  shows "keeps P (kGet (kcRepositories c) ns n)" "keeps P (repository_setNotReady m c repo reason msg)"
proof -
  let ?c = "c\<lparr>kcRepositories := (kcRepositories c)\<lparr>kUpdate := ret\<rparr>\<rparr>"
  have c: "kube_keeps P ?c" using assms by (simp add: all_but_release_def)
  show "keeps P (kGet (kcRepositories c) ns n)" using resource_keepsD(1)[OF kube_keepsD(2)[OF c]] by simp
  show "keeps P (repository_setNotReady m c repo reason msg)"
    using keeps_setNotReady(1)[OF c, of m repo reason msg] by (simp add: repository_setNotReady_def)
qed

lemma all_but_release_resolve:
  fixes c :: "'w kube"
  assumes "all_but_release P c" and "manager_all_but_release P m"
  shows "keeps P (repository_resolve m backends c repo)"
proof -
  let ?c = "c\<lparr>kcRepositories := (kcRepositories c)\<lparr>kUpdate := ret\<rparr>\<rparr>" and ?m = "m\<lparr>mgGetCluster := \<lambda>_. failA ContextErr\<rparr>"
  have "kube_keeps P ?c" "manager_keeps P ?m"
    using assms by (simp_all add: all_but_release_def manager_all_but_release_def manager_keeps_def keeps_failA failA_def)
  then have kept: "keeps P (repository_resolve ?m backends ?c repo)" by (rule keeps_resolve)
  have fields: "mgNamespaceEnv ?m = mgNamespaceEnv m" "mgTokens ?m = mgTokens m" "mgNow ?m = mgNow m"
    "kcConnections ?c = kcConnections c" "kcSecrets ?c = kcSecrets c" by simp_all
  have same: "ResolveConnection ?c ref = ResolveConnection c ref" "ResolveCredential ?m ?c conn = ResolveCredential m c conn"
    "with_text ?m e k = with_text m e k" for ref conn e and k :: "string \<Rightarrow> ('w, string + ('w git_backend \<times> Connection \<times> Credential)) act"
    unfolding ResolveConnection_def ResolveCredential_def with_text_def fields by (rule refl)+
  show ?thesis using kept unfolding repository_resolve_def same .
qed

lemma keeps_repository_work:
  assumes "all_but_release P c"
    and "\<And>b conn cred. resolved = Inr (b, conn, cred) \<Longrightarrow>
      keeps P (gbDeleteRepository b conn cred repo) \<and> keeps P (gbEnsureRepository b conn cred repo)"
  shows "keeps P (repository_cleanup m c resolved repo)" "keeps P (repository_ensure m c resolved repo)"
proof -
  note status = all_but_release_calls(2)[OF assms(1)]
  have update: "keeps P (kUpdateStatus (kcRepositories c) x)" for x
    using assms(1) resource_keepsD(5)[OF kube_keepsD(2)[of P "c\<lparr>kcRepositories := (kcRepositories c)\<lparr>kUpdate := ret\<rparr>\<rparr>"]]
    by (simp add: all_but_release_def)
  have wait: "keeps P (repository_waitForRateLimit m c repo msg d)" "keeps P (repository_fail m c repo reason msg)" for msg d reason
    unfolding repository_waitForRateLimit_def repository_fail_def by (intro keeps status)+
  show "keeps P (repository_cleanup m c resolved repo)"
    unfolding repository_cleanup_def using assms(2)
    by (cases resolved) (auto split: option.split intro!: keeps_handle keeps_bindA keeps_readA keeps_ret keeps_with_text wait)
  show "keeps P (repository_ensure m c resolved repo)"
    unfolding repository_ensure_def Let_def using assms(2)
    by (cases resolved)
      (auto split: option.split intro!: keeps_handle keeps_bindA keeps_readA keeps_ret keeps_with_text keeps_if wait update)
qed

text \<open>
  (C13) The finalizer of a repository is released only after its deletion: if everything but storing
  a repository without the finalizer keeps \<open>P\<close> - the other calls to the API server, the token
  exchange, and creating and deleting on the host - and a \<open>Reconcile\<close>, with or without error, breaks
  \<open>P\<close>, then the object was marked for deletion and carried the finalizer; its backend, connection
  and credential resolved and the host confirmed the deletion of this repository, or they did not
  resolve, in which case the code releases without deleting; and what followed at once, and was the last
  call, was the one update that takes this finalizer off this object. A refused deletion, a rate
  limit among them, thus never releases it.
\<close>

theorem repository_released_after_delete:
  fixes w :: 'w
  assumes "manager_all_but_release P m"
    and "\<And>b conn cred repo. b \<in> snd ` set backends \<Longrightarrow>
      keeps P (gbDeleteRepository b conn cred repo) \<and> keeps P (gbEnsureRepository b conn cred repo)"
    and "repository_Reconcile m backends req w = (r, w')" and "P w" and "\<not> P w'"
  shows "\<exists>c w1 repo w2 resolved w3 w4 s. mgGetCluster m (rqCluster req) w = (Inr c, w1) \<and>
    kGet (kcRepositories c) [] (rqName req) w1 = (Inr repo, w2) \<and>
    omDeletion (rxMeta repo) \<noteq> None \<and> FinalizerRepository \<in> set (omFinalizers (rxMeta repo)) \<and>
    repository_resolve m backends c repo w2 = (Inr resolved, w3) \<and>
    (case resolved of Inl notReady \<Rightarrow> w4 = w3 | Inr (b, conn, cred) \<Rightarrow> gbDeleteRepository b conn cred repo w3 = (Inr (), w4)) \<and>
    kUpdate (kcRepositories c) (repo\<lparr>rxMeta := without_finalizer FinalizerRepository (rxMeta repo)\<rparr>) w4 = (s, w')"
proof -
  have "keeps P (ClusterClient m n)" for n
    using assms(1) unfolding ClusterClient_def manager_all_but_release_def by (intro keeps_handle keeps_failA keeps_ret) auto
  from broken_later[OF assms(3)[unfolded repository_Reconcile_def] this assms(4,5)] obtain c w1
    where c: "mgGetCluster m (rqCluster req) w = (Inr c, w1)" "P w1"
    and rest: "for_object (kcRepositories c) (rqName req) (\<lambda>repo.
       bindA (repository_resolve m backends c repo) (\<lambda>resolved.
       finalized_reconcile rxMeta (\<lambda>md x. x\<lparr>rxMeta := md\<rparr>) FinalizerRepository (kUpdate (kcRepositories c))
         (repository_cleanup m c resolved) (repository_ensure m c resolved) repo)) w1 = (r, w')"
    unfolding ClusterClient_Inr .
  have kube: "all_but_release P c" using assms(1) c(1) unfolding manager_all_but_release_def by blast
  obtain a w2 where get: "kGet (kcRepositories c) [] (rqName req) w1 = (a, w2)" by fastforce
  have w2: "P w2" using keepsD[OF all_but_release_calls(1)[OF kube] c(2)] get by (metis snd_conv)
  with rest get assms(5) obtain repo where a: "a = Inr repo" by (cases a) (auto simp: for_object_def failA_def ret_def split: if_splits)
  with rest get have "bindA (repository_resolve m backends c repo) (\<lambda>resolved.
       finalized_reconcile rxMeta (\<lambda>md x. x\<lparr>rxMeta := md\<rparr>) FinalizerRepository (kUpdate (kcRepositories c))
         (repository_cleanup m c resolved) (repository_ensure m c resolved) repo) w2 = (r, w')"
    by (simp add: for_object_def)
  from broken_later[OF this all_but_release_resolve[OF kube assms(1)] w2 assms(5)] obtain resolved w3
    where res: "repository_resolve m backends c repo w2 = (Inr resolved, w3)" "P w3"
    and run: "finalized_reconcile rxMeta (\<lambda>md x. x\<lparr>rxMeta := md\<rparr>) FinalizerRepository (kUpdate (kcRepositories c))
         (repository_cleanup m c resolved) (repository_ensure m c resolved) repo w3 = (r, w')" .
  have host: "keeps P (gbDeleteRepository b conn cred repo) \<and> keeps P (gbEnsureRepository b conn cred repo)"
    if "resolved = Inr (b, conn, cred)" for b conn cred
    using res(1) that
    by (intro assms(2)) (auto simp: repository_resolve_def handle_def with_text_def registry_Get_def
        split: prod.splits sum.splits option.splits dest!: map_of_SomeD intro: rev_image_eqI)
  obtain w4 s where "omDeletion (rxMeta repo) \<noteq> None" "FinalizerRepository \<in> set (omFinalizers (rxMeta repo))"
    and clean: "repository_cleanup m c resolved repo w3 = (Inr None, w4)"
    and "kUpdate (kcRepositories c) (repo\<lparr>rxMeta := without_finalizer FinalizerRepository (rxMeta repo)\<rparr>) w4 = (s, w')"
    by (rule repository.release_run[OF run res(2) assms(5) keeps_repository_work[OF kube host]])
      (use kube in \<open>auto simp: all_but_release_def\<close>)
  with repository_cleanup_None[OF clean] c get a res show ?thesis by blast
qed

subsection \<open>Key Secrets\<close>

text \<open>
  (C39) A key Secret without its public half is never repaired: \<open>ensurePublicKey\<close> means to recreate
  it, but it only creates, which the API server refuses while the Secret exists, and the second
  look finds it unchanged. Every reconcile of the key fails, whatever the key generator gives.
\<close>

theorem key_secret_never_recreated:
  assumes "TrimSpace (dsPublicKey (dxSpec key)) = []"
    and "\<And>w. kGet (kcSecrets c) (DefaultCredentialsNamespace (mgNamespaceEnv m)) (secretName key) w = (Inr secret, w)"
    and "map_of (scData secret) secretDataKeyPublic = None"
    and "\<And>s w. kCreate (kcSecrets c) s w = (Inl (KubeError AlreadyExists msg), w)"
  shows "\<exists>e w'. ensurePublicKey m keygen c key w = (Inl e, w')"
proof -
  obtain r w1 where gen: "keygen (omName (dxMeta key)) w = (r, w1)" by fastforce
  have "\<exists>e w'. create_key_secret m keygen c key w = (Inl e, w')"
    using gen assms(2,3) unfolding create_key_secret_def Let_def bindA_def handle_def assms(4)
    by (cases r) (auto simp: failA_def is_reason_def split: prod.splits)
  then show ?thesis
    using assms(1-3) by (simp add: ensurePublicKey_def Let_def handle_def)
qed

subsection \<open>Instances\<close>

definition repository_workspace :: "(Repository \<times> nat) kube" where
  "repository_workspace = example_workspace\<lparr>kcRepositories := one_object\<lparr>kUpdateStatus :=
     (\<lambda>x w. let y = (fst w)\<lparr>rxStatus := rxStatus x\<rparr> in (Inr y, (y, snd w)))\<rparr>\<rparr>"

definition deleted_repository :: Repository where
  "deleted_repository = zero_repository\<lparr>rxMeta := zero_meta\<lparr>omDeletion := Some 0, omFinalizers := [FinalizerRepository]\<rparr>\<rparr>"

definition example_request :: Request where
  "example_request = \<lparr>rqCluster = ''ws'', rqName = ''r''\<rparr>"

text \<open>A repository without the finalizer: the counter in the world is not touched.\<close>

definition unguarded_workspace :: "(nat \<times> nat) kube" where
  "unguarded_workspace = example_workspace\<lparr>kcRepositories := constant_object zero_repository,
     kcDeployKeys := constant_object zero_deploy_key\<rparr>"

theorem host_calls_need_finalizer_witness:
  "keeps (\<lambda>w. w = (0, 0)) (repository_Reconcile (manager_of unguarded_workspace) stub_registry example_request) \<and>
   keeps (\<lambda>w. w = (0, 0)) (collaborator_Reconcile (manager_of unguarded_workspace) stub_registry example_request) \<and>
   keeps (\<lambda>w. w = (0, 0)) (deploykey_Reconcile (manager_of unguarded_workspace) (\<lambda>_. ret ([], [])) stub_registry example_request)"
proof (rule host_calls_need_finalizer)
  show "manager_keeps (\<lambda>w. w = (0, 0)) (manager_of unguarded_workspace)"
    by (rule manager_of_keeps)
      (simp add: kube_keeps_def unguarded_workspace_def example_workspace_def down_kube_def constant_object_keeps down_api_keeps)
qed (auto simp: manager_of_def ret_def unguarded_workspace_def example_workspace_def constant_object_def zero_defs
    down_kube_def down_api_def failA_def)

text \<open>The object is released, and the host of the example did delete it before.\<close>

theorem repository_released_after_delete_witness:
  "\<exists>w4. gbDeleteRepository stub_New example_connection \<lparr>crToken = ''abc''\<rparr> deleted_repository
     (deleted_repository, 0 :: nat) = (Inr (), w4)"
proof -
  let ?m = "manager_of repository_workspace" and ?P = "\<lambda>w. FinalizerRepository \<in> set (omFinalizers (rxMeta (fst w)))"
  let ?d = "deleted_repository\<lparr>rxMeta := without_finalizer FinalizerRepository (rxMeta deleted_repository)\<rparr>"
  have resolve: "repository_resolve ?m stub_registry repository_workspace deleted_repository (deleted_repository, 0) =
     (Inr (Inr (stub_New, example_connection, \<lparr>crToken = ''abc''\<rparr>)), (deleted_repository, 0))"
    by (simp add: repository_resolve_def example_connection_resolves example_credential_resolves stub_registered
        repository_workspace_def example_workspace_def ret_def)
  have get: "kGet (kcRepositories repository_workspace) [] (rqName example_request) (deleted_repository, 0) =
     (Inr deleted_repository, (deleted_repository, 0))"
    by (simp add: repository_workspace_def one_object_def)
  have cluster: "mgGetCluster ?m (rqCluster example_request) (deleted_repository, 0) =
     (Inr repository_workspace, (deleted_repository, 0))" by (simp add: manager_of_def ret_def)
  have run: "repository_Reconcile ?m stub_registry example_request (deleted_repository, 0) = (Inr done_result, (?d, 0))"
    using cluster get resolve
    by (simp add: repository_Reconcile_def for_object_def finalized_reconcile_def repository_cleanup_def
        stub_New_def NewNamed_def stub_DeleteRepository_def deleted_repository_def repository_workspace_def one_object_def ret_def)
  have kept: "kube_keeps ?P (repository_workspace\<lparr>kcRepositories := (kcRepositories repository_workspace)\<lparr>kUpdate := ret\<rparr>\<rparr>)"
    by (simp add: kube_keeps_def repository_workspace_def example_workspace_def down_kube_def constant_object_keeps down_api_keeps)
      (simp add: resource_keeps_def one_object_def down_api_def keeps_failA keeps_ret, simp add: keeps_def Let_def)
  then have manager: "manager_all_but_release ?P ?m"
    by (auto simp: manager_all_but_release_def all_but_release_def manager_of_def down_tokens_def keeps_ret keeps_failA ret_def
        repository_workspace_def one_object_def keeps_def failA_def)
  have host: "keeps ?P (gbDeleteRepository b conn cred repo) \<and> keeps ?P (gbEnsureRepository b conn cred repo)"
    if "b \<in> snd ` set stub_registry" for b conn cred repo
    using that by (auto simp: stub_registry_def stub_New_def NewNamed_def stub_DeleteRepository_def
        stub_EnsureRepository_def keeps_ret split: if_splits)
  have "?P (deleted_repository, 0 :: nat)" "\<not> ?P (?d, 0 :: nat)" by (simp_all add: deleted_repository_def without_finalizer_def)
  from repository_released_after_delete[OF manager host run this] cluster get resolve show ?thesis
    by (auto simp: example_request_def)
qed

definition broken_secret_workspace :: "nat kube" where
  "broken_secret_workspace = down_kube\<lparr>kcSecrets := (constant_object (example_secret :: Secret))\<lparr>
     kCreate := (\<lambda>s. failA (KubeError AlreadyExists ''exists''))\<rparr>\<rparr>"

theorem key_secret_never_recreated_witness:
  "\<exists>e w'. ensurePublicKey (manager_of broken_secret_workspace) (\<lambda>_. ret ([], ''ssh-ed25519 AAAA'')) broken_secret_workspace
     zero_deploy_key 0 = (Inl e, w')"
  by (rule key_secret_never_recreated[where secret = example_secret and msg = "''exists''"])
    (simp_all add: zero_defs broken_secret_workspace_def constant_object_def ret_def failA_def example_secret_def
      secretDataKeyPublic_def)

end
