(* ===== verification/Commit_Bundle.thy ===== *)
theory Commit_Bundle
  imports Go_Path Go_Encoding "HOL-Library.Multiset"
begin

text \<open>
  \<open>commitbundle/store.go\<close>, first half: the data model of commit bundles and the pure code
  that validates, canonicalises and digests the files of one bundle (\<open>NormalizeEncoding\<close>,
  \<open>DecodeBase64\<close>, \<open>cleanPath\<close>, \<open>validateBundleName\<close>, \<open>decodedContent\<close>, the digester and
  \<open>buildBundle\<close>). The filesystem store on top of it is in \<open>Bundle_Store\<close>.

  The running total is a natural number: every file is at most 25 MiB and the total is
  checked after each file, so the source's \<open>int64\<close> never comes near its range.
\<close>

subsection \<open>Limits and data\<close>

definition MaxFiles :: nat where "MaxFiles = 500"
definition MaxFileBytes :: nat where "MaxFileBytes = 2 * 1024 * 1024"
definition MaxBinaryFileBytes :: nat where "MaxBinaryFileBytes = 25 * 1024 * 1024"
definition MaxTotalBytes :: nat where "MaxTotalBytes = 48 * 1024 * 1024"
definition MaxPathLength :: nat where "MaxPathLength = 1024"
definition EncodingUTF8 :: string where "EncodingUTF8 = ''utf-8''"
definition EncodingBase64 :: string where "EncodingBase64 = ''base64''"
definition DefaultSweepMaxAge :: duration where "DefaultSweepMaxAge = 24 * Hour"
definition DefaultSweepInterval :: duration where "DefaultSweepInterval = Hour"

record File =
  fPath :: string
  fContent :: string
  fEncoding :: string
  fDelete :: bool

record FileMeta =
  mPath :: string
  mSize :: int
  mDigest :: string
  mDelete :: bool

record BundleRef =
  rName :: string
  rDigest :: string
  rScope :: string
  rSize :: int
  rFileCount :: nat
  rFiles :: "FileMeta list"

record BundleFile =
  bfPath :: string
  bfContent :: string
  bfEncoding :: string
  bfSize :: int
  bfDigest :: string
  bfDelete :: bool

record Bundle =
  bName :: string
  bDigest :: string
  bScope :: string
  bSize :: int
  bFiles :: "BundleFile list"

text \<open>One constructor per error the store returns; an operating-system error carries the step.\<close>

datatype bundle_error =
    StoreNil
  | ScopeRequired
  | NoFiles
  | TooManyFiles nat
  | PathRequired
  | PathTooLong string
  | PathNul string
  | PathAbsolute string
  | PathEscapes string
  | ConflictingPath string
  | UnsupportedEncoding string
  | FileEncoding string bundle_error
  | DeletedWithContent string
  | FileTooLarge string
  | Base64LineBreak
  | Base64Corrupt
  | InvalidBase64 string bundle_error
  | BundleTooLarge nat
  | NameRequired
  | InvalidName string
  | BundleNotFound string
  | DecodeFailed string
  | StoredNameMismatch string string
  | ScopeMismatch string
  | DigestMismatch string
  | ContextDone
  | OSError string

fun IsNotFound :: "bundle_error \<Rightarrow> bool" where
  "IsNotFound (BundleNotFound n) = True"
| "IsNotFound _ = False"

subsection \<open>Encodings and paths\<close>

definition NormalizeEncoding :: "string \<Rightarrow> bundle_error + string" where
  "NormalizeEncoding encoding =
     (if encoding = [] \<or> encoding = EncodingUTF8 then Inr []
      else if encoding = EncodingBase64 then Inr EncodingBase64
      else Inl (UnsupportedEncoding encoding))"

definition DecodeBase64 :: "string \<Rightarrow> bundle_error + bytes" where
  "DecodeBase64 content =
     (if ContainsAny content [CHR 0x0D, CHR 0x0A] then Inl Base64LineBreak
      else case b64_decode content of None \<Rightarrow> Inl Base64Corrupt | Some bs \<Rightarrow> Inr bs)"

definition cleanPath :: "string \<Rightarrow> bundle_error + string" where
  "cleanPath raw =
     (let path = TrimSpace (ReplaceAll1 raw (CHR 0x5C) slash) in
      if path = [] then Inl PathRequired
      else if length path > MaxPathLength then Inl (PathTooLong path)
      else if ContainsChar path (CHR 0x00) then Inl (PathNul path)
      else if HasPrefix path ''/'' then Inl (PathAbsolute path)
      else let cleaned = path_Clean path in
        if cleaned = ''.'' \<or> cleaned = ''..'' \<or> HasPrefix cleaned ''../'' then Inl (PathEscapes path)
        else Inr cleaned)"

definition validateBundleName :: "string \<Rightarrow> bundle_error + unit" where
  "validateBundleName name0 =
     (let name = TrimSpace name0 in
      if name = [] then Inl NameRequired
      else if Contains name ''/'' \<or> Contains name [CHR 0x5C] \<or> Contains name ''..'' then Inl (InvalidName name)
      else Inr ())"

definition decodedContent :: "BundleFile \<Rightarrow> bundle_error + bytes" where
  "decodedContent f =
     (if bfEncoding f \<noteq> EncodingBase64 then
        (if length (bfContent f) > MaxFileBytes then Inl (FileTooLarge (bfPath f)) else Inr (bfContent f))
      else if length (bfContent f) > b64_encoded_len MaxBinaryFileBytes then Inl (FileTooLarge (bfPath f))
      else case DecodeBase64 (bfContent f) of
             Inl e \<Rightarrow> Inl (InvalidBase64 (bfPath f) e)
           | Inr data \<Rightarrow> if length data > MaxBinaryFileBytes then Inl (FileTooLarge (bfPath f)) else Inr data)"

subsection \<open>The digester\<close>

text \<open>The hash state is the byte sequence written to it so far.\<close>

record bundleDigester =
  dgWritten :: bytes
  dgHasDelete :: bool

definition newBundleDigester :: "bool \<Rightarrow> bundleDigester" where
  "newBundleDigester hasDelete = \<lparr>dgWritten = [], dgHasDelete = hasDelete\<rparr>"

text \<open>The bytes one file adds.\<close>

definition digest_frame :: "bool \<Rightarrow> string \<Rightarrow> bool \<Rightarrow> bytes \<Rightarrow> bytes" where
  "digest_frame hasDelete path deleted data =
     path @ [CHR 0x00] @
     (if hasDelete then (if deleted then [CHR 0x00] else [CHR 0x01]) @ be_uint64 (length data) else []) @
     data @ [CHR 0x00]"

definition digester_add :: "bundleDigester \<Rightarrow> string \<Rightarrow> bool \<Rightarrow> bytes \<Rightarrow> bundleDigester" where
  "digester_add d path deleted data =
     d\<lparr>dgWritten := dgWritten d @ digest_frame (dgHasDelete d) path deleted data\<rparr>"

definition digester_sum :: "bundleDigester \<Rightarrow> string" where
  "digester_sum d = ''sha256:'' @ hex_encode (sha256 (dgWritten d))"

definition digestBytes :: "bytes \<Rightarrow> string" where
  "digestBytes data = ''sha256:'' @ hex_encode (sha256 data)"

subsection \<open>Building a bundle\<close>

text \<open>The first loop: clean and check every file, remembering the paths seen.\<close>

record scan =
  scSeen :: "string list"
  scFiles :: "BundleFile list"
  scHasDelete :: bool

definition scan_file :: "File \<Rightarrow> scan \<Rightarrow> bundle_error + scan" where
  "scan_file f st =
     and_then (cleanPath (fPath f)) (\<lambda>path.
       if path \<in> set (scSeen st) then Inl (ConflictingPath path)
       else case NormalizeEncoding (fEncoding f) of
              Inl e \<Rightarrow> Inl (FileEncoding path e)
            | Inr encoding \<Rightarrow>
                if fDelete f \<and> fContent f \<noteq> [] then Inl (DeletedWithContent path)
                else Inr \<lparr>scSeen = path # scSeen st,
                          scFiles = scFiles st @
                            [\<lparr>bfPath = path, bfContent = fContent f,
                              bfEncoding = (if fDelete f then [] else encoding),
                              bfSize = 0, bfDigest = [], bfDelete = fDelete f\<rparr>],
                          scHasDelete = (scHasDelete st \<or> fDelete f)\<rparr>)"

text \<open>The second loop: decode, size and digest the files in path order.\<close>

record sizing =
  szTotal :: nat
  szFiles :: "BundleFile list"
  szDigester :: bundleDigester

definition size_file :: "BundleFile \<Rightarrow> sizing \<Rightarrow> bundle_error + sizing" where
  "size_file f st =
     and_then (decodedContent f) (\<lambda>data.
       let total = szTotal st + length data in
       if total > MaxTotalBytes then Inl (BundleTooLarge total)
       else Inr \<lparr>szTotal = total,
                 szFiles = szFiles st @
                   [f\<lparr>bfSize := int (length data),
                      bfDigest := (if bfDelete f then bfDigest f else digestBytes data)\<rparr>],
                 szDigester = digester_add (szDigester st) (bfPath f) (bfDelete f) data\<rparr>)"

definition file_meta :: "BundleFile \<Rightarrow> FileMeta" where
  "file_meta f = \<lparr>mPath = bfPath f, mSize = bfSize f, mDigest = bfDigest f, mDelete = bfDelete f\<rparr>"

definition bundle_name :: "string \<Rightarrow> string" where
  "bundle_name digest = ''bundle-'' @ take 24 (TrimPrefix digest ''sha256:'')"

definition buildBundle :: "File list \<Rightarrow> bundle_error + (Bundle \<times> BundleRef)" where
  "buildBundle files =
     (if files = [] then Inl NoFiles
      else if length files > MaxFiles then Inl (TooManyFiles (length files))
      else and_then (foldE scan_file files \<lparr>scSeen = [], scFiles = [], scHasDelete = False\<rparr>) (\<lambda>sc.
        and_then (foldE size_file (sort_key bfPath (scFiles sc))
                    \<lparr>szTotal = 0, szFiles = [], szDigester = newBundleDigester (scHasDelete sc)\<rparr>) (\<lambda>sz.
          let digest = digester_sum (szDigester sz); name = bundle_name digest in
          Inr (\<lparr>bName = name, bDigest = digest, bScope = [], bSize = int (szTotal sz), bFiles = szFiles sz\<rparr>,
               \<lparr>rName = name, rDigest = digest, rScope = [], rSize = int (szTotal sz),
                rFileCount = length (szFiles sz), rFiles = map file_meta (szFiles sz)\<rparr>))))"

lemmas bundle_limits = MaxFiles_def MaxFileBytes_def MaxBinaryFileBytes_def MaxTotalBytes_def MaxPathLength_def
lemmas encoding_names = EncodingUTF8_def EncodingBase64_def

subsection \<open>Cleaned paths\<close>

lemma clean_elems_chars:
  "x \<in> set (clean_elems rooted xs out) \<Longrightarrow> x \<in> set xs \<union> set out \<or> x = ''..''"
  by (induction rooted xs out rule: clean_elems.induct) (auto split: list.splits if_splits)

lemma set_path_Clean: "set (path_Clean p) \<subseteq> set p \<union> {slash, CHR ''.''}"
proof -
  have "set (Join ''/'' (clean_elems r (Split1 slash p) [])) \<subseteq> set p \<union> {slash, CHR ''.''}" for r
  proof -
    have "x \<in> set (clean_elems r (Split1 slash p) []) \<Longrightarrow> set x \<subseteq> set p \<union> {CHR ''.''}" for x
      using clean_elems_chars[of x r "Split1 slash p" "[]"] set_Split1[of x slash p] by auto
    then show ?thesis using set_Join[of "''/''" "clean_elems r (Split1 slash p) []"] by fastforce
  qed
  then show ?thesis by (auto simp: path_Clean_def Let_def)
qed

text \<open>The paths a cleaner may return: relative, inside the repository, bounded, without NUL.\<close>

definition repo_path :: "string \<Rightarrow> bool" where
  "repo_path p \<longleftrightarrow> inside_root p \<and> length p \<le> MaxPathLength \<and> CHR 0x00 \<notin> set p \<and> CHR 0x5C \<notin> set p"

lemma HasPrefix_slash: "HasPrefix p ''/'' \<longleftrightarrow> p \<noteq> [] \<and> hd p = slash"
  by (cases p) (auto simp: HasPrefix_def)

lemma cleanPath_repo_path: "cleanPath raw = Inr p \<Longrightarrow> repo_path p"
proof -
  assume ok: "cleanPath raw = Inr p"
  define path where "path = TrimSpace (ReplaceAll1 raw (CHR 0x5C) slash)"
  from ok have c: "path \<noteq> []" "length path \<le> MaxPathLength" "CHR 0x00 \<notin> set path" "hd path \<noteq> slash"
    "path_Clean path \<noteq> ''.''" "path_Clean path \<noteq> ''..''" "\<not> HasPrefix (path_Clean path) ''../''"
    and p: "p = path_Clean path"
    by (auto simp: cleanPath_def Let_def path_def[symmetric] ContainsChar_iff HasPrefix_slash split: if_splits)
  have "inside_root p" unfolding p by (rule path_Clean_inside[OF c(1,4,5,6,7)])
  moreover have "length p \<le> MaxPathLength" unfolding p using path_Clean_length[OF c(1,4)] c(2) by linarith
  moreover have "CHR 0x5C \<notin> set path"
    unfolding path_def using set_TrimSpace set_ReplaceAll1[of "CHR 0x5C" slash raw] by fastforce
  then have "CHR 0x5C \<notin> set p" "CHR 0x00 \<notin> set p"
    unfolding p using set_path_Clean[of path] c(3) by auto
  ultimately show ?thesis by (simp add: repo_path_def)
qed

lemma cleanPath_fixed:
  assumes "repo_path p" and "TrimSpace p = p"
  shows "cleanPath p = Inr p"
  using assms inside_root_fixed[of p]
  by (simp add: cleanPath_def repo_path_def ReplaceAll1_absent ContainsChar_iff HasPrefix_slash)

subsection \<open>Base64 content\<close>

lemma b64_encode_chars: "set (b64_encode bs) \<subseteq> set b64_alphabet \<union> {CHR ''=''}"
proof -
  have "b64_char n \<in> set b64_alphabet" for n
    using b64_alphabet_props(2) unfolding b64_char_def by (metis mod_less_divisor nth_mem zero_less_numeral)
  then show ?thesis by (induction bs rule: b64_encode.induct) auto
qed

lemma DecodeBase64_eq: "DecodeBase64 s = Inr bs \<longleftrightarrow> s = b64_encode bs"
proof
  assume "DecodeBase64 s = Inr bs"
  then show "s = b64_encode bs"
    by (auto simp: DecodeBase64_def b64_encode_decode split: if_splits option.splits)
next
  assume s: "s = b64_encode bs"
  have "CHR 0x0D \<notin> set b64_alphabet" "CHR 0x0A \<notin> set b64_alphabet" by (simp_all add: b64_alphabet_def)
  then have "\<not> ContainsAny s [CHR 0x0D, CHR 0x0A]"
    using b64_encode_chars[of bs] unfolding s ContainsAny_iff by auto
  then show "DecodeBase64 s = Inr bs" by (simp add: DecodeBase64_def s b64_decode_encode)
qed

subsection \<open>The two loops of \<open>buildBundle\<close>\<close>

text \<open>What the first loop makes of one file, on its own.\<close>

definition scan_one :: "File \<Rightarrow> bundle_error + BundleFile" where
  "scan_one f =
     and_then (cleanPath (fPath f)) (\<lambda>path.
       case NormalizeEncoding (fEncoding f) of
         Inl e \<Rightarrow> Inl (FileEncoding path e)
       | Inr encoding \<Rightarrow>
           if fDelete f \<and> fContent f \<noteq> [] then Inl (DeletedWithContent path)
           else Inr \<lparr>bfPath = path, bfContent = fContent f, bfEncoding = (if fDelete f then [] else encoding),
                     bfSize = 0, bfDigest = [], bfDelete = fDelete f\<rparr>)"

definition scanned :: "File \<Rightarrow> BundleFile" where
  "scanned f = projr (scan_one f)"

lemma scan_file_eq:
  "scan_file f st = Inr st' \<longleftrightarrow>
     \<not> isl (scan_one f) \<and> bfPath (scanned f) \<notin> set (scSeen st) \<and>
     st' = \<lparr>scSeen = bfPath (scanned f) # scSeen st, scFiles = scFiles st @ [scanned f],
            scHasDelete = (scHasDelete st \<or> fDelete f)\<rparr>"
proof (cases "cleanPath (fPath f)")
  case (Inr path)
  then show ?thesis
    by (cases "NormalizeEncoding (fEncoding f)") (auto simp: scan_file_def scan_one_def scanned_def)
qed (simp add: scan_file_def scan_one_def)

lemma foldE_scan:
  "foldE scan_file fs st = Inr st' \<longleftrightarrow>
     (\<forall>f \<in> set fs. \<not> isl (scan_one f)) \<and> distinct (map (bfPath \<circ> scanned) fs) \<and>
     set (map (bfPath \<circ> scanned) fs) \<inter> set (scSeen st) = {} \<and>
     st' = \<lparr>scSeen = rev (map (bfPath \<circ> scanned) fs) @ scSeen st, scFiles = scFiles st @ map scanned fs,
            scHasDelete = (scHasDelete st \<or> (\<exists>f \<in> set fs. fDelete f))\<rparr>"
proof (induction fs arbitrary: st)
  case Nil
  then show ?case by auto
next
  case (Cons f fs)
  show ?case by (auto simp: scan_file_eq Cons.IH)
qed

text \<open>What the second loop makes of one file, on its own.\<close>

definition file_data :: "BundleFile \<Rightarrow> bytes" where
  "file_data f = projr (decodedContent f)"

definition finish_file :: "BundleFile \<Rightarrow> BundleFile" where
  "finish_file f =
     f\<lparr>bfSize := int (length (file_data f)),
       bfDigest := (if bfDelete f then bfDigest f else digestBytes (file_data f))\<rparr>"

definition file_frame :: "bool \<Rightarrow> BundleFile \<Rightarrow> bytes" where
  "file_frame hasDelete f = digest_frame hasDelete (bfPath f) (bfDelete f) (file_data f)"

definition data_total :: "BundleFile list \<Rightarrow> nat" where
  "data_total fs = (\<Sum>f \<leftarrow> fs. length (file_data f))"

lemma size_file_eq:
  "size_file f st = Inr st' \<longleftrightarrow>
     \<not> isl (decodedContent f) \<and> szTotal st + length (file_data f) \<le> MaxTotalBytes \<and>
     st' = \<lparr>szTotal = szTotal st + length (file_data f), szFiles = szFiles st @ [finish_file f],
            szDigester = digester_add (szDigester st) (bfPath f) (bfDelete f) (file_data f)\<rparr>"
  by (cases "decodedContent f")
     (auto simp: size_file_def file_data_def finish_file_def Let_def split: if_splits)

lemma foldE_size:
  "szTotal st \<le> MaxTotalBytes \<Longrightarrow>
   foldE size_file fs st = Inr st' \<longleftrightarrow>
     (\<forall>f \<in> set fs. \<not> isl (decodedContent f)) \<and> szTotal st + data_total fs \<le> MaxTotalBytes \<and>
     st' = \<lparr>szTotal = szTotal st + data_total fs, szFiles = szFiles st @ map finish_file fs,
            szDigester = (szDigester st)\<lparr>dgWritten := dgWritten (szDigester st) @
                            concat (map (file_frame (dgHasDelete (szDigester st))) fs)\<rparr>\<rparr>"
proof (induction fs arbitrary: st)
  case Nil
  then show ?case by (auto simp: data_total_def)
next
  case (Cons f fs)
  let ?st = "\<lparr>szTotal = szTotal st + length (file_data f), szFiles = szFiles st @ [finish_file f],
            szDigester = digester_add (szDigester st) (bfPath f) (bfDelete f) (file_data f)\<rparr>"
  have step: "foldE size_file (f # fs) st = Inr st' \<longleftrightarrow>
     \<not> isl (decodedContent f) \<and> szTotal st + length (file_data f) \<le> MaxTotalBytes \<and> foldE size_file fs ?st = Inr st'"
    by (auto simp: size_file_eq)
  show ?case
  proof (cases "szTotal st + length (file_data f) \<le> MaxTotalBytes")
    case True
    then have "szTotal ?st \<le> MaxTotalBytes" by simp
    from Cons.IH[OF this] True show ?thesis
      unfolding step by (simp add: data_total_def digester_add_def file_frame_def add.assoc conj_ac)
  next
    case False
    then show ?thesis unfolding step by (simp add: data_total_def)
  qed
qed

text \<open>
  The specification of \<open>buildBundle\<close>: which requests are accepted, and the bundle as a
  function of the \<^emph>\<open>set\<close> of files, in path order.
\<close>

definition accepted_files :: "File list \<Rightarrow> bool" where
  "accepted_files files \<longleftrightarrow>
     files \<noteq> [] \<and> length files \<le> MaxFiles \<and>
     (\<forall>f \<in> set files. \<not> isl (scan_one f) \<and> \<not> isl (decodedContent (scanned f))) \<and>
     distinct (map (bfPath \<circ> scanned) files) \<and>
     data_total (map scanned files) \<le> MaxTotalBytes"

definition sorted_files :: "File list \<Rightarrow> BundleFile list" where
  "sorted_files files = sort_key bfPath (map scanned files)"

definition digest_input :: "File list \<Rightarrow> bytes" where
  "digest_input files = concat (map (file_frame (\<exists>f \<in> set files. fDelete f)) (sorted_files files))"

definition bundle_spec :: "File list \<Rightarrow> Bundle" where
  "bundle_spec files =
     (let digest = digestBytes (digest_input files) in
      \<lparr>bName = bundle_name digest, bDigest = digest, bScope = [], bSize = int (data_total (map scanned files)),
       bFiles = map finish_file (sorted_files files)\<rparr>)"

definition bundle_ref :: "Bundle \<Rightarrow> BundleRef" where
  "bundle_ref b = \<lparr>rName = bName b, rDigest = bDigest b, rScope = bScope b, rSize = bSize b,
     rFileCount = length (bFiles b), rFiles = map file_meta (bFiles b)\<rparr>"

lemma bundle_spec_sel [simp]:
  "bFiles (bundle_spec files) = map finish_file (sorted_files files)"
  "bSize (bundle_spec files) = int (data_total (map scanned files))"
  "bDigest (bundle_spec files) = digestBytes (digest_input files)"
  "bName (bundle_spec files) = bundle_name (digestBytes (digest_input files))"
  "bScope (bundle_spec files) = []"
  by (simp_all add: bundle_spec_def Let_def)

lemma data_total_mset: "mset fs = mset fs' \<Longrightarrow> data_total fs = data_total fs'"
  unfolding data_total_def by (metis mset_map sum_mset_sum_list)

lemma digester_sum_eq: "digester_sum d = digestBytes (dgWritten d)"
  by (simp add: digester_sum_def digestBytes_def)

lemma buildBundle_eq:
  "buildBundle files = Inr (b, r) \<longleftrightarrow>
     accepted_files files \<and> b = bundle_spec files \<and> r = bundle_ref (bundle_spec files)"
proof -
  let ?s0 = "\<lparr>scSeen = [], scFiles = [], scHasDelete = False\<rparr>"
  have tot: "data_total (sorted_files files) = data_total (map scanned files)"
    by (rule data_total_mset) (simp add: sorted_files_def)
  have set: "set (sorted_files files) = scanned ` set files" and len: "length (sorted_files files) = length files"
    by (simp_all add: sorted_files_def)
  show ?thesis
    by (auto simp: buildBundle_def foldE_scan foldE_size accepted_files_def tot set len bundle_spec_def bundle_ref_def
        sorted_files_def[symmetric] newBundleDigester_def digester_sum_eq digest_input_def
        Let_def o_def not_less)
qed

text \<open>
  (C5) The two loops, the running total and the incremental digest of \<open>buildBundle\<close> implement the
  abstract specification: a request is accepted exactly when \<open>accepted_files\<close> says so, and the
  bundle and its reference are then those of \<open>bundle_spec\<close>, which knows only the set of files.
\<close>

theorem buildBundle_refines_spec:
  "case buildBundle files of
     Inr (b, r) \<Rightarrow> accepted_files files \<and> b = bundle_spec files \<and> r = bundle_ref (bundle_spec files)
   | Inl e \<Rightarrow> \<not> accepted_files files"
proof (cases "buildBundle files")
  case (Inl e)
  with buildBundle_eq[of files "bundle_spec files" "bundle_ref (bundle_spec files)"] show ?thesis by simp
next
  case (Inr br)
  with buildBundle_eq[of files] show ?thesis by (cases br) auto
qed

subsection \<open>What every accepted bundle satisfies\<close>

lemma scan_one_Inr:
  "scan_one f = Inr g \<longleftrightarrow>
     cleanPath (fPath f) = Inr (bfPath g) \<and> fEncoding f \<in> {[], EncodingUTF8, EncodingBase64} \<and>
     (fDelete f \<longrightarrow> fContent f = []) \<and>
     bfContent g = fContent f \<and>
     bfEncoding g = (if \<not> fDelete f \<and> fEncoding f = EncodingBase64 then EncodingBase64 else []) \<and>
     bfSize g = 0 \<and> bfDigest g = [] \<and> bfDelete g = fDelete f"
  by (cases g; cases "cleanPath (fPath f)") (auto simp: scan_one_def NormalizeEncoding_def encoding_names)

lemma scan_one_scanned: "\<not> isl (scan_one f) \<Longrightarrow> scan_one f = Inr (scanned f)"
  by (simp add: scanned_def)

lemma scanned_props:
  assumes "\<not> isl (scan_one f)"
  shows "repo_path (bfPath (scanned f))" and "bfEncoding (scanned f) \<in> {[], EncodingBase64}"
    and "bfDelete (scanned f) = fDelete f" and "bfContent (scanned f) = fContent f"
    and "fDelete f \<Longrightarrow> bfContent (scanned f) = [] \<and> bfEncoding (scanned f) = []"
    and "bfDigest (scanned f) = []" and "bfSize (scanned f) = 0"
  using scan_one_scanned[OF assms, unfolded scan_one_Inr] cleanPath_repo_path by auto

lemma b64_encode_inj [simp]: "b64_encode x = b64_encode y \<longleftrightarrow> x = y"
  by (metis b64_decode_encode option.inject)

lemma decodedContent_Inr:
  "decodedContent f = Inr data \<longleftrightarrow>
     (if bfEncoding f = EncodingBase64
      then bfContent f = b64_encode data \<and> length data \<le> MaxBinaryFileBytes \<and>
           length (bfContent f) \<le> b64_encoded_len MaxBinaryFileBytes
      else data = bfContent f \<and> length data \<le> MaxFileBytes)"
proof (cases "DecodeBase64 (bfContent f)")
  case (Inl e)
  then have "bfContent f \<noteq> b64_encode data" using DecodeBase64_eq[of "bfContent f" data] by auto
  with Inl show ?thesis by (auto simp: decodedContent_def)
next
  case (Inr bs)
  then have "bfContent f = b64_encode bs" by (simp add: DecodeBase64_eq)
  with Inr show ?thesis by (auto simp: decodedContent_def)
qed

lemma file_data_bound:
  assumes "\<not> isl (decodedContent f)"
  shows "length (file_data f) \<le> (if bfEncoding f = EncodingBase64 then MaxBinaryFileBytes else MaxFileBytes)"
    and "length (file_data f) < 2 ^ 64"
proof -
  have "decodedContent f = Inr (file_data f)" using assms by (simp add: file_data_def)
  then show b: "length (file_data f) \<le> (if bfEncoding f = EncodingBase64 then MaxBinaryFileBytes else MaxFileBytes)"
    by (auto simp: decodedContent_Inr split: if_splits)
  then show "length (file_data f) < 2 ^ 64" by (simp add: bundle_limits split: if_splits)
qed

lemma deleted_file_data: "fDelete f \<Longrightarrow> \<not> isl (scan_one f) \<Longrightarrow> file_data (scanned f) = []"
  using scanned_props(5)[of f] by (simp add: file_data_def decodedContent_def encoding_names)

lemma sorted_files_paths:
  assumes "distinct (map (bfPath \<circ> scanned) files)"
  shows "sorted_wrt (<) (map bfPath (sorted_files files))"
proof (rule sorted_wrt_less_distinct)
  show "distinct (map bfPath (sorted_files files))"
    using assms by (metis map_map mset_eq_imp_distinct_iff mset_map mset_sort sorted_files_def)
qed (simp add: sorted_files_def)

lemma sorted_files_perm:
  assumes "mset files = mset files'" and "distinct (map (bfPath \<circ> scanned) files)"
  shows "sorted_files files = sorted_files files'"
  unfolding sorted_files_def
proof (rule sort_key_inj_key_eq)
  show "mset (map scanned files) = mset (sort_key bfPath (map scanned files'))" using assms(1) by simp
  show "inj_on bfPath (set (map scanned files))" using assms(2) by (auto simp: distinct_map inj_on_def)
qed simp

subsection \<open>The digest's framing\<close>

lemma split_at_nul:
  assumes "a @ c # r = b @ c # r'" and "c \<notin> set a" and "c \<notin> set b"
  shows "a = b \<and> r = r'"
  using assms
proof (induction a arbitrary: b)
  case Nil
  then show ?case by (cases b) auto
next
  case (Cons x a)
  then show ?case by (cases b) auto
qed

definition file_key :: "BundleFile \<Rightarrow> string \<times> bool \<times> bytes" where
  "file_key f = (bfPath f, bfDelete f, file_data f)"

definition nul_free :: "bytes \<Rightarrow> bool" where
  "nul_free bs \<longleftrightarrow> CHR 0x00 \<notin> set bs"

lemma flagged_frame_inj:
  assumes "file_frame True f @ r = file_frame True g @ r'"
    and "nul_free (bfPath f)" "nul_free (bfPath g)" "length (file_data f) < 2 ^ 64" "length (file_data g) < 2 ^ 64"
  shows "file_key f = file_key g \<and> r = r'"
proof -
  let ?flag = "\<lambda>h. if bfDelete h then CHR 0x00 else CHR 0x01"
  let ?tail = "\<lambda>h r. ?flag h # be_uint64 (length (file_data h)) @ file_data h @ CHR 0x00 # r"
  have "bfPath f @ CHR 0x00 # ?tail f r = bfPath g @ CHR 0x00 # ?tail g r'"
    using assms(1) by (cases "bfDelete f"; cases "bfDelete g") (simp_all add: file_frame_def digest_frame_def)
  then have p: "bfPath f = bfPath g" and t: "?tail f r = ?tail g r'"
    using split_at_nul[of "bfPath f" "CHR 0x00" "?tail f r" "bfPath g" "?tail g r'"] assms(2,3)
    unfolding nul_free_def by simp_all
  from t have d: "bfDelete f = bfDelete g" by (auto split: if_splits)
  from t have n: "be_uint64 (length (file_data f)) = be_uint64 (length (file_data g))"
    and u: "file_data f @ CHR 0x00 # r = file_data g @ CHR 0x00 # r'" by (auto simp: append_eq_append_conv)
  from n have "length (file_data f) = length (file_data g)" using assms(4,5) by (rule be_uint64_inj)
  with u p d show ?thesis by (simp add: file_key_def)
qed

lemma plain_frame_inj:
  assumes "file_frame False f @ r = file_frame False g @ r'"
    and "nul_free (bfPath f)" "nul_free (bfPath g)" "nul_free (file_data f)" "nul_free (file_data g)"
    and "\<not> bfDelete f" "\<not> bfDelete g"
  shows "file_key f = file_key g \<and> r = r'"
proof -
  have "bfPath f @ CHR 0x00 # (file_data f @ CHR 0x00 # r) = bfPath g @ CHR 0x00 # (file_data g @ CHR 0x00 # r')"
    using assms(1) by (simp add: file_frame_def digest_frame_def)
  from split_at_nul[OF this] have "bfPath f = bfPath g" and u: "file_data f @ CHR 0x00 # r = file_data g @ CHR 0x00 # r'"
    using assms(2,3) unfolding nul_free_def by simp_all
  moreover from split_at_nul[OF u] have "file_data f = file_data g \<and> r = r'"
    using assms(4,5) unfolding nul_free_def by simp
  ultimately show ?thesis using assms(6,7) by (simp add: file_key_def)
qed

lemma file_frame_ne: "file_frame d f \<noteq> []"
  by (simp add: file_frame_def digest_frame_def)

text \<open>Frames that are uniquely readable one at a time make the whole digest input readable.\<close>

lemma frames_inj:
  assumes "concat (map (file_frame d) fs) = concat (map (file_frame d) gs)"
    and "\<And>f g r r'. f \<in> set fs \<Longrightarrow> g \<in> set gs \<Longrightarrow> file_frame d f @ r = file_frame d g @ r' \<Longrightarrow>
           file_key f = file_key g \<and> r = r'"
  shows "map file_key fs = map file_key gs"
  using assms
proof (induction fs arbitrary: gs)
  case Nil
  then show ?case by (cases gs) (simp_all add: file_frame_ne)
next
  case (Cons f fs)
  from Cons.prems(1) obtain g gs' where gs: "gs = g # gs'" by (cases gs) (simp_all add: file_frame_ne)
  then have "file_frame d f @ concat (map (file_frame d) fs) = file_frame d g @ concat (map (file_frame d) gs')"
    using Cons.prems(1) by simp
  from Cons.prems(2)[OF _ _ this] gs
  have "file_key f = file_key g \<and> concat (map (file_frame d) fs) = concat (map (file_frame d) gs')" by simp
  then show ?case using gs Cons.IH[of gs'] Cons.prems(2) by auto
qed

lemma accepted_sorted:
  assumes "accepted_files files" and "f \<in> set (sorted_files files)"
  shows "repo_path (bfPath f)" "nul_free (bfPath f)" "length (file_data f) < 2 ^ 64"
    "bfDelete f \<longrightarrow> (\<exists>g \<in> set files. fDelete g)" "\<not> isl (decodedContent f)"
    "bfDelete f \<longrightarrow> file_data f = [] \<and> bfDigest f = []"
proof -
  from assms obtain g where g: "g \<in> set files" "f = scanned g" "\<not> isl (scan_one g)" "\<not> isl (decodedContent f)"
    by (auto simp: sorted_files_def accepted_files_def)
  show "repo_path (bfPath f)" unfolding g(2) by (rule scanned_props(1)[OF g(3)])
  then show "nul_free (bfPath f)" by (simp add: repo_path_def nul_free_def)
  show "length (file_data f) < 2 ^ 64" by (rule file_data_bound(2)[OF g(4)])
  show "bfDelete f \<longrightarrow> (\<exists>g \<in> set files. fDelete g)" using g scanned_props(3) by blast
  show "\<not> isl (decodedContent f)" by (rule g(4))
  show "bfDelete f \<longrightarrow> file_data f = [] \<and> bfDigest f = []"
    using g scanned_props(3,6)[OF g(3)] deleted_file_data[OF _ g(3)] by simp
qed

subsection \<open>Bundle names\<close>

lemma digestBytes_hex: "TrimPrefix (digestBytes bs) ''sha256:'' = hex_encode (sha256 bs)"
  by (simp add: digestBytes_def TrimPrefix_def HasPrefix_def)

lemma length_bundle_name: "length (bundle_name (digestBytes bs)) = 31"
  by (simp add: bundle_name_def digestBytes_hex)

lemma set_bundle_name: "set (bundle_name (digestBytes bs)) \<subseteq> set ''0123456789abcdefbundle-''"
proof -
  have "set (take 24 (hex_encode (sha256 bs))) \<subseteq> set ''0123456789abcdef''"
    by (rule subset_trans[OF set_take_subset set_hex_encode])
  moreover have "set ''0123456789abcdefbundle-'' = set ''0123456789abcdef'' \<union> set ''bundle-''"
    by (simp only: set_append[symmetric] append.simps)
  ultimately show ?thesis unfolding bundle_name_def digestBytes_hex set_append by blast
qed

lemma bundle_name_trimmed: "TrimSpace (bundle_name (digestBytes bs)) = bundle_name (digestBytes bs)"
proof (rule TrimSpace_no_space_bytes)
  have "set ''0123456789abcdefbundle-'' \<inter> set space_bytes = {}" by code_simp
  then show "set (bundle_name (digestBytes bs)) \<inter> set space_bytes = {}" using set_bundle_name[of bs] by blast
qed

lemma bundle_name_valid: "validateBundleName (bundle_name (digestBytes bs)) = Inr ()"
proof -
  let ?n = "bundle_name (digestBytes bs)"
  have "CHR ''/'' \<notin> set ?n" "CHR 0x5C \<notin> set ?n" "CHR ''.'' \<notin> set ?n" using set_bundle_name[of bs] by auto
  then have "\<not> Contains ?n ''/''" "\<not> Contains ?n [CHR 0x5C]" "\<not> Contains ?n ''..''"
    by (auto simp: Contains_iff)
  moreover have "?n \<noteq> []" by (simp add: bundle_name_def)
  ultimately show ?thesis by (simp add: validateBundleName_def bundle_name_trimmed)
qed

text \<open>What a consumer of a bundle may rely on.\<close>

definition file_wf :: "BundleFile \<Rightarrow> bool" where
  "file_wf f \<longleftrightarrow>
     repo_path (bfPath f) \<and>
     (case decodedContent f of
        Inl _ \<Rightarrow> False
      | Inr data \<Rightarrow> bfSize f = int (length data) \<and>
          (if bfDelete f then data = [] \<and> bfDigest f = [] else bfDigest f = digestBytes data))"

definition bundle_wf :: "Bundle \<Rightarrow> bool" where
  "bundle_wf b \<longleftrightarrow>
     bFiles b \<noteq> [] \<and> length (bFiles b) \<le> MaxFiles \<and>
     sorted_wrt (<) (map bfPath (bFiles b)) \<and> list_all file_wf (bFiles b) \<and>
     bSize b = sum_list (map bfSize (bFiles b)) \<and> bSize b \<le> int MaxTotalBytes \<and>
     bName b = bundle_name (bDigest b) \<and> length (bName b) = 31 \<and> validateBundleName (bName b) = Inr ()"

lemma decodedContent_finish [simp]: "decodedContent (finish_file f) = decodedContent f"
  by (cases "DecodeBase64 (bfContent f)") (simp_all add: decodedContent_def finish_file_def)

lemma file_wf_finish:
  assumes "accepted_files files" and "f \<in> set (sorted_files files)"
  shows "file_wf (finish_file f)"
proof -
  note ok = accepted_sorted[OF assms]
  then have d: "decodedContent f = Inr (file_data f)" by (simp add: file_data_def)
  show ?thesis unfolding file_wf_def decodedContent_finish d using ok(1,6) by (simp add: finish_file_def)
qed

lemma bundle_wf_spec: "accepted_files files \<Longrightarrow> bundle_wf (bundle_spec files)"
proof -
  assume acc: "accepted_files files"
  let ?fs = "sorted_files files"
  have n: "length ?fs = length files" by (simp add: sorted_files_def)
  have "data_total (map scanned files) = data_total ?fs"
    by (rule data_total_mset) (simp add: sorted_files_def)
  moreover have "int (data_total ?fs) = sum_list (map bfSize (map finish_file ?fs))"
    by (simp add: data_total_def finish_file_def o_def int_sum_list_map)
  ultimately have sz: "int (data_total (map scanned files)) = sum_list (map bfSize (map finish_file ?fs))" by simp
  have paths: "map bfPath (map finish_file ?fs) = map bfPath ?fs" by (simp add: finish_file_def)
  have "sorted_wrt (<) (map bfPath ?fs)"
    using acc by (auto simp: accepted_files_def intro: sorted_files_paths)
  moreover have "list_all file_wf (map finish_file ?fs)"
    using file_wf_finish[OF acc] by (simp add: list_all_iff)
  moreover have "?fs \<noteq> []" "length ?fs \<le> MaxFiles" "int (data_total (map scanned files)) \<le> int MaxTotalBytes"
    using acc n by (auto simp: accepted_files_def)
  ultimately show ?thesis
    unfolding bundle_wf_def
    by (simp only: bundle_spec_sel length_bundle_name bundle_name_valid sz paths length_map map_is_Nil_conv simp_thms)
qed

subsection \<open>Properties\<close>

text \<open>
  A bundle does not depend on the order in which the files of a request are listed:
  two requests with the same files are both accepted, with the same bundle and
  reference (hence the same name and digest), or both refused.
\<close>

theorem buildBundle_order_irrelevant:
  assumes "mset files = mset files'"
  shows "buildBundle files = Inr br \<longleftrightarrow> buildBundle files' = Inr br"
proof -
  obtain b r where br: "br = (b, r)" by (cases br)
  have sets: "set files = set files'" and len: "length files = length files'"
    using assms by (metis set_mset_mset, metis size_mset)
  have "mset (map (bfPath \<circ> scanned) files) = mset (map (bfPath \<circ> scanned) files')"
    "mset (map scanned files) = mset (map scanned files')" using assms by simp_all
  then have dist: "distinct (map (bfPath \<circ> scanned) files) = distinct (map (bfPath \<circ> scanned) files')"
    and tot: "data_total (map scanned files) = data_total (map scanned files')"
    using mset_eq_imp_distinct_iff data_total_mset by blast+
  have "accepted_files files = accepted_files files'"
    unfolding accepted_files_def by (simp only: sets len dist tot length_0_conv[symmetric])
  moreover have "bundle_spec files = bundle_spec files'" if "accepted_files files"
    using sorted_files_perm[OF assms] that
    by (simp add: bundle_spec_def digest_input_def accepted_files_def sets tot)
  ultimately show ?thesis by (auto simp: br buildBundle_eq)
qed

theorem buildBundle_order_irrelevant_witness:
  "let f = \<lparr>fPath = ''a/b'', fContent = ''x'', fEncoding = [], fDelete = False\<rparr>;
       g = \<lparr>fPath = ''a'', fContent = [], fEncoding = [], fDelete = True\<rparr>
   in mset [f, g] = mset [g, f] \<and> (\<forall>br. buildBundle [f, g] = Inr br \<longleftrightarrow> buildBundle [g, f] = Inr br)"
  unfolding Let_def
  by (intro conjI allI buildBundle_order_irrelevant) simp_all

text \<open>
  Every bundle \<open>buildBundle\<close> returns is well formed: at least one and at most 500 files in
  strictly ascending path order, every path relative, free of \<open>..\<close> and NUL and at
  most 1024 bytes, every file's size and digest those of its decoded bytes, deletions
  without content, the total within 48 MiB, and a name that is derived from the digest,
  31 bytes long and accepted by \<open>validateBundleName\<close>. The returned reference mirrors it.
\<close>

theorem buildBundle_wf:
  assumes "buildBundle files = Inr (b, r)"
  shows "bundle_wf b \<and> r = bundle_ref b \<and> length (bFiles b) = length files"
proof -
  from assms have acc: "accepted_files files" and b: "b = bundle_spec files" and r: "r = bundle_ref b"
    by (simp_all add: buildBundle_eq)
  have "length (bFiles b) = length files" by (simp add: b bundle_spec_def sorted_files_def Let_def)
  with bundle_wf_spec[OF acc] b r show ?thesis by simp
qed

theorem buildBundle_wf_witness:
  "\<exists>b r. buildBundle [\<lparr>fPath = ''src/main.go'', fContent = ''package main'', fEncoding = [], fDelete = False\<rparr>] = Inr (b, r)
     \<and> bundle_wf b"
proof -
  let ?fs = "[\<lparr>fPath = ''src/main.go'', fContent = ''package main'', fEncoding = [], fDelete = False\<rparr>]"
  have "accepted_files ?fs" by code_simp
  then have "buildBundle ?fs = Inr (bundle_spec ?fs, bundle_ref (bundle_spec ?fs))" by (simp add: buildBundle_eq)
  with buildBundle_wf[OF this] show ?thesis by blast
qed

text \<open>
  (C37) The digest input determines the operations of a bundle, for bundles that carry a
  deletion and for upsert-only bundles whose files contain no NUL byte: two accepted
  requests of the same kind with the same bytes hashed have the same paths, operations
  and decoded contents. In particular a deletion and an empty file never collide.
\<close>

theorem digest_input_determines_files:
  assumes "accepted_files files" and "accepted_files files'"
    and "(\<exists>f \<in> set files. fDelete f) \<longleftrightarrow> (\<exists>f \<in> set files'. fDelete f)"
    and "(\<exists>f \<in> set files. fDelete f) \<or> (\<forall>f \<in> set (sorted_files files) \<union> set (sorted_files files'). nul_free (file_data f))"
    and "digest_input files = digest_input files'"
  shows "map file_key (sorted_files files) = map file_key (sorted_files files')"
proof (cases "\<exists>f \<in> set files. fDelete f")
  case True
  then have eq: "concat (map (file_frame True) (sorted_files files)) = concat (map (file_frame True) (sorted_files files'))"
    using assms(3,5) by (simp add: digest_input_def)
  show ?thesis
    by (rule frames_inj[OF eq], rule flagged_frame_inj)
      (use accepted_sorted assms(1,2) in blast)+
next
  case False
  then have eq: "concat (map (file_frame False) (sorted_files files)) = concat (map (file_frame False) (sorted_files files'))"
    using assms(3,5) by (simp add: digest_input_def)
  show ?thesis
    by (rule frames_inj[OF eq], rule plain_frame_inj)
      (use accepted_sorted assms(1-4) False in blast)+
qed

theorem digest_input_determines_files_witness:
  "let f = \<lparr>fPath = ''a'', fContent = [CHR 0x00], fEncoding = [], fDelete = False\<rparr>;
       g = \<lparr>fPath = ''b'', fContent = [], fEncoding = [], fDelete = True\<rparr>
   in accepted_files [f, g] \<and> map file_key (sorted_files [f, g]) = map file_key (sorted_files [g, f])"
proof -
  let ?f = "\<lparr>fPath = ''a'', fContent = [CHR 0x00], fEncoding = [], fDelete = False\<rparr>"
  let ?g = "\<lparr>fPath = ''b'', fContent = [], fEncoding = [], fDelete = True\<rparr>"
  have acc: "accepted_files [?f, ?g]" "accepted_files [?g, ?f]" by code_simp+
  have eq: "digest_input [?f, ?g] = digest_input [?g, ?f]" by code_simp
  show ?thesis unfolding Let_def using acc(1) digest_input_determines_files[OF acc _ _ eq] by simp
qed

text \<open>
  For upsert-only bundles whose files may contain NUL bytes the framing is ambiguous: the
  one-file bundle \<open>a\<close> with content \<open>x NUL b NUL y\<close> and the two-file bundle \<open>a: x, b: y\<close> are
  both accepted and get the same digest and the same name, though they hold different files.
\<close>

theorem buildBundle_digest_collision:
  "\<exists>b r b' r'.
     buildBundle [\<lparr>fPath = ''a'', fContent = ''x'' @ [CHR 0x00] @ ''b'' @ [CHR 0x00] @ ''y'', fEncoding = [], fDelete = False\<rparr>] = Inr (b, r) \<and>
     buildBundle [\<lparr>fPath = ''a'', fContent = ''x'', fEncoding = [], fDelete = False\<rparr>,
                  \<lparr>fPath = ''b'', fContent = ''y'', fEncoding = [], fDelete = False\<rparr>] = Inr (b', r') \<and>
     bName b = bName b' \<and> bDigest b = bDigest b' \<and> map bfPath (bFiles b) \<noteq> map bfPath (bFiles b')"
proof -
  let ?one = "[\<lparr>fPath = ''a'', fContent = ''x'' @ [CHR 0x00] @ ''b'' @ [CHR 0x00] @ ''y'', fEncoding = [], fDelete = False\<rparr>]"
  let ?two = "[\<lparr>fPath = ''a'', fContent = ''x'', fEncoding = [], fDelete = False\<rparr>,
               \<lparr>fPath = ''b'', fContent = ''y'', fEncoding = [], fDelete = False\<rparr>]"
  have "accepted_files ?one" "accepted_files ?two" by code_simp+
  then have "buildBundle ?one = Inr (bundle_spec ?one, bundle_ref (bundle_spec ?one))"
    and "buildBundle ?two = Inr (bundle_spec ?two, bundle_ref (bundle_spec ?two))"
    by (simp_all only: buildBundle_eq)
  moreover have "digest_input ?one = digest_input ?two" by code_simp
  moreover have "length (sorted_files ?one) \<noteq> length (sorted_files ?two)" by (simp add: sorted_files_def)
  then have "map bfPath (bFiles (bundle_spec ?one)) \<noteq> map bfPath (bFiles (bundle_spec ?two))"
    by (metis bundle_spec_sel(1) length_map)
  ultimately have "buildBundle ?one = Inr (bundle_spec ?one, bundle_ref (bundle_spec ?one)) \<and>
      buildBundle ?two = Inr (bundle_spec ?two, bundle_ref (bundle_spec ?two)) \<and>
      bName (bundle_spec ?one) = bName (bundle_spec ?two) \<and> bDigest (bundle_spec ?one) = bDigest (bundle_spec ?two) \<and>
      map bfPath (bFiles (bundle_spec ?one)) \<noteq> map bfPath (bFiles (bundle_spec ?two))"
    by (simp only: bundle_spec_sel simp_thms)
  then show ?thesis by blast
qed

end
