(* ===== verification/Bundle_Store.thy ===== *)
theory Bundle_Store
  imports Commit_Bundle Go_Json "HOL-Library.AList"
begin

text \<open>
  \<open>commitbundle/store.go\<close>, second half: the \<open>FileStore\<close> that publishes bundles as JSON files
  under one directory per scope, and the sweeper that reclaims orphans.

  The part of the disk below the store's directory is an association list from paths
  (component lists relative to that directory, so \<open>filepath.Join(s.dir, key, name)\<close> is
  \<open>[key, name]\<close>) to nodes. An operation that writes returns the sequence of effects it has on
  the disk, in program order, so that a crash is a prefix of that sequence. Which system
  call fails is decided by the environment, a record of the failures of that call.
  Bundles are written and read with the \<open>encoding/json\<close> model of \<open>Go_Json\<close>.
\<close>

subsection \<open>The disk\<close>

type_synonym path = "string list"

datatype node = RegFile bytes gotime | Dir

type_synonym fs = "(path \<times> node) list"

datatype fsop =
    OpMkdir path
  | OpCreate path gotime
  | OpWrite path bytes gotime
  | OpRename path path
  | OpRemove path
  | OpChtimes path gotime

fun apply_op :: "fsop \<Rightarrow> fs \<Rightarrow> fs" where
  "apply_op (OpMkdir p) fs = (case map_of fs p of None \<Rightarrow> AList.update p Dir fs | Some _ \<Rightarrow> fs)"
| "apply_op (OpCreate p t) fs = AList.update p (RegFile [] t) fs"
| "apply_op (OpWrite p bs t) fs =
     (case map_of fs p of Some (RegFile old _) \<Rightarrow> AList.update p (RegFile (old @ bs) t) fs | _ \<Rightarrow> fs)"
| "apply_op (OpRename p q) fs =
     (case map_of fs p of None \<Rightarrow> fs | Some n \<Rightarrow> AList.update q n (AList.delete p fs))"
| "apply_op (OpRemove p) fs = AList.delete p fs"
| "apply_op (OpChtimes p t) fs =
     (case map_of fs p of Some (RegFile bs _) \<Rightarrow> AList.update p (RegFile bs t) fs | _ \<Rightarrow> fs)"

definition run_ops :: "fsop list \<Rightarrow> fs \<Rightarrow> fs" where
  "run_ops ops fs = fold apply_op ops fs"

text \<open>
  The disks a crash can leave: after some prefix of the effects, the next one not begun or,
  when it is a write, cut short.
\<close>

definition torn :: "fsop \<Rightarrow> fsop list" where
  "torn op = (case op of OpWrite p bs t \<Rightarrow> map (\<lambda>k. OpWrite p (take k bs) t) [0..<length bs] | _ \<Rightarrow> [])"

fun crash_states :: "fsop list \<Rightarrow> fs \<Rightarrow> fs list" where
  "crash_states [] fs = [fs]"
| "crash_states (op # ops) fs = fs # map (\<lambda>t. apply_op t fs) (torn op) @ crash_states ops (apply_op op fs)"

definition children :: "fs \<Rightarrow> path \<Rightarrow> string list" where
  "children fs d = sort (remdups (map last (filter (\<lambda>p. p \<noteq> [] \<and> butlast p = d) (map fst fs))))"

subsection \<open>Bundles as JSON\<close>

text \<open>The \<open>json\<close> tags of \<open>Bundle\<close> and \<open>BundleFile\<close>, with their \<open>omitempty\<close>.\<close>

definition file_json :: "BundleFile \<Rightarrow> json" where
  "file_json f = JObj (
     [(''path'', JStr (bfPath f)), (''content'', JStr (bfContent f))] @
     (if bfEncoding f = [] then [] else [(''encoding'', JStr (bfEncoding f))]) @
     [(''size'', JNum (FormatInt (bfSize f))), (''digest'', JStr (bfDigest f))] @
     (if bfDelete f then [(''delete'', JBool True)] else []))"

definition bundle_json :: "Bundle \<Rightarrow> json" where
  "bundle_json b = JObj [
     (''name'', JStr (bName b)), (''digest'', JStr (bDigest b)), (''scope'', JStr (bScope b)),
     (''size'', JNum (FormatInt (bSize b))), (''files'', JArr (map file_json (bFiles b)))]"

definition marshal_bundle :: "Bundle \<Rightarrow> bytes" where
  "marshal_bundle b = print_json 0 (bundle_json b)"

definition decode_file_member :: "bytes \<times> json \<Rightarrow> BundleFile \<Rightarrow> BundleFile option" where
  "decode_file_member kv f =
     (let k = field_name [''path'', ''content'', ''encoding'', ''size'', ''digest'', ''delete''] (fst kv); v = snd kv in
      if k = ''path'' then map_option (\<lambda>x. f\<lparr>bfPath := x\<rparr>) (decode_str v (bfPath f))
      else if k = ''content'' then map_option (\<lambda>x. f\<lparr>bfContent := x\<rparr>) (decode_str v (bfContent f))
      else if k = ''encoding'' then map_option (\<lambda>x. f\<lparr>bfEncoding := x\<rparr>) (decode_str v (bfEncoding f))
      else if k = ''size'' then map_option (\<lambda>x. f\<lparr>bfSize := x\<rparr>) (decode_int64 v (bfSize f))
      else if k = ''digest'' then map_option (\<lambda>x. f\<lparr>bfDigest := x\<rparr>) (decode_str v (bfDigest f))
      else if k = ''delete'' then map_option (\<lambda>x. f\<lparr>bfDelete := x\<rparr>) (decode_bool v (bfDelete f))
      else Some f)"

definition zero_file :: BundleFile where
  "zero_file = \<lparr>bfPath = [], bfContent = [], bfEncoding = [], bfSize = 0, bfDigest = [], bfDelete = False\<rparr>"

text \<open>An array is decoded over the slice already there, element by element.\<close>

fun decode_files :: "json list \<Rightarrow> BundleFile list \<Rightarrow> BundleFile list option" where
  "decode_files [] old = Some []"
| "decode_files (v # vs) old =
     Option.bind (decode_members decode_file_member v (case old of [] \<Rightarrow> zero_file | f # _ \<Rightarrow> f)) (\<lambda>f.
       map_option (Cons f) (decode_files vs (tl old)))"

definition decode_bundle_member :: "bytes \<times> json \<Rightarrow> Bundle \<Rightarrow> Bundle option" where
  "decode_bundle_member kv b =
     (let k = field_name [''name'', ''digest'', ''scope'', ''size'', ''files''] (fst kv); v = snd kv in
      if k = ''name'' then map_option (\<lambda>x. b\<lparr>bName := x\<rparr>) (decode_str v (bName b))
      else if k = ''digest'' then map_option (\<lambda>x. b\<lparr>bDigest := x\<rparr>) (decode_str v (bDigest b))
      else if k = ''scope'' then map_option (\<lambda>x. b\<lparr>bScope := x\<rparr>) (decode_str v (bScope b))
      else if k = ''size'' then map_option (\<lambda>x. b\<lparr>bSize := x\<rparr>) (decode_int64 v (bSize b))
      else if k = ''files'' then
        (case v of
           JArr vs \<Rightarrow> map_option (\<lambda>x. b\<lparr>bFiles := x\<rparr>) (decode_files vs (bFiles b))
         | JNull \<Rightarrow> Some (b\<lparr>bFiles := []\<rparr>)
         | _ \<Rightarrow> None)
      else Some b)"

definition zero_bundle :: Bundle where
  "zero_bundle = \<lparr>bName = [], bDigest = [], bScope = [], bSize = 0, bFiles = []\<rparr>"

definition unmarshal_bundle :: "bytes \<Rightarrow> Bundle option" where
  "unmarshal_bundle data = Option.bind (parse_json data) (\<lambda>v. decode_members decode_bundle_member v zero_bundle)"

text \<open>The bundles whose JSON text determines them: UTF-8 throughout and 64-bit sizes.\<close>

definition storable_file :: "BundleFile \<Rightarrow> bool" where
  "storable_file f \<longleftrightarrow>
     utf8_Valid (bfPath f) \<and> utf8_Valid (bfContent f) \<and> utf8_Valid (bfEncoding f) \<and>
     utf8_Valid (bfDigest f) \<and> int64 (bfSize f)"

definition storable :: "Bundle \<Rightarrow> bool" where
  "storable b \<longleftrightarrow>
     utf8_Valid (bName b) \<and> utf8_Valid (bDigest b) \<and> utf8_Valid (bScope b) \<and> int64 (bSize b) \<and>
     list_all storable_file (bFiles b)"

subsection \<open>The store\<close>

record FileStore =
  stDir :: string

definition scopeKey :: "string \<Rightarrow> bundle_error + string" where
  "scopeKey scope0 =
     (let scope = TrimSpace scope0 in
      if scope = [] then Inl ScopeRequired
      else Inr (''scope-'' @ hex_encode (take 16 (sha256 scope))))"

definition scopeDir :: "string \<Rightarrow> path" where
  "scopeDir key = [key]"

definition bundle_path :: "string \<Rightarrow> string \<Rightarrow> path" where
  "bundle_path key name = scopeDir key @ [name @ ''.json'']"

text \<open>\<open>NewFileStore\<close> and \<open>NewFileStoreFromEnv\<close>: the environment value, the temporary directory and
  whether \<open>os.MkdirAll\<close> fails are arguments.\<close>

definition NewFileStore :: "bool \<Rightarrow> string \<Rightarrow> bundle_error + FileStore" where
  "NewFileStore mkdirErr dir =
     (if TrimSpace dir = [] then Inl (OSError ''bundle directory is required'')
      else if mkdirErr then Inl (OSError ''create bundle directory'')
      else Inr \<lparr>stDir = dir\<rparr>)"

definition NewFileStoreFromEnv :: "bool \<Rightarrow> string \<Rightarrow> string \<Rightarrow> bundle_error + FileStore" where
  "NewFileStoreFromEnv mkdirErr env tempDir =
     (let dir = TrimSpace env in
      NewFileStore mkdirErr (if dir = [] then path_Clean (tempDir @ ''/railgrid-code-commit-bundles'') else dir))"

definition store_Dir :: "FileStore option \<Rightarrow> string" where
  "store_Dir s = (case s of None \<Rightarrow> [] | Some st \<Rightarrow> stDir st)"

record put_env =
  pCtxErr :: bool
  pMkdirErr :: bool
  pStatErr :: bool
  pNow :: gotime
  pChtimesErr :: bool
  pTempErr :: bool
  pRandom :: string
  pWriteErr :: "nat option"
  pCloseErr :: bool
  pRenameErr :: bool

definition temp_path :: "string \<Rightarrow> string \<Rightarrow> string \<Rightarrow> path" where
  "temp_path key name rnd = scopeDir key @ [''.'' @ name @ ''-'' @ rnd @ ''.tmp'']"

text \<open>Writing the temporary file and renaming it over the final path; the deferred removal runs last.\<close>

definition publish :: "put_env \<Rightarrow> string \<Rightarrow> string \<Rightarrow> bytes \<Rightarrow> BundleRef \<Rightarrow> (bundle_error + BundleRef) \<times> fsop list" where
  "publish env key name data ref =
     (let tmp = temp_path key name (pRandom env); path = bundle_path key name in
      case pWriteErr env of
        Some k \<Rightarrow> (Inl (OSError ''write bundle''),
                   [OpCreate tmp (pNow env), OpWrite tmp (take k data) (pNow env), OpRemove tmp])
      | None \<Rightarrow>
          if pCloseErr env then
            (Inl (OSError ''close bundle''), [OpCreate tmp (pNow env), OpWrite tmp data (pNow env), OpRemove tmp])
          else if pRenameErr env then
            (Inl (OSError ''publish bundle''), [OpCreate tmp (pNow env), OpWrite tmp data (pNow env), OpRemove tmp])
          else (Inr ref,
                [OpCreate tmp (pNow env), OpWrite tmp data (pNow env), OpRename tmp path, OpRemove tmp]))"

text \<open>From \<open>os.Stat(path)\<close> on: an existing bundle is reused and its age refreshed.\<close>

definition put_file :: "put_env \<Rightarrow> string \<Rightarrow> Bundle \<Rightarrow> BundleRef \<Rightarrow> fs \<Rightarrow> (bundle_error + BundleRef) \<times> fsop list" where
  "put_file env key bundle ref fs =
     (if pStatErr env then (Inl (OSError ''stat bundle''), [])
      else if map_of fs (bundle_path key (bName bundle)) \<noteq> None then
        (Inr ref, if pChtimesErr env then [] else [OpChtimes (bundle_path key (bName bundle)) (pNow env)])
      else if pTempErr env \<or> map_of fs (temp_path key (bName bundle) (pRandom env)) \<noteq> None then
        (Inl (OSError ''create temp bundle''), [])
      else publish env key (bName bundle) (marshal_bundle bundle) ref)"

definition Put ::
  "FileStore option \<Rightarrow> put_env \<Rightarrow> string \<Rightarrow> File list \<Rightarrow> fs \<Rightarrow> (bundle_error + BundleRef) \<times> fsop list" where
  "Put s env scope0 files fs =
     (if s = None then (Inl StoreNil, []) else
      let scope = TrimSpace scope0 in
      or_fail (scopeKey scope) [] (\<lambda>key. or_fail (buildBundle files) [] (\<lambda>(bundle0, ref0).
      let bundle = bundle0\<lparr>bScope := scope\<rparr>; ref = ref0\<lparr>rScope := scope\<rparr>; mk = OpMkdir (scopeDir key) in
      if pCtxErr env then (Inl ContextDone, [])
      else if pMkdirErr env \<or> (case map_of fs (scopeDir key) of Some (RegFile _ _) \<Rightarrow> True | _ \<Rightarrow> False) then
        (Inl (OSError ''create scoped bundle directory''), [])
      else (case put_file env key bundle ref (apply_op mk fs) of (r, ops) \<Rightarrow> (r, mk # ops)))))"

record get_env =
  gCtxErr :: bool
  gReadErr :: bool

definition Get ::
  "FileStore option \<Rightarrow> get_env \<Rightarrow> string \<Rightarrow> string \<Rightarrow> string \<Rightarrow> fs \<Rightarrow>
   bundle_error + Bundle" where
  "Get s env scope name digest fs =
     (if s = None then Inl StoreNil
      else if gCtxErr env then Inl ContextDone
      else and_then (scopeKey scope) (\<lambda>key. and_then (validateBundleName name) (\<lambda>_.
      if gReadErr env then Inl (OSError ''read bundle'')
      else case map_of fs (bundle_path key name) of
        None \<Rightarrow> Inl (BundleNotFound name)
      | Some Dir \<Rightarrow> Inl (OSError ''read bundle'')
      | Some (RegFile data _) \<Rightarrow>
          (case unmarshal_bundle data of
             None \<Rightarrow> Inl (DecodeFailed name)
           | Some bundle \<Rightarrow>
               if bName bundle \<noteq> name then Inl (StoredNameMismatch name (bName bundle))
               else if bScope bundle \<noteq> TrimSpace scope then Inl (ScopeMismatch name)
               else if TrimSpace digest \<noteq> [] \<and> bDigest bundle \<noteq> digest then Inl (DigestMismatch name)
               else Inr bundle))))"

text \<open>\<open>os.Remove\<close>: a file or an empty directory goes, a missing name is \<open>os.IsNotExist\<close>.\<close>

datatype rm_result = RmOk | RmNotExist | RmErr

definition os_remove :: "bool \<Rightarrow> path \<Rightarrow> fs \<Rightarrow> rm_result" where
  "os_remove err p fs =
     (if err then RmErr
      else case map_of fs p of
        None \<Rightarrow> RmNotExist
      | Some (RegFile _ _) \<Rightarrow> RmOk
      | Some Dir \<Rightarrow> (if children fs p = [] then RmOk else RmErr))"

record delete_env = get_env +
  dRemoveErr :: bool

definition Delete ::
  "FileStore option \<Rightarrow> delete_env \<Rightarrow> string \<Rightarrow> string \<Rightarrow> string \<Rightarrow> fs \<Rightarrow>
   (bundle_error + unit) \<times> fsop list" where
  "Delete s env scope name digest fs =
     (if s = None then (Inl StoreNil, [])
      else if gCtxErr env then (Inl ContextDone, [])
      else or_fail (scopeKey scope) [] (\<lambda>key. or_fail (validateBundleName name) [] (\<lambda>_.
      let remove = (case os_remove (dRemoveErr env) (bundle_path key name) fs of
                      RmOk \<Rightarrow> (Inr (), [OpRemove (bundle_path key name)])
                    | RmNotExist \<Rightarrow> (Inr (), [])
                    | RmErr \<Rightarrow> (Inl (OSError ''delete bundle''), [])) in
      if TrimSpace digest = [] then remove
      else case Get s (get_env.truncate env) scope name digest fs of
             Inl e \<Rightarrow> if IsNotFound e then (Inr (), []) else (Inl e, [])
           | Inr bundle \<Rightarrow> if bDigest bundle \<noteq> digest then (Inl (DigestMismatch name), []) else remove)))"

subsection \<open>The sweeper\<close>

record sweep_env =
  swRootErr :: bool
  swListErr :: "string \<Rightarrow> bool"
  swInfoErr :: "path \<Rightarrow> bool"
  swRemoveErr :: "path \<Rightarrow> bool"

record sweep_state =
  swRemoved :: nat
  swErrs :: "bundle_error list"
  swFs :: fs

definition sweep_entry :: "sweep_env \<Rightarrow> gotime \<Rightarrow> string \<Rightarrow> string \<Rightarrow> sweep_state \<Rightarrow> sweep_state" where
  "sweep_entry env cutoff dir name st =
     (case map_of (swFs st) [dir, name] of
        None \<Rightarrow> st
      | Some Dir \<Rightarrow> st
      | Some (RegFile _ mtime) \<Rightarrow>
          if \<not> HasSuffix name ''.json'' \<and> \<not> HasSuffix name ''.tmp'' then st
          else if swInfoErr env [dir, name] \<or> \<not> mtime < cutoff then st
          else (case os_remove (swRemoveErr env [dir, name]) [dir, name] (swFs st) of
                  RmErr \<Rightarrow> st\<lparr>swErrs := swErrs st @ [OSError ''remove'']\<rparr>
                | RmNotExist \<Rightarrow> st\<lparr>swRemoved := swRemoved st + 1\<rparr>
                | RmOk \<Rightarrow> st\<lparr>swRemoved := swRemoved st + 1, swFs := apply_op (OpRemove [dir, name]) (swFs st)\<rparr>))"

definition sweep_scope :: "sweep_env \<Rightarrow> gotime \<Rightarrow> string \<Rightarrow> sweep_state \<Rightarrow> sweep_state" where
  "sweep_scope env cutoff scope st =
     (if map_of (swFs st) [scope] \<noteq> Some Dir \<or> \<not> HasPrefix scope ''scope-'' then st
      else if swListErr env scope then st\<lparr>swErrs := swErrs st @ [OSError ''list'']\<rparr>
      else fold (sweep_entry env cutoff scope) (children (swFs st) [scope]) st)"

definition Sweep :: "FileStore option \<Rightarrow> sweep_env \<Rightarrow> gotime \<Rightarrow> duration \<Rightarrow> fs \<Rightarrow> sweep_state" where
  "Sweep s env now maxAge fs =
     (if s = None then \<lparr>swRemoved = 0, swErrs = [StoreNil], swFs = fs\<rparr>
      else if swRootErr env then \<lparr>swRemoved = 0, swErrs = [OSError ''list bundle directory''], swFs = fs\<rparr>
      else fold (sweep_scope env (now - maxAge)) (children fs []) \<lparr>swRemoved = 0, swErrs = [], swFs = fs\<rparr>)"

text \<open>\<open>RunSweeper\<close>: one sweep at startup, then one per tick until the context is done.\<close>

datatype sweeper_event = Tick sweep_env gotime | CtxDone

fun sweeper_loop :: "FileStore option \<Rightarrow> duration \<Rightarrow> sweeper_event list \<Rightarrow> fs \<Rightarrow> fs" where
  "sweeper_loop s maxAge [] fs = fs"
| "sweeper_loop s maxAge (CtxDone # evs) fs = fs"
| "sweeper_loop s maxAge (Tick env now # evs) fs = sweeper_loop s maxAge evs (swFs (Sweep s env now maxAge fs))"

definition RunSweeper :: "FileStore option \<Rightarrow> duration \<Rightarrow> sweep_env \<Rightarrow> gotime \<Rightarrow> sweeper_event list \<Rightarrow> fs \<Rightarrow> fs" where
  "RunSweeper s maxAge env now evs fs = sweeper_loop s maxAge evs (swFs (Sweep s env now maxAge fs))"

subsection \<open>The JSON text determines the bundle\<close>

lemma int64_parse: "int64 n \<Longrightarrow> ParseInt (FormatInt n) 64 = Some n"
  by (rule ParseInt_FormatInt) (simp_all add: int64_def)

lemma wf_bundle_json: "storable b \<Longrightarrow> wf_json (bundle_json b)"
  by (auto simp: storable_def storable_file_def bundle_json_def file_json_def list_all_iff
      intro!: utf8_Valid_ascii)

lemma decode_file_json:
  assumes "storable_file f"
  shows "decode_members decode_file_member (file_json f) zero_file = Some f"
proof -
  have z: "ParseInt (FormatInt (bfSize f)) 64 = Some (bfSize f)"
    using assms by (simp add: storable_file_def int64_parse)
  show ?thesis
    by (cases f) (use z in \<open>auto simp: decode_members_def file_json_def decode_file_member_def field_name_def zero_file_def Let_def\<close>)
qed

lemma decode_files_json:
  "list_all storable_file fs \<Longrightarrow> decode_files (map file_json fs) [] = Some fs"
  by (induction fs) (simp_all add: decode_file_json)

lemma unmarshal_marshal:
  assumes "storable b"
  shows "unmarshal_bundle (marshal_bundle b) = Some b"
proof -
  have "ParseInt (FormatInt (bSize b)) 64 = Some (bSize b)" "decode_files (map file_json (bFiles b)) [] = Some (bFiles b)"
    using assms by (simp_all add: storable_def int64_parse decode_files_json)
  then have "decode_members decode_bundle_member (bundle_json b) zero_bundle = Some b"
    by (cases b) (simp add: decode_members_def bundle_json_def decode_bundle_member_def field_name_def zero_bundle_def Let_def)
  then show ?thesis
    using wf_bundle_json[OF assms] by (simp add: unmarshal_bundle_def marshal_bundle_def parse_print_json)
qed

subsection \<open>Effects and crashes\<close>

lemma run_ops_simps [simp]:
  "run_ops [] fs = fs" "run_ops (op # ops) fs = run_ops ops (apply_op op fs)"
  by (simp_all add: run_ops_def)

lemma map_of_apply_op:
  "map_of (apply_op (OpMkdir p) fs) = (case map_of fs p of None \<Rightarrow> (map_of fs)(p \<mapsto> Dir) | Some _ \<Rightarrow> map_of fs)"
  "map_of (apply_op (OpCreate p t) fs) = (map_of fs)(p \<mapsto> RegFile [] t)"
  "map_of (apply_op (OpWrite p bs t) fs) =
     (case map_of fs p of Some (RegFile old _) \<Rightarrow> (map_of fs)(p \<mapsto> RegFile (old @ bs) t) | _ \<Rightarrow> map_of fs)"
  "map_of (apply_op (OpRename p q) fs) =
     (case map_of fs p of None \<Rightarrow> map_of fs | Some n \<Rightarrow> ((map_of fs)(p := None))(q \<mapsto> n))"
  "map_of (apply_op (OpRemove p) fs) = (map_of fs)(p := None)"
  "map_of (apply_op (OpChtimes p t) fs) =
     (case map_of fs p of Some (RegFile bs _) \<Rightarrow> (map_of fs)(p \<mapsto> RegFile bs t) | _ \<Rightarrow> map_of fs)"
  by (auto simp: update_conv' delete_conv' split: option.splits node.splits)

declare apply_op.simps [simp del]

lemma torn_simps [simp]:
  "torn (OpMkdir p) = []" "torn (OpCreate p t) = []" "torn (OpRename p q) = []" "torn (OpRemove p) = []"
  "torn (OpChtimes p t) = []"
  by (simp_all add: torn_def)

text \<open>What a reader sees at a path.\<close>

definition content :: "fs \<Rightarrow> path \<Rightarrow> bytes option" where
  "content fs p = (case map_of fs p of Some (RegFile bs _) \<Rightarrow> Some bs | _ \<Rightarrow> None)"

lemma run_ops_crash_state: "run_ops ops fs \<in> set (crash_states ops fs)"
  by (induction ops arbitrary: fs) simp_all

lemma path_distinct:
  "bundle_path key name \<noteq> temp_path key' name' rnd" "bundle_path key name \<noteq> scopeDir key'"
  "temp_path key name rnd \<noteq> scopeDir key'"
proof -
  have "last (bundle_path key name) = name @ ''.json''" "last (temp_path key' name' rnd) = (''.'' @ name' @ ''-'' @ rnd) @ ''.tmp''"
    by (simp_all add: bundle_path_def temp_path_def)
  then have "last (last (bundle_path key name)) \<noteq> last (last (temp_path key' name' rnd))" by simp
  then show "bundle_path key name \<noteq> temp_path key' name' rnd" by metis
qed (simp_all add: bundle_path_def temp_path_def scopeDir_def)

lemma bundle_path_inj: "bundle_path key name = bundle_path key' name' \<longleftrightarrow> key = key' \<and> name = name'"
  by (auto simp: bundle_path_def scopeDir_def)

text \<open>
  The effect sequences of \<open>Put\<close>: nothing at all, only the directory, a refreshed age of the
  bundle that is already there, or a publication.
\<close>

definition put_bundle :: "string \<Rightarrow> Bundle \<Rightarrow> Bundle" where
  "put_bundle scope b = b\<lparr>bScope := TrimSpace scope\<rparr>"

lemma scopeKey_TrimSpace [simp]: "scopeKey (TrimSpace scope) = scopeKey scope"
  by (simp add: scopeKey_def)

lemma Put_cases:
  assumes "Put s env scope files fs = (res, ops)"
  obtains (refused) e where "res = Inl e" "ops = []"
  | (no_file) e key where "res = Inl e" "scopeKey scope = Inr key" "ops = [OpMkdir (scopeDir key)]"
  | (reused) key b r n where "scopeKey scope = Inr key" "buildBundle files = Inr (b, r)"
      "map_of fs (bundle_path key (bName b)) = Some n" "res = Inr (r\<lparr>rScope := TrimSpace scope\<rparr>)"
      "ops = OpMkdir (scopeDir key) # (if pChtimesErr env then [] else [OpChtimes (bundle_path key (bName b)) (pNow env)])"
  | (written) key b r where "scopeKey scope = Inr key" "buildBundle files = Inr (b, r)"
      "map_of fs (bundle_path key (bName b)) = None"
      "map_of fs (temp_path key (bName b) (pRandom env)) = None"
      "(res, tl ops) = publish env key (bName b) (marshal_bundle (put_bundle scope b)) (r\<lparr>rScope := TrimSpace scope\<rparr>)"
      "ops = OpMkdir (scopeDir key) # tl ops"
proof (cases "scopeKey scope")
  case (Inl e)
  then show ?thesis using assms by (cases s) (auto simp: Put_def Let_def intro: refused)
next
  case key: (Inr key)
  show ?thesis
  proof (cases "buildBundle files")
    case (Inl e)
    then show ?thesis using assms key by (cases s) (auto simp: Put_def Let_def intro: refused)
  next
    case (Inr br)
    obtain b r where br: "br = (b, r)" by (cases br)
    let ?fs1 = "apply_op (OpMkdir (scopeDir key)) fs" and ?b = "put_bundle scope b" and ?r = "r\<lparr>rScope := TrimSpace scope\<rparr>"
    have same: "map_of ?fs1 (bundle_path k n) = map_of fs (bundle_path k n)"
      "map_of ?fs1 (temp_path k n x) = map_of fs (temp_path k n x)" for k n x
      using path_distinct(2)[of k n key] path_distinct(3)[of k n x key]
      by (auto simp: map_of_apply_op split: option.splits)
    have name: "bName ?b = bName b" by (simp add: put_bundle_def)
    obtain pr po where pf: "put_file env key ?b ?r ?fs1 = (pr, po)" by fastforce
    show ?thesis
    proof (cases "s = None \<or> pCtxErr env \<or> pMkdirErr env \<or> (case map_of fs (scopeDir key) of Some (RegFile _ _) \<Rightarrow> True | _ \<Rightarrow> False)")
      case True
      then show ?thesis using assms key Inr br
        by (cases s) (auto simp: Put_def Let_def intro: refused split: if_splits)
    next
      case False
      then have put: "res = pr" "ops = OpMkdir (scopeDir key) # po"
        using assms key Inr br pf unfolding Put_def Let_def put_bundle_def by auto
      have pf': "(pr, po) =
        (if pStatErr env then (Inl (OSError ''stat bundle''), [])
         else if map_of fs (bundle_path key (bName b)) \<noteq> None then
           (Inr ?r, if pChtimesErr env then [] else [OpChtimes (bundle_path key (bName b)) (pNow env)])
         else if pTempErr env \<or> map_of fs (temp_path key (bName b) (pRandom env)) \<noteq> None then
           (Inl (OSError ''create temp bundle''), [])
         else publish env key (bName b) (marshal_bundle ?b) ?r)"
        unfolding pf[symmetric] put_file_def same name ..
      consider "pStatErr env" | "\<not> pStatErr env" "map_of fs (bundle_path key (bName b)) \<noteq> None"
        | "\<not> pStatErr env" "map_of fs (bundle_path key (bName b)) = None"
          "pTempErr env \<or> map_of fs (temp_path key (bName b) (pRandom env)) \<noteq> None"
        | "\<not> pStatErr env" "map_of fs (bundle_path key (bName b)) = None"
          "\<not> pTempErr env" "map_of fs (temp_path key (bName b) (pRandom env)) = None" by blast
      then show ?thesis
      proof cases
        case 1
        then show ?thesis using put pf' key by (intro no_file) auto
      next
        case 2
        then show ?thesis using put pf' key Inr br
          by (intro reused[of key b r "the (map_of fs (bundle_path key (bName b)))"]) auto
      next
        case 3
        then show ?thesis using put pf' key by (intro no_file[of "OSError ''create temp bundle''"]) auto
      next
        case 4
        then show ?thesis using put pf' key Inr br by (intro written[of key b r]) auto
      qed
    qed
  qed
qed

lemma content_SomeD: "content fs p = Some bs \<Longrightarrow> map_of fs p \<noteq> None"
  by (cases "map_of fs p") (simp_all add: content_def)

lemma content_apply_op [simp]:
  "content (apply_op (OpMkdir p) fs) q = content fs q"
  "content (apply_op (OpChtimes p t) fs) q = content fs q"
  "content (apply_op (OpCreate p t) fs) q = (if q = p then Some [] else content fs q)"
  "content (apply_op (OpWrite p bs t) fs) q =
     (if q = p then map_option (\<lambda>old. old @ bs) (content fs p) else content fs q)"
  "content (apply_op (OpRemove p) fs) q = (if q = p then None else content fs q)"
  by (auto simp: content_def map_of_apply_op split: option.splits node.splits)

lemma content_rename:
  "content fs p = Some bs \<Longrightarrow>
   content (apply_op (OpRename p p') fs) q = (if q = p' then Some bs else if q = p then None else content fs q)"
  by (auto simp: content_def map_of_apply_op split: option.splits node.splits)

lemma publish_crash:
  assumes "publish env key name data ref = (res, ops)" and "fs' \<in> set (crash_states ops fs)"
    and "p \<noteq> temp_path key name (pRandom env)"
  shows "content fs' p = content fs p \<or> p = bundle_path key name \<and> content fs' p = Some data"
  using assms path_distinct(1)[of key name key name "pRandom env"]
  by (auto simp: publish_def Let_def content_rename torn_def split: option.splits if_splits)

lemma publish_ok:
  assumes "publish env key name data ref = (Inr ref', ops)"
  shows "ref' = ref" and "content (run_ops ops fs) (bundle_path key name) = Some data"
  using assms path_distinct(1)[of key name key name "pRandom env"]
  by (auto simp: publish_def Let_def content_rename split: option.splits if_splits)

lemma Put_crash:
  assumes put: "Put s env scope files fs = (res, ops)" and fs': "fs' \<in> set (crash_states ops fs)"
  shows "content fs' (bundle_path k n) = content fs (bundle_path k n) \<or>
    content fs (bundle_path k n) = None \<and>
    (\<exists>b r. scopeKey scope = Inr k \<and> buildBundle files = Inr (b, r) \<and> n = bName b \<and>
       content fs' (bundle_path k n) = Some (marshal_bundle (put_bundle scope b)))"
  using put
proof (cases rule: Put_cases)
  case (written key b r)
  obtain po where ops: "ops = OpMkdir (scopeDir key) # po"
    and pub: "publish env key (bName b) (marshal_bundle (put_bundle scope b)) (r\<lparr>rScope := TrimSpace scope\<rparr>) = (res, po)"
    using written by (metis list.sel(3))
  have "content fs (bundle_path key (bName b)) = None" using written(3) by (simp add: content_def)
  moreover have "fs' = fs \<or> fs' \<in> set (crash_states po (apply_op (OpMkdir (scopeDir key)) fs))"
    using fs' by (simp add: ops)
  ultimately show ?thesis
    using publish_crash[OF pub _ path_distinct(1)] written(1,2)
    by (metis bundle_path_inj content_apply_op(1))
qed (use fs' in \<open>auto split: if_splits\<close>)

lemma Put_ok:
  assumes "Put s env scope files fs = (Inr ref, ops)"
  obtains key b r where "scopeKey scope = Inr key" "buildBundle files = Inr (b, r)"
    "ref = r\<lparr>rScope := TrimSpace scope\<rparr>"
    "content (run_ops ops fs) (bundle_path key (bName b)) =
       (if map_of fs (bundle_path key (bName b)) = None then Some (marshal_bundle (put_bundle scope b))
        else content fs (bundle_path key (bName b)))"
    "map_of fs (bundle_path key (bName b)) \<noteq> None \<longrightarrow>
       ops = OpMkdir (scopeDir key) # (if pChtimesErr env then [] else [OpChtimes (bundle_path key (bName b)) (pNow env)])"
  using assms
proof (cases rule: Put_cases)
  case (reused key b r n)
  then show ?thesis by (intro that[of key b r]) auto
next
  case (written key b r)
  obtain po where ops: "ops = OpMkdir (scopeDir key) # po"
    and pub: "publish env key (bName b) (marshal_bundle (put_bundle scope b)) (r\<lparr>rScope := TrimSpace scope\<rparr>) = (Inr ref, po)"
    using written by (metis list.sel(3))
  show ?thesis
    using publish_ok[OF pub] written ops by (intro that[of key b r]) auto
qed auto

lemma Get_Inr:
  "Get s env scope name digest fs = Inr b \<longleftrightarrow>
     s \<noteq> None \<and> \<not> gCtxErr env \<and> \<not> gReadErr env \<and>
     (\<exists>key data. scopeKey scope = Inr key \<and> validateBundleName name = Inr () \<and>
        content fs (bundle_path key name) = Some data \<and> unmarshal_bundle data = Some b) \<and>
     bName b = name \<and> bScope b = TrimSpace scope \<and> (TrimSpace digest \<noteq> [] \<longrightarrow> bDigest b = digest)"
proof (cases "scopeKey scope")
  case (Inr key)
  show ?thesis
  proof (cases "map_of fs (bundle_path key name)")
    case None
    then show ?thesis using Inr by (simp add: Get_def content_def)
  next
    case (Some n)
    then show ?thesis using Inr
      by (cases n; cases "unmarshal_bundle (case n of RegFile bs _ \<Rightarrow> bs)") (simp_all add: Get_def content_def, auto)
  qed
qed (simp add: Get_def)

lemma bundle_wf_put: "bundle_wf (put_bundle scope b) = bundle_wf b"
  by (simp add: bundle_wf_def put_bundle_def)

subsection \<open>What a sweep removes\<close>

definition victim :: "sweep_env \<Rightarrow> gotime \<Rightarrow> (path \<rightharpoonup> node) \<Rightarrow> path \<Rightarrow> bool" where
  "victim env cutoff m p \<longleftrightarrow>
     (case (p, m p) of
        ([dir, name], Some (RegFile bs mtime)) \<Rightarrow>
          m [dir] = Some Dir \<and> HasPrefix dir ''scope-'' \<and> \<not> swListErr env dir \<and>
          (HasSuffix name ''.json'' \<or> HasSuffix name ''.tmp'') \<and>
          \<not> swInfoErr env p \<and> mtime < cutoff \<and> \<not> swRemoveErr env p
      | _ \<Rightarrow> False)"

text \<open>The balance every iteration keeps: one removal counted per path gone.\<close>

definition sweep_balance :: "nat \<Rightarrow> sweep_state \<Rightarrow> bool" where
  "sweep_balance n st \<longleftrightarrow> swRemoved st + card (dom (map_of (swFs st))) = n"

lemma card_dom_minus: "map_of fs p = Some n \<Longrightarrow> Suc (card (dom (map_of fs) - {p})) = card (dom (map_of fs))"
  by (rule card_Suc_Diff1) (auto simp: finite_dom_map_of)

lemma victim_dom: "victim env cutoff m p \<Longrightarrow> p \<in> dom m"
  by (cases "m p") (auto simp: victim_def split: list.splits)

lemma victim_update:
  "victim env cutoff (m([dir, a] := None)) p \<longleftrightarrow> victim env cutoff m p \<and> p \<noteq> [dir, a]"
  by (auto simp: victim_def split: list.splits option.splits node.splits)

lemma sweep_entry_map:
  assumes "map_of (swFs st) [dir] = Some Dir" and "HasPrefix dir ''scope-''" and "\<not> swListErr env dir"
  shows "map_of (swFs (sweep_entry env cutoff dir name st)) =
     (if victim env cutoff (map_of (swFs st)) [dir, name] then (map_of (swFs st))([dir, name] := None)
      else map_of (swFs st))"
    and "sweep_balance n st \<Longrightarrow> sweep_balance n (sweep_entry env cutoff dir name st)"
proof -
  show "map_of (swFs (sweep_entry env cutoff dir name st)) =
     (if victim env cutoff (map_of (swFs st)) [dir, name] then (map_of (swFs st))([dir, name] := None)
      else map_of (swFs st))"
    using assms by (auto simp: sweep_entry_def victim_def os_remove_def map_of_apply_op split: option.splits node.splits)
  show "sweep_balance n st \<Longrightarrow> sweep_balance n (sweep_entry env cutoff dir name st)"
    by (auto simp: sweep_entry_def sweep_balance_def os_remove_def map_of_apply_op card_dom_minus split: option.splits node.splits)
qed

lemma sweep_entries_map:
  assumes "map_of (swFs st) [dir] = Some Dir" and "HasPrefix dir ''scope-''" and "\<not> swListErr env dir"
  shows "map_of (swFs (fold (sweep_entry env cutoff dir) names st)) =
     (\<lambda>p. if (\<exists>n \<in> set names. p = [dir, n]) \<and> victim env cutoff (map_of (swFs st)) p then None else map_of (swFs st) p)"
    and "sweep_balance n st \<Longrightarrow> sweep_balance n (fold (sweep_entry env cutoff dir) names st)"
proof -
  have "map_of (swFs (fold (sweep_entry env cutoff dir) names st)) =
     (\<lambda>p. if (\<exists>n \<in> set names. p = [dir, n]) \<and> victim env cutoff (map_of (swFs st)) p then None else map_of (swFs st) p)
     \<and> (sweep_balance n st \<longrightarrow> sweep_balance n (fold (sweep_entry env cutoff dir) names st))"
    using assms(1)
  proof (induction names arbitrary: st)
    case (Cons a names)
    let ?st = "sweep_entry env cutoff dir a st"
    note e = sweep_entry_map[OF Cons.prems assms(2,3)]
    have "map_of (swFs ?st) [dir] = Some Dir" using Cons.prems by (simp add: e(1))
    note ih = Cons.IH[OF this]
    have v: "victim env cutoff (map_of (swFs ?st)) p \<longleftrightarrow> victim env cutoff (map_of (swFs st)) p \<and> p \<noteq> [dir, a]" for p
      unfolding e(1) by (auto simp: victim_update)
    show ?case
    proof
      show "map_of (swFs (fold (sweep_entry env cutoff dir) (a # names) st)) =
        (\<lambda>p. if (\<exists>n \<in> set (a # names). p = [dir, n]) \<and> victim env cutoff (map_of (swFs st)) p then None else map_of (swFs st) p)"
        unfolding fold_simps o_apply conjunct1[OF ih] v by (auto simp: e(1))
    qed (use ih e(2) in auto)
  qed auto
  then show "map_of (swFs (fold (sweep_entry env cutoff dir) names st)) =
     (\<lambda>p. if (\<exists>n \<in> set names. p = [dir, n]) \<and> victim env cutoff (map_of (swFs st)) p then None else map_of (swFs st) p)"
    and "sweep_balance n st \<Longrightarrow> sweep_balance n (fold (sweep_entry env cutoff dir) names st)" by blast+
qed

lemma set_children: "n \<in> set (children fs d) \<longleftrightarrow> d @ [n] \<in> dom (map_of fs)"
proof -
  have "n \<in> set (children fs d) \<longleftrightarrow> (\<exists>p \<in> fst ` set fs. p \<noteq> [] \<and> butlast p = d \<and> last p = n)"
    by (auto simp: children_def image_iff)
  also have "\<dots> \<longleftrightarrow> d @ [n] \<in> fst ` set fs"
    by (metis append_butlast_last_id butlast_snoc last_snoc snoc_eq_iff_butlast)
  finally show ?thesis by (simp add: dom_map_of_conv_image_fst)
qed

lemma sweep_scope_map:
  "map_of (swFs (sweep_scope env cutoff scope st)) =
     (\<lambda>p. if (\<exists>n. p = [scope, n]) \<and> victim env cutoff (map_of (swFs st)) p then None else map_of (swFs st) p) \<and>
   (sweep_balance k st \<longrightarrow> sweep_balance k (sweep_scope env cutoff scope st))"
proof -
  consider "map_of (swFs st) [scope] \<noteq> Some Dir \<or> \<not> HasPrefix scope ''scope-''"
    | "map_of (swFs st) [scope] = Some Dir" "HasPrefix scope ''scope-''" "swListErr env scope"
    | "map_of (swFs st) [scope] = Some Dir" "HasPrefix scope ''scope-''" "\<not> swListErr env scope" by blast
  then show ?thesis
  proof cases
    case 1
    then have "\<not> victim env cutoff (map_of (swFs st)) [scope, n]" for n
      by (auto simp: victim_def split: option.splits node.splits)
    with 1 show ?thesis by (auto simp: sweep_scope_def fun_eq_iff)
  next
    case 2
    then have "\<not> victim env cutoff (map_of (swFs st)) [scope, n]" for n
      by (auto simp: victim_def split: option.splits node.splits)
    with 2 show ?thesis by (auto simp: sweep_scope_def sweep_balance_def fun_eq_iff)
  next
    case 3
    have "victim env cutoff (map_of (swFs st)) [scope, n] \<Longrightarrow> n \<in> set (children (swFs st) [scope])" for n
      by (auto simp: victim_def set_children split: option.splits)
    then have "(\<exists>n \<in> set (children (swFs st) [scope]). p = [scope, n]) \<and> victim env cutoff (map_of (swFs st)) p \<longleftrightarrow>
        (\<exists>n. p = [scope, n]) \<and> victim env cutoff (map_of (swFs st)) p" for p by auto
    then show ?thesis using 3 sweep_entries_map[OF 3] by (simp add: sweep_scope_def)
  qed
qed

lemma victim_update_all:
  assumes "\<And>p. m' p = (if P p \<and> victim env cutoff m p then None else m p)"
  shows "victim env cutoff m' p \<longleftrightarrow> victim env cutoff m p \<and> \<not> P p"
proof -
  have "m' [d] = m [d]" for d using assms[of "[d]"] by (simp add: victim_def)
  then show ?thesis using assms[of p] by (auto simp: victim_def split: list.splits option.splits node.splits)
qed

lemma sweep_scopes_map:
  "map_of (swFs (fold (sweep_scope env cutoff) scopes st)) =
     (\<lambda>p. if (\<exists>d n. d \<in> set scopes \<and> p = [d, n]) \<and> victim env cutoff (map_of (swFs st)) p then None else map_of (swFs st) p) \<and>
   (sweep_balance k st \<longrightarrow> sweep_balance k (fold (sweep_scope env cutoff) scopes st))"
proof (induction scopes arbitrary: st)
  case (Cons a scopes)
  let ?st = "sweep_scope env cutoff a st"
  note e = sweep_scope_map[of env cutoff a st k]
  have v: "victim env cutoff (map_of (swFs ?st)) p \<longleftrightarrow> victim env cutoff (map_of (swFs st)) p \<and> (\<nexists>n. p = [a, n])" for p
    by (rule victim_update_all) (simp add: conjunct1[OF e])
  have "map_of (swFs (fold (sweep_scope env cutoff) scopes ?st)) p =
     (if (\<exists>d n. d \<in> set (a # scopes) \<and> p = [d, n]) \<and> victim env cutoff (map_of (swFs st)) p then None else map_of (swFs st) p)" for p
    unfolding conjunct1[OF Cons.IH] v unfolding conjunct1[OF e] by auto
  then show ?case using Cons.IH[of ?st] e by auto
qed auto

lemma Sweep_map:
  assumes "s \<noteq> None" and "\<not> swRootErr env"
  shows "map_of (swFs (Sweep s env now maxAge fs)) =
      (\<lambda>p. if victim env (now - maxAge) (map_of fs) p then None else map_of fs p)"
    and "swRemoved (Sweep s env now maxAge fs) + card (dom (map_of (swFs (Sweep s env now maxAge fs)))) = card (dom (map_of fs))"
proof -
  let ?st = "\<lparr>swRemoved = 0, swErrs = [], swFs = fs\<rparr>"
  have sweep: "Sweep s env now maxAge fs = fold (sweep_scope env (now - maxAge)) (children fs []) ?st"
    using assms by (auto simp: Sweep_def)
  have "(\<exists>d n. d \<in> set (children fs []) \<and> p = [d, n]) \<and> victim env c (map_of fs) p \<longleftrightarrow> victim env c (map_of fs) p" for p c
    by (auto simp: victim_def set_children split: list.splits option.splits node.splits)
  then show "map_of (swFs (Sweep s env now maxAge fs)) =
      (\<lambda>p. if victim env (now - maxAge) (map_of fs) p then None else map_of fs p)"
    unfolding sweep conjunct1[OF sweep_scopes_map] by (simp cong: if_cong)
  show "swRemoved (Sweep s env now maxAge fs) + card (dom (map_of (swFs (Sweep s env now maxAge fs)))) = card (dom (map_of fs))"
    unfolding sweep using conjunct2[OF sweep_scopes_map[of env "now - maxAge" "children fs []" ?st "card (dom (map_of fs))"]]
    by (simp add: sweep_balance_def)
qed

lemma Sweep_error:
  "s = None \<or> swRootErr env \<Longrightarrow> swFs (Sweep s env now maxAge fs) = fs \<and> swErrs (Sweep s env now maxAge fs) \<noteq> []"
  by (auto simp: Sweep_def)

subsection \<open>The store as its clients see it\<close>

text \<open>
  The contract: a state of the store, the steps any number of callers (and crashes) can
  make, and the lookup. What a lookup returns is well formed and is the bundle asked for,
  in every state reachable from a good one.
\<close>

locale bundle_contract =
  fixes good :: "'s \<Rightarrow> bool"
    and step :: "'s \<Rightarrow> 's \<Rightarrow> bool"
    and lookup :: "'s \<Rightarrow> string \<Rightarrow> string \<Rightarrow> string \<Rightarrow> bundle_error + Bundle"
  assumes good_step: "good s \<Longrightarrow> step s s' \<Longrightarrow> good s'"
    and lookup_wf: "good s \<Longrightarrow> lookup s scope name digest = Inr b \<Longrightarrow> bundle_wf b"
    and lookup_key: "lookup s scope name digest = Inr b \<Longrightarrow>
       bName b = name \<and> bScope b = TrimSpace scope \<and> (TrimSpace digest \<noteq> [] \<longrightarrow> bDigest b = digest)"
begin

lemma good_steps: "step\<^sup>*\<^sup>* s s' \<Longrightarrow> good s \<Longrightarrow> good s'"
  by (induction rule: rtranclp_induct) (auto intro: good_step)

lemma lookup_reachable:
  assumes "step\<^sup>*\<^sup>* s s'" and "good s" and "lookup s' scope name digest = Inr b"
  shows "bundle_wf b \<and> bName b = name \<and> bScope b = TrimSpace scope \<and> (TrimSpace digest \<noteq> [] \<longrightarrow> bDigest b = digest)"
  using assms good_steps lookup_wf lookup_key by metis

lemma scopes_isolated:
  assumes "lookup s scope name digest = Inr b" and "lookup s' scope' name' digest' = Inr b"
  shows "TrimSpace scope = TrimSpace scope'"
  using assms lookup_key by metis

end

text \<open>
  The disk: what is published under a bundle path decodes to a well-formed bundle stored
  under its own scope and name. A step is any call of the store's operations, run to the
  end or cut off by a crash, by any caller, with any request.
\<close>

definition disk_good :: "fs \<Rightarrow> bool" where
  "disk_good fs \<longleftrightarrow>
     (\<forall>key name data. content fs (bundle_path key name) = Some data \<longrightarrow>
        (\<exists>b. unmarshal_bundle data = Some b \<and> bundle_wf b \<and> bName b = name \<and>
             bScope b = TrimSpace (bScope b) \<and> scopeKey (bScope b) = Inr key))"

definition storable_request :: "string \<Rightarrow> File list \<Rightarrow> bool" where
  "storable_request scope files \<longleftrightarrow>
     (case buildBundle files of Inl _ \<Rightarrow> True | Inr (b, r) \<Rightarrow> storable (put_bundle scope b))"

datatype store_event = PutBundle string "File list" | DeleteBundle string string string | SweepBundles gotime duration

inductive store_step :: "store_event \<Rightarrow> fs \<Rightarrow> fs \<Rightarrow> bool" where
  put_step: "Put s env scope files fs = (res, ops) \<Longrightarrow> fs' \<in> set (crash_states ops fs) \<Longrightarrow>
     store_step (PutBundle scope files) fs fs'"
| delete_step: "Delete s denv scope name digest fs = (dres, ops) \<Longrightarrow> fs' \<in> set (crash_states ops fs) \<Longrightarrow>
     store_step (DeleteBundle scope name digest) fs fs'"
| sweep_step: "store_step (SweepBundles now maxAge) fs (swFs (Sweep s senv now maxAge fs))"

definition disk_step :: "fs \<Rightarrow> fs \<Rightarrow> bool" where
  "disk_step fs fs' \<longleftrightarrow> (\<exists>e. store_step e fs fs')"

inductive store_run :: "fs \<Rightarrow> store_event list \<Rightarrow> fs \<Rightarrow> bool" where
  run_Nil: "store_run fs [] fs"
| run_snoc: "store_run fs evs fs' \<Longrightarrow> store_step e fs' fs'' \<Longrightarrow> store_run fs (evs @ [e]) fs''"

text \<open>
  The contract needs what is put to be UTF-8 text: \<open>Put\<close> accepts other bytes, but the JSON on disk
  has U+FFFD in their place. The steps of the contract are those that respect this.
\<close>

definition text_event :: "store_event \<Rightarrow> bool" where
  "text_event e \<longleftrightarrow> (case e of PutBundle scope files \<Rightarrow> storable_request scope files | _ \<Rightarrow> True)"

definition text_step :: "fs \<Rightarrow> fs \<Rightarrow> bool" where
  "text_step fs fs' \<longleftrightarrow> (\<exists>e. text_event e \<and> store_step e fs fs')"

lemma text_stepI: "store_step e fs fs' \<Longrightarrow> text_event e \<Longrightarrow> text_step fs fs'"
  by (auto simp: text_step_def)

lemma run_text_steps: "store_run fs evs fs' \<Longrightarrow> list_all text_event evs \<Longrightarrow> text_step\<^sup>*\<^sup>* fs fs'"
  by (induction rule: store_run.induct) (auto dest: text_stepI)

lemma Delete_ops:
  assumes "Delete s env scope name digest fs = (res, ops)"
  shows "ops = [] \<or> (\<exists>key. scopeKey scope = Inr key \<and> ops = [OpRemove (bundle_path key name)])"
  using assms
  by (cases "scopeKey scope"; cases "validateBundleName name")
    (auto simp: Delete_def Let_def split: if_splits sum.splits rm_result.splits)

lemma disk_good_less:
  "disk_good fs \<Longrightarrow> (\<And>p. content fs' p = None \<or> content fs' p = content fs p) \<Longrightarrow> disk_good fs'"
  unfolding disk_good_def by (metis option.distinct(1))

lemma disk_good_step:
  assumes good: "disk_good fs" and "store_step e fs fs'" and utf8: "text_event e"
  shows "disk_good fs'"
  using assms(2)
proof cases
  case (put_step s env scope files res ops)
  show ?thesis unfolding disk_good_def
  proof (intro allI impI)
    fix key name data
    assume data: "content fs' (bundle_path key name) = Some data"
    consider (old) "content fs (bundle_path key name) = Some data"
      | (new) b r where "scopeKey scope = Inr key" "buildBundle files = Inr (b, r)" "name = bName b"
          "data = marshal_bundle (put_bundle scope b)"
      using Put_crash[OF put_step(2,3), of key name] data by auto
    then show "\<exists>b. unmarshal_bundle data = Some b \<and> bundle_wf b \<and> bName b = name \<and>
             bScope b = TrimSpace (bScope b) \<and> scopeKey (bScope b) = Inr key"
    proof cases
      case old
      then show ?thesis using good by (auto simp: disk_good_def)
    next
      case new
      then have "storable (put_bundle scope b)" using utf8 put_step(1) by (simp add: text_event_def storable_request_def)
      then have "unmarshal_bundle data = Some (put_bundle scope b)" by (simp add: new(4) unmarshal_marshal)
      moreover have "bundle_wf b" using new(2) bundle_wf_spec by (simp add: buildBundle_eq)
      ultimately show ?thesis
        using new(1,3) by (intro exI[of _ "put_bundle scope b"]) (simp add: bundle_wf_put, simp add: put_bundle_def)
    qed
  qed
next
  case (delete_step s denv scope name digest dres ops)
  have "content fs' p = None \<or> content fs' p = content fs p" for p
    using Delete_ops[OF delete_step(2)] delete_step(3) by auto
  with good show ?thesis by (rule disk_good_less)
next
  case (sweep_step now maxAge s senv)
  have "content fs' p = None \<or> content fs' p = content fs p" for p
  proof (cases "s = None \<or> swRootErr senv")
    case True
    then show ?thesis using sweep_step Sweep_error by metis
  next
    case False
    then show ?thesis using sweep_step Sweep_map(1)[of s senv now maxAge fs] by (auto simp: content_def)
  qed
  with good show ?thesis by (rule disk_good_less)
qed

interpretation disk: bundle_contract disk_good text_step "\<lambda>fs scope name digest. Get s env scope name digest fs"
proof
  fix fs fs' scope name digest b
  show "disk_good fs \<Longrightarrow> text_step fs fs' \<Longrightarrow> disk_good fs'"
    unfolding text_step_def by (elim exE conjE) (rule disk_good_step)
  assume get: "Get s env scope name digest fs = Inr b"
  then show "bName b = name \<and> bScope b = TrimSpace scope \<and> (TrimSpace digest \<noteq> [] \<longrightarrow> bDigest b = digest)"
    by (simp add: Get_Inr)
  assume "disk_good fs"
  with get show "bundle_wf b" unfolding Get_Inr disk_good_def by (metis option.inject)
qed

text \<open>Requests made of UTF-8 text can be stored: names and digests are ASCII, sizes are small.\<close>

lemma digest_ascii: "utf8_Valid (bundle_name (digestBytes bs))" "utf8_Valid (digestBytes bs)"
proof -
  have a: "\<forall>c \<in> set ''0123456789abcdefbundle-sh:''. byte c < 128" by code_simp
  have "set (bundle_name (digestBytes bs)) \<subseteq> set ''0123456789abcdefbundle-sh:''"
    by (rule subset_trans[OF set_bundle_name]) (simp add: subset_iff)
  with a show "utf8_Valid (bundle_name (digestBytes bs))" by (intro utf8_Valid_ascii) blast
  have "set (digestBytes bs) = set ''sha256:'' \<union> set (hex_encode (sha256 bs))"
    by (simp add: digestBytes_def)
  moreover have "set ''sha256:'' \<subseteq> set ''0123456789abcdefbundle-sh:''" "set ''0123456789abcdef'' \<subseteq> set ''0123456789abcdefbundle-sh:''"
    by (simp_all add: subset_iff)
  ultimately have "set (digestBytes bs) \<subseteq> set ''0123456789abcdefbundle-sh:''"
    using set_hex_encode[of "sha256 bs"] by blast
  with a show "utf8_Valid (digestBytes bs)" by (intro utf8_Valid_ascii) blast
qed

lemma storable_text:
  assumes "accepted_files files" and "utf8_Valid (TrimSpace scope)"
    and "\<forall>f \<in> set files. utf8_Valid (bfPath (scanned f)) \<and> utf8_Valid (bfContent (scanned f))"
  shows "storable_request scope files"
proof -
  have b: "buildBundle files = Inr (bundle_spec files, bundle_ref (bundle_spec files))"
    using assms(1) by (simp add: buildBundle_eq)
  have limit: "int MaxTotalBytes < 9223372036854775808" by (simp add: bundle_limits)
  have "storable_file (finish_file f)" if "f \<in> set (sorted_files files)" for f
  proof -
    from that obtain g where g: "g \<in> set files" "f = scanned g" by (auto simp: sorted_files_def)
    have ok: "\<not> isl (scan_one g)" using assms(1) g(1) by (simp add: accepted_files_def)
    have "length (file_data f) < 2 ^ 25"
      using file_data_bound(1)[of f] accepted_sorted(5)[OF assms(1) that] by (simp add: bundle_limits split: if_splits)
    then have "int64 (int (length (file_data f)))" by (simp add: int64_def)
    moreover have "utf8_Valid (bfEncoding f)"
      using scanned_props(2)[OF ok] g(2) by (auto simp: EncodingBase64_def intro!: utf8_Valid_ascii)
    moreover have "bfDigest f = []" using scanned_props(6)[OF ok] g(2) by simp
    ultimately show ?thesis
      using assms(3) g digest_ascii(2) by (simp add: storable_file_def finish_file_def)
  qed
  moreover have "int64 (int (data_total (map scanned files)))"
    using assms(1) limit by (simp add: accepted_files_def int64_def)
  ultimately show ?thesis
    using assms(2) digest_ascii
    by (simp add: storable_request_def b storable_def put_bundle_def list_all_iff)
qed

lemma storable_request_spec:
  "accepted_files files \<Longrightarrow> storable_request scope files \<longleftrightarrow> storable (put_bundle scope (bundle_spec files))"
  by (simp add: storable_request_def buildBundle_eq[THEN iffD2, of files "bundle_spec files" "bundle_ref (bundle_spec files)"])

text \<open>A run of \<open>Put\<close> in which no system call fails.\<close>

definition calm :: "gotime \<Rightarrow> string \<Rightarrow> put_env" where
  "calm now rnd = \<lparr>pCtxErr = False, pMkdirErr = False, pStatErr = False, pNow = now, pChtimesErr = False,
     pTempErr = False, pRandom = rnd, pWriteErr = None, pCloseErr = False, pRenameErr = False\<rparr>"

definition reading :: get_env where
  "reading = \<lparr>gCtxErr = False, gReadErr = False\<rparr>"

lemma Put_calm:
  assumes "accepted_files files" and "scopeKey scope = Inr key"
  shows "fst (Put (Some s) (calm now rnd) scope files []) = Inr ((bundle_ref (bundle_spec files))\<lparr>rScope := TrimSpace scope\<rparr>)"
  using assms path_distinct
  by (simp add: Put_def buildBundle_eq[THEN iffD2, of files "bundle_spec files" "bundle_ref (bundle_spec files)"] Let_def calm_def
      put_file_def map_of_apply_op publish_def split: prod.splits)

lemma Put_dir:
  assumes "Put (Some s) (calm now rnd) scope files [] = (res, ops)"
  shows "\<nexists>d t. map_of (run_ops ops []) (scopeDir key) = Some (RegFile d t)"
  using assms
proof (cases rule: Put_cases)
  case (written k b r)
  obtain po where ops: "ops = OpMkdir (scopeDir k) # po"
    and pub: "publish (calm now rnd) k (bName b) (marshal_bundle (put_bundle scope b)) (r\<lparr>rScope := TrimSpace scope\<rparr>) = (res, po)"
    using written by (metis list.sel(3))
  have "content (run_ops po fs) (scopeDir key) = content fs (scopeDir key)" for fs
    using publish_crash[OF pub run_ops_crash_state, of "scopeDir key"] path_distinct(2,3) by metis
  then have "content (run_ops ops []) (scopeDir key) = None" by (simp add: ops content_def map_of_apply_op)
  then show ?thesis by (simp add: content_def split: option.splits node.splits)
qed (auto simp: map_of_apply_op)

lemma scopeKey_ok: "TrimSpace scope \<noteq> [] \<Longrightarrow> \<exists>key. scopeKey scope = Inr key"
  by (simp add: scopeKey_def)

subsection \<open>Properties\<close>

text \<open>
  Writing a bundle to disk as JSON and reading it back gives the same bundle, for every
  bundle of UTF-8 text with 64-bit sizes.
\<close>

theorem bundle_json_roundtrip:
  assumes "storable b"
  shows "unmarshal_bundle (marshal_bundle b) = Some b"
  using assms by (rule unmarshal_marshal)

theorem bundle_json_roundtrip_witness:
  "let b = \<lparr>bName = ''n'', bDigest = ''d'', bScope = ''<s>'', bSize = 3,
            bFiles = [\<lparr>bfPath = ''a'', bfContent = [CHR 0x22, CHR 0x0A, CHR 0xC3, CHR 0xA9], bfEncoding = [],
                       bfSize = 3, bfDigest = [], bfDelete = False\<rparr>]\<rparr>
   in storable b \<and> unmarshal_bundle (marshal_bundle b) = Some b"
proof -
  have s: "storable \<lparr>bName = ''n'', bDigest = ''d'', bScope = ''<s>'', bSize = 3,
            bFiles = [\<lparr>bfPath = ''a'', bfContent = [CHR 0x22, CHR 0x0A, CHR 0xC3, CHR 0xA9], bfEncoding = [],
                       bfSize = 3, bfDigest = [], bfDelete = False\<rparr>]\<rparr>" by code_simp
  show ?thesis unfolding Let_def using s bundle_json_roundtrip[OF s] by (rule conjI)
qed

text \<open>
  (C15) A successful \<open>Put\<close> of a new bundle can be read back: \<open>Get\<close> in the same scope with the
  returned name and digest gives exactly the bundle \<open>buildBundle\<close> made of the files.
\<close>

theorem Put_then_Get:
  assumes "Put s env scope files fs = (Inr ref, ops)" and "storable_request scope files"
    and "scopeKey scope = Inr key" and "map_of fs (bundle_path key (rName ref)) = None"
    and "s' \<noteq> None" and "\<not> gCtxErr genv" and "\<not> gReadErr genv"
  shows "\<exists>b r. buildBundle files = Inr (b, r) \<and>
     Get s' genv scope (rName ref) (rDigest ref) (run_ops ops fs) = Inr (b\<lparr>bScope := TrimSpace scope\<rparr>)"
  using assms(1)
proof (rule Put_ok)
  fix k b r
  assume k: "scopeKey scope = Inr k" and b: "buildBundle files = Inr (b, r)" and ref: "ref = r\<lparr>rScope := TrimSpace scope\<rparr>"
    and c: "content (run_ops ops fs) (bundle_path k (bName b)) =
       (if map_of fs (bundle_path k (bName b)) = None then Some (marshal_bundle (put_bundle scope b))
        else content fs (bundle_path k (bName b)))"
  have r: "rName ref = bName b" "rDigest ref = bDigest b"
    using b by (auto simp: ref buildBundle_eq bundle_ref_def)
  have "storable (put_bundle scope b)" using assms(2) b by (simp add: storable_request_def)
  moreover have "validateBundleName (bName b) = Inr ()"
    using b bundle_wf_spec by (auto simp: buildBundle_eq bundle_wf_def)
  ultimately have "Get s' genv scope (bName b) (bDigest b) (run_ops ops fs) = Inr (put_bundle scope b)"
    using assms(3-7) k c r unfolding Get_Inr by (auto simp: unmarshal_marshal put_bundle_def)
  with b r show ?thesis by (auto simp: put_bundle_def)
qed

theorem Put_then_Get_witness:
  "\<exists>ref b. fst (Put (Some \<lparr>stDir = ''/data''\<rparr>) (calm 7 ''42'') '' repo-1 ''
              [\<lparr>fPath = ''README.md'', fContent = ''hello'', fEncoding = [], fDelete = False\<rparr>] []) = Inr ref \<and>
     Get (Some \<lparr>stDir = ''/data''\<rparr>) reading ''repo-1 '' (rName ref) (rDigest ref)
       (run_ops (snd (Put (Some \<lparr>stDir = ''/data''\<rparr>) (calm 7 ''42'') '' repo-1 ''
              [\<lparr>fPath = ''README.md'', fContent = ''hello'', fEncoding = [], fDelete = False\<rparr>] [])) []) = Inr b"
proof -
  let ?fs = "[\<lparr>fPath = ''README.md'', fContent = ''hello'', fEncoding = [], fDelete = False\<rparr>]"
  let ?s = "Some \<lparr>stDir = ''/data''\<rparr>" and ?scope = "'' repo-1 ''"
  have trim: "TrimSpace ?scope = ''repo-1''" "TrimSpace ''repo-1 '' = ''repo-1''" by code_simp+
  have acc: "accepted_files ?fs" by code_simp
  moreover have "utf8_Valid (TrimSpace ?scope)" by code_simp
  moreover have "\<forall>f \<in> set ?fs. utf8_Valid (bfPath (scanned f)) \<and> utf8_Valid (bfContent (scanned f))" by code_simp
  ultimately have st: "storable_request ?scope ?fs" by (rule storable_text)
  obtain key where key: "scopeKey ?scope = Inr key" using scopeKey_ok[of ?scope] trim by auto
  obtain ref ops where put: "Put ?s (calm 7 ''42'') ?scope ?fs [] = (Inr ref, ops)"
    using Put_calm[OF acc key, of "\<lparr>stDir = ''/data''\<rparr>" 7 "''42''"] by (metis prod.collapse)
  have same: "Get ?s reading ''repo-1 '' n d fs = Get ?s reading ?scope n d fs" for n d fs
    unfolding Get_def by (simp only: scopeKey_TrimSpace[of ?scope, symmetric] scopeKey_TrimSpace[of "''repo-1 ''", symmetric] trim)
  show ?thesis
    using Put_then_Get[OF put st key, of ?s reading] unfolding put same by (auto simp: reading_def)
qed

text \<open>
  (C1) Publishing is atomic. Whatever system call fails and wherever a crash cuts \<open>Put\<close> off, even
  in the middle of the write, every path a bundle can be read from holds what it held
  before, except that the new bundle's path, if nothing was there, may hold its complete text.
\<close>

theorem Put_crash_atomic:
  assumes "Put s env scope files fs = (res, ops)" and "fs' \<in> set (crash_states ops fs)"
  shows "content fs' (bundle_path k n) = content fs (bundle_path k n) \<or>
    content fs (bundle_path k n) = None \<and>
    (\<exists>b r. scopeKey scope = Inr k \<and> buildBundle files = Inr (b, r) \<and> n = bName b \<and>
       content fs' (bundle_path k n) = Some (marshal_bundle (b\<lparr>bScope := TrimSpace scope\<rparr>)))"
  using Put_crash[OF assms] by (simp add: put_bundle_def)

theorem Put_crash_atomic_witness:
  "let fs = [([''scope-x''], Dir), ([''scope-x'', ''old.json''], RegFile ''{}'' 5)];
       put = Put (Some \<lparr>stDir = ''/data''\<rparr>) (calm 7 ''42'') ''repo-1''
               [\<lparr>fPath = ''README.md'', fContent = ''hello'', fEncoding = [], fDelete = False\<rparr>] fs
   in \<forall>fs' \<in> set (crash_states (snd put) fs). content fs' (bundle_path ''scope-x'' ''old'') = Some ''{}''"
proof -
  let ?fs = "[([''scope-x''], Dir), ([''scope-x'', ''old.json''], RegFile ''{}'' 5)]"
  have "content ?fs (bundle_path ''scope-x'' ''old'') = Some ''{}''" by (simp add: content_def bundle_path_def scopeDir_def)
  then show ?thesis
    unfolding Let_def using Put_crash_atomic[OF surjective_pairing, of _ _ _ _ _ ?fs "''scope-x''" "''old''"] by fastforce
qed

text \<open>
  (C14) In every state of the disk that a sequence of \<open>Put\<close>, \<open>Delete\<close> and \<open>Sweep\<close> calls, complete or cut off
  by a crash, can reach from an empty store, what \<open>Get\<close> returns is a well-formed bundle with
  the name, the scope and (when one is given) the digest that were asked for, provided that what
  the calls of \<open>Put\<close> in the sequence store is UTF-8 text (\<open>storable_request\<close>).
\<close>

theorem reachable_Get:
  assumes "store_run [] evs fs" and "\<And>scope files. PutBundle scope files \<in> set evs \<Longrightarrow> storable_request scope files"
    and "Get s env scope name digest fs = Inr b"
  shows "bundle_wf b \<and> bName b = name \<and> bScope b = TrimSpace scope \<and> (TrimSpace digest \<noteq> [] \<longrightarrow> bDigest b = digest)"
proof -
  have "disk_good []" by (simp add: disk_good_def content_def)
  moreover have "list_all text_event evs"
    using assms(2) by (auto simp: list_all_iff text_event_def split: store_event.split)
  ultimately show ?thesis using disk.lookup_reachable[OF run_text_steps[OF assms(1)] _ assms(3)] by blast
qed

theorem reachable_Get_witness:
  "\<exists>evs fs b. store_run [] evs fs \<and> (\<exists>name digest. Get (Some \<lparr>stDir = ''/data''\<rparr>) reading ''s'' name digest fs = Inr b) \<and> bundle_wf b"
proof -
  let ?fs = "[\<lparr>fPath = ''README.md'', fContent = ''hello'', fEncoding = [], fDelete = False\<rparr>]"
  let ?s = "Some \<lparr>stDir = ''/data''\<rparr>" and ?scope = "''s''"
  have acc: "accepted_files ?fs" by code_simp
  moreover have "utf8_Valid (TrimSpace ?scope)" by code_simp
  moreover have "\<forall>f \<in> set ?fs. utf8_Valid (bfPath (scanned f)) \<and> utf8_Valid (bfContent (scanned f))" by code_simp
  ultimately have st: "storable_request ?scope ?fs" by (rule storable_text)
  have trim: "TrimSpace ?scope = ''s''" by code_simp
  then obtain key where key: "scopeKey ?scope = Inr key" using scopeKey_ok[of ?scope] by auto
  obtain ref ops where put: "Put ?s (calm 7 ''42'') ?scope ?fs [] = (Inr ref, ops)"
    using Put_calm[OF acc key, of "\<lparr>stDir = ''/data''\<rparr>" 7 "''42''"] by (metis prod.collapse)
  from put obtain k b r where b: "scopeKey ?scope = Inr k" "buildBundle ?fs = Inr (b, r)"
    "content (run_ops ops []) (bundle_path k (bName b)) = Some (marshal_bundle (put_bundle ?scope b))"
    by (rule Put_ok) auto
  have "storable (put_bundle ?scope b)" using st b(2) by (simp add: storable_request_def)
  moreover have "validateBundleName (bName b) = Inr ()"
    using b(2) bundle_wf_spec by (auto simp: buildBundle_eq bundle_wf_def)
  ultimately have get: "Get ?s reading ?scope (bName b) [] (run_ops ops []) = Inr (put_bundle ?scope b)"
    using b(1,3) unfolding Get_Inr by (auto simp: reading_def unmarshal_marshal put_bundle_def)
  have "run_ops ops [] \<in> set (crash_states ops [])" by (rule run_ops_crash_state)
  with put have "store_step (PutBundle ?scope ?fs) [] (run_ops ops [])" by (rule store_step.put_step)
  with run_Nil have run: "store_run [] ([] @ [PutBundle ?scope ?fs]) (run_ops ops [])" by (rule run_snoc)
  have "bundle_wf (put_bundle ?scope b)" using reachable_Get[OF run _ get] st by auto
  with run get show ?thesis by blast
qed

text \<open>
  Putting a bundle whose path is already taken writes nothing: every bundle keeps its
  text, and (when the refresh of the file's age works) a sweep whose cutoff is not
  later than the time of the \<open>Put\<close> does not reclaim it.
\<close>

theorem Put_reuse_keeps:
  assumes "Put s env scope files fs = (Inr ref, ops)" and "scopeKey scope = Inr key"
    and "map_of fs (bundle_path key (rName ref)) = Some (RegFile data mtime)"
    and "\<not> pChtimesErr env" and "now - maxAge \<le> pNow env"
  shows "(\<forall>p. content (run_ops ops fs) p = content fs p) \<and>
    content (swFs (Sweep s' senv now maxAge (run_ops ops fs))) (bundle_path key (rName ref)) = Some data"
proof -
  from assms(1) obtain k b r where k: "scopeKey scope = Inr k" "buildBundle files = Inr (b, r)" "ref = r\<lparr>rScope := TrimSpace scope\<rparr>"
    and ops': "map_of fs (bundle_path k (bName b)) \<noteq> None \<longrightarrow>
      ops = OpMkdir (scopeDir k) # (if pChtimesErr env then [] else [OpChtimes (bundle_path k (bName b)) (pNow env)])"
    by (rule Put_ok)
  have r: "rName ref = bName b" using k(2,3) by (auto simp: buildBundle_eq bundle_ref_def)
  have ops: "ops = [OpMkdir (scopeDir key), OpChtimes (bundle_path key (rName ref)) (pNow env)]"
    using ops' assms(2-4) k(1) r by simp
  have same: "\<forall>p. content (run_ops ops fs) p = content fs p" by (simp add: ops)
  have m: "map_of (run_ops ops fs) (bundle_path key (rName ref)) = Some (RegFile data (pNow env))"
    using assms(3) path_distinct(2)[of key "rName ref" key]
    by (auto simp: ops map_of_apply_op split: option.splits)
  have "content (swFs (Sweep s' senv now maxAge (run_ops ops fs))) (bundle_path key (rName ref)) = Some data"
  proof (cases "s' = None \<or> swRootErr senv")
    case True
    then show ?thesis using Sweep_error[OF True] m by (simp add: content_def)
  next
    case False
    then have "\<not> victim senv (now - maxAge) (map_of (run_ops ops fs)) (bundle_path key (rName ref))"
      using m assms(5) by (auto simp: victim_def split: list.splits)
    then show ?thesis using False Sweep_map(1)[of s' senv now maxAge] m by (simp add: content_def)
  qed
  with same show ?thesis by (rule conjI)
qed

text \<open>What a calm \<open>Put\<close> finds when the file it would write is already there.\<close>

lemma Put_calm_reuse:
  assumes "accepted_files files" and "scopeKey scope = Inr key"
    and "map_of fs (bundle_path key (bName (bundle_spec files))) \<noteq> None"
    and "\<nexists>d t. map_of fs (scopeDir key) = Some (RegFile d t)"
  shows "Put (Some s) (calm now rnd) scope files fs =
    (Inr ((bundle_ref (bundle_spec files))\<lparr>rScope := TrimSpace scope\<rparr>),
     [OpMkdir (scopeDir key), OpChtimes (bundle_path key (bName (bundle_spec files))) now])"
proof -
  have "(case map_of fs (scopeDir key) of Some (RegFile _ _) \<Rightarrow> True | _ \<Rightarrow> False) = False"
    using assms(4) by (auto split: option.splits node.splits)
  moreover have "map_of (apply_op (OpMkdir (scopeDir key)) fs) (bundle_path key (bName (bundle_spec files))) \<noteq> None"
    using assms(3) by (auto simp: map_of_apply_op split: option.splits)
  ultimately show ?thesis
    using assms(2,3) buildBundle_eq[THEN iffD2, of files "bundle_spec files" "bundle_ref (bundle_spec files)"] assms(1)
    by (auto simp: Put_def Let_def calm_def put_file_def)
qed

theorem Put_reuse_keeps_witness:
  "let files = [\<lparr>fPath = ''a'', fContent = ''x'', fEncoding = [], fDelete = False\<rparr>];
       key = projr (scopeKey ''s''); p = bundle_path key (bName (bundle_spec files));
       fs = [([key], Dir), (p, RegFile ''{}'' 0)]; ops = snd (Put (Some \<lparr>stDir = ''/data''\<rparr>) (calm 50 ''42'') ''s'' files fs);
       senv = \<lparr>swRootErr = False, swListErr = (\<lambda>_. False), swInfoErr = (\<lambda>_. False), swRemoveErr = (\<lambda>_. False)\<rparr>
   in content (swFs (Sweep (Some \<lparr>stDir = ''/data''\<rparr>) senv 100 60 (run_ops ops fs))) p = Some ''{}''"
proof -
  let ?files = "[\<lparr>fPath = ''a'', fContent = ''x'', fEncoding = [], fDelete = False\<rparr>]"
  let ?key = "projr (scopeKey ''s'')" and ?n = "bName (bundle_spec ?files)"
  let ?fs = "[([?key], Dir), (bundle_path ?key ?n, RegFile ''{}'' 0)]"
  have acc: "accepted_files ?files" by code_simp
  have "TrimSpace ''s'' = ''s''" by code_simp
  then have key: "scopeKey ''s'' = Inr ?key" using scopeKey_ok[of "''s''"] by auto
  have m: "map_of ?fs (bundle_path ?key ?n) = Some (RegFile ''{}'' 0)" "map_of ?fs (scopeDir ?key) = Some Dir"
    by (simp_all add: bundle_path_def scopeDir_def)
  note put = Put_calm_reuse[OF acc key, of ?fs "\<lparr>stDir = ''/data''\<rparr>" 50 "''42''"]
  have "rName ((bundle_ref (bundle_spec ?files))\<lparr>rScope := TrimSpace ''s''\<rparr>) = ?n" by (simp add: bundle_ref_def)
  then show ?thesis
    unfolding Let_def
    using Put_reuse_keeps[OF put key, of "''{}''" 0 100 60] m put by (simp add: calm_def del: map_of.simps bundle_spec_sel)
qed

text \<open>
  (C38) The digest collision reaches the store: after one request stored the bundle \<open>a\<close>, a second
  request for two different files \<open>a\<close> and \<open>b\<close> succeeds with a reference that lists two
  files, but what its name and digest fetch is the one-file bundle of the first request.
\<close>

theorem Put_returns_other_files:
  "let one = [\<lparr>fPath = ''a'', fContent = ''x'' @ [CHR 0x00] @ ''b'' @ [CHR 0x00] @ ''y'', fEncoding = [], fDelete = False\<rparr>];
       two = [\<lparr>fPath = ''a'', fContent = ''x'', fEncoding = [], fDelete = False\<rparr>,
              \<lparr>fPath = ''b'', fContent = ''y'', fEncoding = [], fDelete = False\<rparr>];
       fs1 = run_ops (snd (Put (Some s) (calm 1 ''11'') ''s'' one [])) [];
       put = Put (Some s) (calm 2 ''22'') ''s'' two fs1; fs2 = run_ops (snd put) fs1
   in \<exists>ref b. fst put = Inr ref \<and> map mPath (rFiles ref) = [''a'', ''b''] \<and>
        Get (Some s) reading ''s'' (rName ref) (rDigest ref) fs2 = Inr b \<and> map bfPath (bFiles b) = [''a'']"
proof -
  let ?one = "[\<lparr>fPath = ''a'', fContent = ''x'' @ [CHR 0x00] @ ''b'' @ [CHR 0x00] @ ''y'', fEncoding = [], fDelete = False\<rparr>]"
  let ?two = "[\<lparr>fPath = ''a'', fContent = ''x'', fEncoding = [], fDelete = False\<rparr>,
               \<lparr>fPath = ''b'', fContent = ''y'', fEncoding = [], fDelete = False\<rparr>]"
  let ?n = "bName (bundle_spec ?one)" and ?b = "put_bundle ''s'' (bundle_spec ?one)"
  have acc: "accepted_files ?one" "accepted_files ?two" by code_simp+
  have trim: "TrimSpace ''s'' = ''s''" by code_simp
  then obtain key where key: "scopeKey ''s'' = Inr key" using scopeKey_ok[of "''s''"] by auto
  have "\<forall>f \<in> set ?one. utf8_Valid (bfPath (scanned f)) \<and> utf8_Valid (bfContent (scanned f))" "utf8_Valid (TrimSpace ''s'')"
    by code_simp+
  then have st: "storable ?b"
    using storable_text[OF acc(1)] storable_request_spec[OF acc(1)] by blast
  have same: "bName (bundle_spec ?two) = ?n" "bDigest (bundle_spec ?two) = bDigest (bundle_spec ?one)"
    unfolding bundle_spec_sel by (rule arg_cong[of _ _ "\<lambda>d. bundle_name (digestBytes d)"] arg_cong[of _ _ digestBytes], code_simp)+
  have paths: "map bfPath (sorted_files ?one) = [''a'']" "map bfPath (sorted_files ?two) = [''a'', ''b'']" by code_simp+
  obtain ref1 ops1 where put1: "Put (Some s) (calm 1 ''11'') ''s'' ?one [] = (Inr ref1, ops1)"
    using Put_calm[OF acc(1) key, of s 1 "''11''"] by (metis prod.collapse)
  let ?fs1 = "run_ops ops1 []"
  have c1: "content ?fs1 (bundle_path key ?n) = Some (marshal_bundle ?b)"
    using put1 by (rule Put_ok) (use key in \<open>auto simp: buildBundle_eq\<close>)
  then have present: "map_of ?fs1 (bundle_path key ?n) \<noteq> None" by (rule content_SomeD)
  have dir: "\<nexists>d t. map_of ?fs1 (scopeDir key) = Some (RegFile d t)"
    using Put_dir[OF put1] key by simp
  note put2 = Put_calm_reuse[OF acc(2) key present[folded same(1)] dir, of s 2 "''22''"]
  let ?ref = "(bundle_ref (bundle_spec ?two))\<lparr>rScope := TrimSpace ''s''\<rparr>"
  let ?fs2 = "run_ops [OpMkdir (scopeDir key), OpChtimes (bundle_path key (bName (bundle_spec ?two))) 2] ?fs1"
  have c2: "content ?fs2 (bundle_path key ?n) = Some (marshal_bundle ?b)" using c1 by simp
  have v: "validateBundleName ?n = Inr ()" unfolding bundle_spec_sel by (rule bundle_name_valid)
  have ref: "rName ?ref = ?n" "rDigest ?ref = bDigest (bundle_spec ?one)" "map mPath (rFiles ?ref) = [''a'', ''b'']"
    using same paths by (simp_all add: bundle_ref_def file_meta_def finish_file_def o_def)
  have "Get (Some s) reading ''s'' ?n (bDigest (bundle_spec ?one)) ?fs2 = Inr ?b"
    unfolding Get_Inr using key c2 v unmarshal_marshal[OF st] trim by (auto simp: reading_def put_bundle_def)
  moreover have "map bfPath (bFiles ?b) = [''a'']" using paths(1) by (simp add: put_bundle_def finish_file_def o_def)
  ultimately show ?thesis
    unfolding Let_def put1 put2 fst_conv snd_conv using ref by (metis (no_types, lifting))
qed

text \<open>
  A successful \<open>Delete\<close> leaves nothing under the bundle's path and changes no other path, so
  a later \<open>Get\<close> reports the bundle as not found and a second \<open>Delete\<close> succeeds as well.
\<close>

theorem Delete_then_gone:
  assumes "Delete s env scope name digest fs = (Inr (), ops)"
    and "\<not> gCtxErr genv" and "\<not> gReadErr genv" and "\<not> gCtxErr env'" and "\<not> gReadErr env'" and "\<not> dRemoveErr env'"
  shows "Get s genv scope name digest' (run_ops ops fs) = Inl (BundleNotFound name) \<and>
    (\<forall>p. (\<forall>key. scopeKey scope = Inr key \<longrightarrow> p \<noteq> bundle_path key name) \<longrightarrow> map_of (run_ops ops fs) p = map_of fs p) \<and>
    Delete s env' scope name digest' (run_ops ops fs) = (Inr (), [])"
proof -
  from assms(1) have s: "s \<noteq> None" "\<not> gCtxErr env" by (auto simp: Delete_def split: if_splits)
  with assms(1) obtain key where key: "scopeKey scope = Inr key" and v: "validateBundleName name = Inr ()"
    by (auto simp: Delete_def)
  let ?p = "bundle_path key name"
  have ops: "ops = [] \<and> map_of fs ?p = None \<or> ops = [OpRemove ?p]"
  proof (cases "map_of fs ?p")
    case None
    then show ?thesis using assms(1) s key v
      by (auto simp: Delete_def Let_def Get_def os_remove_def split: if_splits)
  next
    case (Some n)
    then have "\<not> IsNotFound e" if "Get s (get_env.truncate env) scope name digest fs = Inl e" for e
      using that s key v
      by (auto simp: Get_def get_env.defs split: if_splits node.splits option.splits)
    then show ?thesis using assms(1) s key v Some
      by (auto simp: Delete_def Let_def os_remove_def split: if_splits sum.splits node.splits)
  qed
  then have gone: "map_of (run_ops ops fs) ?p = None" by (auto simp: map_of_apply_op)
  then have get: "Get s genv scope name d (run_ops ops fs) = Inl (BundleNotFound name)"
    if "\<not> gCtxErr genv" "\<not> gReadErr genv" for genv d
    using that s key v by (auto simp: Get_def)
  have "Delete s env' scope name digest' (run_ops ops fs) = (Inr (), [])"
    using s key v gone get[of "get_env.truncate env'"] assms(4-6)
    by (auto simp: Delete_def Let_def os_remove_def get_env.defs)
  moreover have "map_of (run_ops ops fs) p = map_of fs p" if "p \<noteq> ?p" for p
    using ops that by (auto simp: map_of_apply_op)
  ultimately show ?thesis using get[OF assms(2,3)] key by auto
qed

theorem Delete_then_gone_witness:
  "let env = \<lparr>gCtxErr = False, gReadErr = False, dRemoveErr = False\<rparr>;
       fs = [(bundle_path (projr (scopeKey ''s'')) ''bundle-1'', RegFile ''{}'' 3)]
   in \<exists>ops. Delete (Some \<lparr>stDir = ''/d''\<rparr>) env ''s'' ''bundle-1'' [] fs = (Inr (), ops) \<and>
        Get (Some \<lparr>stDir = ''/d''\<rparr>) reading ''s'' ''bundle-1'' [] (run_ops ops fs) = Inl (BundleNotFound ''bundle-1'')"
proof -
  let ?env = "\<lparr>gCtxErr = False, gReadErr = False, dRemoveErr = False\<rparr>"
  have "TrimSpace ''s'' = ''s''" by code_simp
  then obtain key where key: "scopeKey ''s'' = Inr key" using scopeKey_ok[of "''s''"] by auto
  let ?p = "bundle_path key ''bundle-1''"
  have v: "validateBundleName ''bundle-1'' = Inr ()" by code_simp
  let ?fs = "[(?p, RegFile ''{}'' 3)]"
  have d: "Delete (Some \<lparr>stDir = ''/d''\<rparr>) ?env ''s'' ''bundle-1'' [] ?fs = (Inr (), [OpRemove ?p])"
    by (simp add: Delete_def key v os_remove_def Let_def)
  have "\<not> gCtxErr reading" "\<not> gReadErr reading" "\<not> gCtxErr ?env" "\<not> gReadErr ?env" "\<not> dRemoveErr ?env"
    by (simp_all add: reading_def)
  from conjunct1[OF Delete_then_gone[OF d this, of "[]"]]
  show ?thesis unfolding Let_def key sum.sel by (intro exI conjI) (rule d)
qed

text \<open>
  A sweep removes exactly the \<open>.json\<close> and \<open>.tmp\<close> files in the \<open>scope-\<close> directories that were last
  written before \<open>now - maxAge\<close> and whose directory listing, \<open>Info\<close> and removal succeed, and
  counts them; younger files, other names and other directories are untouched.
\<close>

theorem Sweep_exact:
  assumes "s \<noteq> None" and "\<not> swRootErr env"
  shows "map_of (swFs (Sweep s env now maxAge fs)) =
      (\<lambda>p. if victim env (now - maxAge) (map_of fs) p then None else map_of fs p) \<and>
    swRemoved (Sweep s env now maxAge fs) = card {p. victim env (now - maxAge) (map_of fs) p}"
proof -
  let ?v = "{p. victim env (now - maxAge) (map_of fs) p}" and ?m = "map_of (swFs (Sweep s env now maxAge fs))"
  note sweep = Sweep_map[OF assms, of now maxAge fs]
  have fin: "finite (dom (map_of fs))" by (rule finite_dom_map_of)
  have sub: "?v \<subseteq> dom (map_of fs)"
    by (rule subsetI) (simp add: victim_dom)
  have "dom ?m = dom (map_of fs) - ?v" unfolding sweep(1) by (auto split: if_splits)
  then have "card (dom ?m) = card (dom (map_of fs)) - card ?v" using card_Diff_subset[OF finite_subset[OF sub fin] sub] by simp
  moreover have "card ?v \<le> card (dom (map_of fs))" by (rule card_mono[OF fin sub])
  ultimately show ?thesis using sweep by simp
qed

theorem Sweep_exact_witness:
  "let env = \<lparr>swRootErr = False, swListErr = (\<lambda>_. False), swInfoErr = (\<lambda>_. False), swRemoveErr = (\<lambda>_. False)\<rparr>;
       fs = [([''scope-1''], Dir), ([''scope-1'', ''a.json''], RegFile ''{}'' 3), ([''scope-1'', ''b.json''], RegFile ''{}'' 60),
             ([''scope-1'', ''notes''], RegFile [] 1), ([''other''], Dir), ([''other'', ''c.json''], RegFile [] 1)]
   in map_of (swFs (Sweep (Some \<lparr>stDir = ''/d''\<rparr>) env 100 50 fs)) = (map_of fs)([''scope-1'', ''a.json''] := None)"
proof -
  let ?env = "\<lparr>swRootErr = False, swListErr = (\<lambda>_. False), swInfoErr = (\<lambda>_. False), swRemoveErr = (\<lambda>_. False)\<rparr>"
  let ?fs = "[([''scope-1''], Dir), ([''scope-1'', ''a.json''], RegFile ''{}'' 3), ([''scope-1'', ''b.json''], RegFile ''{}'' 60),
             ([''scope-1'', ''notes''], RegFile [] 1), ([''other''], Dir), ([''other'', ''c.json''], RegFile [] 1)]"
  have "victim ?env 50 (map_of ?fs) p \<longleftrightarrow> p = [''scope-1'', ''a.json'']" for p
    by (auto simp: victim_def HasPrefix_def HasSuffix_def split: list.splits if_splits)
  then show ?thesis
    unfolding Let_def using Sweep_exact[of "Some \<lparr>stDir = ''/d''\<rparr>" ?env 100 50 ?fs] by (auto simp: fun_eq_iff)
qed

end
