(* ===== verification/Request_Controllers.thy ===== *)
theory Request_Controllers
  imports Stub_Backend Bundle_Store
begin

text \<open>
  The reconcilers of one-time requests: \<open>controller/repositorycommit\<close>, \<open>controller/repositorycheckout\<close>
  and \<open>controller/repositorybuildstatus\<close>. Each takes a request from no phase through \<open>Running\<close> to
  \<open>Succeeded\<close> or \<open>Failed\<close> and leaves it there. Their \<open>updateStatusIfChanged\<close> and \<open>isTerminal\<close> are the
  same code for three types; the laws they need of a type are the locale \<open>request_kind\<close>.
  \<open>reflect.DeepEqual\<close> tells a nil slice from an empty one, which only costs an update.
\<close>

subsection \<open>What the three share\<close>

definition updateStatusIfChanged ::
  "string \<Rightarrow> ('a \<Rightarrow> ObjectMeta) \<Rightarrow> ('a \<Rightarrow> 's) \<Rightarrow> ('s \<Rightarrow> 'a \<Rightarrow> 'a) \<Rightarrow> ('w, 'a) resource_api \<Rightarrow> 'a \<Rightarrow> ('w, unit) act"
where
  "updateStatusIfChanged kind meta status set_status api obj =
     bindA (kGet api [] (omName (meta obj))) (\<lambda>current.
     if status current = status obj then ret ()
     else handle (kUpdateStatus api (set_status (status obj) current))
       (\<lambda>e. failA (Wrapped (''update '' @ kind @ '' '' @ quoted (omName (meta obj)) @ '' status: '') e []))
       (\<lambda>u. ret ()))"

locale request_kind =
  fixes meta :: "'a \<Rightarrow> ObjectMeta" and status :: "'a \<Rightarrow> 's" and set_status :: "'s \<Rightarrow> 'a \<Rightarrow> 'a"
  assumes status_set [simp]: "status (set_status s a) = s" and meta_set [simp]: "meta (set_status s a) = meta a"
begin

text \<open>A recorded status is what the API server last showed or accepted, on the object it showed.\<close>

lemma recorded:
  assumes "updateStatusIfChanged kind meta status set_status api obj w = (Inr u, w')"
  shows "\<exists>current w1. kGet api [] (omName (meta obj)) w = (Inr current, w1) \<and>
    (status current = status obj \<and> w' = w1 \<or>
     (\<exists>x s. status x = status obj \<and> meta x = meta current \<and> kUpdateStatus api x w1 = (Inr s, w')))"
proof -
  from assms obtain current w1 where g: "kGet api [] (omName (meta obj)) w = (Inr current, w1)"
    and rest: "(if status current = status obj then ret ()
     else handle (kUpdateStatus api (set_status (status obj) current))
       (\<lambda>e. failA (Wrapped (''update '' @ kind @ '' '' @ quoted (omName (meta obj)) @ '' status: '') e []))
       (\<lambda>u. ret ())) w1 = (Inr u, w')"
    unfolding updateStatusIfChanged_def bindA_Inr_iff by blast
  show ?thesis
  proof (cases "status current = status obj")
    case False
    with rest obtain s where "kUpdateStatus api (set_status (status obj) current) w1 = (Inr s, w')"
      unfolding if_not_P[OF False] handle_failA_Inr by auto
    then have "status (set_status (status obj) current) = status obj \<and> meta (set_status (status obj) current) = meta current \<and>
      kUpdateStatus api (set_status (status obj) current) w1 = (Inr s, w')" by simp
    with g show ?thesis by blast
  qed (use g rest in auto)
qed

end

interpretation commit_kind: request_kind mxMeta mxStatus "\<lambda>s x. x\<lparr>mxStatus := s\<rparr>"
  by unfold_locales simp_all

interpretation checkout_kind: request_kind kxMeta kxStatus "\<lambda>s x. x\<lparr>kxStatus := s\<rparr>"
  by unfold_locales simp_all

interpretation build_kind: request_kind bxMeta bxStatus "\<lambda>s x. x\<lparr>bxStatus := s\<rparr>"
  by unfold_locales simp_all

text \<open>\<open>commitbundle.Store\<close>, with the text of its errors.\<close>

record 'w bundle_api =
  bzPut :: "string \<Rightarrow> File list \<Rightarrow> 'w \<Rightarrow> (bundle_error + BundleRef) \<times> 'w"
  bzGet :: "string \<Rightarrow> string \<Rightarrow> string \<Rightarrow> 'w \<Rightarrow> (bundle_error + Bundle) \<times> 'w"
  bzDelete :: "string \<Rightarrow> string \<Rightarrow> string \<Rightarrow> 'w \<Rightarrow> (bundle_error + unit) \<times> 'w"
  bzText :: "bundle_error \<Rightarrow> string"

text \<open>A call whose error is only logged.\<close>

definition ignoring :: "('w \<Rightarrow> 'r \<times> 'w) \<Rightarrow> ('w, unit) act" where
  "ignoring f w = (Inr (), snd (f w))"

subsection \<open>Commits\<close>

definition bundleArrivalTimeout :: duration where "bundleArrivalTimeout = 30 * Second"

definition commit_isTerminal :: "string \<Rightarrow> bool" where
  "commit_isTerminal phase \<longleftrightarrow> phase = RepositoryCommitPhaseSucceeded \<or> phase = RepositoryCommitPhaseFailed"

definition repositoryCommitIdempotencyKey :: "RepositoryCommit \<Rightarrow> string" where
  "repositoryCommitIdempotencyKey commit =
     (if omUID (mxMeta commit) \<noteq> [] then omUID (mxMeta commit) else omName (mxMeta commit))"

definition bundleArrivalTimedOut :: "gotime option \<Rightarrow> gotime \<Rightarrow> bool" where
  "bundleArrivalTimedOut startedAt now =
     (case startedAt of None \<Rightarrow> False | Some s \<Rightarrow> now - s \<ge> bundleArrivalTimeout)"

definition rateLimitRetry :: "gerror \<Rightarrow> gotime option \<Rightarrow> gotime \<Rightarrow> gotime option" where
  "rateLimitRetry err startedAt now =
     (case as_rate_limit err of
        None \<Rightarrow> None
      | Some limited \<Rightarrow> (case startedAt of
            None \<Rightarrow> None
          | Some s \<Rightarrow>
              let at = (if limited < now + Second then now + Second else limited) in
              if at > s + RepositoryCommitRateLimitWindow then None else Some at))"

definition commit_updateStatus :: "'w kube \<Rightarrow> RepositoryCommit \<Rightarrow> ('w, unit) act" where
  "commit_updateStatus c =
     updateStatusIfChanged ''repositorycommit'' mxMeta mxStatus (\<lambda>s x. x\<lparr>mxStatus := s\<rparr>) (kcCommits c)"

definition commit_waitForRateLimit :: "'w manager \<Rightarrow> 'w kube \<Rightarrow> RepositoryCommit \<Rightarrow> gotime \<Rightarrow> ('w, Result) act" where
  "commit_waitForRateLimit m c commit at =
     bindA (readA (mgNow m)) (\<lambda>now.
     let wait = max (at - now) Second; gen = omGeneration (mxMeta commit); st = mxStatus commit;
         message = ''GitHub rate limit; retrying in '' @ FormatInt (round_second wait div Second) @ ''s'' in
     bindA (commit_updateStatus c (commit\<lparr>mxStatus := st\<lparr>mtConditions :=
         SetCondition now ConditionReady False ReasonRateLimited message gen (mtConditions st)\<rparr>\<rparr>))
       (\<lambda>u. ret (after_result wait)))"

definition failed_commit :: "gotime \<Rightarrow> RepositoryCommit \<Rightarrow> string \<Rightarrow> RepositoryCommit" where
  "failed_commit now commit message =
     (let gen = omGeneration (mxMeta commit); st = mxStatus commit in
      commit\<lparr>mxStatus := st\<lparr>mtStartedAt := (if mtStartedAt st = None then Some now else mtStartedAt st),
        mtCompletedAt := Some now, mtObserved := gen, mtPhase := RepositoryCommitPhaseFailed,
        mtConditions := SetCondition now ConditionReady False ReasonError message gen (mtConditions st)\<rparr>\<rparr>)"

definition commit_fail :: "'w manager \<Rightarrow> 'w kube \<Rightarrow> RepositoryCommit \<Rightarrow> string \<Rightarrow> ('w, unit) act" where
  "commit_fail m c commit message =
     bindA (readA (mgNow m)) (\<lambda>now.
     handle (commit_updateStatus c (failed_commit now commit message))
       (\<lambda>e. failA (Wrapped (''update repositorycommit '' @ quoted (omName (mxMeta commit)) @ '' failure status: '') e [])) ret)"

definition failAndDeleteBundle ::
  "'w manager \<Rightarrow> 'w bundle_api option \<Rightarrow> 'w kube \<Rightarrow> RepositoryCommit \<Rightarrow> string \<Rightarrow> string \<Rightarrow>
     RepositoryCommitBundleReference \<Rightarrow> ('w, unit) act"
where
  "failAndDeleteBundle m bundles c commit message scope ref =
     bindA (commit_fail m c commit message) (\<lambda>u.
     case bundles of
       None \<Rightarrow> ret ()
     | Some bz \<Rightarrow> if brName ref = [] then ret () else ignoring (bzDelete bz scope (brName ref) (brDigest ref)))"

text \<open>\<open>return ctrl.Result{}, fail(message)\<close>.\<close>

definition commit_failing ::
  "'w manager \<Rightarrow> 'w bundle_api option \<Rightarrow> 'w kube \<Rightarrow> string \<Rightarrow> RepositoryCommit \<Rightarrow> string \<Rightarrow> ('w, Result) act"
where
  "commit_failing m bundles c cluster commit message =
     bindA (failAndDeleteBundle m bundles c commit message cluster (soBundleRef (msSource (mxSpec commit))))
       (\<lambda>u. ret done_result)"

definition running_commit :: "gotime \<Rightarrow> RepositoryCommit \<Rightarrow> RepositoryCommit" where
  "running_commit now commit =
     (let gen = omGeneration (mxMeta commit); st = mxStatus commit in
      commit\<lparr>mxStatus := st\<lparr>mtStartedAt := (if mtStartedAt st = None then Some now else mtStartedAt st),
        mtPhase := RepositoryCommitPhaseRunning, mtObserved := gen,
        mtConditions := SetCondition now ConditionReady False ReasonReconciling ''Commit is running.'' gen (mtConditions st)\<rparr>\<rparr>)"

definition commit_file :: "BundleFile \<Rightarrow> RepositoryCommitFile" where
  "commit_file f = \<lparr>cfPath = bfPath f, cfContent = bfContent f, cfEncoding = bfEncoding f, cfDelete = bfDelete f\<rparr>"

definition commit_file_status :: "BundleFile \<Rightarrow> RepositoryCommitFileStatus" where
  "commit_file_status f = \<lparr>sfPath = bfPath f, sfSize = bfSize f, sfDigest = bfDigest f, sfDelete = bfDelete f\<rparr>"

definition commit_input :: "RepositoryCommit \<Rightarrow> Bundle \<Rightarrow> RepositoryCommitInput" where
  "commit_input commit bundle =
     \<lparr>ciMessage = msMessage (mxSpec commit), ciBranch = msBranch (mxSpec commit),
      ciIdempotencyKey = repositoryCommitIdempotencyKey commit, ciFiles = map commit_file (bFiles bundle)\<rparr>"

definition succeeded_commit :: "gotime \<Rightarrow> RepositoryCommit \<Rightarrow> Bundle \<Rightarrow> RepositoryCommitResult \<Rightarrow> RepositoryCommit" where
  "succeeded_commit now commit bundle res =
     (let gen = omGeneration (mxMeta commit); st = mxStatus commit in
      commit\<lparr>mxStatus := st\<lparr>mtPhase := RepositoryCommitPhaseSucceeded, mtObserved := gen, mtCompletedAt := Some now,
        mtBranch := rcBranch res, mtCommitSHA := rcCommitSHA res, mtCommitURL := rcCommitURL res,
        mtSource := Some \<lparr>ssDigest = bDigest bundle, ssSize = bSize bundle, ssFileCount = int (length (bFiles bundle))\<rparr>,
        mtFiles := map commit_file_status (bFiles bundle),
        mtConditions := SetCondition now ConditionReady True ReasonReady ''Commit succeeded.'' gen (mtConditions st)\<rparr>\<rparr>)"

text \<open>A host error: wait for the reset of a rate limit within the window, otherwise fail.\<close>

definition commit_host_error ::
  "'w manager \<Rightarrow> 'w bundle_api \<Rightarrow> 'w kube \<Rightarrow> string \<Rightarrow> RepositoryCommit \<Rightarrow> string \<Rightarrow> gerror \<Rightarrow> ('w, Result) act"
where
  "commit_host_error m bz c cluster commit pre err =
     bindA (readA (mgNow m)) (\<lambda>now.
     case rateLimitRetry err (mtStartedAt (mxStatus commit)) now of
       Some at \<Rightarrow> commit_waitForRateLimit m c commit at
     | None \<Rightarrow> with_text m err (\<lambda>msg. commit_failing m (Some bz) c cluster commit (pre @ msg)))"

definition commit_record ::
  "'w manager \<Rightarrow> 'w bundle_api \<Rightarrow> 'w kube \<Rightarrow> string \<Rightarrow> RepositoryCommit \<Rightarrow> Bundle \<Rightarrow> RepositoryCommitResult \<Rightarrow> ('w, Result) act"
where
  "commit_record m bz c cluster commit bundle res =
     (let ref = soBundleRef (msSource (mxSpec commit)) in
      bindA (readA (mgNow m)) (\<lambda>now.
      handle (commit_updateStatus c (succeeded_commit now commit bundle res))
        (\<lambda>e. failA (Wrapped (''update repositorycommit '' @ quoted (omName (mxMeta commit)) @ '' status: '') e []))
        (\<lambda>u. bindA (ignoring (bzDelete bz cluster (brName ref) (brDigest ref))) (\<lambda>u. ret done_result))))"

definition commit_bundle ::
  "'w manager \<Rightarrow> 'w bundle_api \<Rightarrow> 'w kube \<Rightarrow> string \<Rightarrow> RepositoryCommit \<Rightarrow>
     (RepositoryCommitInput \<Rightarrow> ('w, RepositoryCommitResult) act) \<Rightarrow> ('w, Result) act"
where
  "commit_bundle m bz c cluster commit commitFiles w =
     (let ref = soBundleRef (msSource (mxSpec commit)) in
      case bzGet bz cluster (brName ref) (brDigest ref) w of
        (Inl e, w1) \<Rightarrow>
          if IsNotFound e \<and> \<not> bundleArrivalTimedOut (mtStartedAt (mxStatus commit)) (mgNow m w1)
          then (Inr (after_result Second), w1)
          else commit_failing m (Some bz) c cluster commit (bzText bz e) w1
      | (Inr bundle, w1) \<Rightarrow>
          handle (commitFiles (commit_input commit bundle))
            (commit_host_error m bz c cluster commit [])
            (commit_record m bz c cluster commit bundle) w1)"

definition commit_run ::
  "'w manager \<Rightarrow> 'w git_backend Registry \<Rightarrow> 'w bundle_api \<Rightarrow> 'w kube \<Rightarrow> string \<Rightarrow> RepositoryCommit \<Rightarrow> ('w, Result) act"
where
  "commit_run m backends bz c cluster commit =
     (let failing = commit_failing m (Some bz) c cluster commit; failing_err = (\<lambda>e. with_text m e failing) in
      handle (ResolveRepository c (msRepositoryRef (mxSpec commit))) failing_err (\<lambda>repo.
      handle (ResolveConnection c (rsConnectionRef (rxSpec repo))) failing_err (\<lambda>conn.
      case registry_Get backends (csProvider (cxSpec conn)) of
        None \<Rightarrow> failing (''git provider '' @ quoted (csProvider (cxSpec conn)) @ '' is not registered'')
      | Some b \<Rightarrow> (case gbCommitFiles b of
          None \<Rightarrow> failing (''git provider '' @ quoted (csProvider (cxSpec conn)) @ '' does not support committing files'')
        | Some commitFiles \<Rightarrow>
            handle (ResolveCredential m c conn) failing_err (\<lambda>cred.
            handle (gbEnsureRepository b conn cred repo) (commit_host_error m bz c cluster commit ''ensure repository: '') (\<lambda>r.
            commit_bundle m bz c cluster commit (commitFiles conn cred repo)))))))"

definition commit_Reconcile ::
  "'w manager \<Rightarrow> 'w git_backend Registry option \<Rightarrow> 'w bundle_api option \<Rightarrow> Request \<Rightarrow> ('w, Result) act"
where
  "commit_Reconcile m backends bundles req =
     bindA (ClusterClient m (rqCluster req)) (\<lambda>c.
     for_object (kcCommits c) (rqName req) (\<lambda>commit.
     if omDeletion (mxMeta commit) \<noteq> None \<or> commit_isTerminal (mtPhase (mxStatus commit)) then ret done_result
     else case bundles of
         None \<Rightarrow> commit_failing m None c (rqCluster req) commit ''bundle store is unavailable''
       | Some bz \<Rightarrow> (case backends of
           None \<Rightarrow> commit_failing m (Some bz) c (rqCluster req) commit ''git backends are unavailable''
         | Some reg \<Rightarrow>
             bindA (readA (mgNow m)) (\<lambda>now.
             let commit = running_commit now commit in
             bindA (commit_updateStatus c commit) (\<lambda>u. commit_run m reg bz c (rqCluster req) commit)))))"

subsection \<open>Checkouts\<close>

definition checkoutMaxFiles :: int where "checkoutMaxFiles = 500"
definition checkoutMaxFileBytes :: int where "checkoutMaxFileBytes = 256 * 1024"
definition checkoutMaxTotalBytes :: int where "checkoutMaxTotalBytes = 16 * 1024 * 1024"
definition checkoutMaxBinaryFileBytes :: int where "checkoutMaxBinaryFileBytes = int MaxBinaryFileBytes"
definition checkoutMaxTotalBytesWithBinary :: int where "checkoutMaxTotalBytesWithBinary = int MaxTotalBytes"

definition checkoutInput :: "RepositoryCheckout \<Rightarrow> gerror + RepositoryCheckoutInput" where
  "checkoutInput checkout =
     (let input = \<lparr>koRef = ksRef (kxSpec checkout), koMaxFiles = checkoutMaxFiles, koMaxFileBytes = checkoutMaxFileBytes,
                   koIncludeBinary = False, koMaxBinaryFileBytes = 0, koMaxTotalBytes = checkoutMaxTotalBytes\<rparr> in
      case map_of (omAnnotations (kxMeta checkout)) AnnotationCheckoutBinaryEncoding of
        None \<Rightarrow> Inr input
      | Some encoding \<Rightarrow>
          if encoding = EncodingBase64
          then Inr (input\<lparr>koIncludeBinary := True, koMaxBinaryFileBytes := checkoutMaxBinaryFileBytes,
                          koMaxTotalBytes := checkoutMaxTotalBytesWithBinary\<rparr>)
          else Inl (Plain (''unsupported '' @ AnnotationCheckoutBinaryEncoding @ '' '' @ quoted encoding @
                      '': only '' @ quoted EncodingBase64 @ '' is supported'')))"

definition checkout_isTerminal :: "string \<Rightarrow> bool" where
  "checkout_isTerminal phase \<longleftrightarrow> phase = RepositoryCheckoutPhaseSucceeded \<or> phase = RepositoryCheckoutPhaseFailed"

definition checkout_updateStatus :: "'w kube \<Rightarrow> RepositoryCheckout \<Rightarrow> ('w, unit) act" where
  "checkout_updateStatus c =
     updateStatusIfChanged ''repositorycheckout'' kxMeta kxStatus (\<lambda>s x. x\<lparr>kxStatus := s\<rparr>) (kcCheckouts c)"

definition failed_checkout :: "gotime \<Rightarrow> RepositoryCheckout \<Rightarrow> string \<Rightarrow> RepositoryCheckout" where
  "failed_checkout now checkout message =
     (let gen = omGeneration (kxMeta checkout); st = kxStatus checkout in
      checkout\<lparr>kxStatus := st\<lparr>ktStartedAt := (if ktStartedAt st = None then Some now else ktStartedAt st),
        ktCompletedAt := Some now, ktObserved := gen, ktPhase := RepositoryCheckoutPhaseFailed,
        ktConditions := SetCondition now ConditionReady False ReasonError message gen (ktConditions st)\<rparr>\<rparr>)"

definition checkout_fail :: "'w manager \<Rightarrow> 'w kube \<Rightarrow> RepositoryCheckout \<Rightarrow> string \<Rightarrow> ('w, Result) act" where
  "checkout_fail m c checkout message =
     bindA (readA (mgNow m)) (\<lambda>now.
     handle (checkout_updateStatus c (failed_checkout now checkout message))
       (\<lambda>e. failA (Wrapped (''update repositorycheckout '' @ quoted (omName (kxMeta checkout)) @ '' failure status: '') e []))
       (\<lambda>u. ret done_result))"

definition running_checkout :: "gotime \<Rightarrow> RepositoryCheckout \<Rightarrow> RepositoryCheckout" where
  "running_checkout now checkout =
     (let gen = omGeneration (kxMeta checkout); st = kxStatus checkout in
      checkout\<lparr>kxStatus := st\<lparr>ktStartedAt := (if ktStartedAt st = None then Some now else ktStartedAt st),
        ktPhase := RepositoryCheckoutPhaseRunning, ktObserved := gen,
        ktConditions := SetCondition now ConditionReady False ReasonReconciling ''Checkout is running.'' gen (ktConditions st)\<rparr>\<rparr>)"

definition checkout_file :: "RepositoryCommitFile \<Rightarrow> File" where
  "checkout_file f = \<lparr>fPath = cfPath f, fContent = cfContent f, fEncoding = cfEncoding f, fDelete = False\<rparr>"

definition succeeded_checkout ::
  "gotime \<Rightarrow> RepositoryCheckout \<Rightarrow> BundleRef \<Rightarrow> RepositoryCheckoutResult \<Rightarrow> RepositoryCheckout"
where
  "succeeded_checkout now checkout bundle res =
     (let gen = omGeneration (kxMeta checkout); st = kxStatus checkout in
      checkout\<lparr>kxStatus := st\<lparr>ktPhase := RepositoryCheckoutPhaseSucceeded, ktObserved := gen, ktCompletedAt := Some now,
        ktRef := kkRef res, ktCommitSHA := kkCommitSHA res,
        ktBundleRef := Some \<lparr>brName = rName bundle, brDigest = rDigest bundle\<rparr>,
        ktSource := Some \<lparr>ssDigest = rDigest bundle, ssSize = rSize bundle, ssFileCount = int (length (rFiles bundle))\<rparr>,
        ktSkipped := kkSkipped res,
        ktConditions := SetCondition now ConditionReady True ReasonReady ''Checkout succeeded.'' gen (ktConditions st)\<rparr>\<rparr>)"

text \<open>A bundle whose reference could not be published is reclaimed.\<close>

definition checkout_record ::
  "'w manager \<Rightarrow> 'w bundle_api \<Rightarrow> 'w kube \<Rightarrow> string \<Rightarrow> RepositoryCheckout \<Rightarrow> RepositoryCheckoutResult \<Rightarrow> BundleRef \<Rightarrow>
     ('w, Result) act"
where
  "checkout_record m bz c cluster checkout res bundle =
     bindA (readA (mgNow m)) (\<lambda>now.
     handle (checkout_updateStatus c (succeeded_checkout now checkout bundle res))
       (\<lambda>e. bindA (ignoring (bzDelete bz cluster (rName bundle) (rDigest bundle))) (\<lambda>u.
            failA (Wrapped (''update repositorycheckout '' @ quoted (omName (kxMeta checkout)) @ '' status: '') e [])))
       (\<lambda>u. ret done_result))"

definition checkout_store ::
  "'w manager \<Rightarrow> 'w bundle_api \<Rightarrow> 'w kube \<Rightarrow> string \<Rightarrow> RepositoryCheckout \<Rightarrow> RepositoryCheckoutResult \<Rightarrow> ('w, Result) act"
where
  "checkout_store m bz c cluster checkout res w =
     (case bzPut bz cluster (map checkout_file (kkFiles res)) w of
        (Inl e, w1) \<Rightarrow> checkout_fail m c checkout (''store checkout bundle: '' @ bzText bz e) w1
      | (Inr bundle, w1) \<Rightarrow> checkout_record m bz c cluster checkout res bundle w1)"

definition checkout_run ::
  "'w manager \<Rightarrow> 'w git_backend Registry \<Rightarrow> 'w bundle_api \<Rightarrow> 'w kube \<Rightarrow> string \<Rightarrow> RepositoryCheckout \<Rightarrow> ('w, Result) act"
where
  "checkout_run m backends bz c cluster checkout =
     (let failing = checkout_fail m c checkout; failing_err = (\<lambda>e. with_text m e failing) in
      handle (ResolveRepository c (ksRepositoryRef (kxSpec checkout))) failing_err (\<lambda>repo.
      handle (ResolveConnection c (rsConnectionRef (rxSpec repo))) failing_err (\<lambda>conn.
      case registry_Get backends (csProvider (cxSpec conn)) of
        None \<Rightarrow> failing (''git provider '' @ quoted (csProvider (cxSpec conn)) @ '' is not registered'')
      | Some b \<Rightarrow> (case gbCheckoutFiles b of
          None \<Rightarrow> failing (''git provider '' @ quoted (csProvider (cxSpec conn)) @ '' does not support reading files'')
        | Some checkoutFiles \<Rightarrow>
            handle (ResolveCredential m c conn) failing_err (\<lambda>cred.
            handle (lift (checkoutInput checkout)) failing_err (\<lambda>input.
            handle (checkoutFiles conn cred repo input) failing_err (checkout_store m bz c cluster checkout)))))))"

definition checkout_Reconcile ::
  "'w manager \<Rightarrow> 'w git_backend Registry option \<Rightarrow> 'w bundle_api option \<Rightarrow> Request \<Rightarrow> ('w, Result) act"
where
  "checkout_Reconcile m backends bundles req =
     bindA (ClusterClient m (rqCluster req)) (\<lambda>c.
     for_object (kcCheckouts c) (rqName req) (\<lambda>checkout.
     if omDeletion (kxMeta checkout) \<noteq> None \<or> checkout_isTerminal (ktPhase (kxStatus checkout)) then ret done_result
     else case bundles of
         None \<Rightarrow> checkout_fail m c checkout ''bundle store is unavailable''
       | Some bz \<Rightarrow> (case backends of
           None \<Rightarrow> checkout_fail m c checkout ''git backends are unavailable''
         | Some reg \<Rightarrow>
             bindA (readA (mgNow m)) (\<lambda>now.
             let checkout = running_checkout now checkout in
             bindA (checkout_updateStatus c checkout) (\<lambda>u. checkout_run m reg bz c (rqCluster req) checkout)))))"

subsection \<open>Build status requests\<close>

definition build_isTerminal :: "string \<Rightarrow> bool" where
  "build_isTerminal phase \<longleftrightarrow>
     phase = RepositoryBuildStatusPhaseSucceeded \<or> phase = RepositoryBuildStatusPhaseFailed"

definition build_job :: "WorkflowJobStatus \<Rightarrow> RepositoryBuildStatusJob" where
  "build_job j = \<lparr>bjName = wjName j, bjStatus = wjStatus j, bjConclusion = wjConclusion j, bjFailureLog = wjFailureLog j\<rparr>"

definition workflowRunStatus :: "WorkflowRunStatus \<Rightarrow> RepositoryBuildStatusRun" where
  "workflowRunStatus run =
     \<lparr>buFound = wrFound run, buRunID = wrRunID run, buHTMLURL = wrHTMLURL run, buHeadSHA = wrHeadSHA run,
      buStatus = wrStatus run, buConclusion = wrConclusion run, buJobs = map build_job (wrJobs run)\<rparr>"

definition build_updateStatus :: "'w kube \<Rightarrow> RepositoryBuildStatus \<Rightarrow> ('w, unit) act" where
  "build_updateStatus c =
     updateStatusIfChanged ''repositorybuildstatus'' bxMeta bxStatus (\<lambda>s x. x\<lparr>bxStatus := s\<rparr>) (kcBuilds c)"

definition failed_build :: "gotime \<Rightarrow> RepositoryBuildStatus \<Rightarrow> string \<Rightarrow> RepositoryBuildStatus" where
  "failed_build now bs message =
     (let gen = omGeneration (bxMeta bs); st = bxStatus bs in
      bs\<lparr>bxStatus := st\<lparr>btCompletedAt := Some now, btObserved := gen, btPhase := RepositoryBuildStatusPhaseFailed,
        btConditions := SetCondition now ConditionReady False ReasonError message gen (btConditions st)\<rparr>\<rparr>)"

definition build_fail :: "'w manager \<Rightarrow> 'w kube \<Rightarrow> RepositoryBuildStatus \<Rightarrow> string \<Rightarrow> ('w, Result) act" where
  "build_fail m c bs message =
     bindA (readA (mgNow m)) (\<lambda>now.
     handle (build_updateStatus c (failed_build now bs message))
       (\<lambda>e. failA (Wrapped (''update repositorybuildstatus '' @ quoted (omName (bxMeta bs)) @ '' failure status: '') e []))
       (\<lambda>u. ret done_result))"

definition running_build :: "gotime \<Rightarrow> RepositoryBuildStatus \<Rightarrow> RepositoryBuildStatus" where
  "running_build now bs =
     (let gen = omGeneration (bxMeta bs); st = bxStatus bs in
      bs\<lparr>bxStatus := st\<lparr>btPhase := RepositoryBuildStatusPhaseRunning, btObserved := gen,
        btConditions := SetCondition now ConditionReady False ReasonReconciling ''Build status request is running.'' gen
          (btConditions st)\<rparr>\<rparr>)"

definition build_record :: "'w manager \<Rightarrow> 'w kube \<Rightarrow> RepositoryBuildStatus \<Rightarrow> RepositoryBuildStatus \<Rightarrow> ('w, Result) act" where
  "build_record m c bs next_bs =
     bindA (readA (mgNow m)) (\<lambda>now.
     let gen = omGeneration (bxMeta bs); st = bxStatus next_bs;
         done = next_bs\<lparr>bxStatus := st\<lparr>btPhase := RepositoryBuildStatusPhaseSucceeded, btObserved := gen,
           btCompletedAt := Some now, btConditions :=
             SetCondition now ConditionReady True ReasonReady ''Build status request succeeded.'' gen (btConditions st)\<rparr>\<rparr> in
     handle (build_updateStatus c done)
       (\<lambda>e. failA (Wrapped (''update repositorybuildstatus '' @ quoted (omName (bxMeta bs)) @ '' status: '') e []))
       (\<lambda>u. ret done_result))"

definition build_act ::
  "'w manager \<Rightarrow> 'w kube \<Rightarrow> RepositoryBuildStatus \<Rightarrow> Repository \<Rightarrow> Connection \<Rightarrow> 'w git_backend \<Rightarrow> Credential \<Rightarrow>
     ('w, Result) act"
where
  "build_act m c bs repo conn b cred =
     (let failing = build_fail m c bs; failing_err = (\<lambda>e. with_text m e failing); st = bxStatus bs in
      if bsAction (bxSpec bs) = RepositoryBuildStatusActionRerun then
        (case gbDispatchWorkflow b of
           None \<Rightarrow> failing (''git provider '' @ quoted (csProvider (cxSpec conn)) @ '' does not support re-running workflows'')
         | Some dispatch \<Rightarrow>
             handle (dispatch conn cred repo (bsWorkflowFileName (bxSpec bs)) (bsRef (bxSpec bs))) failing_err
               (\<lambda>u. build_record m c bs (bs\<lparr>bxStatus := st\<lparr>btDispatched := True\<rparr>\<rparr>)))
      else
        (case gbLatestWorkflowRun b of
           None \<Rightarrow> failing (''git provider '' @ quoted (csProvider (cxSpec conn)) @ '' does not support reading workflow runs'')
         | Some latest \<Rightarrow>
             handle (latest conn cred repo \<lparr>wqWorkflowFileName = bsWorkflowFileName (bxSpec bs),
                 wqHeadSHA = bsRef (bxSpec bs), wqMaxLogLines = bsMaxLogLines (bxSpec bs)\<rparr>) failing_err
               (\<lambda>run. build_record m c bs (bs\<lparr>bxStatus := st\<lparr>btRun := Some (workflowRunStatus run)\<rparr>\<rparr>))))"

definition build_run ::
  "'w manager \<Rightarrow> 'w git_backend Registry \<Rightarrow> 'w kube \<Rightarrow> RepositoryBuildStatus \<Rightarrow> ('w, Result) act"
where
  "build_run m backends c bs =
     (let failing = build_fail m c bs; failing_err = (\<lambda>e. with_text m e failing) in
      handle (ResolveRepository c (bsRepositoryRef (bxSpec bs))) failing_err (\<lambda>repo.
      handle (ResolveConnection c (rsConnectionRef (rxSpec repo))) failing_err (\<lambda>conn.
      case registry_Get backends (csProvider (cxSpec conn)) of
        None \<Rightarrow> failing (''git provider '' @ quoted (csProvider (cxSpec conn)) @ '' is not registered'')
      | Some b \<Rightarrow> handle (ResolveCredential m c conn) failing_err (build_act m c bs repo conn b))))"

definition build_Reconcile :: "'w manager \<Rightarrow> 'w git_backend Registry option \<Rightarrow> Request \<Rightarrow> ('w, Result) act" where
  "build_Reconcile m backends req =
     bindA (ClusterClient m (rqCluster req)) (\<lambda>c.
     for_object (kcBuilds c) (rqName req) (\<lambda>bs.
     if omDeletion (bxMeta bs) \<noteq> None \<or> build_isTerminal (btPhase (bxStatus bs)) then ret done_result
     else case backends of
         None \<Rightarrow> build_fail m c bs ''git backends are unavailable''
       | Some reg \<Rightarrow>
           bindA (readA (mgNow m)) (\<lambda>now.
           let bs = running_build now bs in
           bindA (build_updateStatus c bs) (\<lambda>u. build_run m reg c bs))))"

end
