(* ===== verification/Request_Outcomes.thy ===== *)
theory Request_Outcomes
  imports Request_Controllers
begin

text \<open>
  What becomes of a one-time request. A reconcile of a commit that is past its rate-limit window
  records a final phase unless the API server refuses the status; a source bundle is deleted
  only once the outcome of its commit is stored; a finished request is left alone; a checkout
  leaves no bundle behind that nothing refers to.
\<close>

subsection \<open>Final phases\<close>

text \<open>The status writes a reconcile of \<open>commit\<close> may end with.\<close>

definition final_recorded :: "'w kube \<Rightarrow> RepositoryCommit \<Rightarrow> bool" where
  "final_recorded c commit \<longleftrightarrow>
     (\<exists>x w w'. mxMeta x = mxMeta commit \<and> commit_isTerminal (mtPhase (mxStatus x)) \<and> commit_updateStatus c x w = (Inr (), w'))"

definition status_refused :: "'w kube \<Rightarrow> bool" where
  "status_refused c \<longleftrightarrow> (\<exists>x w e w'. commit_updateStatus c x w = (Inl e, w'))"

definition settled :: "'w kube \<Rightarrow> RepositoryCommit \<Rightarrow> gerror + Result \<Rightarrow> bool" where
  "settled c commit r = (case r of
     Inr res \<Rightarrow> res = done_result \<and> final_recorded c commit | Inl e \<Rightarrow> status_refused c)"

definition settles :: "'w kube \<Rightarrow> RepositoryCommit \<Rightarrow> ('w, Result) act \<Rightarrow> bool" where
  "settles c commit a \<longleftrightarrow> (\<forall>w. settled c commit (fst (a w)))"

lemma settles_handle:
  "(\<And>e. settles c x (f e)) \<Longrightarrow> (\<And>y. settles c x (k y)) \<Longrightarrow> settles c x (handle m f k)"
  by (auto simp: settles_def handle_def split: prod.splits sum.splits)

lemma settles_option:
  "settles c x m \<Longrightarrow> (\<And>y. settles c x (k y)) \<Longrightarrow> settles c x (case v of None \<Rightarrow> m | Some y \<Rightarrow> k y)"
  by (cases v) auto

lemma settles_with_text: "(\<And>s. settles c x (k s)) \<Longrightarrow> settles c x (with_text m e k)"
  by (simp add: settles_def with_text_def bind_read)

lemmas settles_rules = settles_handle settles_option settles_with_text

text \<open>A status write followed by calls whose errors are only logged.\<close>

lemma settles_update:
  assumes "mxMeta x = mxMeta commit" "commit_isTerminal (mtPhase (mxStatus x))"
    and "\<And>u w. \<exists>w'. k u w = (Inr done_result, w')"
  shows "settles c commit (handle (commit_updateStatus c x) (\<lambda>e. failA (f e)) k)"
  unfolding settles_def settled_def
proof
  fix w
  obtain r w1 where up: "commit_updateStatus c x w = (r, w1)" by fastforce
  show "case fst (handle (commit_updateStatus c x) (\<lambda>e. failA (f e)) k w) of
      Inr res \<Rightarrow> res = done_result \<and> final_recorded c commit | Inl e \<Rightarrow> status_refused c"
  proof (cases r)
    case (Inl e)
    with up show ?thesis by (auto simp: failA_def status_refused_def)
  next
    case (Inr u)
    then have "final_recorded c commit" using up assms(1,2) unfolding final_recorded_def by auto
    moreover from assms(3)[of u w1] Inr up have "fst (handle (commit_updateStatus c x) (\<lambda>e. failA (f e)) k w) = Inr done_result"
      by auto
    ultimately show ?thesis by simp
  qed
qed

lemma final_phases [simp]:
  "mxMeta (failed_commit now x msg) = mxMeta x" "commit_isTerminal (mtPhase (mxStatus (failed_commit now x msg)))"
  "mxMeta (succeeded_commit now x b r) = mxMeta x" "commit_isTerminal (mtPhase (mxStatus (succeeded_commit now x b r)))"
  by (simp_all add: failed_commit_def succeeded_commit_def commit_isTerminal_def Let_def)

text \<open>\<open>fail\<close> as one status write and what follows it.\<close>

definition failed_cleanup :: "'w bundle_api option \<Rightarrow> string \<Rightarrow> RepositoryCommitBundleReference \<Rightarrow> ('w, unit) act" where
  "failed_cleanup bundles cluster ref = (case bundles of None \<Rightarrow> ret () | Some bz \<Rightarrow>
     if brName ref = [] then ret () else ignoring (bzDelete bz cluster (brName ref) (brDigest ref)))"

lemma commit_failing_eq:
  "commit_failing m bundles c cluster commit message w = handle (commit_updateStatus c (failed_commit (mgNow m w) commit message))
    (\<lambda>e. failA (Wrapped (''update repositorycommit '' @ quoted (omName (mxMeta commit)) @ '' failure status: '') e []))
    (\<lambda>u. bindA (failed_cleanup bundles cluster (soBundleRef (msSource (mxSpec commit)))) (\<lambda>u. ret done_result)) w"
  unfolding commit_failing_def failAndDeleteBundle_def commit_fail_def failed_cleanup_def[symmetric]
  by (simp add: bindA_def handle_def readA_def failA_def ret_def split: prod.splits sum.splits)

lemma settles_failing: "settles c commit (commit_failing m bundles c cluster commit message)"
proof -
  have "\<exists>w'. bindA (failed_cleanup bundles cluster ref) (\<lambda>u. ret done_result) w = (Inr done_result, w')" for ref w
    by (auto simp: failed_cleanup_def ignoring_def bindA_def handle_def ret_def split: option.splits)
  then have final: "settles c commit (handle (commit_updateStatus c (failed_commit now commit message)) (\<lambda>e. failA (f e))
    (\<lambda>u. bindA (failed_cleanup bundles cluster ref) (\<lambda>u. ret done_result)))" for now f ref
    by (intro settles_update) auto
  show ?thesis unfolding settles_def commit_failing_eq by (rule allI) (rule final[unfolded settles_def, THEN spec])
qed

lemma settles_record: "settles c commit (commit_record m bz c cluster commit bundle res)"
proof -
  have "settles c commit (handle (commit_updateStatus c (succeeded_commit now commit bundle res))
        (\<lambda>e. failA (Wrapped (''update repositorycommit '' @ quoted (omName (mxMeta commit)) @ '' status: '') e []))
        (\<lambda>u. bindA (ignoring (bzDelete bz cluster n d)) (\<lambda>u. ret done_result)))" for now n d
    by (rule settles_update) (auto simp: ignoring_def bindA_def handle_def ret_def)
  then show ?thesis unfolding settles_def commit_record_def Let_def bind_read by blast
qed

subsection \<open>Retries end with the window\<close>

lemma rateLimitRetry_bounds:
  "rateLimitRetry err startedAt now = Some at \<Longrightarrow>
     \<exists>s. startedAt = Some s \<and> now + Second \<le> at \<and> at \<le> s + RepositoryCommitRateLimitWindow"
  by (auto simp: rateLimitRetry_def Let_def split: option.splits if_splits)

lemma Second_positive [simp]: "0 < Second"
  by (simp add: Second_def)

lemma window_long: "bundleArrivalTimeout \<le> RepositoryCommitRateLimitWindow"
  by (simp add: bundleArrivalTimeout_def RepositoryCommitRateLimitWindow_def Second_def Minute_def)

lemma late_no_retry:
  assumes "s + RepositoryCommitRateLimitWindow \<le> now"
  shows "rateLimitRetry err (Some s) now = None"
proof (rule ccontr)
  assume "rateLimitRetry err (Some s) now \<noteq> None"
  then obtain at where "rateLimitRetry err (Some s) now = Some at" by blast
  from rateLimitRetry_bounds[OF this] assms Second_positive show False by auto
qed

lemma late_timed_out:
  assumes "s + RepositoryCommitRateLimitWindow \<le> now"
  shows "bundleArrivalTimedOut (Some s) now"
  using assms window_long by (simp add: bundleArrivalTimedOut_def)

lemma settles_run:
  assumes "mtStartedAt (mxStatus commit) = Some s" and "\<And>w. s + RepositoryCommitRateLimitWindow \<le> mgNow m w"
  shows "settles c commit (commit_run m backends bz c cluster commit)"
proof -
  have host: "settles c commit (commit_host_error m bz c cluster commit pre err)" for pre err
    using settles_with_text[OF settles_failing] late_no_retry[OF assms(2)] assms(1)
    unfolding settles_def commit_host_error_def bind_read by simp
  have pushed: "settles c commit (handle a (commit_host_error m bz c cluster commit []) (commit_record m bz c cluster commit b))" for a b
    by (intro settles_handle host settles_record)
  have "settles c commit (commit_bundle m bz c cluster commit commitFiles)" for commitFiles
    using pushed settles_failing[of c commit m "Some bz" cluster] late_timed_out[OF assms(2)] assms(1)
    unfolding settles_def commit_bundle_def Let_def by (auto split: prod.splits sum.splits)
  then show ?thesis
    unfolding commit_run_def Let_def by (intro settles_rules settles_failing host)
qed

text \<open>
  (C8) A commit request does not stay open: once the clock has passed the end of the rate-limit
  window after the start of the commit, a reconcile of it never asks for another try. It ends
  with a final phase recorded in the status of the object, unless the API server refuses a
  status, which is the only error it can end with. This holds whatever the host, the bundle
  store and the credentials do.
\<close>

theorem commit_gives_up:
  assumes "mgGetCluster m (rqCluster req) w = (Inr c, w1)"
    and "kGet (kcCommits c) [] (rqName req) w1 = (Inr commit, w2)"
    and "omDeletion (mxMeta commit) = None" "\<not> commit_isTerminal (mtPhase (mxStatus commit))"
    and "mtStartedAt (mxStatus commit) = Some s" and "\<And>w. s + RepositoryCommitRateLimitWindow \<le> mgNow m w"
  shows "case fst (commit_Reconcile m backends bundles req w) of
      Inr res \<Rightarrow> res = done_result \<and> (\<exists>x v v'. mxMeta x = mxMeta commit \<and> commit_isTerminal (mtPhase (mxStatus x)) \<and>
        commit_updateStatus c x v = (Inr (), v'))
    | Inl e \<Rightarrow> \<exists>x v d v'. commit_updateStatus c x v = (Inl d, v')"
proof -
  define rest where "rest = (case bundles of
         None \<Rightarrow> commit_failing m None c (rqCluster req) commit ''bundle store is unavailable''
       | Some bz \<Rightarrow> (case backends of
           None \<Rightarrow> commit_failing m (Some bz) c (rqCluster req) commit ''git backends are unavailable''
         | Some reg \<Rightarrow>
             bindA (readA (mgNow m)) (\<lambda>now.
             let commit = running_commit now commit in
             bindA (commit_updateStatus c commit) (\<lambda>u. commit_run m reg bz c (rqCluster req) commit))))"
  have run: "commit_Reconcile m backends bundles req w = rest w2"
    using assms(1-4) by (simp add: commit_Reconcile_def for_object_def rest_def)
  have same: "mxMeta (running_commit now commit) = mxMeta commit" "mtStartedAt (mxStatus (running_commit now commit)) = Some s" for now
    by (simp_all add: running_commit_def Let_def assms(5))
  have running: "settles c commit (bindA (commit_updateStatus c (running_commit now commit))
       (\<lambda>u. commit_run m reg bz c (rqCluster req) (running_commit now commit)))" for now reg bz
  proof -
    have "settles c commit (commit_run m reg bz c (rqCluster req) (running_commit now commit))"
      using settles_run[OF same(2) assms(6), of c now reg bz "rqCluster req"]
      unfolding settles_def settled_def final_recorded_def same(1) .
    then show ?thesis
      unfolding settles_def bindA_def handle_def
      by (auto simp: failA_def settled_def[of _ _ "Inl e" for e] status_refused_def split: prod.splits sum.splits)
  qed
  have "settles c commit rest"
    unfolding rest_def
    by (intro settles_option settles_failing) (use running in \<open>simp add: settles_def bind_read Let_def\<close>)
  then show ?thesis unfolding run settles_def settled_def final_recorded_def status_refused_def by blast
qed

subsection \<open>A bundle outlives its commit\<close>

text \<open>What deleting the bundle may only follow: a final status that the API server shows or has stored.\<close>

definition shows_final :: "('w \<Rightarrow> bool) \<Rightarrow> 'w kube \<Rightarrow> bool" where
  "shows_final R c \<longleftrightarrow>
     (\<forall>n x w w'. kGet (kcCommits c) [] n w = (Inr x, w') \<longrightarrow> commit_isTerminal (mtPhase (mxStatus x)) \<longrightarrow> R w') \<and>
     (\<forall>x s w w'. kUpdateStatus (kcCommits c) x w = (Inr s, w') \<longrightarrow> commit_isTerminal (mtPhase (mxStatus x)) \<longrightarrow> R w')"

lemma updateStatus_final:
  assumes "shows_final R c" "commit_isTerminal (mtPhase (mxStatus x))" "commit_updateStatus c x w = (Inr u, w')"
  shows "R w'"
  using commit_kind.recorded[OF assms(3)[unfolded commit_updateStatus_def]] assms(1,2)
  unfolding shows_final_def by metis

lemma keeps_updateStatus:
  assumes "resource_keeps P api"
  shows "keeps P (updateStatusIfChanged kind meta status set_status api obj)"
  unfolding updateStatusIfChanged_def
  by (intro keeps_bindA keeps_if keeps_handle keeps_ret keeps_failA resource_keepsD[OF assms])

lemma keeps_commit_updateStatus: "kube_keeps P c \<Longrightarrow> keeps P (commit_updateStatus c x)"
  unfolding commit_updateStatus_def by (intro keeps_updateStatus kube_keepsD)

lemma keeps_option_val:
  "(v = None \<Longrightarrow> keeps P m) \<Longrightarrow> (\<And>x. v = Some x \<Longrightarrow> keeps P (k x)) \<Longrightarrow> keeps P (case v of None \<Rightarrow> m | Some x \<Rightarrow> k x)"
  by (cases v) auto

text \<open>A final status write followed by a deletion.\<close>

lemma keeps_final_then:
  assumes "kube_keeps P c" "shows_final R c" "commit_isTerminal (mtPhase (mxStatus x))"
    and "\<And>u w. R w \<Longrightarrow> P w \<Longrightarrow> P (snd (k u w))"
  shows "keeps P (handle (commit_updateStatus c x) (\<lambda>e. failA (f e)) k)"
proof (rule keepsI)
  fix w assume P: "P w"
  obtain r w1 where up: "commit_updateStatus c x w = (r, w1)" by fastforce
  then have w1: "P w1" using keepsD[OF keeps_commit_updateStatus[OF assms(1)] P] by (metis snd_conv)
  show "P (snd (handle (commit_updateStatus c x) (\<lambda>e. failA (f e)) k w))"
  proof (cases r)
    case (Inr u)
    with up assms(4)[OF updateStatus_final[OF assms(2,3)] w1] show ?thesis by simp
  qed (use up w1 in \<open>simp add: failA_def\<close>)
qed

lemma keeps_failing:
  assumes "kube_keeps P c" "shows_final R c"
    and "\<And>bz n d w. bundles = Some bz \<Longrightarrow> R w \<Longrightarrow> P w \<Longrightarrow> P (snd (bzDelete bz cluster n d w))"
  shows "keeps P (commit_failing m bundles c cluster commit message)"
proof -
  have "P (snd (bindA (failed_cleanup bundles cluster ref) (\<lambda>u. ret done_result) w))" if "R w" "P w" for ref w
    using that assms(3) by (auto simp: failed_cleanup_def ignoring_def bindA_def handle_def ret_def split: option.splits)
  then have final: "keeps P (handle (commit_updateStatus c (failed_commit now commit message)) (\<lambda>e. failA (f e))
    (\<lambda>u. bindA (failed_cleanup bundles cluster ref) (\<lambda>u. ret done_result)))" for now f ref
    by (intro keeps_final_then[OF assms(1,2)]) auto
  show ?thesis unfolding keeps_def commit_failing_eq by (intro allI impI) (rule keepsD[OF final])
qed

lemma keeps_commit_run:
  assumes m: "manager_keeps P m" and c: "kube_keeps P c" "shows_final R c"
    and del: "\<And>n d w. R w \<Longrightarrow> P w \<Longrightarrow> P (snd (bzDelete bz cluster n d w))"
    and get: "\<And>n d. keeps P (bzGet bz cluster n d)"
    and host: "\<And>n b conn cred repo. registry_Get reg n = Some b \<Longrightarrow>
      keeps P (gbEnsureRepository b conn cred repo) \<and>
      (\<forall>commitFiles input. gbCommitFiles b = Some commitFiles \<longrightarrow> keeps P (commitFiles conn cred repo input))"
  shows "keeps P (commit_run m reg bz c cluster commit)"
proof -
  have failing: "keeps P (commit_failing m (Some bz) c cluster commit msg)" for msg
    by (rule keeps_failing[OF c]) (use del in auto)
  have host_error: "keeps P (commit_host_error m bz c cluster commit pre err)" for pre err
    unfolding commit_host_error_def commit_waitForRateLimit_def Let_def
    by (intro keeps failing keeps_commit_updateStatus[OF c(1)])
  have deleted: "P (snd (bindA (ignoring (bzDelete bz cluster n d)) (\<lambda>u. ret done_result) w))" if "R w" "P w" for n d w
    using del[OF that] by (simp add: ignoring_def bindA_def handle_def ret_def)
  have recording: "keeps P (commit_record m bz c cluster commit bd res)" for bd res
    unfolding commit_record_def Let_def
    by (intro keeps_bindA keeps_readA keeps_final_then[OF c] deleted) auto
  have pushed: "keeps P (handle a (commit_host_error m bz c cluster commit []) (commit_record m bz c cluster commit bd))"
    if "keeps P a" for a bd using that by (intro keeps_handle host_error recording)
  have read: "keeps P (commit_bundle m bz c cluster commit commitFiles)" if "\<And>input. keeps P (commitFiles input)" for commitFiles
  proof (rule keepsI)
    fix w assume P: "P w"
    obtain r w1 where got: "bzGet bz cluster (brName (soBundleRef (msSource (mxSpec commit))))
        (brDigest (soBundleRef (msSource (mxSpec commit)))) w = (r, w1)" by fastforce
    then have "P w1" using keepsD[OF get P] by (metis snd_conv)
    then show "P (snd (commit_bundle m bz c cluster commit commitFiles w))"
      using keepsD[OF failing] keepsD[OF pushed[OF that]] got
      by (cases r) (simp_all add: commit_bundle_def Let_def)
  qed
  show ?thesis
    unfolding commit_run_def Let_def
    by (intro keeps_handle keeps_with_text keeps_option_val keeps_shared[OF c(1) m] failing host_error read)
      (use host in blast)+
qed

text \<open>
  (C2) The source bundle of a commit is deleted only after the outcome of the commit is on the
  API server. \<open>P\<close> is what the program must not lose (say, that the bundle is stored or the
  commit has a final phase) and \<open>R\<close> that a final phase is stored: if no call but the deletion
  of a bundle can break \<open>P\<close>, and the deletion cannot when \<open>R\<close> holds, then a whole
  \<open>Reconcile\<close> keeps \<open>P\<close>, through every error path, so a crash or a failed status write leaves
  a commit that can be tried again.
\<close>

theorem bundle_deleted_last:
  assumes "manager_keeps P m" and "\<And>c w w'. mgGetCluster m (rqCluster req) w = (Inr c, w') \<Longrightarrow> shows_final R c"
    and "\<And>bz n d w. bundles = Some bz \<Longrightarrow> R w \<Longrightarrow> P w \<Longrightarrow> P (snd (bzDelete bz (rqCluster req) n d w))"
    and "\<And>bz n d. bundles = Some bz \<Longrightarrow> keeps P (bzGet bz (rqCluster req) n d)"
    and "\<And>reg n b conn cred repo. backends = Some reg \<Longrightarrow> registry_Get reg n = Some b \<Longrightarrow>
      keeps P (gbEnsureRepository b conn cred repo) \<and>
      (\<forall>commitFiles input. gbCommitFiles b = Some commitFiles \<longrightarrow> keeps P (commitFiles conn cred repo input))"
  shows "keeps P (commit_Reconcile m backends bundles req)"
proof -
  let ?cl = "rqCluster req"
  have run: "keeps P (commit_run m reg bz c ?cl commit)"
    if c: "kube_keeps P c" "shows_final R c" and bz: "bundles = Some bz" and reg: "backends = Some reg" for c reg bz commit
    by (rule keeps_commit_run[OF assms(1) c assms(3)[OF bz] assms(4)[OF bz] assms(5)[OF reg]])
  show ?thesis
    unfolding commit_Reconcile_def
  proof (intro keeps_ClusterClient[OF assms(1)] keeps_for_object keeps_if keeps_ret)
    fix c w w' x v v'
    assume c: "mgGetCluster m ?cl w = (Inr c, w')" "kube_keeps P c"
    then have fin: "shows_final R c" using assms(2) by blast
    show "resource_keeps P (kcCommits c)" by (rule kube_keepsD[OF c(2)])
    show "keeps P (case bundles of None \<Rightarrow> commit_failing m None c ?cl x ''bundle store is unavailable''
       | Some bz \<Rightarrow> (case backends of
           None \<Rightarrow> commit_failing m (Some bz) c ?cl x ''git backends are unavailable''
         | Some reg \<Rightarrow> bindA (readA (mgNow m)) (\<lambda>now. let commit = running_commit now x in
             bindA (commit_updateStatus c commit) (\<lambda>u. commit_run m reg bz c ?cl commit))))"
      using keeps_failing[OF c(2) fin] assms(3) run[OF c(2) fin] keeps_commit_updateStatus[OF c(2)]
      by (auto simp: Let_def split: option.splits intro!: keeps_bindA keeps_readA)
  qed
qed

subsection \<open>Checkouts leave no orphan bundle\<close>

text \<open>
  \<open>C None\<close> says that every stored bundle has a reader, and \<open>C (Some ref)\<close> that every one but \<open>ref\<close>
  has. A checkout that the API server shows with the reference of a bundle is its reader.
\<close>

definition publishes :: "(BundleRef option \<Rightarrow> 'w \<Rightarrow> bool) \<Rightarrow> 'w kube \<Rightarrow> bool" where
  "publishes C c \<longleftrightarrow> (\<forall>ref x.
     ktBundleRef (kxStatus x) = Some \<lparr>brName = rName ref, brDigest = rDigest ref\<rparr> \<longrightarrow>
       (\<forall>n w w'. kGet (kcCheckouts c) [] n w = (Inr x, w') \<longrightarrow> C (Some ref) w' \<longrightarrow> C None w') \<and>
       (\<forall>s w w'. kUpdateStatus (kcCheckouts c) x w = (Inr s, w') \<longrightarrow> C (Some ref) w' \<longrightarrow> C None w'))"

lemma keeps_checkout_updateStatus: "kube_keeps P c \<Longrightarrow> keeps P (checkout_updateStatus c x)"
  unfolding checkout_updateStatus_def by (intro keeps_updateStatus kube_keepsD)

lemma keeps_checkout_fail: "kube_keeps P c \<Longrightarrow> keeps P (checkout_fail m c x msg)"
  unfolding checkout_fail_def by (intro keeps keeps_checkout_updateStatus)

lemma checkout_published:
  assumes "publishes C c" "ktBundleRef (kxStatus x) = Some \<lparr>brName = rName ref, brDigest = rDigest ref\<rparr>"
    and "checkout_updateStatus c x w = (Inr u, w')" "C (Some ref) w'"
  shows "C None w'"
  using checkout_kind.recorded[OF assms(3)[unfolded checkout_updateStatus_def]] assms(1,2,4)
  unfolding publishes_def by metis

lemma checkout_record_reader:
  assumes "publishes C c" "kube_keeps (C (Some ref)) c" "C (Some ref) w"
    and "\<And>w. C (Some ref) w \<Longrightarrow> C None (snd (bzDelete bz cluster (rName ref) (rDigest ref) w))"
  shows "C None (snd (checkout_record m bz c cluster checkout res ref w))"
proof -
  let ?x = "succeeded_checkout (mgNow m w) checkout ref res"
  obtain r w1 where up: "checkout_updateStatus c ?x w = (r, w1)" by fastforce
  have w1: "C (Some ref) w1" using keepsD[OF keeps_checkout_updateStatus[OF assms(2)] assms(3)] up by (metis snd_conv)
  show ?thesis
  proof (cases r)
    case (Inl e)
    with up assms(4)[OF w1] show ?thesis
      by (simp add: checkout_record_def bind_read) (simp add: ignoring_def bindA_def handle_def failA_def)
  next
    case (Inr u)
    have "ktBundleRef (kxStatus ?x) = Some \<lparr>brName = rName ref, brDigest = rDigest ref\<rparr>"
      by (simp add: succeeded_checkout_def Let_def)
    with checkout_published[OF assms(1) this] up Inr w1 have "C None w1" by blast
    with up Inr show ?thesis by (simp add: checkout_record_def bind_read ret_def)
  qed
qed

text \<open>
  (C33) A checkout never leaves a bundle behind that nothing refers to: provided the bundle store
  deletes what it is told to, a whole \<open>Reconcile\<close> preserves that every stored bundle has a
  reader, also when the bundle is stored and the status that should publish it is refused.
\<close>

theorem checkout_leaves_no_orphan:
  assumes "\<And>r. manager_keeps (C r) m" and "\<And>c w w'. mgGetCluster m (rqCluster req) w = (Inr c, w') \<Longrightarrow> publishes C c"
    and "\<And>bz fs w ref w'. bundles = Some bz \<Longrightarrow> C None w \<Longrightarrow> bzPut bz (rqCluster req) fs w = (Inr ref, w') \<Longrightarrow> C (Some ref) w'"
    and "\<And>bz fs w e w'. bundles = Some bz \<Longrightarrow> C None w \<Longrightarrow> bzPut bz (rqCluster req) fs w = (Inl e, w') \<Longrightarrow> C None w'"
    and "\<And>bz ref w. bundles = Some bz \<Longrightarrow> C (Some ref) w \<Longrightarrow>
      C None (snd (bzDelete bz (rqCluster req) (rName ref) (rDigest ref) w))"
    and "\<And>reg n b read conn cred repo input. backends = Some reg \<Longrightarrow> registry_Get reg n = Some b \<Longrightarrow>
      gbCheckoutFiles b = Some read \<Longrightarrow> keeps (C None) (read conn cred repo input)"
  shows "keeps (C None) (checkout_Reconcile m backends bundles req)"
proof -
  let ?cl = "rqCluster req"
  have run: "keeps (C None) (checkout_run m reg bz c ?cl x)"
    if c: "\<And>r. kube_keeps (C r) c" "publishes C c" and bz: "bundles = Some bz" and reg: "backends = Some reg" for c reg bz x
  proof -
    have store: "keeps (C None) (checkout_store m bz c ?cl x res)" for res
    proof (rule keepsI)
      fix w assume P: "C None w"
      obtain r w1 where put: "bzPut bz ?cl (map checkout_file (kkFiles res)) w = (r, w1)" by fastforce
      show "C None (snd (checkout_store m bz c ?cl x res w))"
      proof (cases r)
        case (Inl e)
        with assms(4)[OF bz P] put keepsD[OF keeps_checkout_fail[OF c(1)]] show ?thesis by (simp add: checkout_store_def)
      next
        case (Inr ref)
        with assms(3)[OF bz P] put checkout_record_reader[OF c(2) c(1)] assms(5)[OF bz] show ?thesis
          by (simp add: checkout_store_def)
      qed
    qed
    show ?thesis
      unfolding checkout_run_def Let_def
      by (intro keeps_handle keeps_with_text keeps_option_val keeps_shared[OF c(1) assms(1)] keeps_checkout_fail[OF c(1)] keeps_lift store)
        (use assms(6)[OF reg] in blast)+
  qed
  show ?thesis
    unfolding checkout_Reconcile_def
  proof (intro keeps_ClusterClient[OF assms(1)] keeps_for_object keeps_if keeps_ret)
    fix c w w' x v v'
    assume c: "mgGetCluster m ?cl w = (Inr c, w')" "kube_keeps (C None) c"
    have all: "kube_keeps (C r) c" for r using assms(1)[of r] c(1) unfolding manager_keeps_def by blast
    show "resource_keeps (C None) (kcCheckouts c)" by (rule kube_keepsD[OF c(2)])
    show "keeps (C None) (case bundles of None \<Rightarrow> checkout_fail m c x ''bundle store is unavailable''
       | Some bz \<Rightarrow> (case backends of
           None \<Rightarrow> checkout_fail m c x ''git backends are unavailable''
         | Some reg \<Rightarrow> bindA (readA (mgNow m)) (\<lambda>now. let checkout = running_checkout now x in
             bindA (checkout_updateStatus c checkout) (\<lambda>u. checkout_run m reg bz c ?cl checkout))))"
      using keeps_checkout_fail[OF all] run[OF all assms(2)[OF c(1)]] keeps_checkout_updateStatus[OF all]
      by (auto simp: Let_def split: option.splits intro!: keeps_bindA keeps_readA)
  qed
qed

subsection \<open>Finished requests\<close>

text \<open>
  A request is carried out at most once: a reconcile of a commit, checkout or build-status
  request that is being deleted or has a final phase reads the object and does nothing else, on
  the API server, the host or the bundle store, and does not ask to be called again.
\<close>

theorem finished_requests_rest:
  assumes "mgGetCluster m (rqCluster req) w = (Inr c, w1)"
  shows "(\<forall>x w2. kGet (kcCommits c) [] (rqName req) w1 = (Inr x, w2) \<and>
        (omDeletion (mxMeta x) \<noteq> None \<or> commit_isTerminal (mtPhase (mxStatus x))) \<longrightarrow>
        commit_Reconcile m backends bundles req w = (Inr done_result, w2)) \<and>
    (\<forall>x w2. kGet (kcCheckouts c) [] (rqName req) w1 = (Inr x, w2) \<and>
        (omDeletion (kxMeta x) \<noteq> None \<or> checkout_isTerminal (ktPhase (kxStatus x))) \<longrightarrow>
        checkout_Reconcile m backends bundles req w = (Inr done_result, w2)) \<and>
    (\<forall>x w2. kGet (kcBuilds c) [] (rqName req) w1 = (Inr x, w2) \<and>
        (omDeletion (bxMeta x) \<noteq> None \<or> build_isTerminal (btPhase (bxStatus x))) \<longrightarrow>
        build_Reconcile m backends req w = (Inr done_result, w2))"
  using assms
  by (auto simp: commit_Reconcile_def checkout_Reconcile_def build_Reconcile_def for_object_def simp del: not_None_eq)

subsection \<open>Instances\<close>

definition zero_commit :: RepositoryCommit where
  "zero_commit = \<lparr>mxMeta = zero_meta,
     mxSpec = \<lparr>msRepositoryRef = ''r'', msBranch = [], msMessage = ''m'', msSource = \<lparr>soBundleRef = \<lparr>brName = ''b'', brDigest = ''d''\<rparr>\<rparr>\<rparr>,
     mxStatus = \<lparr>mtObserved = 0, mtPhase = [], mtStartedAt = Some 0, mtCompletedAt = None, mtBranch = [], mtCommitSHA = [],
       mtCommitURL = [], mtSource = None, mtFiles = [], mtConditions = []\<rparr>\<rparr>"

definition request_example :: Request where
  "request_example = \<lparr>rqCluster = ''ws'', rqName = ''x''\<rparr>"

text \<open>The world holds a commit, whose final phase the API server does not overwrite, and whether its bundle is stored.\<close>

definition sticky_commits :: "(RepositoryCommit \<times> bool, RepositoryCommit) resource_api" where
  "sticky_commits = one_object\<lparr>kUpdate := (\<lambda>x. failA (KubeError Conflict ''conflict'')), kUpdateStatus := (\<lambda>x w.
     if commit_isTerminal (mtPhase (mxStatus (fst w))) \<and> \<not> commit_isTerminal (mtPhase (mxStatus x))
     then (Inl (KubeError Conflict ''conflict''), w) else (Inr x, (x, snd w)))\<rparr>"

definition commit_workspace :: "(RepositoryCommit \<times> bool) kube" where
  "commit_workspace = example_workspace\<lparr>kcCommits := sticky_commits\<rparr>"

definition one_bundle :: "(RepositoryCommit \<times> bool) bundle_api" where
  "one_bundle = \<lparr>bzPut = (\<lambda>_ _ w. (Inl ContextDone, w)),
     bzGet = (\<lambda>_ n _ w. (if snd w then Inr \<lparr>bName = n, bDigest = [], bScope = [], bSize = 0, bFiles = []\<rparr> else Inl (BundleNotFound n), w)),
     bzDelete = (\<lambda>_ _ _ w. (Inr (), (fst w, False))), bzText = (\<lambda>_. ''error'')\<rparr>"

definition late_manager :: "(RepositoryCommit \<times> bool) manager" where
  "late_manager = (manager_of commit_workspace)\<lparr>mgNow := (\<lambda>_. 16 * Minute)\<rparr>"

theorem commit_gives_up_witness:
  "case fst (commit_Reconcile late_manager (Some stub_registry) (Some one_bundle) request_example (zero_commit, False)) of
      Inr res \<Rightarrow> res = done_result \<and> (\<exists>x v v'. mxMeta x = mxMeta zero_commit \<and> commit_isTerminal (mtPhase (mxStatus x)) \<and>
        commit_updateStatus commit_workspace x v = (Inr (), v'))
    | Inl e \<Rightarrow> \<exists>x v d v'. commit_updateStatus commit_workspace x v = (Inl d, v')"
  by (rule commit_gives_up[where s = 0 and ?w1.0 = "(zero_commit, False)" and ?w2.0 = "(zero_commit, False)"])
    (simp_all add: late_manager_def manager_of_def ret_def commit_workspace_def sticky_commits_def one_object_def zero_commit_def
      zero_meta_def commit_isTerminal_def RepositoryCommitPhaseSucceeded_def RepositoryCommitPhaseFailed_def
      RepositoryCommitRateLimitWindow_def Minute_def)

theorem bundle_deleted_last_witness:
  "keeps (\<lambda>w. snd w \<or> commit_isTerminal (mtPhase (mxStatus (fst w))))
     (commit_Reconcile (manager_of commit_workspace) (Some stub_registry) (Some one_bundle) request_example)"
proof (rule bundle_deleted_last[where R = "\<lambda>w. commit_isTerminal (mtPhase (mxStatus (fst w)))"])
  have "resource_keeps (\<lambda>w. snd w \<or> commit_isTerminal (mtPhase (mxStatus (fst w)))) sticky_commits"
    by (auto simp: resource_keeps_def sticky_commits_def one_object_def down_api_def failA_def keeps_def)
  then show "manager_keeps (\<lambda>w. snd w \<or> commit_isTerminal (mtPhase (mxStatus (fst w)))) (manager_of commit_workspace)"
    by (intro manager_of_keeps)
      (simp add: kube_keeps_def commit_workspace_def example_workspace_def down_kube_def constant_object_keeps down_api_keeps)
  show "\<And>c w w'. mgGetCluster (manager_of commit_workspace) (rqCluster request_example) w = (Inr c, w') \<Longrightarrow>
      shows_final (\<lambda>w. commit_isTerminal (mtPhase (mxStatus (fst w)))) c"
    by (auto simp: manager_of_def ret_def shows_final_def commit_workspace_def sticky_commits_def one_object_def split: if_splits)
qed (auto simp: one_bundle_def keeps_def registry_Get_def stub_registry_def stub_defs ret_def failA_def Let_def split: if_splits)

definition zero_checkout :: RepositoryCheckout where
  "zero_checkout = \<lparr>kxMeta = zero_meta, kxSpec = \<lparr>ksRepositoryRef = ''r'', ksRef = []\<rparr>,
     kxStatus = \<lparr>ktObserved = 0, ktPhase = [], ktStartedAt = None, ktCompletedAt = None, ktRef = [], ktCommitSHA = [],
       ktSource = None, ktBundleRef = None, ktSkipped = [], ktConditions = []\<rparr>\<rparr>"

text \<open>The world is the stored bundle; a published reference is read, and its bundle removed, at once.\<close>

definition checkout_workspace :: "BundleRef option kube" where
  "checkout_workspace = example_workspace\<lparr>kcCheckouts := (constant_object zero_checkout)\<lparr>
     kUpdateStatus := (\<lambda>x w. (Inr x, if ktBundleRef (kxStatus x) = None then w else None))\<rparr>\<rparr>"

definition example_ref :: BundleRef where
  "example_ref = \<lparr>rName = ''b'', rDigest = ''d'', rScope = [], rSize = 0, rFileCount = 0, rFiles = []\<rparr>"

definition bundle_slot :: "BundleRef option bundle_api" where
  "bundle_slot = \<lparr>bzPut = (\<lambda>_ _ w. (Inr example_ref, Some example_ref)), bzGet = (\<lambda>_ _ _ w. (Inl ContextDone, w)),
     bzDelete = (\<lambda>_ _ _ w. (Inr (), None)), bzText = (\<lambda>_. [])\<rparr>"

definition reading_registry :: "'w git_backend Registry" where
  "reading_registry = [(ProviderGitHub, stub_New\<lparr>gbCheckoutFiles := Some (\<lambda>_ _ _ _. ret
     \<lparr>kkRef = [], kkCommitSHA = ''c'', kkFiles = [], kkSkipped = []\<rparr>)\<rparr>)]"

theorem checkout_leaves_no_orphan_witness:
  "keeps (\<lambda>w. w = None) (checkout_Reconcile (manager_of checkout_workspace) (Some reading_registry) (Some bundle_slot) request_example)"
proof -
  define C where "C = (\<lambda>r w. case w of None \<Rightarrow> True | Some b \<Rightarrow> r = Some (b :: BundleRef))"
  have none: "C None = (\<lambda>w. w = None)" unfolding C_def by (rule ext) (simp split: option.splits)
  have "keeps (C None) (checkout_Reconcile (manager_of checkout_workspace) (Some reading_registry) (Some bundle_slot) request_example)"
  proof (rule checkout_leaves_no_orphan)
    have "resource_keeps (C r) (kcCheckouts checkout_workspace)" for r
      by (auto simp: resource_keeps_def checkout_workspace_def constant_object_def down_api_def failA_def ret_def keeps_def C_def)
    then show "manager_keeps (C r) (manager_of checkout_workspace)" for r
      by (intro manager_of_keeps)
        (simp add: kube_keeps_def checkout_workspace_def example_workspace_def down_kube_def constant_object_keeps down_api_keeps)
    show "\<And>c w w'. mgGetCluster (manager_of checkout_workspace) (rqCluster request_example) w = (Inr c, w') \<Longrightarrow> publishes C c"
      by (auto simp: manager_of_def ret_def publishes_def checkout_workspace_def constant_object_def zero_checkout_def C_def)
  qed (auto simp: bundle_slot_def keeps_def registry_Get_def reading_registry_def ret_def C_def split: if_splits)
  then show ?thesis unfolding none .
qed

theorem finished_requests_rest_witness:
  "commit_Reconcile (manager_of commit_workspace) None None request_example (failed_commit 0 zero_commit [], True) =
     (Inr done_result, (failed_commit 0 zero_commit [], True))"
proof -
  let ?w = "(failed_commit 0 zero_commit [], True)"
  have "mgGetCluster (manager_of commit_workspace) (rqCluster request_example) ?w = (Inr commit_workspace, ?w)"
    by (simp add: manager_of_def ret_def)
  from finished_requests_rest[OF this, THEN conjunct1, rule_format, of "fst ?w" ?w] show ?thesis
    by (simp add: commit_workspace_def sticky_commits_def one_object_def)
qed

end
