(* ===== verification/Package_Controller.thy ===== *)
theory Package_Controller
  imports Stub_Backend Github_Packages "HOL-Library.Signed_Division"
begin

text \<open>
  \<open>controller/packages\<close>: the crawler that mirrors the packages of a repository on the host into
  \<open>Package\<close> objects, and \<open>dependencies.go\<close>, which repositories an event concerns. Go visits the
  entries of a map in an unspecified order; \<open>ord\<close> gives the order of the keys in the world of
  the moment. \<open>time.ParseDuration\<close> is a parameter. A listing that does not end is \<open>None\<close>.
\<close>

subsection \<open>Names\<close>

definition name_char :: "char \<Rightarrow> bool" where
  "name_char r \<longleftrightarrow> CHR ''a'' \<le> r \<and> r \<le> CHR ''z'' \<or> CHR ''0'' \<le> r \<and> r \<le> CHR ''9''"

text \<open>The loop of \<open>sanitize\<close>; bytes of a multi-byte rune collapse into the same dash as the rune.\<close>

fun sanitize_from :: "bool \<Rightarrow> string \<Rightarrow> string" where
  "sanitize_from lastDash [] = []"
| "sanitize_from lastDash (r # s) =
     (if name_char r then r # sanitize_from False s
      else if lastDash then sanitize_from True s
      else CHR ''-'' # sanitize_from True s)"

definition sanitize :: "string \<Rightarrow> string" where
  "sanitize s = Trim (sanitize_from False (ToLower s)) ''-''"

definition packageObjectName :: "string \<Rightarrow> string \<Rightarrow> string \<Rightarrow> string" where
  "packageObjectName repo pkgType pkgName =
     (let suffix = take 10 (hex_encode (sha256 (repo @ [CHR 0x00] @ pkgType @ [CHR 0x00] @ pkgName)));
          base = sanitize (repo @ ''-'' @ pkgType @ ''-'' @ pkgName);
          maxBase = 253 - 1 - 10
      in (if length base > maxBase then TrimRight (take maxBase base) ''-'' else base) @ ''-'' @ suffix)"

subsection \<open>Intervals\<close>

definition defaultCrawlInterval :: duration where "defaultCrawlInterval = 2 * Minute"
definition recentCommitWindow :: duration where "recentCommitWindow = 10 * Minute"
definition recentCommitCrawlInterval :: duration where "recentCommitCrawlInterval = 30 * Second"

definition crawlIntervalFromEnv :: "(string \<Rightarrow> duration option) \<Rightarrow> string \<Rightarrow> duration" where
  "crawlIntervalFromEnv parseDuration v =
     (if v = [] then defaultCrawlInterval
      else case parseDuration v of
          Some d \<Rightarrow> if d > 0 then d else defaultCrawlInterval
        | None \<Rightarrow> defaultCrawlInterval)"

text \<open>A \<open>time.Duration\<close> is an \<open>int64\<close>: products wrap around, division truncates.\<close>

definition jitter :: "64 word \<Rightarrow> Repository \<Rightarrow> 64 word" where
  "jitter base repo =
     (if sint base \<le> 0 then base
      else base + word_of_int (sint (word_of_nat (of_char (hd (sha256 (omUID (rxMeta repo))))) * base) sdiv (255 * 4)))"

definition nextCrawl :: "64 word \<Rightarrow> Repository \<Rightarrow> bool \<Rightarrow> duration" where
  "nextCrawl crawlInterval repo recentCommit =
     (let interval = sint (jitter crawlInterval repo) in
      if recentCommit \<and> interval > recentCommitCrawlInterval then recentCommitCrawlInterval else interval)"

definition commit_is_recent :: "gotime \<Rightarrow> string \<Rightarrow> RepositoryCommit \<Rightarrow> bool" where
  "commit_is_recent now repoName commit =
     (if msRepositoryRef (mxSpec commit) \<noteq> repoName \<or> mtPhase (mxStatus commit) \<noteq> RepositoryCommitPhaseSucceeded then False
      else case mtCompletedAt (mxStatus commit) of None \<Rightarrow> False | Some t \<Rightarrow> now - t < recentCommitWindow)"

definition recentlyCommitted :: "'w kube \<Rightarrow> Repository \<Rightarrow> gotime \<Rightarrow> ('w, bool) act" where
  "recentlyCommitted c repo now =
     handle (kList (kcCommits c) [(LabelRepository, omName (rxMeta repo))]) (\<lambda>err. ret False)
       (\<lambda>items. ret (list_ex (commit_is_recent now (omName (rxMeta repo))) items))"

subsection \<open>Statuses\<close>

definition published_version :: "PackageVersion \<Rightarrow> ApiPackageVersion" where
  "published_version v = \<lparr>avDigest = pvDigest v, avTags = pvTags v, avCreatedAt = pvCreatedAt v\<rparr>"

definition packageVersions :: "PackageVersion list \<Rightarrow> ApiPackageVersion list" where
  "packageVersions versions = map published_version versions"

definition stringsEqual :: "string list \<Rightarrow> string list \<Rightarrow> bool" where
  "stringsEqual a b \<longleftrightarrow> length a = length b \<and> list_all (\<lambda>(x, y). x = y) (zip a b)"

definition packageVersionsEqual :: "ApiPackageVersion list \<Rightarrow> ApiPackageVersion list \<Rightarrow> bool" where
  "packageVersionsEqual a b \<longleftrightarrow> length a = length b \<and>
     list_all (\<lambda>(x, y). avDigest x = avDigest y \<and> avCreatedAt x = avCreatedAt y \<and> stringsEqual (avTags x) (avTags y)) (zip a b)"

definition packageStatusEqual :: "PackageStatus \<Rightarrow> PackageStatus \<Rightarrow> bool" where
  "packageStatusEqual a b \<longleftrightarrow>
     ptPackageName a = ptPackageName b \<and> ptType a = ptType b \<and> ptVisibility a = ptVisibility b \<and>
     ptHTMLURL a = ptHTMLURL b \<and> ptVersionCount a = ptVersionCount b \<and> ptUpdatedAt a = ptUpdatedAt b \<and>
     ptImageRepository a = ptImageRepository b \<and> ptObserved a = ptObserved b \<and>
     packageVersionsEqual (ptVersions a) (ptVersions b) \<and> IsStatusConditionTrue (ptConditions a) ConditionReady"

text \<open>
  \<open>next.Conditions\<close> shares its array with \<open>pkg.Status.Conditions\<close>. Setting a condition that is there
  changes the element, so both slices see it; a new one is appended, which only \<open>next\<close> sees.
\<close>

definition aliased_conditions :: "string \<Rightarrow> Condition list \<Rightarrow> Condition list \<Rightarrow> Condition list" where
  "aliased_conditions condType old new = (if find_condition condType old = None then old else new)"

definition next_status :: "gotime \<Rightarrow> Package \<Rightarrow> PackageInfo \<Rightarrow> PackageStatus" where
  "next_status now pkg info =
     \<lparr>ptObserved = omGeneration (pxMeta pkg), ptPackageName = piName info, ptType = piType info,
      ptVisibility = piVisibility info, ptHTMLURL = piHTMLURL info, ptVersionCount = piVersionCount info,
      ptUpdatedAt = piUpdatedAt info, ptImageRepository = piImageRepository info,
      ptVersions = packageVersions (piVersions info), ptLastSyncTime = Some now,
      ptConditions = SetCondition now ConditionReady True ReasonReady [] (omGeneration (pxMeta pkg)) (ptConditions (pxStatus pkg))\<rparr>"

definition package_updateStatus :: "'w manager \<Rightarrow> 'w kube \<Rightarrow> Package \<Rightarrow> PackageInfo \<Rightarrow> ('w, unit) act" where
  "package_updateStatus m c pkg info =
     bindA (readA (mgNow m)) (\<lambda>now.
     let nxt = next_status now pkg info;
         seen = (pxStatus pkg)\<lparr>ptConditions :=
           aliased_conditions ConditionReady (ptConditions (pxStatus pkg)) (ptConditions nxt)\<rparr> in
     if packageStatusEqual seen nxt then ret ()
     else handle (kUpdateStatus (kcPackages c) (pkg\<lparr>pxStatus := nxt\<rparr>))
       (\<lambda>e. failA (Wrapped (''update package '' @ quoted (omName (pxMeta pkg)) @ '' status: '') e []))
       (\<lambda>u. ret ()))"

subsection \<open>The mirror\<close>

definition listOwned :: "'w kube \<Rightarrow> Repository \<Rightarrow> ('w, (string \<times> Package) list) act" where
  "listOwned c repo =
     handle (kList (kcPackages c) [(LabelRepository, omName (rxMeta repo))])
       (\<lambda>e. failA (Wrapped (''list packages for repository '' @ quoted (omName (rxMeta repo)) @ '': '') e []))
       (\<lambda>items. ret (fold (\<lambda>p out. AList.update (omName (pxMeta p)) p out) items []))"

text \<open>\<open>for name, pkg := range existing\<close>: delete, ignoring objects that are gone.\<close>

definition delete_package :: "'w kube \<Rightarrow> string \<Rightarrow> string \<Rightarrow> ('w, unit) act" where
  "delete_package c what name =
     handle (kDelete (kcPackages c) [] name)
       (\<lambda>e. if is_reason NotFound e then ret () else failA (Wrapped (what @ quoted name @ '': '') e [])) ret"

definition deleteAll :: "('w \<Rightarrow> string list \<Rightarrow> string list) \<Rightarrow> 'w kube \<Rightarrow> Repository \<Rightarrow> ('w, unit) act" where
  "deleteAll ord c repo =
     bindA (listOwned c repo) (\<lambda>existing.
     bindA (readA (\<lambda>w. ord w (map fst existing))) (\<lambda>names.
     forA (\<lambda>name u. delete_package c ''delete package '' name) names ()))"

definition new_package :: "Repository \<Rightarrow> string \<Rightarrow> Package" where
  "new_package repo name =
     \<lparr>pxMeta = zero_meta\<lparr>omName := name, omLabels := [(LabelRepository, omName (rxMeta repo))],
        omOwners := [\<lparr>orKind = ''Repository'', orName = omName (rxMeta repo), orUID = omUID (rxMeta repo), orController = True\<rparr>]\<rparr>,
      pxSpec = \<lparr>psRepositoryRef = omName (rxMeta repo)\<rparr>,
      pxStatus = \<lparr>ptObserved = 0, ptPackageName = [], ptType = [], ptVisibility = [], ptHTMLURL = [], ptVersionCount = 0,
        ptUpdatedAt = [], ptImageRepository = [], ptVersions = [], ptLastSyncTime = None, ptConditions = []\<rparr>\<rparr>"

definition package_create :: "'w manager \<Rightarrow> 'w kube \<Rightarrow> Repository \<Rightarrow> string \<Rightarrow> PackageInfo \<Rightarrow> ('w, unit) act" where
  "package_create m c repo name info =
     handle (kCreate (kcPackages c) (new_package repo name))
       (\<lambda>e. if is_reason AlreadyExists e
          then bindA (kGet (kcPackages c) [] name) (\<lambda>pkg. package_updateStatus m c pkg info)
          else failA (Wrapped (''create package '' @ quoted name @ '': '') e []))
       (\<lambda>pkg. package_updateStatus m c pkg info)"

definition desired_packages :: "Repository \<Rightarrow> PackageInfo list \<Rightarrow> (string \<times> PackageInfo) list" where
  "desired_packages repo infos =
     fold (\<lambda>info out. AList.update (packageObjectName (omName (rxMeta repo)) (piType info) (piName info)) info out) infos []"

definition sync_stale :: "'w kube \<Rightarrow> (string \<times> PackageInfo) list \<Rightarrow> string \<Rightarrow> ('w, unit) act" where
  "sync_stale c desired name =
     (if map_of desired name = None then delete_package c ''delete stale package '' name else ret ())"

definition sync_entry ::
  "'w manager \<Rightarrow> 'w kube \<Rightarrow> Repository \<Rightarrow> (string \<times> Package) list \<Rightarrow> (string \<times> PackageInfo) list \<Rightarrow> string \<Rightarrow> ('w, unit) act"
where
  "sync_entry m c repo existing desired name =
     (case map_of desired name of
        None \<Rightarrow> ret ()
      | Some info \<Rightarrow> (case map_of existing name of
            Some cur \<Rightarrow> package_updateStatus m c cur info
          | None \<Rightarrow> package_create m c repo name info))"

definition sync ::
  "'w manager \<Rightarrow> ('w \<Rightarrow> string list \<Rightarrow> string list) \<Rightarrow> 'w kube \<Rightarrow> Repository \<Rightarrow> PackageInfo list \<Rightarrow> ('w, unit) act"
where
  "sync m ord c repo infos =
     bindA (listOwned c repo) (\<lambda>existing.
     let desired = desired_packages repo infos in
     bindA (readA (\<lambda>w. ord w (map fst existing))) (\<lambda>names.
     bindA (forA (\<lambda>name u. sync_stale c desired name) names ()) (\<lambda>u.
     bindA (readA (\<lambda>w. ord w (map fst desired))) (\<lambda>names.
     forA (\<lambda>name u. sync_entry m c repo existing desired name) names ()))))"

subsection \<open>Reconciling\<close>

text \<open>What there is to crawl: nothing, or the client, the repository and the listing to make.\<close>

datatype 'w crawl =
    NoCrawl
  | Crawl "'w kube" Repository bool "('w, PackageInfo list) loop"

definition crawl_setup ::
  "'w manager \<Rightarrow> ('w \<Rightarrow> string list \<Rightarrow> string list) \<Rightarrow> 'w git_backend Registry \<Rightarrow> Request \<Rightarrow> ('w, 'w crawl) act"
where
  "crawl_setup m ord backends req =
     bindA (ClusterClient m (rqCluster req)) (\<lambda>c.
     handle (kGet (kcRepositories c) [] (rqName req))
       (\<lambda>e. if is_reason NotFound e then ret NoCrawl else failA e) (\<lambda>repo.
     if omDeletion (rxMeta repo) \<noteq> None then ret NoCrawl
     else bindA (ResolveConnection c (rsConnectionRef (rxSpec repo))) (\<lambda>conn.
     case registry_Get backends (csProvider (cxSpec conn)) of
       None \<Rightarrow> ret NoCrawl
     | Some b \<Rightarrow> (case gbListPackages b of
         None \<Rightarrow> bindA (deleteAll ord c repo) (\<lambda>u. ret NoCrawl)
       | Some lister \<Rightarrow>
           bindA (ResolveCredential m c conn) (\<lambda>cred.
           bindA (readA (mgNow m)) (\<lambda>now.
           bindA (recentlyCommitted c repo now) (\<lambda>recent.
           ret (Crawl c repo recent (lister conn cred repo recent)))))))))"

definition crawl_failed :: "'w manager \<Rightarrow> gerror \<Rightarrow> ('w, Result) act" where
  "crawl_failed m err =
     bindA (readA (mgNow m)) (\<lambda>now.
     case as_rate_limit err of
       Some at \<Rightarrow> ret (after_result (max (at - now) Second))
     | None \<Rightarrow> failA err)"

definition packages_Reconcile ::
  "'w manager \<Rightarrow> ('w \<Rightarrow> string list \<Rightarrow> string list) \<Rightarrow> 64 word \<Rightarrow> 'w git_backend Registry \<Rightarrow> Request \<Rightarrow> ('w, Result) loop"
where
  "packages_Reconcile m ord crawlInterval backends req =
     bindL (once (crawl_setup m ord backends req)) (\<lambda>work.
     case work of
       NoCrawl \<Rightarrow> once (ret done_result)
     | Crawl c repo recent listing \<Rightarrow> (\<lambda>w. case listing w of
           None \<Rightarrow> None
         | Some (Inl err, w1) \<Rightarrow> once (crawl_failed m err) w1
         | Some (Inr infos, w1) \<Rightarrow>
             once (bindA (sync m ord c repo infos) (\<lambda>u. ret (after_result (nextCrawl crawlInterval repo recent)))) w1))"

subsection \<open>Events\<close>

definition commitSucceeded :: "RepositoryCommit \<Rightarrow> RepositoryCommit \<Rightarrow> bool" where
  "commitSucceeded oldCommit newCommit \<longleftrightarrow>
     mtPhase (mxStatus oldCommit) \<noteq> RepositoryCommitPhaseSucceeded \<and>
     mtPhase (mxStatus newCommit) = RepositoryCommitPhaseSucceeded"

definition commitHandler :: "RepositoryCommit \<Rightarrow> string list" where
  "commitHandler commit = (if msRepositoryRef (mxSpec commit) = [] then [] else [msRepositoryRef (mxSpec commit)])"

definition uses_secret :: "string \<Rightarrow> ObjectMeta \<Rightarrow> Connection \<Rightarrow> bool" where
  "uses_secret env obj conn \<longleftrightarrow>
     (let ref = csSecretRef (cxSpec conn);
          ns = (if lsNamespace ref = [] then DefaultCredentialsNamespace env else lsNamespace ref)
      in lsName ref = omName obj \<and> ns = omNamespace obj)"

text \<open>The names of the repositories to reconcile for an event on a connection or a Secret.\<close>

definition repositoriesForDependency :: "string \<Rightarrow> 'w kube \<Rightarrow> ObjectMeta \<Rightarrow> bool \<Rightarrow> ('w, string list) act" where
  "repositoriesForDependency env c obj secret =
     bindA (if secret
        then handle (kList (kcConnections c) []) (\<lambda>e. ret [])
               (\<lambda>items. ret (map (\<lambda>conn. omName (cxMeta conn)) (filter (uses_secret env obj) items)))
        else ret [omName obj]) (\<lambda>connections.
     if connections = [] then ret []
     else handle (kList (kcRepositories c) []) (\<lambda>e. ret [])
       (\<lambda>repos. ret (map (\<lambda>repo. omName (rxMeta repo))
          (filter (\<lambda>repo. rsConnectionRef (rxSpec repo) \<in> set connections) repos))))"

end
