(* ===== verification/Package_Mirror.thy ===== *)
theory Package_Mirror
  imports Package_Controller "HOL-Library.Multiset"
begin

text \<open>
  What the package crawler achieves: valid object names, a mirror that matches the host's
  listing whatever order Go visits its maps in, when a status is written, and which
  repositories an event wakes.
\<close>

subsection \<open>Object names\<close>

text \<open>A DNS-1123 label sequence as the API server requires of names (without dots).\<close>

definition dns1123 :: "string \<Rightarrow> bool" where
  "dns1123 s \<longleftrightarrow> s \<noteq> [] \<and> length s \<le> 253 \<and> (\<forall>c \<in> set s. name_char c \<or> c = CHR ''-'') \<and>
     name_char (hd s) \<and> name_char (last s)"

lemma sanitize_from_chars: "c \<in> set (sanitize_from b s) \<Longrightarrow> name_char c \<or> c = CHR ''-''"
  by (induction b s rule: sanitize_from.induct) (auto split: if_splits)

lemma set_TrimRight: "set (TrimRight s cs) \<subseteq> set s"
  unfolding TrimRight_def using set_dropWhileD by fastforce

lemma length_TrimRight: "length (TrimRight s cs) \<le> length s"
  unfolding TrimRight_def by (metis length_dropWhile_le length_rev)

lemma name_char_facts:
  assumes "name_char c"
  shows "c \<noteq> CHR ''-''" "lower_byte c = c" "c \<noteq> CHR 0xC4" "c \<noteq> CHR 0xE2"
  using assms by (auto simp: name_char_def lower_byte_def less_eq_char_def)

lemma ToLower_name_head: "name_char c \<Longrightarrow> \<exists>t. ToLower (c # s) = c # t"
  using name_char_facts[of c] by (simp add: HasPrefix_Cons)

lemma sanitize_head:
  assumes "name_char c"
  obtains t where "sanitize (c # s) = c # t" "\<forall>d \<in> set t. name_char d \<or> d = CHR ''-''"
proof -
  obtain u where "ToLower (c # s) = c # u" using ToLower_name_head[OF assms] by blast
  then have eq: "sanitize (c # s) = TrimRight ([c] @ sanitize_from False u) ''-''"
    using assms name_char_facts(1)[OF assms] by (simp add: sanitize_def Trim_def TrimLeft_def)
  obtain t where t: "TrimRight ([c] @ sanitize_from False u) ''-'' = [c] @ t"
    using TrimRight_keeps[of "[c]" "''-''" "sanitize_from False u"] name_char_facts(1)[OF assms] by auto
  have "set ([c] @ t) \<subseteq> set ([c] @ sanitize_from False u)" using set_TrimRight unfolding t[symmetric] .
  then have "\<forall>d \<in> set t. name_char d \<or> d = CHR ''-''" using sanitize_from_chars assms by auto
  with that[of t] eq t show thesis by simp
qed

lemma hex_name_char: "c \<in> set (hex_encode bs) \<Longrightarrow> name_char c"
  using set_hex_encode[of bs] by (auto simp: name_char_def less_eq_char_def)

lemma cut_head:
  assumes "name_char c" "\<forall>d \<in> set t. name_char d \<or> d = CHR ''-''"
  obtains u where "(if length (c # t) > Suc n then TrimRight (take (Suc n) (c # t)) ''-'' else c # t) = c # u"
    "length u \<le> n" "\<forall>d \<in> set u. name_char d \<or> d = CHR ''-''"
proof (cases "length (c # t) > Suc n")
  case True
  obtain u where u: "TrimRight ([c] @ take n t) ''-'' = [c] @ u"
    using TrimRight_keeps[of "[c]" "''-''" "take n t"] name_char_facts(1)[OF assms(1)] by auto
  have len: "length ([c] @ u) \<le> length ([c] @ take n t)" unfolding u[symmetric] by (rule length_TrimRight)
  have "set ([c] @ u) \<subseteq> set ([c] @ take n t)" unfolding u[symmetric] by (rule set_TrimRight)
  then have "\<forall>d \<in> set u. name_char d \<or> d = CHR ''-''" using assms set_take_subset[of n t] by auto
  moreover have "(if length (c # t) > Suc n then TrimRight (take (Suc n) (c # t)) ''-'' else c # t) = c # u"
    using True u by simp
  ultimately show thesis using that len by simp
next
  case False
  with that[of t] assms(2) show thesis by simp
qed

text \<open>
  (C34) Every package gets an object name the API server accepts: whatever bytes the host uses in
  the type and name of a package, the name built for it is a valid DNS-1123 name of at most 253
  characters, provided the repository's own name starts with a letter or digit, as every
  object name does.
\<close>

theorem packageObjectName_valid:
  assumes "name_char c"
  shows "dns1123 (packageObjectName (c # repo) pkgType pkgName)"
proof -
  define suffix where "suffix = take 10 (hex_encode (sha256 ((c # repo) @ [CHR 0x00] @ pkgType @ [CHR 0x00] @ pkgName)))"
  have len: "length suffix = 10" by (simp add: suffix_def)
  have hex: "\<forall>d \<in> set suffix. name_char d" unfolding suffix_def using hex_name_char in_set_takeD by fastforce
  obtain t where base: "sanitize ((c # repo) @ ''-'' @ pkgType @ ''-'' @ pkgName) = c # t"
    and t: "\<forall>d \<in> set t. name_char d \<or> d = CHR ''-''"
    using sanitize_head[OF assms, of "repo @ ''-'' @ pkgType @ ''-'' @ pkgName"] by auto
  obtain u where u: "(if length (c # t) > Suc 241 then TrimRight (take (Suc 241) (c # t)) ''-'' else c # t) = c # u"
    "length u \<le> 241" "\<forall>d \<in> set u. name_char d \<or> d = CHR ''-''"
    using cut_head[OF assms t] by blast
  have num: "(253 - 1 - 10 :: nat) = Suc 241" by simp
  have "packageObjectName (c # repo) pkgType pkgName = (c # u) @ ''-'' @ suffix"
    unfolding packageObjectName_def Let_def base suffix_def[symmetric] num u(1) ..
  moreover have "suffix \<noteq> []" using len by auto
  moreover from this have "name_char (last suffix)" using hex by simp
  ultimately show ?thesis
    using assms u(2,3) hex len unfolding dns1123_def by auto
qed

subsection \<open>When a status is written\<close>

text \<open>The object shows what the host listed, at its current generation.\<close>

definition mirrors :: "PackageInfo \<Rightarrow> Package \<Rightarrow> bool" where
  "mirrors info pkg \<longleftrightarrow> (let st = pxStatus pkg in
     ptPackageName st = piName info \<and> ptType st = piType info \<and> ptVisibility st = piVisibility info \<and>
     ptHTMLURL st = piHTMLURL info \<and> ptVersionCount st = piVersionCount info \<and> ptUpdatedAt st = piUpdatedAt info \<and>
     ptImageRepository st = piImageRepository info \<and> ptObserved st = omGeneration (pxMeta pkg) \<and>
     ptVersions st = packageVersions (piVersions info))"

lemma zip_all_eq: "length a = length b \<and> list_all (\<lambda>(x, y). x = y) (zip a b) \<longleftrightarrow> a = b"
proof (induction a arbitrary: b)
  case (Cons x a)
  then show ?case by (cases b) auto
qed auto

lemma stringsEqual_eq [simp]: "stringsEqual a b \<longleftrightarrow> a = b"
  using zip_all_eq[of a b] by (simp add: stringsEqual_def)

lemma packageVersionsEqual_eq [simp]: "packageVersionsEqual a b \<longleftrightarrow> a = b"
proof -
  have "(\<lambda>(x, y). avDigest x = avDigest y \<and> avCreatedAt x = avCreatedAt y \<and> stringsEqual (avTags x) (avTags y)) =
    (\<lambda>(x, y). x = (y :: ApiPackageVersion))" by (auto simp: fun_eq_iff)
  then show ?thesis unfolding packageVersionsEqual_def using zip_all_eq[of a b] by simp
qed

lemma next_mirrors: "mirrors info (pkg\<lparr>pxStatus := next_status now pkg info\<rparr>)"
  by (simp add: mirrors_def next_status_def)

lemma next_ready: "IsStatusConditionTrue (ptConditions (next_status now pkg info)) ConditionReady"
  by (simp add: next_status_def IsStatusConditionTrue_def find_SetCondition)

lemma skip_iff:
  "packageStatusEqual ((pxStatus pkg)\<lparr>ptConditions :=
       aliased_conditions ConditionReady (ptConditions (pxStatus pkg)) (ptConditions (next_status now pkg info))\<rparr>)
     (next_status now pkg info) \<longleftrightarrow>
   mirrors info pkg \<and> find_condition ConditionReady (ptConditions (pxStatus pkg)) \<noteq> None"
proof (cases "find_condition ConditionReady (ptConditions (pxStatus pkg)) = None")
  case True
  then show ?thesis by (simp add: packageStatusEqual_def aliased_conditions_def IsStatusConditionTrue_def)
next
  case False
  then show ?thesis using next_ready[of now pkg info]
    by (simp add: packageStatusEqual_def aliased_conditions_def) (auto simp: mirrors_def next_status_def Let_def)
qed

text \<open>
  (C40) The status of a package is written exactly when it differs from the listing in something
  other than the time of the crawl, or has no \<open>Ready\<close> condition. The value of an existing \<open>Ready\<close>
  condition plays no part: it is overwritten, in the array both statuses share, before it is
  compared, so a package that is marked not ready stays so until the host's listing changes.
\<close>

theorem package_updateStatus_writes:
  "package_updateStatus m c pkg info w =
     (if mirrors info pkg \<and> find_condition ConditionReady (ptConditions (pxStatus pkg)) \<noteq> None then (Inr (), w)
      else handle (kUpdateStatus (kcPackages c) (pkg\<lparr>pxStatus := next_status (mgNow m w) pkg info\<rparr>))
        (\<lambda>e. failA (Wrapped (''update package '' @ quoted (omName (pxMeta pkg)) @ '' status: '') e [])) (\<lambda>u. ret ()) w)"
proof (cases "mirrors info pkg \<and> find_condition ConditionReady (ptConditions (pxStatus pkg)) \<noteq> None")
  case True
  show ?thesis unfolding package_updateStatus_def bind_read Let_def skip_iff if_P[OF True] by (simp add: ret_def)
next
  case False
  show ?thesis unfolding package_updateStatus_def bind_read Let_def skip_iff if_not_P[OF False] ..
qed

subsection \<open>The mirror matches the listing\<close>

text \<open>
  An API server that answers, seen through \<open>view\<close>: the packages by name. Labels select, a status
  write replaces the status only, creating an object that is there is refused.
\<close>

definition serves :: "('w \<Rightarrow> string \<rightharpoonup> Package) \<Rightarrow> ('w, Package) resource_api \<Rightarrow> bool" where
  "serves view api \<longleftrightarrow>
     (\<forall>w n p. view w n = Some p \<longrightarrow> omName (pxMeta p) = n) \<and>
     (\<forall>k v w. \<exists>xs w'. kList api [(k, v)] w = (Inr xs, w') \<and> view w' = view w \<and>
        set xs = {p \<in> ran (view w). map_of (omLabels (pxMeta p)) k = Some v}) \<and>
     (\<forall>n p w. view w n = Some p \<longrightarrow> (\<exists>w'. kGet api [] n w = (Inr p, w') \<and> view w' = view w)) \<and>
     (\<forall>n w. view w n \<noteq> None \<longrightarrow> (\<exists>w'. kDelete api [] n w = (Inr (), w') \<and> view w' = (view w)(n := None))) \<and>
     (\<forall>n w. view w n = None \<longrightarrow> (\<exists>msg w'. kDelete api [] n w = (Inl (KubeError NotFound msg), w') \<and> view w' = view w)) \<and>
     (\<forall>x w. view w (omName (pxMeta x)) = None \<longrightarrow> (\<exists>p w'. kCreate api x w = (Inr p, w') \<and>
        omName (pxMeta p) = omName (pxMeta x) \<and> view w' = (view w)(omName (pxMeta x) \<mapsto> p))) \<and>
     (\<forall>x w. view w (omName (pxMeta x)) \<noteq> None \<longrightarrow>
        (\<exists>msg w'. kCreate api x w = (Inl (KubeError AlreadyExists msg), w') \<and> view w' = view w)) \<and>
     (\<forall>x p w. view w (omName (pxMeta x)) = Some p \<longrightarrow> (\<exists>s w'. kUpdateStatus api x w = (Inr s, w') \<and>
        view w' = (view w)(omName (pxMeta x) \<mapsto> p\<lparr>pxStatus := pxStatus x\<rparr>)))"

definition map_order :: "('w \<Rightarrow> string list \<Rightarrow> string list) \<Rightarrow> bool" where
  "map_order ord \<longleftrightarrow> (\<forall>w ks. mset (ord w ks) = mset ks)"

text \<open>The last package of the listing that goes by the object name \<open>n\<close>, and the objects of a repository.\<close>

definition listed :: "Repository \<Rightarrow> PackageInfo list \<Rightarrow> string \<Rightarrow> PackageInfo option" where
  "listed repo infos n = find (\<lambda>i. packageObjectName (omName (rxMeta repo)) (piType i) (piName i) = n) (rev infos)"

definition labelled :: "Repository \<Rightarrow> Package \<Rightarrow> bool" where
  "labelled repo p \<longleftrightarrow> map_of (omLabels (pxMeta p)) LabelRepository = Some (omName (rxMeta repo))"

lemma servesD:
  assumes "serves view api"
  shows "view w n = Some p \<Longrightarrow> omName (pxMeta p) = n"
    and "\<exists>xs w'. kList api [(k, v)] w = (Inr xs, w') \<and> view w' = view w \<and>
        set xs = {p \<in> ran (view w). map_of (omLabels (pxMeta p)) k = Some v}"
    and "view w n = Some p \<Longrightarrow> \<exists>w'. kGet api [] n w = (Inr p, w') \<and> view w' = view w"
    and "view w n \<noteq> None \<Longrightarrow> \<exists>w'. kDelete api [] n w = (Inr (), w') \<and> view w' = (view w)(n := None)"
    and "view w n = None \<Longrightarrow> \<exists>msg w'. kDelete api [] n w = (Inl (KubeError NotFound msg), w') \<and> view w' = view w"
    and "view w (omName (pxMeta x)) = None \<Longrightarrow> \<exists>p w'. kCreate api x w = (Inr p, w') \<and>
        omName (pxMeta p) = omName (pxMeta x) \<and> view w' = (view w)(omName (pxMeta x) \<mapsto> p)"
    and "view w (omName (pxMeta x)) \<noteq> None \<Longrightarrow>
        \<exists>msg w'. kCreate api x w = (Inl (KubeError AlreadyExists msg), w') \<and> view w' = view w"
    and "view w (omName (pxMeta x)) = Some p \<Longrightarrow> \<exists>s w'. kUpdateStatus api x w = (Inr s, w') \<and>
        view w' = (view w)(omName (pxMeta x) \<mapsto> p\<lparr>pxStatus := pxStatus x\<rparr>)"
proof -
  show "view w n = Some p \<Longrightarrow> omName (pxMeta p) = n"
    by (rule assms[unfolded serves_def, THEN conjunct1, rule_format])
  show "\<exists>xs w'. kList api [(k, v)] w = (Inr xs, w') \<and> view w' = view w \<and>
        set xs = {p \<in> ran (view w). map_of (omLabels (pxMeta p)) k = Some v}"
    by (rule assms[unfolded serves_def, THEN conjunct2, THEN conjunct1, rule_format])
  show "view w n = Some p \<Longrightarrow> \<exists>w'. kGet api [] n w = (Inr p, w') \<and> view w' = view w"
    by (rule assms[unfolded serves_def, THEN conjunct2, THEN conjunct2, THEN conjunct1, rule_format])
  show "view w n \<noteq> None \<Longrightarrow> \<exists>w'. kDelete api [] n w = (Inr (), w') \<and> view w' = (view w)(n := None)"
    by (rule assms[unfolded serves_def, THEN conjunct2, THEN conjunct2, THEN conjunct2, THEN conjunct1, rule_format])
  show "view w n = None \<Longrightarrow> \<exists>msg w'. kDelete api [] n w = (Inl (KubeError NotFound msg), w') \<and> view w' = view w"
    by (rule assms[unfolded serves_def, THEN conjunct2, THEN conjunct2, THEN conjunct2, THEN conjunct2, THEN conjunct1, rule_format])
  show "view w (omName (pxMeta x)) = None \<Longrightarrow> \<exists>p w'. kCreate api x w = (Inr p, w') \<and>
        omName (pxMeta p) = omName (pxMeta x) \<and> view w' = (view w)(omName (pxMeta x) \<mapsto> p)"
    by (rule assms[unfolded serves_def, THEN conjunct2, THEN conjunct2, THEN conjunct2, THEN conjunct2, THEN conjunct2, THEN conjunct1, rule_format])
  show "view w (omName (pxMeta x)) \<noteq> None \<Longrightarrow>
        \<exists>msg w'. kCreate api x w = (Inl (KubeError AlreadyExists msg), w') \<and> view w' = view w"
    by (rule assms[unfolded serves_def, THEN conjunct2, THEN conjunct2, THEN conjunct2, THEN conjunct2, THEN conjunct2, THEN conjunct2, THEN conjunct1, rule_format])
  show "view w (omName (pxMeta x)) = Some p \<Longrightarrow> \<exists>s w'. kUpdateStatus api x w = (Inr s, w') \<and>
        view w' = (view w)(omName (pxMeta x) \<mapsto> p\<lparr>pxStatus := pxStatus x\<rparr>)"
    by (rule assms[unfolded serves_def, THEN conjunct2, THEN conjunct2, THEN conjunct2, THEN conjunct2, THEN conjunct2, THEN conjunct2, THEN conjunct2, rule_format])
qed

lemma map_orderD: "map_order ord \<Longrightarrow> set (ord w ks) = set ks \<and> distinct (ord w ks) = distinct ks"
  unfolding map_order_def by (metis mset_eq_setD mset_eq_imp_distinct_iff)

lemma find_rev_unique:
  assumes "\<And>x y. x \<in> set xs \<Longrightarrow> y \<in> set xs \<Longrightarrow> P x \<Longrightarrow> P y \<Longrightarrow> x = y"
  shows "find P (rev xs) = Some x \<longleftrightarrow> x \<in> set xs \<and> P x"
proof
  show mem: "x \<in> set xs \<and> P x" if "find P (rev xs) = Some x" for x
    using that nth_mem[of _ "rev xs"] unfolding find_Some_iff by auto
  assume x: "x \<in> set xs \<and> P x"
  then have "find P (rev xs) \<noteq> None" by (auto simp: find_None_iff)
  then obtain y where "find P (rev xs) = Some y" by blast
  with mem[OF this] x assms show "find P (rev xs) = Some x" by auto
qed

lemma map_of_fold_update:
  "map_of (fold (\<lambda>x out. AList.update (f x) (g x) out) xs out) n =
     (case find (\<lambda>x. f x = n) (rev xs) of Some x \<Rightarrow> Some (g x) | None \<Rightarrow> map_of out n)"
proof (induction xs rule: rev_induct)
  case (snoc x xs)
  then show ?case by (simp add: update_conv' split: option.splits)
qed simp

lemma distinct_fold_update:
  "distinct (map fst out) \<Longrightarrow> distinct (map fst (fold (\<lambda>x out. AList.update (f x) (g x) out) xs out))"
  by (induction xs arbitrary: out) (auto simp: distinct_update)

lemma desired_listed: "map_of (desired_packages repo infos) n = listed repo infos n"
  unfolding desired_packages_def listed_def map_of_fold_update by (simp split: option.splits)

lemma listOwned_run:
  assumes "serves view (kcPackages c)"
  obtains existing w' where "listOwned c repo w = (Inr existing, w')" "view w' = view w"
    "\<And>n p. map_of existing n = Some p \<longleftrightarrow> view w n = Some p \<and> labelled repo p"
proof -
  obtain xs w' where l: "kList (kcPackages c) [(LabelRepository, omName (rxMeta repo))] w = (Inr xs, w')" "view w' = view w"
    and xs: "set xs = {p \<in> ran (view w). labelled repo p}"
    using servesD(2)[OF assms] unfolding labelled_def by blast
  let ?ex = "fold (\<lambda>p out. AList.update (omName (pxMeta p)) p out) xs []"
  have mem: "p \<in> set xs \<longleftrightarrow> view w (omName (pxMeta p)) = Some p \<and> labelled repo p" for p
    using servesD(1)[OF assms] unfolding xs ran_def by blast
  have "map_of ?ex n = Some p \<longleftrightarrow> view w n = Some p \<and> labelled repo p" for n p
  proof -
    have "map_of ?ex n = find (\<lambda>p. omName (pxMeta p) = n) (rev xs)"
      unfolding map_of_fold_update by (simp split: option.splits)
    moreover have "find (\<lambda>p. omName (pxMeta p) = n) (rev xs) = Some p \<longleftrightarrow> p \<in> set xs \<and> omName (pxMeta p) = n"
      by (rule find_rev_unique) (auto simp: mem)
    ultimately show ?thesis using mem[of p] servesD(1)[OF assms, of w n p] by auto
  qed
  with that[of ?ex w'] l show thesis by (simp add: listOwned_def ret_def)
qed

lemma stale_loop:
  assumes "serves view (kcPackages c)"
  shows "\<exists>w'. forA (\<lambda>name u. sync_stale c desired name) ns () w = (Inr (), w') \<and>
    view w' = (\<lambda>n. if n \<in> set ns \<and> map_of desired n = None then None else view w n)"
proof (induction ns arbitrary: w)
  case (Cons n ns)
  have "\<exists>w1. sync_stale c desired n w = (Inr (), w1) \<and> view w1 = (\<lambda>k. if k = n \<and> map_of desired n = None then None else view w k)"
  proof (cases "map_of desired n")
    case None
    show ?thesis
    proof (cases "view w n")
      case vn: None
      from servesD(5)[OF assms vn] show ?thesis using None vn
        by (auto simp: sync_stale_def delete_package_def is_reason_def ret_def fun_eq_iff)
    next
      case (Some p)
      then have "view w n \<noteq> None" by simp
      from servesD(4)[OF assms this] show ?thesis using None
        by (auto simp: sync_stale_def delete_package_def ret_def fun_eq_iff)
    qed
  qed (auto simp: sync_stale_def ret_def fun_eq_iff)
  then obtain w1 where w1: "sync_stale c desired n w = (Inr (), w1)"
    "view w1 = (\<lambda>k. if k = n \<and> map_of desired n = None then None else view w k)" by blast
  from Cons.IH[of w1] obtain w' where "forA (\<lambda>name u. sync_stale c desired name) ns () w1 = (Inr (), w')"
    "view w' = (\<lambda>k. if k \<in> set ns \<and> map_of desired k = None then None else view w1 k)" by blast
  with w1 show ?case by (intro exI[of _ w']) (auto simp: fun_eq_iff)
qed (simp add: ret_def)

lemma updateStatus_run:
  assumes "serves view (kcPackages c)" "view w n = Some pkg"
  shows "\<exists>w' p. package_updateStatus m c pkg info w = (Inr (), w') \<and> view w' = (view w)(n \<mapsto> p) \<and> mirrors info p"
proof (cases "mirrors info pkg \<and> find_condition ConditionReady (ptConditions (pxStatus pkg)) \<noteq> None")
  case True
  then have "package_updateStatus m c pkg info w = (Inr (), w)"
    unfolding package_updateStatus_def bind_read Let_def skip_iff if_P[OF True] by (simp add: ret_def)
  with True assms(2) show ?thesis by (intro exI[of _ w] exI[of _ pkg]) auto
next
  case False
  let ?x = "pkg\<lparr>pxStatus := next_status (mgNow m w) pkg info\<rparr>"
  have "view w (omName (pxMeta ?x)) = Some pkg" using assms servesD(1) by fastforce
  from servesD(8)[OF assms(1) this] obtain s w' where
    "kUpdateStatus (kcPackages c) ?x w = (Inr s, w')" "view w' = (view w)(omName (pxMeta ?x) \<mapsto> pkg\<lparr>pxStatus := pxStatus ?x\<rparr>)"
    by blast
  with False servesD(1)[OF assms] show ?thesis
    unfolding package_updateStatus_def bind_read Let_def skip_iff if_not_P[OF False]
    by (intro exI[of _ w'] exI[of _ ?x]) (simp add: next_mirrors ret_def)
qed

lemma entry_run:
  assumes "serves view (kcPackages c)" "map_of desired n = Some info"
    and "\<And>cur. map_of existing n = Some cur \<Longrightarrow> view w n = Some cur"
  shows "\<exists>w' p. sync_entry m c repo existing desired n w = (Inr (), w') \<and> view w' = (view w)(n \<mapsto> p) \<and> mirrors info p"
proof (cases "map_of existing n")
  case (Some cur)
  with updateStatus_run[OF assms(1) assms(3)[OF Some]] assms(2) show ?thesis by (simp add: sync_entry_def)
next
  case None
  have name: "omName (pxMeta (new_package repo n)) = n" by (simp add: new_package_def)
  have "\<exists>w' p. package_create m c repo n info w = (Inr (), w') \<and> view w' = (view w)(n \<mapsto> p) \<and> mirrors info p"
  proof (cases "view w n")
    case vn: None
    with servesD(6)[OF assms(1), of w "new_package repo n"] obtain p w1 where
      cr: "kCreate (kcPackages c) (new_package repo n) w = (Inr p, w1)" and "view w1 = (view w)(n \<mapsto> p)" unfolding name by blast
    then have v1: "view w1 n = Some p" "view w1 = (view w)(n \<mapsto> p)" by simp_all
    obtain w' q where up: "package_updateStatus m c p info w1 = (Inr (), w')" "view w' = (view w1)(n \<mapsto> q)" "mirrors info q"
      using updateStatus_run[OF assms(1) v1(1)] by blast
    have "package_create m c repo n info w = (Inr (), w')" using cr up(1) by (simp add: package_create_def)
    moreover have "view w' = (view w)(n \<mapsto> q)" unfolding up(2) v1(2) by simp
    ultimately show ?thesis using up(3) by blast
  next
    case (Some q)
    with servesD(7)[OF assms(1), of w "new_package repo n"] obtain msg w1 where
      cr: "kCreate (kcPackages c) (new_package repo n) w = (Inl (KubeError AlreadyExists msg), w1)" and v1: "view w1 = view w"
      unfolding name by blast
    with Some have "view w1 n = Some q" by simp
    with servesD(3)[OF assms(1) this] obtain w2 where get: "kGet (kcPackages c) [] n w1 = (Inr q, w2)" "view w2 = view w1" by blast
    with \<open>view w1 n = Some q\<close> have v2: "view w2 n = Some q" by simp
    from updateStatus_run[OF assms(1) v2, of m info] cr get v1 show ?thesis
      by (auto simp: package_create_def is_reason_def)
  qed
  with None assms(2) show ?thesis by (simp add: sync_entry_def)
qed

lemma entry_loop:
  assumes "serves view (kcPackages c)" "distinct ns" "\<And>n. n \<in> set ns \<Longrightarrow> map_of desired n \<noteq> None"
    and "\<And>n cur. n \<in> set ns \<Longrightarrow> map_of existing n = Some cur \<Longrightarrow> view w n = Some cur"
  shows "\<exists>w'. forA (\<lambda>name u. sync_entry m c repo existing desired name) ns () w = (Inr (), w') \<and>
    (\<forall>n. n \<notin> set ns \<longrightarrow> view w' n = view w n) \<and>
    (\<forall>n info. n \<in> set ns \<longrightarrow> map_of desired n = Some info \<longrightarrow> (\<exists>p. view w' n = Some p \<and> mirrors info p))"
  using assms(2-)
proof (induction ns arbitrary: w)
  case (Cons n ns)
  obtain info where info: "map_of desired n = Some info" using Cons.prems(2)[of n] by auto
  obtain w1 p where w1: "sync_entry m c repo existing desired n w = (Inr (), w1)" "view w1 = (view w)(n \<mapsto> p)" "mirrors info p"
    using entry_run[OF assms(1) info Cons.prems(3)[OF list.set_intros(1)], of existing m repo] by blast
  have "\<exists>w'. forA (\<lambda>name u. sync_entry m c repo existing desired name) ns () w1 = (Inr (), w') \<and>
    (\<forall>n. n \<notin> set ns \<longrightarrow> view w' n = view w1 n) \<and>
    (\<forall>n info. n \<in> set ns \<longrightarrow> map_of desired n = Some info \<longrightarrow> (\<exists>p. view w' n = Some p \<and> mirrors info p))"
    using Cons.prems w1(2) by (intro Cons.IH) auto
  with w1 info Cons.prems(1) show ?case by fastforce
qed (simp add: ret_def)

text \<open>
  (C11) A crawl makes the mirror match the host: on an API server that answers, \<open>sync\<close> succeeds
  and leaves, for every package of the listing, an object of its name that shows it (the last
  one, should two names coincide), no other object labelled with the repository, and every
  other object as it was. This holds for every order in which Go may visit its maps.
\<close>

theorem sync_mirrors_listing:
  assumes "serves view (kcPackages c)" and "map_order ord"
  shows "\<exists>w'. sync m ord c repo infos w = (Inr (), w') \<and>
    (\<forall>n. case listed repo infos n of
       Some info \<Rightarrow> \<exists>p. view w' n = Some p \<and> mirrors info p
     | None \<Rightarrow> view w' n = (case view w n of None \<Rightarrow> None | Some p \<Rightarrow> if labelled repo p then None else Some p))"
proof -
  let ?d = "desired_packages repo infos"
  obtain existing w1 where l: "listOwned c repo w = (Inr existing, w1)" "view w1 = view w"
    and ex: "\<And>n p. map_of existing n = Some p \<longleftrightarrow> view w n = Some p \<and> labelled repo p"
    using listOwned_run[OF assms(1)] by blast
  obtain w2 where stale: "forA (\<lambda>name u. sync_stale c ?d name) (ord w1 (map fst existing)) () w1 = (Inr (), w2)"
    and "view w2 = (\<lambda>n. if n \<in> set (ord w1 (map fst existing)) \<and> map_of ?d n = None then None else view w1 n)"
    using stale_loop[OF assms(1)] by blast
  then have v2: "view w2 n = (if map_of existing n \<noteq> None \<and> map_of ?d n = None then None else view w n)" for n
    using map_orderD[OF assms(2)] l(2) by (auto simp: map_of_eq_None_iff)
  have "distinct (ord w2 (map fst ?d))" "set (ord w2 (map fst ?d)) = fst ` set ?d"
    using map_orderD[OF assms(2)] by (auto simp: desired_packages_def intro!: distinct_fold_update)
  moreover from this(2) have dom: "n \<in> set (ord w2 (map fst ?d)) \<longleftrightarrow> map_of ?d n \<noteq> None" for n
    by (simp add: map_of_eq_None_iff)
  moreover have "view w2 n = Some cur" if "n \<in> set (ord w2 (map fst ?d))" "map_of existing n = Some cur" for n cur
    using that v2[of n] ex[of n cur] dom[of n] by auto
  ultimately obtain w3 where loop: "forA (\<lambda>name u. sync_entry m c repo existing ?d name) (ord w2 (map fst ?d)) () w2 = (Inr (), w3)"
    and "\<forall>n. n \<notin> set (ord w2 (map fst ?d)) \<longrightarrow> view w3 n = view w2 n"
      "\<forall>n info. n \<in> set (ord w2 (map fst ?d)) \<longrightarrow> map_of ?d n = Some info \<longrightarrow> (\<exists>p. view w3 n = Some p \<and> mirrors info p)"
    using entry_loop[OF assms(1), of "ord w2 (map fst ?d)" ?d existing w2 m repo] by blast
  then have rest: "\<forall>n. map_of ?d n = None \<longrightarrow> view w3 n = view w2 n"
      "\<forall>n info. map_of ?d n = Some info \<longrightarrow> (\<exists>p. view w3 n = Some p \<and> mirrors info p)"
    unfolding dom by auto
  have run: "sync m ord c repo infos w = (Inr (), w3)"
    using l(1) stale loop by (simp add: sync_def bind_read Let_def)
  have "case listed repo infos n of Some info \<Rightarrow> \<exists>p. view w3 n = Some p \<and> mirrors info p
     | None \<Rightarrow> view w3 n = (case view w n of None \<Rightarrow> None | Some p \<Rightarrow> if labelled repo p then None else Some p)" for n
    using rest v2[of n] ex[of n] unfolding desired_listed by (auto split: option.splits)
  with run show ?thesis by blast
qed

subsection \<open>Events\<close>

text \<open>
  A change of a Secret wakes exactly the repositories whose connection reads its token from it,
  and a change of a connection exactly its own; when a listing fails, none.
\<close>

theorem repositoriesForDependency_exact:
  assumes "kList (kcConnections c) [] w = (Inr conns, w1)" "kList (kcRepositories c) [] w1 = (Inr repos, w2)"
    and "\<exists>conn \<in> set conns. uses_secret env obj conn"
  shows "\<exists>names. repositoriesForDependency env c obj True w = (Inr names, w2) \<and>
    set names = {omName (rxMeta r) | r conn. r \<in> set repos \<and> conn \<in> set conns \<and>
      rsConnectionRef (rxSpec r) = omName (cxMeta conn) \<and> uses_secret env obj conn}"
proof -
  have "filter (uses_secret env obj) conns \<noteq> []" using assms(3) by (simp add: filter_empty_conv)
  with assms(1,2) show ?thesis
    by (auto simp: repositoriesForDependency_def handle_def bindA_def ret_def failA_def)
qed

subsection \<open>Intervals\<close>

text \<open>
  The next crawl of a repository is never earlier than the configured interval and at most a
  quarter later, or half a minute after a recent commit. An interval beyond some 417 days would
  overflow the product.
\<close>

lemma sint_small: "0 \<le> k \<Longrightarrow> k < 2 ^ 63 \<Longrightarrow> sint (word_of_int k :: 64 word) = k"
  by (simp add: signed_of_int signed_take_bit_int_eq_self)

lemma jitter_bounds:
  fixes base :: "64 word"
  assumes "0 < sint base" "sint base \<le> 2 ^ 55"
  shows "sint base \<le> sint (jitter base repo) \<and> sint (jitter base repo) \<le> sint base + sint base div 4"
proof -
  define b where "b = (of_char (hd (sha256 (omUID (rxMeta repo)))) :: nat)"
  define n where "n = sint base"
  have b: "b < 256" unfolding b_def by (rule nat_of_char_less_256)
  have n: "0 < n" "n \<le> 2 ^ 55" "base = word_of_int n" using assms by (simp_all add: n_def)
  have bn: "0 \<le> int b * n" "int b * n \<le> 255 * n" using b n(1) by (auto intro: mult_right_mono)
  have prod: "sint (word_of_nat b * base :: 64 word) = int b * n"
  proof -
    have "word_of_nat b * base = (word_of_int (int b * n) :: 64 word)" by (simp add: n(3))
    moreover have "int b * n < 2 ^ 63" using bn(2) n(2) by simp
    ultimately show ?thesis using bn(1) sint_small by metis
  qed
  have q: "0 \<le> int b * n div 1020" "int b * n div 1020 \<le> n div 4"
  proof -
    show "0 \<le> int b * n div 1020" using bn(1) by simp
    have "int b * n div 1020 \<le> 255 * n div 1020" using bn(2) by (rule zdiv_mono1) simp
    also have "\<dots> = n div 4" by simp
    finally show "int b * n div 1020 \<le> n div 4" .
  qed
  have "jitter base repo = word_of_int (n + int b * n div 1020)"
  proof -
    have "int b * n sdiv 1020 = int b * n div 1020" using bn(1) by (simp add: signed_divide_int_def sgn_if)
    then show ?thesis using assms(1) unfolding jitter_def b_def[symmetric] prod by (simp add: n(3))
  qed
  moreover have "n + int b * n div 1020 < 2 ^ 63" using q(2) n by simp
  ultimately have "sint (jitter base repo) = n + int b * n div 1020"
    using q(1) n(1) sint_small by (metis add_nonneg_nonneg order_less_imp_le)
  with q show ?thesis unfolding n_def[symmetric] by simp
qed

subsection \<open>Instances\<close>

theorem packageObjectName_valid_witness: "dns1123 (packageObjectName ''shop'' ''container'' ''web/App'')"
  by (rule packageObjectName_valid) (simp add: name_char_def less_eq_char_def)

text \<open>An API server whose world is a list of packages, the first of a name being the stored one.\<close>

definition stored :: "Package list \<Rightarrow> string \<rightharpoonup> Package" where
  "stored w n = find (\<lambda>p. omName (pxMeta p) = n) w"

definition memory_api :: "(Package list, Package) resource_api" where
  "memory_api =
     \<lparr>kGet = (\<lambda>_ n w. (case stored w n of Some p \<Rightarrow> Inr p | None \<Rightarrow> Inl (KubeError NotFound []), w)),
      kList = (\<lambda>ls w. (Inr (filter (\<lambda>p. stored w (omName (pxMeta p)) = Some p \<and>
          list_all (\<lambda>(k, v). map_of (omLabels (pxMeta p)) k = Some v) ls) w), w)),
      kCreate = (\<lambda>x w. if stored w (omName (pxMeta x)) = None then (Inr x, x # w) else (Inl (KubeError AlreadyExists []), w)),
      kUpdate = (\<lambda>x w. (Inl (KubeError Conflict []), w)),
      kUpdateStatus = (\<lambda>x w. case stored w (omName (pxMeta x)) of
          None \<Rightarrow> (Inl (KubeError NotFound []), w)
        | Some p \<Rightarrow> (Inr (p\<lparr>pxStatus := pxStatus x\<rparr>), p\<lparr>pxStatus := pxStatus x\<rparr> # w)),
      kDelete = (\<lambda>_ n w. if stored w n = None then (Inl (KubeError NotFound []), w)
         else (Inr (), filter (\<lambda>p. omName (pxMeta p) \<noteq> n) w))\<rparr>"

lemma stored_name: "stored w n = Some p \<Longrightarrow> omName (pxMeta p) = n \<and> p \<in> set w"
  unfolding stored_def find_Some_iff by auto

lemma stored_Cons: "stored (p # w) = (stored w)(omName (pxMeta p) \<mapsto> p)"
  by (auto simp: stored_def fun_eq_iff)

lemma stored_filter: "stored (filter (\<lambda>p. omName (pxMeta p) \<noteq> n) w) = (stored w)(n := None)"
  by (induction w) (auto simp: stored_def fun_eq_iff)

lemma memory_serves: "serves stored memory_api"
proof -
  have ran: "ran (stored w) = {p \<in> set w. stored w (omName (pxMeta p)) = Some p}" for w
    using stored_name by (fastforce simp: ran_def)
  have name: "\<forall>w n p. stored w n = Some p \<longrightarrow> omName (pxMeta p) = n" using stored_name by blast
  have delete: "\<forall>n w. stored w n \<noteq> None \<longrightarrow> (\<exists>w'. kDelete memory_api [] n w = (Inr (), w') \<and> stored w' = (stored w)(n := None))"
    by (auto simp: memory_api_def stored_filter simp del: not_None_eq)
  have create: "\<forall>x w. stored w (omName (pxMeta x)) = None \<longrightarrow> (\<exists>p w'. kCreate memory_api x w = (Inr p, w') \<and>
        omName (pxMeta p) = omName (pxMeta x) \<and> stored w' = (stored w)(omName (pxMeta x) \<mapsto> p))"
    by (simp add: memory_api_def stored_Cons)
  have update: "\<forall>x p w. stored w (omName (pxMeta x)) = Some p \<longrightarrow> (\<exists>s w'. kUpdateStatus memory_api x w = (Inr s, w') \<and>
        stored w' = (stored w)(omName (pxMeta x) \<mapsto> p\<lparr>pxStatus := pxStatus x\<rparr>))"
  proof (intro allI impI)
    fix x p :: Package and w
    assume p: "stored w (omName (pxMeta x)) = Some p"
    have "omName (pxMeta (p\<lparr>pxStatus := pxStatus x\<rparr>)) = omName (pxMeta x)" using stored_name[OF p] by simp
    then show "\<exists>s w'. kUpdateStatus memory_api x w = (Inr s, w') \<and>
        stored w' = (stored w)(omName (pxMeta x) \<mapsto> p\<lparr>pxStatus := pxStatus x\<rparr>)"
      using p by (simp add: memory_api_def stored_Cons)
  qed
  show ?thesis
    unfolding serves_def
    by (intro conjI name delete create update) (auto simp: memory_api_def ran simp del: not_None_eq)
qed

definition memory_cluster :: "Package list kube" where
  "memory_cluster = down_kube\<lparr>kcPackages := memory_api\<rparr>"

definition mirrored_package :: PackageInfo where
  "mirrored_package = \<lparr>piName = ''web'', piType = ''container'', piVisibility = ''private'', piHTMLURL = [], piImageRepository = [],
     piVersionCount = 1, piUpdatedAt = [], piVersions = []\<rparr>"

theorem sync_mirrors_listing_witness:
  "\<exists>w'. sync (manager_of memory_cluster) (\<lambda>w ks. rev ks) memory_cluster zero_repository [mirrored_package] [] = (Inr (), w') \<and>
     (\<exists>p. stored w' (packageObjectName [] ''container'' ''web'') = Some p \<and> mirrors mirrored_package p)"
proof -
  have serves: "serves stored (kcPackages memory_cluster)" using memory_serves by (simp add: memory_cluster_def)
  have order: "map_order (\<lambda>w ks. rev ks)" by (simp add: map_order_def)
  obtain w' where w': "sync (manager_of memory_cluster) (\<lambda>w ks. rev ks) memory_cluster zero_repository [mirrored_package] [] = (Inr (), w')"
    "\<forall>n. case listed zero_repository [mirrored_package] n of
       Some info \<Rightarrow> \<exists>p. stored w' n = Some p \<and> mirrors info p
     | None \<Rightarrow> stored w' n = (case stored [] n of None \<Rightarrow> None | Some p \<Rightarrow> if labelled zero_repository p then None else Some p)"
    using sync_mirrors_listing[OF serves order, of "manager_of memory_cluster" zero_repository "[mirrored_package]" "[]"] by blast
  moreover have "listed zero_repository [mirrored_package] (packageObjectName [] ''container'' ''web'') = Some mirrored_package"
    by (simp add: listed_def mirrored_package_def zero_defs)
  ultimately have "\<exists>p. stored w' (packageObjectName [] ''container'' ''web'') = Some p \<and> mirrors mirrored_package p"
    using w'(2)[THEN spec, of "packageObjectName [] ''container'' ''web''"] by simp
  with w'(1) show ?thesis by blast
qed

end
