(* ===== verification/Action_Server.thy ===== *)
theory Action_Server
  imports Kube Github_Snapshot
begin

text \<open>
  \<open>actions/\<close>: the HTTP endpoint for repository actions. \<open>server.go\<close> authorizes a request with the
  caller's own token, resolves the repository, connection and credential through the provider's
  export, and runs one action on the backend; \<open>input.go\<close> reads the bounded JSON input;
  \<open>snapshots.go\<close> stages and loads snapshots; \<open>authority.go\<close> finds the export's client. The response
  envelope of the SDK, the two API clients, the file system and the admission slots are
  operations of \<open>action_env\<close>.
\<close>

subsection \<open>Requests\<close>

definition MaxInputBytes :: nat where "MaxInputBytes = 36 * 2 ^ 20"
definition MaxOutputBytes :: nat where "MaxOutputBytes = 512 * 2 ^ 10"

definition verbs :: "string list" where
  "verbs = [''branches'', ''branch_head'', ''find_pull_request'', ''pull_request'', ''create_pull_request'',
     ''update_pull_request'', ''feedback'', ''comments'', ''add_comment'', ''reply_to_review'', ''prepare_snapshot'',
     ''publish_snapshot'']"

text \<open>The regular expression \<open>^[a-z0-9][a-z0-9.-]{0,252}$\<close>.\<close>

definition segment_char :: "char \<Rightarrow> bool" where
  "segment_char c \<longleftrightarrow> CHR ''a'' \<le> c \<and> c \<le> CHR ''z'' \<or> CHR ''0'' \<le> c \<and> c \<le> CHR ''9''"

definition segment :: "string \<Rightarrow> bool" where
  "segment s \<longleftrightarrow> (case s of [] \<Rightarrow> False
     | c # r \<Rightarrow> segment_char c \<and> length r \<le> 252 \<and> list_all (\<lambda>d. segment_char d \<or> d = CHR ''.'' \<or> d = CHR ''-'') r)"

record Input =
  inRepository :: string
  inRepositoryUID :: string
  inConnectionUID :: string
  inBranch :: string
  inExpectedHead :: string
  inNumber :: int
  inPage :: int
  inParentCommentID :: int
  inPull :: PullRequestInput
  inSnapshot :: "Snapshot option"
  inBundleRef :: string

record ActionRequest =
  aqRequestID :: string
  aqInput :: Input

record http_call =
  hcMethod :: string
  hcPath :: string
  hcRawPath :: string
  hcHeader :: "(string \<times> string) list"

definition zero_input :: Input where
  "zero_input = \<lparr>inRepository = [], inRepositoryUID = [], inConnectionUID = [], inBranch = [], inExpectedHead = [],
     inNumber = 0, inPage = 0, inParentCommentID = 0,
     inPull = \<lparr>prHead = [], prBase = [], prCommit = [], prTitle = [], prBody = []\<rparr>, inSnapshot = None, inBundleRef = []\<rparr>"

definition zero_snapshot :: Snapshot where
  "zero_snapshot = \<lparr>snBaseCommit = [], snCommit = [], snTree = [], snBundle = []\<rparr>"

subsection \<open>Decoding\<close>

text \<open>A byte slice is a base64 string or an array of numbers.\<close>

definition decode_byte :: "json \<Rightarrow> char option" where
  "decode_byte v = (case v of
     JNum lit \<Rightarrow> (case ParseInt lit 64 of Some n \<Rightarrow> if 0 \<le> n \<and> n < 256 then Some (char_of (nat n)) else None | None \<Rightarrow> None)
   | JNull \<Rightarrow> Some (CHR 0x00) | _ \<Rightarrow> None)"

definition decode_bytes :: "json \<Rightarrow> bytes \<Rightarrow> bytes option" where
  "decode_bytes v old = (case v of
     JStr s \<Rightarrow> b64_DecodeString s
   | JArr vs \<Rightarrow> those (map decode_byte vs)
   | JNull \<Rightarrow> Some []
   | _ \<Rightarrow> None)"

definition snapshot_member :: "bool \<Rightarrow> bytes \<times> json \<Rightarrow> Snapshot \<Rightarrow> Snapshot option" where
  "snapshot_member strict kv s =
     (let k = field_name [''baseCommit'', ''commit'', ''tree'', ''bundle''] (fst kv); v = snd kv in
      if k = ''baseCommit'' then map_option (\<lambda>x. s\<lparr>snBaseCommit := x\<rparr>) (decode_str v (snBaseCommit s))
      else if k = ''commit'' then map_option (\<lambda>x. s\<lparr>snCommit := x\<rparr>) (decode_str v (snCommit s))
      else if k = ''tree'' then map_option (\<lambda>x. s\<lparr>snTree := x\<rparr>) (decode_str v (snTree s))
      else if k = ''bundle'' then map_option (\<lambda>x. s\<lparr>snBundle := x\<rparr>) (decode_bytes v (snBundle s))
      else if strict then None else Some s)"

definition pull_member :: "string \<Rightarrow> json \<Rightarrow> PullRequestInput \<Rightarrow> PullRequestInput option" where
  "pull_member k v p =
     (if k = ''head'' then map_option (\<lambda>x. p\<lparr>prHead := x\<rparr>) (decode_str v (prHead p))
      else if k = ''base'' then map_option (\<lambda>x. p\<lparr>prBase := x\<rparr>) (decode_str v (prBase p))
      else if k = ''commit'' then map_option (\<lambda>x. p\<lparr>prCommit := x\<rparr>) (decode_str v (prCommit p))
      else if k = ''title'' then map_option (\<lambda>x. p\<lparr>prTitle := x\<rparr>) (decode_str v (prTitle p))
      else if k = ''body'' then map_option (\<lambda>x. p\<lparr>prBody := x\<rparr>) (decode_str v (prBody p))
      else None)"

definition input_fields :: "string list" where
  "input_fields = [''repository'', ''repositoryUID'', ''connectionUID'', ''branch'', ''expectedHead'', ''number'', ''page'',
     ''parentCommentID'', ''head'', ''base'', ''commit'', ''title'', ''body'', ''snapshot'', ''bundleRef'']"

definition input_member :: "bytes \<times> json \<Rightarrow> Input \<Rightarrow> Input option" where
  "input_member kv i =
     (let k = field_name input_fields (fst kv); v = snd kv in
      if k = ''repository'' then map_option (\<lambda>x. i\<lparr>inRepository := x\<rparr>) (decode_str v (inRepository i))
      else if k = ''repositoryUID'' then map_option (\<lambda>x. i\<lparr>inRepositoryUID := x\<rparr>) (decode_str v (inRepositoryUID i))
      else if k = ''connectionUID'' then map_option (\<lambda>x. i\<lparr>inConnectionUID := x\<rparr>) (decode_str v (inConnectionUID i))
      else if k = ''branch'' then map_option (\<lambda>x. i\<lparr>inBranch := x\<rparr>) (decode_str v (inBranch i))
      else if k = ''expectedHead'' then map_option (\<lambda>x. i\<lparr>inExpectedHead := x\<rparr>) (decode_str v (inExpectedHead i))
      else if k = ''number'' then map_option (\<lambda>x. i\<lparr>inNumber := x\<rparr>) (decode_int64 v (inNumber i))
      else if k = ''page'' then map_option (\<lambda>x. i\<lparr>inPage := x\<rparr>) (decode_int64 v (inPage i))
      else if k = ''parentCommentID'' then map_option (\<lambda>x. i\<lparr>inParentCommentID := x\<rparr>) (decode_int64 v (inParentCommentID i))
      else if k = ''bundleRef'' then map_option (\<lambda>x. i\<lparr>inBundleRef := x\<rparr>) (decode_str v (inBundleRef i))
      else if k = ''snapshot'' then
        (if v = JNull then Some (i\<lparr>inSnapshot := None\<rparr>)
         else map_option (\<lambda>x. i\<lparr>inSnapshot := Some x\<rparr>)
           (decode_members (snapshot_member True) v (case inSnapshot i of None \<Rightarrow> zero_snapshot | Some s \<Rightarrow> s)))
      else map_option (\<lambda>x. i\<lparr>inPull := x\<rparr>) (pull_member k v (inPull i)))"

definition request_member :: "bytes \<times> json \<Rightarrow> ActionRequest \<Rightarrow> ActionRequest option" where
  "request_member kv q =
     (let k = field_name [''requestId'', ''input''] (fst kv); v = snd kv in
      if k = ''requestId'' then map_option (\<lambda>x. q\<lparr>aqRequestID := x\<rparr>) (decode_str v (aqRequestID q))
      else if k = ''input'' then map_option (\<lambda>x. q\<lparr>aqInput := x\<rparr>) (decode_members input_member v (aqInput q))
      else None)"

text \<open>
  \<open>readActionRequest\<close>: \<open>body\<close> reads the whole body, which fails at the deadline. A body beyond the
  limit fails while it is read; one value must be followed by nothing but white space.
\<close>

definition readActionRequest :: "('w, bytes) act \<Rightarrow> nat \<Rightarrow> ('w, ActionRequest) act" where
  "readActionRequest body limit =
     bindA body (\<lambda>data.
     if length data > limit then failA (Plain ''http: request body too large'')
     else case Option.bind (parse_json data)
              (\<lambda>v. decode_members request_member v \<lparr>aqRequestID = [], aqInput = zero_input\<rparr>) of
         None \<Rightarrow> failA (Plain ''invalid action input'')
       | Some q \<Rightarrow> ret q)"

subsection \<open>What the server is made of\<close>

text \<open>The backend's optional interfaces: \<open>Collaboration\<close>, \<open>BranchLister\<close>, \<open>SnapshotPublisher\<close>.\<close>

record 'w collaboration =
  coBranchHead :: "Connection \<Rightarrow> Credential \<Rightarrow> Repository \<Rightarrow> string \<Rightarrow> ('w, string) act"
  coFindPullRequest :: "Connection \<Rightarrow> Credential \<Rightarrow> Repository \<Rightarrow> PullRequestInput \<Rightarrow> ('w, PullRequest option) act"
  coReadPullRequest :: "Connection \<Rightarrow> Credential \<Rightarrow> Repository \<Rightarrow> int \<Rightarrow> ('w, PullRequest) act"
  coCreatePullRequest :: "Connection \<Rightarrow> Credential \<Rightarrow> Repository \<Rightarrow> PullRequestInput \<Rightarrow> ('w, PullRequest) act"
  coUpdatePullRequest :: "Connection \<Rightarrow> Credential \<Rightarrow> Repository \<Rightarrow> int \<Rightarrow> PullRequestInput \<Rightarrow> ('w, PullRequest) act"
  coPullRequestFeedback :: "Connection \<Rightarrow> Credential \<Rightarrow> Repository \<Rightarrow> int \<Rightarrow> string \<Rightarrow> ('w, Feedback) act"
  coListComments :: "Connection \<Rightarrow> Credential \<Rightarrow> Repository \<Rightarrow> int \<Rightarrow> int \<Rightarrow> ('w, CommentPage) act"
  coAddComment :: "Connection \<Rightarrow> Credential \<Rightarrow> Repository \<Rightarrow> int \<Rightarrow> string \<Rightarrow> ('w, Comment) act"
  coReplyToReview :: "Connection \<Rightarrow> Credential \<Rightarrow> Repository \<Rightarrow> int \<Rightarrow> int \<Rightarrow> string \<Rightarrow> ('w, Comment) act"

record 'w snapshot_publisher =
  spVerifySnapshot :: "Connection \<Rightarrow> Credential \<Rightarrow> Repository \<Rightarrow> Snapshot \<Rightarrow> ('w, unit) act"
  spPublishSnapshot :: "Connection \<Rightarrow> Credential \<Rightarrow> Repository \<Rightarrow> Snapshot \<Rightarrow> string \<Rightarrow> string \<Rightarrow> ('w, unit) act"

record 'w action_backend =
  abCollaboration :: "'w collaboration option"
  abListBranches :: "(Connection \<Rightarrow> Credential \<Rightarrow> Repository \<Rightarrow> int \<Rightarrow> ('w, BranchPage) act) option"
  abSnapshots :: "'w snapshot_publisher option"

text \<open>An unstructured object: its identity, its \<open>spec\<close>, and what it converts to, if it does.\<close>

record 'a dyn_object =
  doUID :: string
  doDeleted :: bool
  doSpec :: json
  doTyped :: "'a option"

record access_review =
  arGroup :: string
  arResource :: string
  arName :: string
  arVerb :: string
  arSubresource :: string

record 'w dyn =
  dyRepository :: "string \<Rightarrow> ('w, Repository dyn_object) act"
  dyConnection :: "string \<Rightarrow> ('w, Connection dyn_object) act"
  dySecret :: "string \<Rightarrow> string \<Rightarrow> ('w, unstructured_secret) act"
  dyReview :: "access_review \<Rightarrow> ('w, bool) act"

text \<open>The file system of the snapshots; \<open>fsWalk\<close> lists what \<open>filepath.WalkDir\<close> visits.\<close>

record file_info =
  fiRegular :: bool
  fiModTime :: gotime
  fiSize :: int

datatype walk_entry = WalkError gerror | WalkDir | WalkFile string "gerror + file_info"

record 'w snapshot_fs =
  fsMkdirAll :: "string \<Rightarrow> ('w, unit) act"
  fsWalk :: "string \<Rightarrow> ('w, walk_entry list) act"
  fsRemove :: "string \<Rightarrow> ('w, unit) act"
  fsExists :: "string \<Rightarrow> ('w, bool) act"
  fsCreateTemp :: "string \<Rightarrow> ('w, string) act"
  fsWrite :: "string \<Rightarrow> bytes \<Rightarrow> ('w, unit) act"
  fsClose :: "string \<Rightarrow> ('w, unit) act"
  fsRename :: "string \<Rightarrow> string \<Rightarrow> ('w, unit) act"
  fsStat :: "string \<Rightarrow> ('w, file_info) act"
  fsRead :: "string \<Rightarrow> nat \<Rightarrow> ('w, bytes) act"
  fsLock :: "'w \<Rightarrow> 'w"
  fsUnlock :: "'w \<Rightarrow> 'w"
  fsNow :: "'w \<Rightarrow> gotime"
  fsTempDir :: string

datatype action_output =
    OStaged string
  | OBranches BranchPage
  | OHead string
  | OPull "PullRequest option"
  | OFeedback Feedback
  | OComments CommentPage
  | OComment Comment
  | OSnapshot string string

datatype action_response =
    HttpNotFound
  | HttpForbidden
  | ActionFailure int string bool
  | ActionSuccess bytes

record 'w action_env =
  aeCaller :: "(string \<Rightarrow> string \<Rightarrow> ('w, 'w dyn) act) option"
  aeAuthority :: "(string \<Rightarrow> string \<Rightarrow> ('w, 'w dyn) act) option"
  aeBackends :: "'w action_backend Registry"
  aeTokens :: "'w token_env"
  aeNamespaceEnv :: string
  aeSnapshotDir :: string
  aeFiles :: "'w snapshot_fs"
  aeTakeSlot :: "'w \<Rightarrow> bool \<times> 'w"
  aeGiveSlot :: "'w \<Rightarrow> 'w"
  aeTakeSnapshotSlot :: "'w \<Rightarrow> bool \<times> 'w"
  aeGiveSnapshotSlot :: "'w \<Rightarrow> 'w"
  aeSuccess :: "action_output \<Rightarrow> bytes option"

subsection \<open>Snapshots\<close>

definition snapshotTTL :: duration where "snapshotTTL = 60 * Minute"

definition snapshot_root :: "'w action_env \<Rightarrow> string" where
  "snapshot_root env =
     (if aeSnapshotDir env = [] then path_Clean (fsTempDir (aeFiles env) @ ''/railgrid-code-snapshots'') else aeSnapshotDir env)"

definition tenant_root :: "'w action_env \<Rightarrow> string \<Rightarrow> string" where
  "tenant_root env cluster = path_Clean (snapshot_root env @ ''/'' @ hex_encode (sha256 cluster))"

definition scope_text :: "http_call \<Rightarrow> Input \<Rightarrow> bytes" where
  "scope_text r i = inRepositoryUID i @ [CHR 0x00] @ inConnectionUID i @ [CHR 0x00] @ map_get (hcHeader r) ''Authorization''"

definition snapshotScope :: "'w action_env \<Rightarrow> http_call \<Rightarrow> string \<Rightarrow> Input \<Rightarrow> string" where
  "snapshotScope env r cluster i =
     path_Clean (snapshot_root env @ ''/'' @ hex_encode (sha256 cluster) @ ''/'' @ hex_encode (sha256 (scope_text r i)))"

definition snapshot_json :: "Snapshot \<Rightarrow> json" where
  "snapshot_json s = JObj [(''baseCommit'', JStr (snBaseCommit s)), (''commit'', JStr (snCommit s)), (''tree'', JStr (snTree s)),
     (''bundle'', JStr (b64_encode (snBundle s)))]"

text \<open>The walk: expired files go, the others count.\<close>

definition count_entry :: "'w snapshot_fs \<Rightarrow> walk_entry \<Rightarrow> int \<times> int \<Rightarrow> ('w, int \<times> int) act" where
  "count_entry fs e n =
     (case e of
        WalkError err \<Rightarrow> failA err
      | WalkDir \<Rightarrow> ret n
      | WalkFile path info \<Rightarrow> bindA (lift info) (\<lambda>i.
          if \<not> fiRegular i then failA (Plain ''invalid snapshot storage entry'')
          else bindA (readA (fsNow fs)) (\<lambda>now.
            if now - fiModTime i > snapshotTTL then bindA (fsRemove fs path) (\<lambda>u. ret n)
            else ret (fst n + 1, snd n + fiSize i))))"

definition store_snapshot :: "'w snapshot_fs \<Rightarrow> string \<Rightarrow> string \<Rightarrow> bytes \<Rightarrow> ('w, unit) act" where
  "store_snapshot fs scope path data =
     bindA (fsCreateTemp fs scope) (\<lambda>temp.
     deferA (\<lambda>w. snd (fsRemove fs temp w))
       (handle (fsWrite fs temp data)
          (\<lambda>e. bindA (\<lambda>w. (Inr (), snd (fsClose fs temp w))) (\<lambda>u. failA e))
          (\<lambda>u. bindA (fsClose fs temp) (\<lambda>u. fsRename fs temp path))))"

text \<open>What \<open>stage\<close> does under the lock: the walk, the quota and the file.\<close>

definition stage_locked :: "'w snapshot_fs \<Rightarrow> string \<Rightarrow> string \<Rightarrow> string \<Rightarrow> string \<Rightarrow> bytes \<Rightarrow> ('w, action_output) act" where
  "stage_locked fs scope tenantRoot path ref data =
     bindA (fsMkdirAll fs scope) (\<lambda>u.
     bindA (fsWalk fs tenantRoot) (\<lambda>entries.
     bindA (forA (count_entry fs) entries (0, 0)) (\<lambda>n.
     bindA (fsExists fs path) (\<lambda>there.
     if there then ret (OStaged ref)
     else if fst n \<ge> 16 \<or> snd n + int (length data) > 256 * 2 ^ 20
     then failA (Plain ''tenant snapshot quota reached'')
     else bindA (store_snapshot fs scope path data) (\<lambda>u. ret (OStaged ref))))))"

definition stage :: "'w action_env \<Rightarrow> http_call \<Rightarrow> string \<Rightarrow> Input \<Rightarrow> ('w, action_output) act" where
  "stage env r cluster i =
     (case inSnapshot i of
        None \<Rightarrow> failA (Plain ''invalid snapshot upload'')
      | Some s \<Rightarrow>
          if snBundle s = [] \<or> length (snBundle s) > 25 * 2 ^ 20 then failA (Plain ''invalid snapshot upload'')
          else
            let fs = aeFiles env; data = compact_json (snapshot_json s); ref = hex_encode (sha256 data);
                scope = snapshotScope env r cluster i; path = path_Clean (scope @ ''/'' @ ref @ ''.json'')
            in if length data > MaxInputBytes then failA (Plain ''snapshot upload exceeds limit'')
               else deferA (fsUnlock fs) (\<lambda>w. stage_locked fs scope (tenant_root env cluster) path ref data (fsLock fs w)))"

text \<open>The regular expression \<open>^[a-f0-9]{64}$\<close>.\<close>

definition snapshotDigest :: "string \<Rightarrow> bool" where
  "snapshotDigest s \<longleftrightarrow> length s = 64 \<and>
     list_all (\<lambda>c. CHR ''a'' \<le> c \<and> c \<le> CHR ''f'' \<or> CHR ''0'' \<le> c \<and> c \<le> CHR ''9'') s"

definition loadSnapshot :: "'w action_env \<Rightarrow> http_call \<Rightarrow> string \<Rightarrow> Input \<Rightarrow> ('w, Snapshot) act" where
  "loadSnapshot env r cluster i =
     (if \<not> snapshotDigest (inBundleRef i) then failA (Plain ''invalid snapshot reference'')
      else let fs = aeFiles env; path = path_Clean (snapshotScope env r cluster i @ ''/'' @ inBundleRef i @ ''.json'') in
        bindA (fsStat fs path) (\<lambda>info.
        bindA (readA (fsNow fs)) (\<lambda>now.
        if \<not> fiRegular info \<or> now - fiModTime info > snapshotTTL \<or> fiSize info > int MaxInputBytes
        then failA (Plain ''snapshot unavailable or expired'')
        else handle (fsRead fs path (MaxInputBytes + 1)) (\<lambda>e. failA (Plain ''snapshot exceeds limit'')) (\<lambda>data.
          if length data > MaxInputBytes then failA (Plain ''snapshot exceeds limit'')
          else if hex_encode (sha256 data) \<noteq> inBundleRef i then failA (Plain ''snapshot digest mismatch'')
          else case Option.bind (parse_json data) (\<lambda>v. decode_members (snapshot_member False) v zero_snapshot) of
              None \<Rightarrow> failA (Plain ''invalid snapshot'')
            | Some s \<Rightarrow> ret s))))"

subsection \<open>Who may act on what\<close>

definition denied :: "('w, 'a) act" where
  "denied = failA (Plain ''repository action denied'')"

definition invoke_review :: "string \<Rightarrow> string \<Rightarrow> access_review" where
  "invoke_review name action = \<lparr>arGroup = ''code.railgrid.ai'', arResource = ''repositories'', arName = name,
     arVerb = ''invoke'', arSubresource = action\<rparr>"

definition authorize :: "'w action_env \<Rightarrow> http_call \<Rightarrow> string \<Rightarrow> string \<Rightarrow> string \<Rightarrow> ('w, Repository dyn_object) act" where
  "authorize env r cluster name action =
     (let header = map_get (hcHeader r) ''Authorization''; token = TrimPrefix header ''Bearer '' in
      case (aeCaller env, aeAuthority env) of
        (Some caller, Some authority) \<Rightarrow>
          if token = [] \<or> token = header then denied
          else handle (caller cluster token) (\<lambda>e. denied) (\<lambda>client.
            handle (dyRepository client name) (\<lambda>e. denied) (\<lambda>visible.
            if doDeleted visible then denied
            else handle (dyReview client (invoke_review name action)) (\<lambda>e. denied) (\<lambda>allowed.
              if allowed then ret visible else denied)))
      | _ \<Rightarrow> denied)"

text \<open>\<open>NestedStringMap\<close> gives nothing unless every value is a string.\<close>

definition string_data :: "unstructured_secret \<Rightarrow> (string \<times> string) list" where
  "string_data obj = (case usData obj of
     None \<Rightarrow> []
   | Some kvs \<Rightarrow> if list_all (\<lambda>kv. case snd kv of JStr s \<Rightarrow> True | _ \<Rightarrow> False) kvs
       then map (\<lambda>kv. (fst kv, case snd kv of JStr s \<Rightarrow> s | _ \<Rightarrow> [])) kvs else [])"

definition decode_value :: "string \<times> string \<Rightarrow> (string \<times> bytes) list \<Rightarrow> gerror + (string \<times> bytes) list" where
  "decode_value kv out =
     (case b64_DecodeString (snd kv) of None \<Rightarrow> Inl (Plain ''repository action denied'') | Some d \<Rightarrow> Inr ((fst kv, d) # out))"

definition action_resolve ::
  "'w action_env \<Rightarrow> string \<Rightarrow> string \<Rightarrow> Repository dyn_object \<Rightarrow> Input \<Rightarrow> ('w, Connection \<times> Repository \<times> Credential) act"
where
  "action_resolve env cluster name visible input =
     (if inRepositoryUID input = [] \<or> inConnectionUID input = [] \<or> doUID visible \<noteq> inRepositoryUID input then denied
      else case aeAuthority env of
        None \<Rightarrow> denied
      | Some authority \<Rightarrow>
          handle (authority cluster name) (\<lambda>e. denied) (\<lambda>provider.
          handle (dyRepository provider name) (\<lambda>e. denied) (\<lambda>auth.
          if doUID auth \<noteq> doUID visible \<or> doDeleted auth \<or> doSpec auth \<noteq> doSpec visible then denied
          else case doTyped auth of
            None \<Rightarrow> denied
          | Some repo \<Rightarrow>
              if rtRepoID (rxStatus repo) = [] then denied
              else handle (dyConnection provider (rsConnectionRef (rxSpec repo))) (\<lambda>e. denied) (\<lambda>connection.
                if doUID connection \<noteq> inConnectionUID input \<or> doDeleted connection then denied
                else case doTyped connection of
                  None \<Rightarrow> denied
                | Some conn \<Rightarrow>
                    let owner = (if rsOwner (rxSpec repo) = [] then csOwner (cxSpec conn) else rsOwner (rxSpec repo));
                        ref = csSecretRef (cxSpec conn);
                        ns = (if lsNamespace ref = [] then DefaultCredentialsNamespace (aeNamespaceEnv env) else lsNamespace ref)
                    in if \<not> EqualFold (inRepository input) (owner @ ''/'' @ rsName (rxSpec repo)) then denied
                       else handle (dySecret provider ns (lsName ref)) (\<lambda>e. denied) (\<lambda>secret.
                         case foldE decode_value (string_data secret) [] of
                           Inl e \<Rightarrow> denied
                         | Inr data \<Rightarrow> handle (Resolve (aeTokens env) conn data) (\<lambda>e. denied)
                             (\<lambda>credential. ret (conn, repo, credential)))))))"

subsection \<open>Serving\<close>

definition failure :: "int \<Rightarrow> string \<Rightarrow> ('w, action_response) act" where
  "failure status code = ret (ActionFailure status code False)"

text \<open>What follows an action: an error, an answer that is too large, or the answer.\<close>

definition respond :: "'w action_env \<Rightarrow> ('w, action_output) act \<Rightarrow> ('w, action_response) act" where
  "respond env m =
     handle m
       (\<lambda>e. if err_Is e IdentityConflict then failure 409 ''identity_conflict'' else failure 502 ''upstream_outcome_unconfirmed'')
       (\<lambda>output. case aeSuccess env output of
          None \<Rightarrow> failure 502 ''result_limit''
        | Some encoded \<Rightarrow> if length encoded > MaxOutputBytes then failure 502 ''result_limit'' else ret (ActionSuccess encoded))"

definition with_output :: "('w, 'a) act \<Rightarrow> ('a \<Rightarrow> action_output) \<Rightarrow> ('w, action_output) act" where
  "with_output m f = bindA m (\<lambda>x. ret (f x))"

definition snapshot_action ::
  "'w action_env \<Rightarrow> http_call \<Rightarrow> string \<Rightarrow> string \<Rightarrow> 'w action_backend \<Rightarrow> Connection \<Rightarrow> Repository \<Rightarrow> Credential \<Rightarrow> Input \<Rightarrow>
     ('w, action_response) act"
where
  "snapshot_action env r cluster action b conn repo cred i =
     (case abSnapshots b of
        None \<Rightarrow> failure 422 ''invalid_snapshot''
      | Some publisher \<Rightarrow>
          if inSnapshot i \<noteq> None \<or> inBundleRef i = [] then failure 422 ''invalid_snapshot''
          else handle (loadSnapshot env r cluster i) (\<lambda>e. failure 422 ''snapshot_unavailable'') (\<lambda>s.
            respond env (with_output
              (if action = ''prepare_snapshot'' then spVerifySnapshot publisher conn cred repo s
               else spPublishSnapshot publisher conn cred repo s (inBranch i) (inExpectedHead i))
              (\<lambda>u. OSnapshot (snCommit s) (snTree s)))))"

definition run_action ::
  "'w action_env \<Rightarrow> http_call \<Rightarrow> string \<Rightarrow> string \<Rightarrow> 'w action_backend \<Rightarrow> 'w collaboration \<Rightarrow> Connection \<Rightarrow> Repository \<Rightarrow>
     Credential \<Rightarrow> Input \<Rightarrow> ('w, action_response) act"
where
  "run_action env r cluster action b co conn repo cred i =
     (if action = ''stage_snapshot'' then respond env (stage env r cluster i)
      else if action = ''branches'' then
        (case abListBranches b of
           None \<Rightarrow> failure 422 ''unsupported_action''
         | Some listBranches \<Rightarrow> respond env (with_output (listBranches conn cred repo (inPage i)) OBranches))
      else if action = ''branch_head'' then respond env (with_output (coBranchHead co conn cred repo (inBranch i)) OHead)
      else if action = ''find_pull_request'' then respond env (with_output (coFindPullRequest co conn cred repo (inPull i)) OPull)
      else if action = ''pull_request'' then
        respond env (with_output (coReadPullRequest co conn cred repo (inNumber i)) (\<lambda>p. OPull (Some p)))
      else if action = ''create_pull_request'' then
        respond env (with_output (coCreatePullRequest co conn cred repo (inPull i)) (\<lambda>p. OPull (Some p)))
      else if action = ''update_pull_request'' then
        respond env (with_output (coUpdatePullRequest co conn cred repo (inNumber i) (inPull i)) (\<lambda>p. OPull (Some p)))
      else if action = ''feedback'' then
        respond env (with_output (coPullRequestFeedback co conn cred repo (inNumber i) (prCommit (inPull i))) OFeedback)
      else if action = ''comments'' then
        respond env (with_output (coListComments co conn cred repo (inNumber i) (inPage i)) OComments)
      else if action = ''add_comment'' then
        respond env (with_output (coAddComment co conn cred repo (inNumber i) (prBody (inPull i))) OComment)
      else if action = ''reply_to_review'' then
        respond env (with_output (coReplyToReview co conn cred repo (inNumber i) (inParentCommentID i) (prBody (inPull i))) OComment)
      else snapshot_action env r cluster action b conn repo cred i)"

text \<open>\<open>select\<close> on a slot with a default, released on every way out.\<close>

definition with_slot :: "('w \<Rightarrow> bool \<times> 'w) \<Rightarrow> ('w \<Rightarrow> 'w) \<Rightarrow> ('w, action_response) act \<Rightarrow> ('w, action_response) act" where
  "with_slot acquire release m w =
     (case acquire w of
        (False, w1) \<Rightarrow> failure 503 ''action_capacity_unavailable'' w1
      | (True, w1) \<Rightarrow> deferA release m w1)"

definition admitted ::
  "'w action_env \<Rightarrow> http_call \<Rightarrow> ('w, bytes) act \<Rightarrow> string \<Rightarrow> string \<Rightarrow> string \<Rightarrow> Repository dyn_object \<Rightarrow> ('w, action_response) act"
where
  "admitted env r body cluster name action visible =
     handle (readActionRequest body (if action = ''stage_snapshot'' then MaxInputBytes else 65536))
       (\<lambda>e. failure 400 ''invalid_action_input'') (\<lambda>request.
     handle (action_resolve env cluster name visible (aqInput request)) (\<lambda>e. failure 403 ''action_forbidden'')
       (\<lambda>(conn, repo, credential).
     case registry_Get (aeBackends env) (csProvider (cxSpec conn)) of
       None \<Rightarrow> failure 422 ''unsupported_provider''
     | Some b \<Rightarrow> (case abCollaboration b of
         None \<Rightarrow> failure 422 ''unsupported_action''
       | Some co \<Rightarrow> run_action env r cluster action b co conn repo credential (aqInput request))))"

definition ServeHTTP :: "'w action_env \<Rightarrow> http_call \<Rightarrow> ('w, bytes) act \<Rightarrow> ('w, action_response) act" where
  "ServeHTTP env r body =
     (let parts = Split1 slash (Trim (hcPath r) ''/'') in
      if hcMethod r \<noteq> ''POST'' \<or> hcRawPath r \<noteq> [] \<or> length parts \<noteq> 7 \<or> parts ! 0 \<noteq> ''actions'' \<or> parts ! 1 \<noteq> ''clusters'' \<or>
         parts ! 3 \<noteq> ''repositories'' \<or> parts ! 6 \<noteq> ''v1'' \<or> parts ! 5 \<notin> set verbs \<and> parts ! 5 \<noteq> ''stage_snapshot''
      then ret HttpNotFound
      else let cluster = parts ! 2; name = parts ! 4; action = parts ! 5 in
        if \<not> segment cluster \<or> \<not> segment name \<or> name = ''.'' \<or> name = ''..'' \<or>
           cluster \<noteq> map_get (hcHeader r) ''X-Railgrid-Cluster''
        then ret HttpForbidden
        else with_slot (aeTakeSlot env) (aeGiveSlot env)
          (handle (authorize env r cluster name action) (\<lambda>e. failure 403 ''action_forbidden'') (\<lambda>visible.
             if action = ''stage_snapshot'' \<or> action = ''prepare_snapshot'' \<or> action = ''publish_snapshot''
             then with_slot (aeTakeSnapshotSlot env) (aeGiveSnapshotSlot env) (admitted env r body cluster name action visible)
             else admitted env r body cluster name action visible)))"

subsection \<open>The provider's own client\<close>

text \<open>
  \<open>authority.go\<close>: \<open>endpoints\<close> are the entries of the endpoint slice's status, read with the
  provider's configuration, and \<open>connect\<close> is \<open>dynamic.NewForConfig\<close> with another host.
\<close>

definition endpoint_url :: "json \<Rightarrow> string" where
  "endpoint_url item = (case item of
     JObj kvs \<Rightarrow> (case map_of (rev kvs) ''url'' of Some (JStr s) \<Rightarrow> s | _ \<Rightarrow> [])
   | _ \<Rightarrow> [])"

fun try_endpoints :: "(string \<Rightarrow> ('w, 'w dyn) act) \<Rightarrow> string \<Rightarrow> string \<Rightarrow> json list \<Rightarrow> ('w, 'w dyn) act" where
  "try_endpoints connect cluster repository [] = failA (Plain ''repository unavailable through Code export'')"
| "try_endpoints connect cluster repository (item # items) =
     (if endpoint_url item = [] then try_endpoints connect cluster repository items
      else bindA (connect (TrimRight (endpoint_url item) ''/'' @ ''/clusters/'' @ cluster)) (\<lambda>client.
        handle (dyRepository client repository) (\<lambda>e. try_endpoints connect cluster repository items) (\<lambda>obj. ret client)))"

definition ExportClient ::
  "(('w, json list) act \<times> (string \<Rightarrow> ('w, 'w dyn) act)) option \<Rightarrow> string \<Rightarrow> string \<Rightarrow> ('w, 'w dyn) act"
where
  "ExportClient config cluster repository =
     (case config of
        None \<Rightarrow> failA (Plain ''code provider authority unavailable'')
      | Some (endpoints, connect) \<Rightarrow>
          if \<not> segment cluster then failA (Plain ''code provider authority unavailable'')
          else bindA endpoints (try_endpoints connect cluster repository))"

end
