(* ===== verification/Action_Authority.thy ===== *)
theory Action_Authority
  imports Action_Server
begin

text \<open>
  What the repository actions promise: nothing is done for a caller the API server does not
  allow, and a successful action ran on exactly the repository and connection the request names.
\<close>

subsection \<open>Denials\<close>

lemma refuses_denied [intro]: "refuses P denied"
  unfolding denied_def by (rule refuses_failA)

lemma refuses_handle_denied [intro]:
  assumes "keeps P m" and "\<And>x w w'. m w = (Inr x, w') \<Longrightarrow> refuses P (k x)"
  shows "refuses P (handle m (\<lambda>e. denied) k)"
  unfolding refuses_def
proof (intro conjI allI)
  show "keeps P (handle m (\<lambda>e. denied) k)"
    using assms by (intro keeps_handle_val) (auto simp: refuses_def denied_def intro: keeps_failA)
  fix w
  obtain r w1 where run: "m w = (r, w1)" by fastforce
  show "\<exists>e. fst (handle m (\<lambda>e. denied) k w) = Inl e"
  proof (cases r)
    case (Inr x)
    with run assms(2)[of w x w1] show ?thesis by (simp add: refuses_def)
  qed (use run in \<open>simp add: denied_def failA_def\<close>)
qed

lemma handle_refused:
  assumes "refuses P m"
  shows "handle m (\<lambda>e. ret x) k w = (Inr x, snd (m w))"
proof -
  obtain e where e: "fst (m w) = Inl e" using assms unfolding refuses_def by blast
  then have "m w = (Inl e, snd (m w))" by (metis prod.collapse)
  then show ?thesis by (simp add: ret_def)
qed

lemma handle_denied_Inr: "handle m (\<lambda>e. denied) k w = (Inr y, w2) \<longleftrightarrow> (\<exists>x w1. m w = (Inr x, w1) \<and> k x w1 = (Inr y, w2))"
  unfolding denied_def by (rule handle_failA_Inr)

lemma if_denied_Inr: "(if b then denied else m) w = (Inr y, w2) \<longleftrightarrow> \<not> b \<and> m w = (Inr y, w2)"
  unfolding denied_def by (rule if_failA_Inr)

lemma if_else_denied_Inr: "(if b then m else denied) w = (Inr y, w2) \<longleftrightarrow> b \<and> m w = (Inr y, w2)"
  unfolding denied_def by simp

lemma option_denied_Inr:
  "(case v of None \<Rightarrow> denied | Some x \<Rightarrow> k x) w = (Inr y, w2) \<longleftrightarrow> (\<exists>x. v = Some x \<and> k x w = (Inr y, w2))"
  unfolding denied_def by (rule option_failA_Inr)

lemma sum_denied_Inr:
  "(case v of Inl e \<Rightarrow> denied | Inr x \<Rightarrow> k x) w = (Inr y, w2) \<longleftrightarrow> (\<exists>x. v = Inr x \<and> k x w = (Inr y, w2))"
  by (cases v) (auto simp: denied_def)

lemmas granted = handle_denied_Inr if_denied_Inr if_else_denied_Inr option_denied_Inr sum_denied_Inr

subsection \<open>The parts of a request\<close>

definition action_part :: "http_call \<Rightarrow> nat \<Rightarrow> string" where
  "action_part r i = Split1 slash (Trim (hcPath r) ''/'') ! i"

definition bearer :: "http_call \<Rightarrow> string" where
  "bearer r = TrimPrefix (map_get (hcHeader r) ''Authorization'') ''Bearer ''"

text \<open>The client of the caller: its two calls keep \<open>P\<close>, and its review of the action is never positive.\<close>

definition refused_client :: "('w \<Rightarrow> bool) \<Rightarrow> string \<Rightarrow> string \<Rightarrow> 'w dyn \<Rightarrow> bool" where
  "refused_client P name action client \<longleftrightarrow>
     keeps P (dyRepository client name) \<and> keeps P (dyReview client (invoke_review name action)) \<and>
     (\<forall>w w'. dyReview client (invoke_review name action) w \<noteq> (Inr True, w'))"

lemma refuses_if_allowed: "\<not> b \<Longrightarrow> refuses P (if b then m else denied)"
  by (simp add: refuses_denied)

lemma authorize_refuses:
  assumes "\<And>caller. aeCaller env = Some caller \<Longrightarrow> keeps P (caller cluster (bearer r))"
    and "\<And>caller client w w'. aeCaller env = Some caller \<Longrightarrow> caller cluster (bearer r) w = (Inr client, w') \<Longrightarrow>
      refused_client P name action client"
  shows "refuses P (authorize env r cluster name action)"
proof (cases "\<exists>caller authority. aeCaller env = Some caller \<and> aeAuthority env = Some authority")
  case True
  then obtain caller authority where eq: "aeCaller env = Some caller" "aeAuthority env = Some authority" by blast
  have client: "refuses P (handle (dyRepository client name) (\<lambda>e. denied) (\<lambda>visible.
      if doDeleted visible then denied
      else handle (dyReview client (invoke_review name action)) (\<lambda>e. denied) (\<lambda>allowed. if allowed then ret visible else denied)))"
    if "refused_client P name action client" for client
    using that unfolding refused_client_def
    by (intro refuses_handle_denied refuses_if refuses_denied refuses_if_allowed) auto
  have "refuses P (handle (caller cluster (bearer r)) (\<lambda>e. denied) (\<lambda>client. handle (dyRepository client name) (\<lambda>e. denied) (\<lambda>visible.
      if doDeleted visible then denied
      else handle (dyReview client (invoke_review name action)) (\<lambda>e. denied) (\<lambda>allowed. if allowed then ret visible else denied))))"
    by (rule refuses_handle_denied[OF assms(1)[OF eq(1)]]) (rule client[OF assms(2)[OF eq(1)]])
  then show ?thesis
    unfolding authorize_def Let_def eq option.case prod.case bearer_def[symmetric] by (intro refuses_if refuses_denied)
next
  case False
  then have "authorize env r cluster name action = denied" by (auto simp: authorize_def Let_def split: option.splits)
  then show ?thesis by (simp add: refuses_denied)
qed

subsection \<open>Nothing is done for a caller that may not act\<close>

lemma with_slot_run:
  "with_slot acquire release m w =
     (if fst (acquire w) then (fst (m (snd (acquire w))), release (snd (m (snd (acquire w)))))
      else (Inr (ActionFailure 503 ''action_capacity_unavailable'' False), snd (acquire w)))"
  by (cases "acquire w"; cases "fst (acquire w)") (auto simp: with_slot_def deferA_def failure_def ret_def split: prod.splits)

text \<open>The body of \<open>ServeHTTP\<close> once the path and the scope are accepted.\<close>

definition authorized :: "'w action_env \<Rightarrow> http_call \<Rightarrow> ('w, bytes) act \<Rightarrow> Repository dyn_object \<Rightarrow> ('w, action_response) act" where
  "authorized env r body visible =
     (if action_part r 5 = ''stage_snapshot'' \<or> action_part r 5 = ''prepare_snapshot'' \<or> action_part r 5 = ''publish_snapshot''
      then with_slot (aeTakeSnapshotSlot env) (aeGiveSnapshotSlot env)
        (admitted env r body (action_part r 2) (action_part r 4) (action_part r 5) visible)
      else admitted env r body (action_part r 2) (action_part r 4) (action_part r 5) visible)"

definition in_slot :: "'w action_env \<Rightarrow> http_call \<Rightarrow> ('w, bytes) act \<Rightarrow> ('w, action_response) act" where
  "in_slot env r body = with_slot (aeTakeSlot env) (aeGiveSlot env)
     (handle (authorize env r (action_part r 2) (action_part r 4) (action_part r 5)) (\<lambda>e. failure 403 ''action_forbidden'')
       (authorized env r body))"

lemma ServeHTTP_cases:
  obtains "ServeHTTP env r body w = (Inr HttpNotFound, w)" | "ServeHTTP env r body w = (Inr HttpForbidden, w)"
  | "ServeHTTP env r body w = in_slot env r body w" "hcMethod r = ''POST''" "segment (action_part r 2)" "segment (action_part r 4)"
    "action_part r 2 = map_get (hcHeader r) ''X-Railgrid-Cluster''" "action_part r 5 \<in> insert ''stage_snapshot'' (set verbs)"
proof (cases "hcMethod r \<noteq> ''POST'' \<or> hcRawPath r \<noteq> [] \<or> length (Split1 slash (Trim (hcPath r) ''/'')) \<noteq> 7 \<or> action_part r 0 \<noteq> ''actions'' \<or>
    action_part r 1 \<noteq> ''clusters'' \<or> action_part r 3 \<noteq> ''repositories'' \<or> action_part r 6 \<noteq> ''v1'' \<or>
    action_part r 5 \<notin> set verbs \<and> action_part r 5 \<noteq> ''stage_snapshot''")
  case True
  then show ?thesis using that(1) unfolding ServeHTTP_def Let_def action_part_def[symmetric] if_P[OF True] ret_def by blast
next
  case routed: False
  note run = ServeHTTP_def[of env r body, unfolded Let_def, folded action_part_def, unfolded if_not_P[OF routed]]
  show ?thesis
  proof (cases "\<not> segment (action_part r 2) \<or> \<not> segment (action_part r 4) \<or> action_part r 4 = ''.'' \<or> action_part r 4 = ''..'' \<or>
      action_part r 2 \<noteq> map_get (hcHeader r) ''X-Railgrid-Cluster''")
    case True
    then show ?thesis using that(2) unfolding run if_P[OF True] ret_def by blast
  next
    case False
    have "ServeHTTP env r body = in_slot env r body"
      unfolding run if_not_P[OF False] in_slot_def authorized_def[abs_def] ..
    then show ?thesis using that(3) routed False by auto
  qed
qed

text \<open>
  (C9) A caller that the API server does not allow to invoke the action reaches nothing. Whatever
  \<open>P\<close> is kept by the admission slot and by the calls made with the caller's own token (its
  client, reading the repository, the access review) is kept by the whole request: the body is
  not read, and neither the provider's own client, nor a credential, the backend or a stored
  snapshot is touched. The answer is one of four refusals.
\<close>

theorem action_needs_review:
  assumes "\<And>caller. aeCaller env = Some caller \<Longrightarrow> keeps P (caller (action_part r 2) (bearer r))"
    and "\<And>caller client w w'. aeCaller env = Some caller \<Longrightarrow> caller (action_part r 2) (bearer r) w = (Inr client, w') \<Longrightarrow>
      refused_client P (action_part r 4) (action_part r 5) client"
    and "keeps P (aeTakeSlot env)" and "\<And>w. P w \<Longrightarrow> P (aeGiveSlot env w)"
  shows "keeps P (ServeHTTP env r body) \<and>
    (\<forall>w. fst (ServeHTTP env r body w) \<in> Inr ` {HttpNotFound, HttpForbidden,
       ActionFailure 503 ''action_capacity_unavailable'' False, ActionFailure 403 ''action_forbidden'' False})"
proof -
  let ?a = "authorize env r (action_part r 2) (action_part r 4) (action_part r 5)"
  have refused: "refuses P ?a" using assms(1,2) by (rule authorize_refuses)
  have slot: "in_slot env r body w =
      (if fst (aeTakeSlot env w) then (Inr (ActionFailure 403 ''action_forbidden'' False), aeGiveSlot env (snd (?a (snd (aeTakeSlot env w)))))
       else (Inr (ActionFailure 503 ''action_capacity_unavailable'' False), snd (aeTakeSlot env w)))" for w
    unfolding in_slot_def with_slot_run failure_def handle_refused[OF refused] by simp
  have "P (snd (in_slot env r body w))" if "P w" for w
  proof -
    have "P (snd (aeTakeSlot env w))" using that by (rule keepsD[OF assms(3)])
    moreover from this have "P (snd (?a (snd (aeTakeSlot env w))))" using refused by (simp add: refuses_def keeps_def)
    ultimately show ?thesis unfolding slot by (simp add: assms(4))
  qed
  then have "P w \<longrightarrow> P (snd (ServeHTTP env r body w))" for w
    by (cases rule: ServeHTTP_cases[of env r body w]) auto
  moreover have "fst (ServeHTTP env r body w) \<in> Inr ` {HttpNotFound, HttpForbidden,
       ActionFailure 503 ''action_capacity_unavailable'' False, ActionFailure 403 ''action_forbidden'' False}" for w
    by (cases rule: ServeHTTP_cases[of env r body w]) (simp_all add: slot)
  ultimately show ?thesis by (simp add: keeps_def)
qed

subsection \<open>A successful action is bound to what the request names\<close>

lemma handle_success:
  "handle m (\<lambda>e. failure c t) k w = (Inr (ActionSuccess out), w2) \<longleftrightarrow>
     (\<exists>x w1. m w = (Inr x, w1) \<and> k x w1 = (Inr (ActionSuccess out), w2))"
  by (auto simp: handle_def failure_def split: prod.splits sum.splits)

lemma with_slot_success:
  assumes "with_slot acquire release m w = (Inr (ActionSuccess out), w')"
  obtains v u where "acquire w = (True, v)" "m v = (Inr (ActionSuccess out), u)" "w' = release u"
proof -
  have taken: "fst (acquire w)" using assms by (auto simp: with_slot_run split: if_splits)
  show thesis
    by (rule that[of "snd (acquire w)" "snd (m (snd (acquire w)))"])
      (use assms taken in \<open>auto simp: with_slot_run prod_eq_iff\<close>)
qed

text \<open>
  What the caller's own token shows, from \<open>w\<close> to \<open>w'\<close>: its client sees the live repository \<open>visible\<close>,
  and the access review allows it to invoke the action.
\<close>

definition caller_allowed :: "'w action_env \<Rightarrow> http_call \<Rightarrow> Repository dyn_object \<Rightarrow> 'w \<Rightarrow> 'w \<Rightarrow> bool" where
  "caller_allowed env r visible w w' \<longleftrightarrow> bearer r \<noteq> [] \<and> bearer r \<noteq> map_get (hcHeader r) ''Authorization'' \<and>
     (\<exists>caller client w1 w2. aeCaller env = Some caller \<and> caller (action_part r 2) (bearer r) w = (Inr client, w1) \<and>
        dyRepository client (action_part r 4) w1 = (Inr visible, w2) \<and> \<not> doDeleted visible \<and>
        dyReview client (invoke_review (action_part r 4) (action_part r 5)) w2 = (Inr True, w'))"

lemma authorize_allowed:
  assumes "authorize env r (action_part r 2) (action_part r 4) (action_part r 5) w = (Inr visible, w')"
  shows "caller_allowed env r visible w w'"
proof -
  have "\<exists>caller. aeCaller env = Some caller"
    using assms by (cases "aeCaller env") (simp_all add: authorize_def Let_def denied_def)
  moreover have "\<exists>authority. aeAuthority env = Some authority"
    using assms by (cases "aeCaller env"; cases "aeAuthority env") (simp_all add: authorize_def Let_def denied_def)
  ultimately obtain caller authority where eq: "aeCaller env = Some caller" "aeAuthority env = Some authority" by blast
  from assms[unfolded authorize_def Let_def eq option.case prod.case granted, folded bearer_def]
  obtain client w1 seen w2 where steps: "bearer r \<noteq> []" "bearer r \<noteq> map_get (hcHeader r) ''Authorization''"
      "caller (action_part r 2) (bearer r) w = (Inr client, w1)"
      "dyRepository client (action_part r 4) w1 = (Inr seen, w2)" "\<not> doDeleted seen"
      "dyReview client (invoke_review (action_part r 4) (action_part r 5)) w2 = (Inr True, w')" "seen = visible"
    by auto
  then show ?thesis unfolding caller_allowed_def using eq(1) by blast
qed

text \<open>
  What the provider's own client reads for the input \<open>i\<close> of a request, from \<open>w\<close> to \<open>w'\<close>: the live
  repository and connection with the UIDs that \<open>i\<close> names, the repository the caller sees, with an
  identity on the host and the name that \<open>i\<close> gives, and the credential resolved from the Secret
  the connection refers to.
\<close>

definition bound_to ::
  "'w action_env \<Rightarrow> http_call \<Rightarrow> Repository dyn_object \<Rightarrow> Input \<Rightarrow> Connection \<Rightarrow> Repository \<Rightarrow> Credential \<Rightarrow> 'w \<Rightarrow> 'w \<Rightarrow> bool"
where
  "bound_to env r visible i conn repo cred w w' \<longleftrightarrow>
     inRepositoryUID i \<noteq> [] \<and> inConnectionUID i \<noteq> [] \<and> doUID visible = inRepositoryUID i \<and> rtRepoID (rxStatus repo) \<noteq> [] \<and>
     EqualFold (inRepository i) ((if rsOwner (rxSpec repo) = [] then csOwner (cxSpec conn) else rsOwner (rxSpec repo)) @ ''/'' @ rsName (rxSpec repo)) \<and>
     (\<exists>authority provider auth connection secret data w1 w2 w3 w4. aeAuthority env = Some authority \<and>
        authority (action_part r 2) (action_part r 4) w = (Inr provider, w1) \<and>
        dyRepository provider (action_part r 4) w1 = (Inr auth, w2) \<and> doTyped auth = Some repo \<and> \<not> doDeleted auth \<and>
        doUID auth = inRepositoryUID i \<and> doSpec auth = doSpec visible \<and>
        dyConnection provider (rsConnectionRef (rxSpec repo)) w2 = (Inr connection, w3) \<and> doTyped connection = Some conn \<and>
        \<not> doDeleted connection \<and> doUID connection = inConnectionUID i \<and>
        dySecret provider (let ns = lsNamespace (csSecretRef (cxSpec conn)) in
            if ns = [] then DefaultCredentialsNamespace (aeNamespaceEnv env) else ns)
          (lsName (csSecretRef (cxSpec conn))) w3 = (Inr secret, w4) \<and>
        foldE decode_value (string_data secret) [] = Inr data \<and> Resolve (aeTokens env) conn data w4 = (Inr cred, w'))"

lemma action_resolve_bound:
  assumes "action_resolve env (action_part r 2) (action_part r 4) visible i w = (Inr (conn, repo, cred), w')"
  shows "bound_to env r visible i conn repo cred w w'"
proof -
  from assms[unfolded action_resolve_def Let_def granted]
  obtain authority provider w1 auth w2 rep connection w3 con secret w4 data c where steps:
    "inRepositoryUID i \<noteq> []" "inConnectionUID i \<noteq> []" "doUID visible = inRepositoryUID i" "aeAuthority env = Some authority"
    "authority (action_part r 2) (action_part r 4) w = (Inr provider, w1)" "dyRepository provider (action_part r 4) w1 = (Inr auth, w2)"
    "doUID auth = doUID visible" "\<not> doDeleted auth" "doSpec auth = doSpec visible" "doTyped auth = Some rep" "rtRepoID (rxStatus rep) \<noteq> []"
    "dyConnection provider (rsConnectionRef (rxSpec rep)) w2 = (Inr connection, w3)" "doUID connection = inConnectionUID i"
    "\<not> doDeleted connection" "doTyped connection = Some con"
    "EqualFold (inRepository i) ((if rsOwner (rxSpec rep) = [] then csOwner (cxSpec con) else rsOwner (rxSpec rep)) @ ''/'' @ rsName (rxSpec rep))"
    "dySecret provider (if lsNamespace (csSecretRef (cxSpec con)) = [] then DefaultCredentialsNamespace (aeNamespaceEnv env)
        else lsNamespace (csSecretRef (cxSpec con))) (lsName (csSecretRef (cxSpec con))) w3 = (Inr secret, w4)"
    "foldE decode_value (string_data secret) [] = Inr data"
    "Resolve (aeTokens env) con data w4 = (Inr c, w')" "conn = con" "repo = rep" "cred = c"
    by auto
  show ?thesis unfolding bound_to_def Let_def using steps by metis
qed

text \<open>The second slot, which only the snapshot actions take, and what leaves both slots at the end.\<close>

definition snapshot_verb :: "http_call \<Rightarrow> bool" where
  "snapshot_verb r \<longleftrightarrow> action_part r 5 \<in> {''stage_snapshot'', ''prepare_snapshot'', ''publish_snapshot''}"

definition snapshot_admission :: "'w action_env \<Rightarrow> http_call \<Rightarrow> 'w \<Rightarrow> 'w \<Rightarrow> bool" where
  "snapshot_admission env r w w' \<longleftrightarrow> (if snapshot_verb r then aeTakeSnapshotSlot env w = (True, w') else w' = w)"

definition leave :: "'w action_env \<Rightarrow> http_call \<Rightarrow> 'w \<Rightarrow> 'w" where
  "leave env r w = aeGiveSlot env (if snapshot_verb r then aeGiveSnapshotSlot env w else w)"

lemma authorized_eq:
  "authorized env r body visible =
     (if snapshot_verb r
      then with_slot (aeTakeSnapshotSlot env) (aeGiveSnapshotSlot env)
        (admitted env r body (action_part r 2) (action_part r 4) (action_part r 5) visible)
      else admitted env r body (action_part r 2) (action_part r 4) (action_part r 5) visible)"
  unfolding authorized_def snapshot_verb_def insert_iff empty_iff simp_thms ..

lemma authorized_success:
  assumes "authorized env r body visible w = (Inr (ActionSuccess out), w')"
  obtains v u where "snapshot_admission env r w v"
    "admitted env r body (action_part r 2) (action_part r 4) (action_part r 5) visible v = (Inr (ActionSuccess out), u)"
    "w' = (if snapshot_verb r then aeGiveSnapshotSlot env u else u)"
proof -
  note run = assms[unfolded authorized_eq]
  show thesis
  proof (cases "snapshot_verb r")
    case True
    from with_slot_success[OF run[unfolded if_P[OF True]]] obtain v u where
      "aeTakeSnapshotSlot env w = (True, v)"
      "admitted env r body (action_part r 2) (action_part r 4) (action_part r 5) visible v = (Inr (ActionSuccess out), u)"
      "w' = aeGiveSnapshotSlot env u" .
    then show thesis by (intro that[of v u]) (simp_all only: snapshot_admission_def if_P[OF True])
  next
    case False
    show thesis
      by (rule that[OF _ run[unfolded if_not_P[OF False]]]) (simp_all only: snapshot_admission_def if_not_P[OF False])
  qed
qed

lemma option_failure_success:
  "(case v of None \<Rightarrow> failure c t | Some x \<Rightarrow> k x) w = (Inr (ActionSuccess out), w2) \<longleftrightarrow>
     (\<exists>x. v = Some x \<and> k x w = (Inr (ActionSuccess out), w2))"
  by (cases v) (auto simp: failure_def)

lemma admitted_success:
  assumes "admitted env r body cluster name action visible w = (Inr (ActionSuccess out), w')"
  obtains request w1 conn repo cred w2 b co where
    "readActionRequest body (if action = ''stage_snapshot'' then MaxInputBytes else 65536) w = (Inr request, w1)"
    "action_resolve env cluster name visible (aqInput request) w1 = (Inr (conn, repo, cred), w2)"
    "registry_Get (aeBackends env) (csProvider (cxSpec conn)) = Some b" "abCollaboration b = Some co"
    "run_action env r cluster action b co conn repo cred (aqInput request) w2 = (Inr (ActionSuccess out), w')"
proof -
  from assms[unfolded admitted_def handle_success] obtain request w1 x w2 where
    read: "readActionRequest body (if action = ''stage_snapshot'' then MaxInputBytes else 65536) w = (Inr request, w1)"
    and res: "action_resolve env cluster name visible (aqInput request) w1 = (Inr x, w2)"
    and run: "(case x of (conn, repo, credential) \<Rightarrow>
       case registry_Get (aeBackends env) (csProvider (cxSpec conn)) of
         None \<Rightarrow> failure 422 ''unsupported_provider''
       | Some b \<Rightarrow> (case abCollaboration b of
           None \<Rightarrow> failure 422 ''unsupported_action''
         | Some co \<Rightarrow> run_action env r cluster action b co conn repo credential (aqInput request))) w2 = (Inr (ActionSuccess out), w')"
    by blast
  obtain conn repo cred where x: "x = (conn, repo, cred)" by (cases x)
  from run[unfolded x prod.case option_failure_success] obtain b co where
    "registry_Get (aeBackends env) (csProvider (cxSpec conn)) = Some b" "abCollaboration b = Some co"
    "run_action env r cluster action b co conn repo cred (aqInput request) w2 = (Inr (ActionSuccess out), w')" by blast
  with read res x show thesis by (intro that) simp_all
qed

text \<open>
  (C7) A successful action was allowed and ran on what the request names, step by step: a slot was
  taken; with the caller's own token the API server showed the repository and allowed to invoke
  this action on it; a snapshot action took its slot; then the body was read, within its limit, into
  a request; for the input of that request the provider's own client, reached for the cluster of the
  path, read a live repository with the UID that the input names and the spec the caller sees, a
  live connection with the UID that the input names, and the Secret of that connection, from which
  the credential was resolved; the repository has an identity on the host and the owner and name
  that the input gives; and it was with exactly this backend, connection, repository, credential and
  input that the action ran, after which the slots were given back.
\<close>

theorem action_success_bound:
  assumes "ServeHTTP env r body w = (Inr (ActionSuccess out), w')"
  shows "\<exists>w1 visible w2 w3 request w4 conn repo cred w5 b co w6.
    aeTakeSlot env w = (True, w1) \<and> caller_allowed env r visible w1 w2 \<and> snapshot_admission env r w2 w3 \<and>
    readActionRequest body (if action_part r 5 = ''stage_snapshot'' then MaxInputBytes else 65536) w3 = (Inr request, w4) \<and>
    bound_to env r visible (aqInput request) conn repo cred w4 w5 \<and>
    registry_Get (aeBackends env) (csProvider (cxSpec conn)) = Some b \<and> abCollaboration b = Some co \<and>
    run_action env r (action_part r 2) (action_part r 5) b co conn repo cred (aqInput request) w5 = (Inr (ActionSuccess out), w6) \<and>
    w' = leave env r w6"
proof -
  have "in_slot env r body w = (Inr (ActionSuccess out), w')"
    by (rule ServeHTTP_cases[of env r body w]) (use assms in simp_all)
  from with_slot_success[OF this[unfolded in_slot_def]] obtain w1 v where slot: "aeTakeSlot env w = (True, w1)" "w' = aeGiveSlot env v"
    and "handle (authorize env r (action_part r 2) (action_part r 4) (action_part r 5))
      (\<lambda>e. failure 403 ''action_forbidden'') (authorized env r body) w1 = (Inr (ActionSuccess out), v)" .
  then obtain visible w2 where allowed: "authorize env r (action_part r 2) (action_part r 4) (action_part r 5) w1 = (Inr visible, w2)"
      and "authorized env r body visible w2 = (Inr (ActionSuccess out), v)"
    unfolding handle_success by blast
  from authorized_success[OF this(2)] obtain w3 w6 where adm: "snapshot_admission env r w2 w3"
    "admitted env r body (action_part r 2) (action_part r 4) (action_part r 5) visible w3 = (Inr (ActionSuccess out), w6)"
    "v = (if snapshot_verb r then aeGiveSnapshotSlot env w6 else w6)" .
  have "w' = leave env r w6" using slot(2) adm(3) by (simp add: leave_def)
  with admitted_success[OF adm(2)] slot(1) authorize_allowed[OF allowed] adm(1) show ?thesis
    using action_resolve_bound by metis
qed

subsection \<open>A workspace with one repository\<close>

text \<open>The world counts what is done with the provider's own authority.\<close>

definition action_repo :: Repository where
  "action_repo = zero_repository\<lparr>rxSpec := (rxSpec zero_repository)\<lparr>rsConnectionRef := ''gh'', rsName := ''App'', rsOwner := ''acme''\<rparr>,
     rxStatus := (rxStatus zero_repository)\<lparr>rtRepoID := ''7''\<rparr>\<rparr>"

definition acme_connection :: Connection where
  "acme_connection = zero_connection\<lparr>cxSpec := (cxSpec zero_connection)\<lparr>csProvider := ProviderGitHub\<rparr>\<rparr>"

definition counted :: "'a \<Rightarrow> (nat, 'a) act" where
  "counted x n = (Inr x, Suc n)"

definition workspace_client :: "(nat, Repository dyn_object) act \<Rightarrow> bool \<Rightarrow> nat dyn" where
  "workspace_client repo allowed = \<lparr>dyRepository = (\<lambda>_. repo),
     dyConnection = (\<lambda>_. counted \<lparr>doUID = ''c1'', doDeleted = False, doSpec = JNull, doTyped = Some acme_connection\<rparr>),
     dySecret = (\<lambda>_ _. counted \<lparr>usData = Some [(''token'', JStr ''YWJj'')], usStringData = None\<rparr>), dyReview = (\<lambda>_. ret allowed)\<rparr>"

definition acme_object :: "Repository dyn_object" where
  "acme_object = \<lparr>doUID = ''r1'', doDeleted = False, doSpec = JNull, doTyped = Some action_repo\<rparr>"

definition acme_collaboration :: "nat collaboration" where
  "acme_collaboration = \<lparr>coBranchHead = (\<lambda>_ _ _ _. counted ''head''), coFindPullRequest = (\<lambda>_ _ _ _. counted None),
     coReadPullRequest = (\<lambda>_ _ _ _. failA ContextErr), coCreatePullRequest = (\<lambda>_ _ _ _. failA ContextErr),
     coUpdatePullRequest = (\<lambda>_ _ _ _ _. failA ContextErr), coPullRequestFeedback = (\<lambda>_ _ _ _ _. failA ContextErr),
     coListComments = (\<lambda>_ _ _ _ _. failA ContextErr), coAddComment = (\<lambda>_ _ _ _ _. failA ContextErr),
     coReplyToReview = (\<lambda>_ _ _ _ _ _. failA ContextErr)\<rparr>"

definition no_files :: "nat snapshot_fs" where
  "no_files = \<lparr>fsMkdirAll = (\<lambda>_. counted ()), fsWalk = (\<lambda>_. counted []), fsRemove = (\<lambda>_. counted ()), fsExists = (\<lambda>_. counted False),
     fsCreateTemp = (\<lambda>_. counted []), fsWrite = (\<lambda>_ _. counted ()), fsClose = (\<lambda>_. counted ()), fsRename = (\<lambda>_ _. counted ()),
     fsStat = (\<lambda>_. failA ContextErr), fsRead = (\<lambda>_ _. failA ContextErr), fsLock = Suc, fsUnlock = Suc, fsNow = (\<lambda>_. 0), fsTempDir = ''/tmp''\<rparr>"

definition acme_env :: "bool \<Rightarrow> nat action_env" where
  "acme_env allowed = \<lparr>aeCaller = Some (\<lambda>_ _. ret (workspace_client (ret acme_object) allowed)),
     aeAuthority = Some (\<lambda>_ _. counted (workspace_client (counted acme_object) True)),
     aeBackends = [(ProviderGitHub, \<lparr>abCollaboration = Some acme_collaboration, abListBranches = None, abSnapshots = None\<rparr>)],
     aeTokens = down_tokens, aeNamespaceEnv = [], aeSnapshotDir = [], aeFiles = no_files,
     aeTakeSlot = (\<lambda>w. (True, w)), aeGiveSlot = (\<lambda>w. w), aeTakeSnapshotSlot = (\<lambda>w. (True, w)), aeGiveSnapshotSlot = (\<lambda>w. w),
     aeSuccess = (\<lambda>_. Some ''ok'')\<rparr>"

definition head_call :: http_call where
  "head_call = \<lparr>hcMethod = ''POST'', hcPath = ''/actions/clusters/ws/repositories/app/branch_head/v1'', hcRawPath = [],
     hcHeader = [(''Authorization'', ''Bearer t''), (''X-Railgrid-Cluster'', ''ws'')]\<rparr>"

definition quote_keys :: "(string \<times> string) list \<Rightarrow> string" where
  "quote_keys kvs = compact_json (JObj [(''input'', JObj (map (\<lambda>kv. (fst kv, JStr (snd kv))) kvs))])"

definition head_body :: string where
  "head_body = quote_keys [(''repository'', ''Acme/app''), (''repositoryUID'', ''r1''), (''connectionUID'', ''c1''), (''branch'', ''main'')]"

theorem action_needs_review_witness:
  "keeps (\<lambda>n. n = 0) (ServeHTTP (acme_env False) head_call (counted head_body)) \<and>
   (\<forall>w. fst (ServeHTTP (acme_env False) head_call (counted head_body) w) \<in> Inr ` {HttpNotFound, HttpForbidden,
      ActionFailure 503 ''action_capacity_unavailable'' False, ActionFailure 403 ''action_forbidden'' False})"
  by (rule action_needs_review)
    (auto simp: acme_env_def workspace_client_def refused_client_def keeps_def ret_def)

text \<open>The action of the example: it reaches the head of a branch, for the input that the body gives.\<close>

theorem action_success_bound_witness:
  "\<exists>visible conn repo cred w1 w2 request. caller_allowed (acme_env True) head_call visible 0 w1 \<and>
     readActionRequest (counted head_body) 65536 w1 = (Inr request, w2) \<and> inRepository (aqInput request) = ''Acme/app'' \<and>
     (\<exists>w3. bound_to (acme_env True) head_call visible (aqInput request) conn repo cred w2 w3)"
proof -
  have run: "ServeHTTP (acme_env True) head_call (counted head_body) 0 = (Inr (ActionSuccess ''ok''), 6)" by code_simp
  have part: "action_part head_call 5 = ''branch_head''" by code_simp
  have repository: "inRepository (aqInput request) = ''Acme/app''"
    if "readActionRequest (counted head_body) 65536 v = (Inr request, v')" for v v' request
  proof -
    have "Option.bind (parse_json head_body) (\<lambda>v. decode_members request_member v \<lparr>aqRequestID = [], aqInput = zero_input\<rparr>) =
      Some \<lparr>aqRequestID = [], aqInput = zero_input\<lparr>inRepository := ''Acme/app'', inRepositoryUID := ''r1'',
        inConnectionUID := ''c1'', inBranch := ''main''\<rparr>\<rparr>" by code_simp
    with that show ?thesis by (auto simp: readActionRequest_def counted_def ret_def split: if_splits)
  qed
  from action_success_bound[OF run] obtain w1 visible w2 w3 request w4 conn repo cred w5 where
    slot: "aeTakeSlot (acme_env True) 0 = (True, w1)" and allowed: "caller_allowed (acme_env True) head_call visible w1 w2"
    and snapshot: "snapshot_admission (acme_env True) head_call w2 w3"
    and body: "readActionRequest (counted head_body) (if action_part head_call 5 = ''stage_snapshot'' then MaxInputBytes else 65536) w3 = (Inr request, w4)"
    and bound: "bound_to (acme_env True) head_call visible (aqInput request) conn repo cred w4 w5"
    by blast
  have start: "w1 = 0" using slot by (simp add: acme_env_def)
  have same: "w3 = w2" using snapshot by (simp add: snapshot_admission_def snapshot_verb_def part)
  have read: "readActionRequest (counted head_body) 65536 w2 = (Inr request, w4)" using body by (simp add: part same)
  show ?thesis using allowed bound repository[OF read] read unfolding start by blast
qed

end
