(* ===== verification/Action_Snapshots.thy ===== *)
theory Action_Snapshots
  imports Action_Server
begin

text \<open>
  A staged snapshot is loaded back unchanged. The locale \<open>snapshot_disk\<close> states what
  \<open>actions/snapshots.go\<close> relies on of the file system: \<open>holds w p\<close> is the content and the
  modification time of the file \<open>p\<close>. It is interpreted on a disk that keeps its files in a list.
\<close>

subsection \<open>The stored text\<close>

lemma b64_lax_strict: "b64_decode s = Some bs \<Longrightarrow> b64_decode_lax s = Some bs"
proof (induction s arbitrary: bs rule: b64_decode.induct)
  case (2 w x y z)
  have "b64_val (CHR ''A'') = Some 0" by code_simp
  with 2 show ?case
    by (auto simp: b64_last_def b64_last_lax_def b64_quantum_def split: if_splits option.splits)
qed (auto split: option.splits)

lemma set_b64_encode: "set (b64_encode bs) \<subseteq> insert (CHR ''='') (set b64_alphabet)"
proof -
  have "b64_char n \<in> set b64_alphabet" for n
    using b64_alphabet_props(2) unfolding b64_char_def by (metis mod_less_divisor nth_mem zero_less_numeral)
  then show ?thesis by (induction bs rule: b64_encode.induct) auto
qed

lemma b64_plain: "\<forall>c \<in> set (b64_encode bs). byte c < 128 \<and> c \<noteq> CHR 0x0D \<and> c \<noteq> CHR 0x0A"
proof -
  have "\<forall>c \<in> insert (CHR ''='') (set b64_alphabet). byte c < 128 \<and> c \<noteq> CHR 0x0D \<and> c \<noteq> CHR 0x0A" by code_simp
  with set_b64_encode show ?thesis by blast
qed

lemma b64_DecodeString_encode: "b64_DecodeString (b64_encode bs) = Some bs"
proof -
  have "filter (\<lambda>c. c \<notin> {CHR 0x0D, CHR 0x0A}) (b64_encode bs) = b64_encode bs"
    using b64_plain by (intro filter_True) auto
  then show ?thesis by (simp add: b64_DecodeString_def b64_lax_strict[OF b64_decode_encode])
qed

text \<open>\<open>json.Unmarshal\<close> of the compact text of an object whose members are strings.\<close>

definition member_text :: "string \<times> string \<Rightarrow> string" where
  "member_text kv = quote (fst kv) @ '':'' @ quote (snd kv)"

lemma read_flat:
  assumes "\<forall>kv \<in> set kvs. utf8_Valid (fst kv) \<and> utf8_Valid (snd kv)" and "kvs \<noteq> []" and "length kvs < k"
  shows "read_members k (Join '','' (map member_text kvs) @ CHR ''}'' # r) = Some (map (\<lambda>kv. (fst kv, JStr (snd kv))) kvs, r)"
  using assms
proof (induction kvs arbitrary: k)
  case (Cons kv kvs)
  obtain m where k: "k = Suc m" "0 < m" using Cons.prems(3) by (cases k) auto
  let ?rest = "if kvs = [] then CHR ''}'' # r else CHR '','' # Join '','' (map member_text kvs) @ CHR ''}'' # r"
  have shape: "Join '','' (map member_text (kv # kvs)) @ CHR ''}'' # r =
      CHR 0x22 # escape (fst kv) @ CHR 0x22 # CHR '':'' # CHR 0x22 # escape (snd kv) @ CHR 0x22 # ?rest"
    by (cases kvs) (simp_all add: member_text_def quote_def)
  have val: "read_value m (CHR 0x22 # escape (snd kv) @ CHR 0x22 # ?rest) = Some (JStr (snd kv), ?rest)"
    using Cons.prems(1) k(2) by (cases m) (simp_all add: HasPrefix_Cons read_string_escape Let_def)
  have "read_members m (Join '','' (map member_text kvs) @ CHR ''}'' # r) = Some (map (\<lambda>kv. (fst kv, JStr (snd kv))) kvs, r)"
    if "kvs \<noteq> []" using Cons.prems k that by (intro Cons.IH) auto
  then show ?case using Cons.prems(1) val unfolding shape k
    by (cases "kvs = []") (simp_all add: HasPrefix_Cons read_string_escape Let_def)
qed simp

lemma parse_flat:
  assumes "\<forall>kv \<in> set kvs. utf8_Valid (fst kv) \<and> utf8_Valid (snd kv)" and "kvs \<noteq> []"
  shows "parse_json (compact_json (JObj (map (\<lambda>kv. (fst kv, JStr (snd kv))) kvs))) = Some (JObj (map (\<lambda>kv. (fst kv, JStr (snd kv))) kvs))"
proof -
  let ?t = "Join '','' (map member_text kvs) @ ''}''"
  have long: "length kvs \<le> length (Join '','' (map member_text kvs))" by (induction kvs rule: induct_list012) (auto simp: member_text_def quote_def)
  have shape: "compact_json (JObj (map (\<lambda>kv. (fst kv, JStr (snd kv))) kvs)) = CHR ''{'' # ?t"
    by (simp add: comp_def member_text_def[abs_def])
  have "hd ?t = CHR 0x22" using assms(2) by (cases kvs rule: remdups_adj.cases) (simp_all add: member_text_def quote_def)
  moreover have "?t \<noteq> []" by simp
  ultimately obtain u where "?t = CHR 0x22 # u" by (metis list.collapse)
  then have "\<not> HasPrefix (skip_ws ?t) ''}''" by (simp add: HasPrefix_Cons)
  from read_value_open(2)[of "[]", OF _ this, of "2 * length (CHR ''{'' # ?t) + 1"]
  have "read_value (2 * length (CHR ''{'' # ?t) + 2) (CHR ''{'' # ?t) =
      map_option (\<lambda>(vs, r). (JObj vs, r)) (read_members (2 * length (CHR ''{'' # ?t) + 1) ?t)" by simp
  also have "\<dots> = Some (JObj (map (\<lambda>kv. (fst kv, JStr (snd kv))) kvs), [])"
    using long by (subst read_flat[OF assms]) simp_all
  finally show ?thesis unfolding shape parse_json_def by (simp add: skip_ws_def)
qed

lemma snapshot_text_roundtrip:
  assumes "utf8_Valid (snBaseCommit s)" "utf8_Valid (snCommit s)" "utf8_Valid (snTree s)"
  shows "Option.bind (parse_json (compact_json (snapshot_json s))) (\<lambda>v. decode_members (snapshot_member False) v zero_snapshot) = Some s"
proof -
  let ?kvs = "[(''baseCommit'', snBaseCommit s), (''commit'', snCommit s), (''tree'', snTree s), (''bundle'', b64_encode (snBundle s))]"
  have names: "utf8_Valid ''baseCommit''" "utf8_Valid ''commit''" "utf8_Valid ''tree''" "utf8_Valid ''bundle''"
    by (rule utf8_Valid_ascii, code_simp)+
  have "utf8_Valid (b64_encode (snBundle s))" using b64_plain by (intro utf8_Valid_ascii) blast
  then have "parse_json (compact_json (snapshot_json s)) = Some (snapshot_json s)"
    using parse_flat[of ?kvs] assms names by (simp add: snapshot_json_def del: compact_json.simps)
  then show ?thesis
    by (simp add: snapshot_json_def decode_members_def snapshot_member_def field_name_def Let_def decode_bytes_def
        b64_DecodeString_encode zero_snapshot_def)
qed

subsection \<open>Paths\<close>

lemma path_Clean_suffix: "plain_elem x \<Longrightarrow> HasSuffix (path_Clean (a @ ''/'' @ x)) x"
  unfolding HasSuffix_iff using path_Clean_snoc by blast

lemma hex_plain: "n \<noteq> 0 \<Longrightarrow> length bs = n \<Longrightarrow> plain_elem (hex_encode bs @ ''.json'')"
proof -
  assume "n \<noteq> 0" "length bs = n"
  then have "length (hex_encode bs @ ''.json'') > 5" by (cases bs) simp_all
  moreover have "slash \<notin> set (hex_encode bs)" using set_hex_encode[of bs] by auto
  ultimately show ?thesis by (auto simp: plain_elem_def)
qed

definition snapshot_path :: "'w action_env \<Rightarrow> http_call \<Rightarrow> string \<Rightarrow> Input \<Rightarrow> string \<Rightarrow> string" where
  "snapshot_path env r cluster i ref = path_Clean (snapshotScope env r cluster i @ ''/'' @ ref @ ''.json'')"

lemma snapshot_path_json: "HasSuffix (snapshot_path env r cluster i (hex_encode (sha256 data))) ''.json''"
proof -
  have "HasSuffix (snapshot_path env r cluster i (hex_encode (sha256 data))) (hex_encode (sha256 data) @ ''.json'')"
    unfolding snapshot_path_def by (rule path_Clean_suffix) (rule hex_plain[of 32], simp_all)
  then show ?thesis unfolding HasSuffix_iff by (metis append.assoc)
qed

subsection \<open>What the file system promises\<close>

definition untouched :: "'w snapshot_fs \<Rightarrow> ('w \<Rightarrow> string \<Rightarrow> (bytes \<times> gotime) option) \<Rightarrow> string \<Rightarrow> gotime \<Rightarrow> 'w \<Rightarrow> bool" where
  "untouched fs holds p t w \<longleftrightarrow> holds w p = None \<and> t \<le> fsNow fs w"

locale snapshot_disk =
  fixes fs :: "'w snapshot_fs" and holds :: "'w \<Rightarrow> string \<Rightarrow> (bytes \<times> gotime) option"
  assumes quiet: "keeps (untouched fs holds p t) (fsMkdirAll fs d)" "keeps (untouched fs holds p t) (fsWalk fs d)" "keeps (untouched fs holds p t) (fsRemove fs q)"
      "keeps (untouched fs holds p t) (fsExists fs q)" "untouched fs holds p t w \<Longrightarrow> untouched fs holds p t (fsLock fs w)"
    and create: "HasSuffix p ''.json'' \<Longrightarrow> keeps (untouched fs holds p t) (fsCreateTemp fs d)"
      "fsCreateTemp fs d w = (Inr q, w') \<Longrightarrow> \<not> HasSuffix q ''.json''"
    and exists: "fsExists fs p w = (Inr True, w') \<Longrightarrow> holds w p \<noteq> None"
    and wrote: "fsWrite fs q data w = (Inr u, w') \<Longrightarrow> \<exists>t. holds w' q = Some (data, t) \<and> fsNow fs w \<le> t"
    and closed: "fsClose fs q w = (Inr u, w') \<Longrightarrow> holds w' = holds w"
    and renamed: "fsRename fs q p w = (Inr u, w') \<Longrightarrow> holds w' p = holds w q"
    and removed: "p \<noteq> q \<Longrightarrow> holds (snd (fsRemove fs q w)) p = holds w p"
    and unlocked: "holds (fsUnlock fs w) = holds w"
    and stat: "holds w p = Some (data, t) \<Longrightarrow> fsStat fs p w = (Inr \<lparr>fiRegular = True, fiModTime = t, fiSize = int (length data)\<rparr>, w)"
    and contents: "holds w p = Some (data, t) \<Longrightarrow> fsRead fs p n w = (Inr (take n data), w)"
begin

lemma keeps_count_entry: "keeps (untouched fs holds p t) (count_entry fs e n)"
  unfolding count_entry_def
  by (cases e) (auto intro!: keeps_failA keeps_ret keeps_bindA keeps_lift keeps_if keeps_readA quiet(3))

text \<open>A stored snapshot is in place, no older than the call.\<close>

lemma stored:
  assumes "store_snapshot fs scope p data w = (Inr u, w')" and "HasSuffix p ''.json''" and "untouched fs holds p t w"
  shows "\<exists>m. holds w' p = Some (data, m) \<and> t \<le> m"
proof -
  from assms(1)[unfolded store_snapshot_def bindA_Inr_iff] obtain q w1
    where temp: "fsCreateTemp fs scope w = (Inr q, w1)"
      and rest: "deferA (\<lambda>w. snd (fsRemove fs q w)) (handle (fsWrite fs q data)
          (\<lambda>e. bindA (\<lambda>w. (Inr (), snd (fsClose fs q w))) (\<lambda>u. failA e))
          (\<lambda>u. bindA (fsClose fs q) (\<lambda>u. fsRename fs q p))) w1 = (Inr u, w')" by blast
  have now: "t \<le> fsNow fs w1"
    using keepsD[OF create(1)[OF assms(2)] assms(3), of scope] temp by (simp add: untouched_def)
  have neq: "p \<noteq> q" using create(2)[OF temp] assms(2) by blast
  obtain rr w2 where put: "fsWrite fs q data w1 = (rr, w2)" by fastforce
  show ?thesis
  proof (cases rr)
    case (Inl e)
    with put rest show ?thesis by (simp add: deferA_def bindA_def handle_def failA_def split: prod.splits)
  next
    case (Inr x)
    from wrote[OF put[unfolded Inr]] obtain m where m: "holds w2 q = Some (data, m)" "fsNow fs w1 \<le> m" by blast
    from rest put Inr obtain w3 w4 y z where "fsClose fs q w2 = (Inr y, w3)" "fsRename fs q p w3 = (Inr z, w4)" "w' = snd (fsRemove fs q w4)"
      by (auto simp: deferA_def bindA_def handle_def failA_def split: prod.splits sum.splits)
    then have "holds w' p = Some (data, m)" using closed renamed removed[OF neq] m(1) by metis
    with m(2) now show ?thesis by (intro exI[of _ m]) auto
  qed
qed

lemma stored_locked:
  assumes "stage_locked fs scope root p ref data w = (Inr x, w')" and "HasSuffix p ''.json''" and "untouched fs holds p t w"
  shows "x = OStaged ref \<and> (\<exists>m. holds w' p = Some (data, m) \<and> t \<le> m)"
proof -
  let ?u = "untouched fs holds p t"
  let ?last = "\<lambda>there n. if there then ret (OStaged ref)
     else if fst n \<ge> 16 \<or> snd n + int (length data) > 256 * 2 ^ 20 then failA (Plain ''tenant snapshot quota reached'')
     else bindA (store_snapshot fs scope p data) (\<lambda>u. ret (OStaged ref))"
  from assms(1)[unfolded stage_locked_def bindA_Inr_iff[of _ "\<lambda>x. bindA _ _"]] obtain v1 v2 v3 entries n a where
      1: "fsMkdirAll fs scope w = (Inr a, v1)" and 2: "fsWalk fs root v1 = (Inr entries, v2)" and
      3: "forA (count_entry fs) entries (0, 0) v2 = (Inr n, v3)" and
      "bindA (fsExists fs p) (\<lambda>there. ?last there n) v3 = (Inr x, w')"
    unfolding bindA_Inr_iff by blast
  then obtain there v4 where 4: "fsExists fs p v3 = (Inr there, v4)" and 5: "?last there n v4 = (Inr x, w')"
    unfolding bindA_Inr_iff by blast
  have u1: "?u v1" using keepsD[OF quiet(1) assms(3)] 1 by (metis snd_conv)
  have u2: "?u v2" using keepsD[OF quiet(2) u1] 2 by (metis snd_conv)
  have u3: "?u v3" using keepsD[OF keeps_forA[of ?u "count_entry fs", OF keeps_count_entry] u2] 3 by (metis snd_conv)
  have u4: "?u v4" using keepsD[OF quiet(4) u3] 4 by (metis snd_conv)
  have "\<not> there"
  proof
    assume there
    with 4 have "fsExists fs p v3 = (Inr True, v4)" by simp
    from exists[OF this] u3 show False by (simp add: untouched_def)
  qed
  with 5 obtain u where put: "store_snapshot fs scope p data v4 = (Inr u, w')" and "x = OStaged ref"
    by (auto simp: bindA_Inr_iff split: if_splits)
  with stored[OF put assms(2) u4] show ?thesis by blast
qed

text \<open>What \<open>stage\<close> leaves when the snapshot was not there yet, and what \<open>loadSnapshot\<close> makes of it.\<close>

lemma staged:
  assumes "stage env r cluster i w = (Inr (OStaged ref), w')" and "inSnapshot i = Some s" and "aeFiles env = fs"
    and "holds (fsLock fs w) (snapshot_path env r cluster i (hex_encode (sha256 (compact_json (snapshot_json s))))) = None"
  shows "ref = hex_encode (sha256 (compact_json (snapshot_json s))) \<and> length (compact_json (snapshot_json s)) \<le> MaxInputBytes \<and>
    (\<exists>m. holds w' (snapshot_path env r cluster i ref) = Some (compact_json (snapshot_json s), m) \<and> fsNow fs (fsLock fs w) \<le> m)"
proof -
  define data where "data = compact_json (snapshot_json s)"
  let ?ref = "hex_encode (sha256 data)" and ?scope = "snapshotScope env r cluster i"
  let ?p = "snapshot_path env r cluster i ?ref"
  have small: "length data \<le> MaxInputBytes"
    and "\<exists>w1. stage_locked fs ?scope (tenant_root env cluster) ?p ?ref data (fsLock fs w) = (Inr (OStaged ref), w1) \<and> w' = fsUnlock fs w1"
    using assms(1) unfolding stage_def Let_def assms(2,3) data_def snapshot_path_def
    by (auto simp: deferA_def split: if_splits prod.splits)
  then obtain w1 where run: "stage_locked fs ?scope (tenant_root env cluster) ?p ?ref data (fsLock fs w) = (Inr (OStaged ref), w1)"
    and w': "w' = fsUnlock fs w1" by blast
  have "untouched fs holds ?p (fsNow fs (fsLock fs w)) (fsLock fs w)" using assms(4) by (simp add: untouched_def data_def)
  from stored_locked[OF run snapshot_path_json this] small show ?thesis unfolding w' unlocked data_def[symmetric] by auto
qed

lemma loaded:
  assumes "holds v (snapshot_path env r cluster i ref) = Some (compact_json (snapshot_json s), m)" and "aeFiles env = fs"
    and "ref = hex_encode (sha256 (compact_json (snapshot_json s)))" and "length (compact_json (snapshot_json s)) \<le> MaxInputBytes"
    and "fsNow fs v - m \<le> snapshotTTL" and "utf8_Valid (snBaseCommit s)" "utf8_Valid (snCommit s)" "utf8_Valid (snTree s)"
  shows "loadSnapshot env r cluster (i\<lparr>inSnapshot := None, inBundleRef := ref\<rparr>) v = (Inr s, v)"
proof -
  define data where "data = compact_json (snapshot_json s)"
  let ?i = "i\<lparr>inSnapshot := None, inBundleRef := ref\<rparr>"
  have scope: "path_Clean (snapshotScope env r cluster ?i @ ''/'' @ ref @ ''.json'') = snapshot_path env r cluster i ref"
    by (simp add: snapshot_path_def snapshotScope_def scope_text_def)
  have "list_all (\<lambda>c. CHR ''a'' \<le> c \<and> c \<le> CHR ''f'' \<or> CHR ''0'' \<le> c \<and> c \<le> CHR ''9'') ref"
    using set_hex_encode[of "sha256 data"] unfolding assms(3) data_def list_all_iff by (auto simp: less_eq_char_def)
  then have digest: "snapshotDigest ref" unfolding snapshotDigest_def assms(3) by simp
  have "fsRead fs (snapshot_path env r cluster i ref) (MaxInputBytes + 1) v = (Inr data, v)"
    using contents[OF assms(1)] assms(4) by (simp add: data_def)
  moreover have "inBundleRef ?i = ref" by simp
  ultimately show ?thesis
    using digest stat[OF assms(1)] assms(4,5) assms(3)[symmetric] snapshot_text_roundtrip[OF assms(6-8)]
    unfolding loadSnapshot_def Let_def \<open>inBundleRef ?i = ref\<close> scope assms(2) data_def[symmetric] by (simp add: bind_read)
qed

end

subsection \<open>A disk\<close>

text \<open>The files with their content and modification time, in the order of a walk, and the clock.\<close>

record disk =
  dkFiles :: "(string \<times> bytes \<times> gotime) list"
  dkNow :: gotime

definition disk_holds :: "disk \<Rightarrow> string \<Rightarrow> (bytes \<times> gotime) option" where
  "disk_holds w p = map_of (dkFiles w) p"

definition disk_put :: "string \<Rightarrow> bytes \<times> gotime \<Rightarrow> disk \<Rightarrow> disk" where
  "disk_put p x w = w\<lparr>dkFiles := (p, x) # filter (\<lambda>e. fst e \<noteq> p) (dkFiles w)\<rparr>"

definition disk_drop :: "string \<Rightarrow> disk \<Rightarrow> disk" where
  "disk_drop p w = w\<lparr>dkFiles := filter (\<lambda>e. fst e \<noteq> p) (dkFiles w)\<rparr>"

definition missing :: gerror where
  "missing = Plain ''no such file or directory''"

definition disk_info :: "bytes \<times> gotime \<Rightarrow> file_info" where
  "disk_info x = \<lparr>fiRegular = True, fiModTime = snd x, fiSize = int (length (fst x))\<rparr>"

definition disk_get :: "(bytes \<times> gotime \<Rightarrow> 'a) \<Rightarrow> string \<Rightarrow> (disk, 'a) act" where
  "disk_get f p w = (case disk_holds w p of None \<Rightarrow> (Inl missing, w) | Some x \<Rightarrow> (Inr (f x), w))"

text \<open>A temporary name longer than every name in use is new.\<close>

definition disk_temp :: "string \<Rightarrow> disk \<Rightarrow> string" where
  "disk_temp d w = d @ ''/upload-'' @ replicate (length (concat (map fst (dkFiles w)))) (CHR ''0'')"

definition disk_fs :: "disk snapshot_fs" where
  "disk_fs =
     \<lparr>fsMkdirAll = (\<lambda>d. ret ()),
      fsWalk = (\<lambda>d w. (Inr (map (\<lambda>e. WalkFile (fst e) (Inr (disk_info (snd e)))) (filter (\<lambda>e. HasPrefix (fst e) (d @ ''/'')) (dkFiles w))), w)),
      fsRemove = (\<lambda>p w. if disk_holds w p = None then (Inl missing, w) else (Inr (), disk_drop p w)),
      fsExists = (\<lambda>p w. (Inr (disk_holds w p \<noteq> None), w)),
      fsCreateTemp = (\<lambda>d w. (Inr (disk_temp d w), disk_put (disk_temp d w) ([], dkNow w) w)),
      fsWrite = (\<lambda>p data w. (Inr (), disk_put p (data, dkNow w) w)),
      fsClose = (\<lambda>p. ret ()),
      fsRename = (\<lambda>q p w. case disk_holds w q of None \<Rightarrow> (Inl missing, w) | Some x \<Rightarrow> (Inr (), disk_put p x (disk_drop q w))),
      fsStat = disk_get disk_info,
      fsRead = (\<lambda>p n. disk_get (\<lambda>x. take n (fst x)) p),
      fsLock = (\<lambda>w. w), fsUnlock = (\<lambda>w. w), fsNow = dkNow, fsTempDir = ''/tmp''\<rparr>"

lemma disk_holds_simps [simp]:
  "disk_holds (disk_put p x w) q = (if q = p then Some x else disk_holds w q)"
  "disk_holds (disk_drop p w) q = (if q = p then None else disk_holds w q)"
  "dkNow (disk_put p x w) = dkNow w" "dkNow (disk_drop p w) = dkNow w"
proof -
  have "map_of (filter (\<lambda>e. fst e \<noteq> p) xs) q = (if q = p then None else map_of xs q)" for xs :: "(string \<times> bytes \<times> gotime) list"
    by (induction xs) auto
  then show "disk_holds (disk_put p x w) q = (if q = p then Some x else disk_holds w q)"
    "disk_holds (disk_drop p w) q = (if q = p then None else disk_holds w q)"
    by (simp_all add: disk_holds_def disk_put_def disk_drop_def)
qed (simp_all add: disk_put_def disk_drop_def)

lemma disk_temp_not_json: "\<not> HasSuffix (disk_temp d w) ''.json''"
proof
  assume "HasSuffix (disk_temp d w) ''.json''"
  then obtain t where "disk_temp d w = t @ ''.json''" unfolding HasSuffix_iff by blast
  then have "last (disk_temp d w) = CHR ''n''" by simp
  moreover have "last (disk_temp d w) \<in> {CHR ''-'', CHR ''0''}"
    by (cases "length (concat (map fst (dkFiles w)))") (simp_all add: disk_temp_def last_append del: length_concat)
  ultimately show False by simp
qed

interpretation disk: snapshot_disk disk_fs disk_holds
proof unfold_locales
  fix p t d q and w w' :: disk and u data n
  show "keeps (untouched disk_fs disk_holds p t) (fsMkdirAll disk_fs d)" "keeps (untouched disk_fs disk_holds p t) (fsWalk disk_fs d)"
    "keeps (untouched disk_fs disk_holds p t) (fsRemove disk_fs q)" "keeps (untouched disk_fs disk_holds p t) (fsExists disk_fs q)"
    "untouched disk_fs disk_holds p t w \<Longrightarrow> untouched disk_fs disk_holds p t (fsLock disk_fs w)"
    by (simp_all add: keeps_def disk_fs_def untouched_def ret_def)
  show "keeps (untouched disk_fs disk_holds p t) (fsCreateTemp disk_fs d)" if "HasSuffix p ''.json''"
    using that disk_temp_not_json by (auto simp: keeps_def disk_fs_def untouched_def)
  show "\<not> HasSuffix q ''.json''" if "fsCreateTemp disk_fs d w = (Inr q, w')"
    using that disk_temp_not_json by (auto simp: disk_fs_def)
qed (auto simp: disk_fs_def ret_def disk_get_def disk_info_def split: option.splits if_splits)

lemma disk_clock [simp]: "fsLock disk_fs w = w" "fsUnlock disk_fs w = w" "fsNow disk_fs = dkNow"
  by (simp_all add: disk_fs_def)

text \<open>
  (C16) A staged snapshot is loaded back unchanged: after a successful upload of a snapshot that
  was not stored before (its three commit and tree names valid UTF-8), the same caller, with the
  same cluster, repository and connection UIDs, loads with the returned reference exactly the
  uploaded base commit, commit, tree and bundle, in every later state of the disk that still has
  the file and whose clock is within an hour of the upload.
\<close>

theorem staged_snapshot_loads:
  assumes "stage env r cluster i w = (Inr (OStaged ref), w')" and "inSnapshot i = Some s" and "aeFiles env = disk_fs"
    and "disk_holds w (snapshot_path env r cluster i (hex_encode (sha256 (compact_json (snapshot_json s))))) = None"
    and "utf8_Valid (snBaseCommit s)" "utf8_Valid (snCommit s)" "utf8_Valid (snTree s)"
    and "disk_holds v (snapshot_path env r cluster i ref) = disk_holds w' (snapshot_path env r cluster i ref)"
    and "dkNow v \<le> dkNow w + snapshotTTL"
  shows "loadSnapshot env r cluster (i\<lparr>inSnapshot := None, inBundleRef := ref\<rparr>) v = (Inr s, v)"
proof -
  from disk.staged[OF assms(1-3), unfolded disk_clock, OF assms(4)] obtain m
    where ref: "ref = hex_encode (sha256 (compact_json (snapshot_json s)))" "length (compact_json (snapshot_json s)) \<le> MaxInputBytes"
      and m: "disk_holds w' (snapshot_path env r cluster i ref) = Some (compact_json (snapshot_json s), m)" "dkNow w \<le> m" by blast
  show ?thesis
    by (rule disk.loaded[OF assms(8)[unfolded m(1)] assms(3) ref _ assms(5-7)]) (use m(2) assms(9) in \<open>simp\<close>)
qed

subsection \<open>An upload\<close>

definition snapshot_env :: "disk action_env" where
  "snapshot_env = \<lparr>aeCaller = None, aeAuthority = None, aeBackends = [], aeTokens = down_tokens, aeNamespaceEnv = [],
     aeSnapshotDir = ''/snapshots'', aeFiles = disk_fs, aeTakeSlot = (\<lambda>w. (True, w)), aeGiveSlot = (\<lambda>w. w),
     aeTakeSnapshotSlot = (\<lambda>w. (True, w)), aeGiveSnapshotSlot = (\<lambda>w. w), aeSuccess = (\<lambda>_. Some [])\<rparr>"

definition upload_call :: http_call where
  "upload_call = \<lparr>hcMethod = ''POST'', hcPath = [], hcRawPath = [], hcHeader = [(''Authorization'', ''Bearer t'')]\<rparr>"

definition uploaded :: Snapshot where
  "uploaded = \<lparr>snBaseCommit = ''b'', snCommit = ''c'', snTree = ''t'', snBundle = ''pack''\<rparr>"

definition upload_input :: Input where
  "upload_input = zero_input\<lparr>inRepositoryUID := ''r'', inConnectionUID := ''x'', inSnapshot := Some uploaded\<rparr>"

lemma upload_runs:
  "fst (stage snapshot_env upload_call ''ws'' upload_input \<lparr>dkFiles = [], dkNow = 0\<rparr>) =
     Inr (OStaged (hex_encode (sha256 (compact_json (snapshot_json uploaded)))))"
  "dkNow (snd (stage snapshot_env upload_call ''ws'' upload_input \<lparr>dkFiles = [], dkNow = 0\<rparr>)) = 0"
proof -
  have small: "length (compact_json (snapshot_json uploaded)) \<le> 1000" by code_simp
  have input: "inSnapshot upload_input = Some uploaded" "snBundle uploaded = ''pack''" "aeFiles snapshot_env = disk_fs"
    by (simp_all add: upload_input_def uploaded_def snapshot_env_def)
  define data where "data = compact_json (snapshot_json uploaded)"
  have "fst (stage_locked disk_fs scope root p ref data \<lparr>dkFiles = [], dkNow = 0\<rparr>) = Inr (OStaged ref) \<and>
      dkNow (snd (stage_locked disk_fs scope root p ref data \<lparr>dkFiles = [], dkNow = 0\<rparr>)) = 0" for scope root p ref
    using small unfolding data_def[symmetric]
    by (simp add: stage_locked_def store_snapshot_def bindA_def handle_def disk_fs_def disk_holds_def disk_put_def disk_drop_def
        ret_def deferA_def)
  then show "fst (stage snapshot_env upload_call ''ws'' upload_input \<lparr>dkFiles = [], dkNow = 0\<rparr>) =
     Inr (OStaged (hex_encode (sha256 (compact_json (snapshot_json uploaded)))))"
    "dkNow (snd (stage snapshot_env upload_call ''ws'' upload_input \<lparr>dkFiles = [], dkNow = 0\<rparr>)) = 0"
    using small unfolding stage_def Let_def input data_def by (simp_all add: input(2) MaxInputBytes_def deferA_def case_prod_beta)
qed

theorem staged_snapshot_loads_witness:
  "loadSnapshot snapshot_env upload_call ''ws''
     (upload_input\<lparr>inSnapshot := None, inBundleRef := hex_encode (sha256 (compact_json (snapshot_json uploaded)))\<rparr>)
     (snd (stage snapshot_env upload_call ''ws'' upload_input \<lparr>dkFiles = [], dkNow = 0\<rparr>)) =
   (Inr uploaded, snd (stage snapshot_env upload_call ''ws'' upload_input \<lparr>dkFiles = [], dkNow = 0\<rparr>))"
proof (rule staged_snapshot_loads[where w = "\<lparr>dkFiles = [], dkNow = 0\<rparr>"])
  show "stage snapshot_env upload_call ''ws'' upload_input \<lparr>dkFiles = [], dkNow = 0\<rparr> =
     (Inr (OStaged (hex_encode (sha256 (compact_json (snapshot_json uploaded))))),
      snd (stage snapshot_env upload_call ''ws'' upload_input \<lparr>dkFiles = [], dkNow = 0\<rparr>))"
    using upload_runs(1) by (simp add: prod_eq_iff)
  show "utf8_Valid (snBaseCommit uploaded)" "utf8_Valid (snCommit uploaded)" "utf8_Valid (snTree uploaded)" by code_simp+
  show "dkNow (snd (stage snapshot_env upload_call ''ws'' upload_input \<lparr>dkFiles = [], dkNow = 0\<rparr>)) \<le>
      dkNow \<lparr>dkFiles = [], dkNow = 0\<rparr> + snapshotTTL" by (simp add: upload_runs(2) snapshotTTL_def time_units)
qed (simp_all add: upload_input_def snapshot_env_def disk_holds_def)

end
