(* ===== verification/Mcp_Server.thy ===== *)
theory Mcp_Server
  imports Request_Controllers Github_Snapshot
begin

text \<open>
  \<open>mcpserver/\<close>: the tools. Each acts on the caller's workspace with the caller's own token:
  \<open>context.go\<close> takes the identity from the request, \<open>tools.go\<close> lists, \<open>tools_write.go\<close> creates and
  deletes objects and commits files, \<open>tools_checkout.go\<close> and \<open>tools_buildstatus.go\<close> run a transient
  request. An unstructured object is its JSON; the accessors of the API machinery, the clock, the
  timer and the clients are operations of \<open>mcp_env\<close>. Waiting for a request may not end on its own,
  so what waits is of type \<open>option\<close>, and \<open>None\<close> is not returning.
\<close>

subsection \<open>The caller\<close>

record identity =
  idTenant :: string
  idClusterID :: string
  idUser :: string
  idToken :: string

text \<open>The headers and query parameters of a request; an absent one reads as empty.\<close>

record mcp_request =
  mqHeader :: "(string \<times> string) list"
  mqQuery :: "(string \<times> string) list"

definition bearerToken :: "mcp_request \<Rightarrow> string" where
  "bearerToken r =
     (let auth = map_get (mqHeader r) ''Authorization'' in
      if HasPrefix auth ''Bearer '' then TrimPrefix auth ''Bearer '' else [])"

definition or_query :: "mcp_request \<Rightarrow> string \<Rightarrow> string \<Rightarrow> string" where
  "or_query r v name = (if v = [] then map_get (mqQuery r) name else v)"

definition identityFromRequest :: "string \<Rightarrow> mcp_request \<Rightarrow> identity" where
  "identityFromRequest devEnv r =
     (let tenant = map_get (mqHeader r) ''X-Railgrid-Tenant''; clusterID = map_get (mqHeader r) ''X-Railgrid-Cluster'';
          user = map_get (mqHeader r) ''X-Railgrid-User''; token = bearerToken r in
      if devEnv = ''true''
      then \<lparr>idTenant = or_query r tenant ''tenant'', idClusterID = or_query r clusterID ''cluster'',
            idUser = or_query r user ''user'', idToken = or_query r token ''token''\<rparr>
      else \<lparr>idTenant = tenant, idClusterID = clusterID, idUser = user, idToken = token\<rparr>)"

subsection \<open>What the tools are made of\<close>

text \<open>The dynamic client; the first argument of an operation is the resource.\<close>

record 'w dynamic =
  dnGet :: "string \<Rightarrow> string \<Rightarrow> ('w, json) act"
  dnList :: "string \<Rightarrow> ('w, json list) act"
  dnCreate :: "string \<Rightarrow> json \<Rightarrow> ('w, json) act"
  dnDelete :: "string \<Rightarrow> string \<Rightarrow> ('w, unit) act"

text \<open>
  \<open>meNested\<close> is the field at a path, if the steps are objects; \<open>meAnnotation\<close> reads
  \<open>GetAnnotations\<close> (empty if absent) and \<open>meCreated\<close> \<open>GetCreationTimestamp\<close>; \<open>meRepository\<close> converts to
  the typed object. \<open>meTick\<close> blocks until the next tick of the timer (\<open>True\<close>) or the end of the
  waiting context (\<open>False\<close>), \<open>meExpired\<close> is whether that context has ended.
\<close>

record 'w mcp_env =
  meTenant :: "(string \<Rightarrow> string \<Rightarrow> ('w, 'w dynamic) act) option"
  meBundles :: "'w bundle_api option"
  meNested :: "json \<Rightarrow> string list \<Rightarrow> json option"
  meAnnotation :: "json \<Rightarrow> string \<Rightarrow> string"
  meCreated :: "json \<Rightarrow> gotime"
  meRepository :: "json \<Rightarrow> gerror + Repository"
  meParseTime :: "string \<Rightarrow> gotime option"
  meNow :: "'w \<Rightarrow> gotime"
  meTick :: "'w \<Rightarrow> bool \<times> 'w"
  meExpired :: "'w \<Rightarrow> bool"

definition connectionsGVR :: string where "connectionsGVR = ''connections''"
definition repositoriesGVR :: string where "repositoriesGVR = ''repositories''"
definition repositoryCommitsGVR :: string where "repositoryCommitsGVR = ''repositorycommits''"
definition repositoryCheckoutsGVR :: string where "repositoryCheckoutsGVR = ''repositorycheckouts''"
definition repositoryBuildStatusesGVR :: string where "repositoryBuildStatusesGVR = ''repositorybuildstatuses''"
definition deploykeysGVR :: string where "deploykeysGVR = ''deploykeys''"
definition collaboratorsGVR :: string where "collaboratorsGVR = ''collaborators''"
definition schemeGroupVersion :: string where "schemeGroupVersion = ''code.railgrid.ai/v1alpha1''"

definition nested_string :: "'w mcp_env \<Rightarrow> json \<Rightarrow> string list \<Rightarrow> string" where
  "nested_string env obj p = (case meNested env obj p of Some (JStr s) \<Rightarrow> s | _ \<Rightarrow> [])"

definition nested_bool :: "'w mcp_env \<Rightarrow> json \<Rightarrow> string list \<Rightarrow> bool" where
  "nested_bool env obj p = (case meNested env obj p of Some (JBool b) \<Rightarrow> b | _ \<Rightarrow> False)"

definition nested_slice :: "'w mcp_env \<Rightarrow> json \<Rightarrow> string list \<Rightarrow> json list" where
  "nested_slice env obj p = (case meNested env obj p of Some (JArr vs) \<Rightarrow> vs | _ \<Rightarrow> [])"

definition json_field :: "json \<Rightarrow> string \<Rightarrow> json option" where
  "json_field v k = (case v of JObj kvs \<Rightarrow> map_of kvs k | _ \<Rightarrow> None)"

definition json_string :: "json \<Rightarrow> string \<Rightarrow> string" where
  "json_string v k = (case json_field v k of Some (JStr s) \<Rightarrow> s | _ \<Rightarrow> [])"

definition object_name :: "'w mcp_env \<Rightarrow> json \<Rightarrow> string" where
  "object_name env obj = nested_string env obj [''metadata'', ''name'']"

definition em_dash :: string where "em_dash = [CHR 0xE2, CHR 0x80, CHR 0x94]"

definition tenantClient :: "'w mcp_env \<Rightarrow> identity \<Rightarrow> ('w, 'w dynamic) act" where
  "tenantClient env ident =
     (if idTenant ident = [] then failA (Plain (''no tenant identity on this request '' @ em_dash @ '' bearer token did not resolve to a workspace''))
      else if idClusterID ident = [] then failA (Plain (''no workspace cluster on this request (X-Railgrid-Cluster missing) '' @ em_dash @
        '' cannot address the tenant workspace by ID''))
      else if idToken ident = [] then failA (Plain (''no bearer token on this request '' @ em_dash @ '' the MCP request must carry the caller'' @ CHR 0x27 # ''s credentials''))
      else case meTenant env of
        None \<Rightarrow> failA (Plain ''tenant client unavailable (provider kubeconfig not set)'')
      | Some tenant \<Rightarrow> tenant (idClusterID ident) (idToken ident))"

subsection \<open>Listing\<close>

definition conditionTrue :: "'w mcp_env \<Rightarrow> json \<Rightarrow> string \<Rightarrow> bool" where
  "conditionTrue env u condType =
     list_ex (\<lambda>m. json_field m ''type'' = Some (JStr condType) \<and> json_field m ''status'' = Some (JStr ''True''))
       (nested_slice env u [''status'', ''conditions''])"

record connectionSummary =
  nsName :: string
  nsProvider :: string
  nsOwner :: string
  nsLogin :: string
  nsValidated :: bool

record repositorySummary =
  rrName :: string
  rrConnection :: string
  rrRepo :: string
  rrVisibility :: string
  rrHTMLURL :: string
  rrReady :: bool

definition connection_summary :: "'w mcp_env \<Rightarrow> json \<Rightarrow> connectionSummary" where
  "connection_summary env u = \<lparr>nsName = object_name env u, nsProvider = nested_string env u [''spec'', ''provider''],
     nsOwner = nested_string env u [''spec'', ''owner''], nsLogin = nested_string env u [''status'', ''login''],
     nsValidated = conditionTrue env u ConditionValidated\<rparr>"

definition repository_summary :: "'w mcp_env \<Rightarrow> json \<Rightarrow> repositorySummary" where
  "repository_summary env u = \<lparr>rrName = object_name env u, rrConnection = nested_string env u [''spec'', ''connectionRef''],
     rrRepo = nested_string env u [''spec'', ''name''], rrVisibility = nested_string env u [''spec'', ''visibility''],
     rrHTMLURL = nested_string env u [''status'', ''htmlURL''], rrReady = conditionTrue env u ConditionReady\<rparr>"

definition list_connections :: "'w mcp_env \<Rightarrow> identity \<Rightarrow> ('w, connectionSummary list) act" where
  "list_connections env ident =
     bindA (tenantClient env ident) (\<lambda>dyn.
     handle (dnList dyn connectionsGVR) (\<lambda>e. failA (Wrapped ''list connections: '' e []))
       (\<lambda>items. ret (map (connection_summary env) items)))"

definition list_repositories :: "'w mcp_env \<Rightarrow> identity \<Rightarrow> ('w, repositorySummary list) act" where
  "list_repositories env ident =
     bindA (tenantClient env ident) (\<lambda>dyn.
     handle (dnList dyn repositoriesGVR) (\<lambda>e. failA (Wrapped ''list repositories: '' e []))
       (\<lambda>items. ret (map (repository_summary env) items)))"

subsection \<open>Creating and deleting objects\<close>

definition createCR :: "'w dynamic \<Rightarrow> string \<Rightarrow> string \<Rightarrow> string \<Rightarrow> (string \<times> json) list \<Rightarrow> ('w, string \<times> string) act" where
  "createCR dyn gvr kind name spec =
     (if name = [] then failA (Plain ''name is required'')
      else handle (dnCreate dyn gvr (JObj [(''apiVersion'', JStr schemeGroupVersion), (''kind'', JStr kind),
          (''metadata'', JObj [(''name'', JStr name)]), (''spec'', JObj spec)]))
        (\<lambda>e. if is_reason AlreadyExists e then failA (Plain (kind @ '' '' @ quoted name @ '' already exists''))
           else failA (Wrapped (''create '' @ kind @ '': '') e []))
        (\<lambda>obj. ret (name, kind)))"

definition deleteCR :: "'w dynamic \<Rightarrow> string \<Rightarrow> string \<Rightarrow> ('w, unit) act" where
  "deleteCR dyn gvr name =
     (if name = [] then failA (Plain ''name is required'')
      else handle (dnDelete dyn gvr name)
        (\<lambda>e. if is_reason NotFound e then ret () else failA (Wrapped (''delete '' @ name @ '': '') e []))
        (\<lambda>u. ret ()))"

definition putIf :: "string \<Rightarrow> string \<Rightarrow> (string \<times> json) list" where
  "putIf k v = (if v = [] then [] else [(k, JStr v)])"

record createConnectionInput =
  ccName :: string
  ccProvider :: string
  ccOwner :: string
  ccSecretName :: string
  ccSecretNamespace :: string
  ccSecretKey :: string
  ccBaseURL :: string

record createRepositoryInput =
  crrName :: string
  crrConnectionRef :: string
  crrRepo :: string
  crrOwner :: string
  crrVisibility :: string
  crrDescription :: string
  crrDefaultBranch :: string
  crrAutoInit :: "bool option"

record addDeployKeyInput =
  adName :: string
  adRepositoryRef :: string
  adTitle :: string
  adPublicKey :: string
  adReadOnly :: bool

record addCollaboratorInput =
  acName :: string
  acRepositoryRef :: string
  acUsername :: string
  acPermission :: string

definition create_connection :: "'w mcp_env \<Rightarrow> identity \<Rightarrow> createConnectionInput \<Rightarrow> ('w, string \<times> string) act" where
  "create_connection env ident i =
     bindA (tenantClient env ident) (\<lambda>dyn.
     createCR dyn connectionsGVR ''Connection'' (ccName i)
       ([(''provider'', JStr (if ccProvider i = [] then ProviderGitHub else ccProvider i)), (''type'', JStr CredentialTypePAT),
         (''owner'', JStr (ccOwner i)),
         (''secretRef'', JObj ((''name'', JStr (ccSecretName i)) # putIf ''namespace'' (ccSecretNamespace i) @ putIf ''key'' (ccSecretKey i)))] @
        putIf ''baseURL'' (ccBaseURL i)))"

definition repositorySpec :: "createRepositoryInput \<Rightarrow> string \<Rightarrow> (string \<times> json) list" where
  "repositorySpec i repoName =
     [(''connectionRef'', JStr (crrConnectionRef i)), (''name'', JStr repoName)] @ putIf ''owner'' (crrOwner i) @
     putIf ''visibility'' (crrVisibility i) @ putIf ''description'' (crrDescription i) @ putIf ''defaultBranch'' (crrDefaultBranch i) @
     (if crrAutoInit i \<noteq> Some False then [(''autoInit'', JBool True)] else [])"

definition create_repository_tool :: "'w mcp_env \<Rightarrow> identity \<Rightarrow> createRepositoryInput \<Rightarrow> ('w, string \<times> string) act" where
  "create_repository_tool env ident i =
     bindA (tenantClient env ident) (\<lambda>dyn.
     createCR dyn repositoriesGVR ''Repository'' (crrName i) (repositorySpec i (if crrRepo i = [] then crrName i else crrRepo i)))"

definition delete_repository_tool :: "'w mcp_env \<Rightarrow> identity \<Rightarrow> string \<Rightarrow> ('w, unit) act" where
  "delete_repository_tool env ident name = bindA (tenantClient env ident) (\<lambda>dyn. deleteCR dyn repositoriesGVR name)"

definition add_deploy_key :: "'w mcp_env \<Rightarrow> identity \<Rightarrow> addDeployKeyInput \<Rightarrow> ('w, string \<times> string) act" where
  "add_deploy_key env ident i =
     bindA (tenantClient env ident) (\<lambda>dyn.
     createCR dyn deploykeysGVR ''DeployKey'' (adName i)
       ((''repositoryRef'', JStr (adRepositoryRef i)) # putIf ''title'' (adTitle i) @ putIf ''publicKey'' (adPublicKey i) @
        (if adReadOnly i then [(''readOnly'', JBool True)] else [])))"

definition add_collaborator :: "'w mcp_env \<Rightarrow> identity \<Rightarrow> addCollaboratorInput \<Rightarrow> ('w, string \<times> string) act" where
  "add_collaborator env ident i =
     bindA (tenantClient env ident) (\<lambda>dyn.
     createCR dyn collaboratorsGVR ''Collaborator'' (acName i)
       ([(''repositoryRef'', JStr (acRepositoryRef i)), (''username'', JStr (acUsername i))] @ putIf ''permission'' (acPermission i)))"

definition remove_collaborator :: "'w mcp_env \<Rightarrow> identity \<Rightarrow> string \<Rightarrow> ('w, unit) act" where
  "remove_collaborator env ident name = bindA (tenantClient env ident) (\<lambda>dyn. deleteCR dyn collaboratorsGVR name)"

definition getRepository :: "'w mcp_env \<Rightarrow> 'w dynamic \<Rightarrow> string \<Rightarrow> ('w, Repository) act" where
  "getRepository env dyn name =
     handle (dnGet dyn repositoriesGVR name)
       (\<lambda>e. if is_reason NotFound e then failA (Plain (''repository '' @ quoted name @ '' not found''))
          else failA (Wrapped (''get repository '' @ quoted name @ '': '') e []))
       (\<lambda>u. case meRepository env u of
          Inl e \<Rightarrow> failA (Wrapped (''decode repository '' @ quoted name @ '': '') e [])
        | Inr repo \<Rightarrow> ret repo)"

subsection \<open>Waiting for a request\<close>

text \<open>
  The three wait functions are one loop: poll, look at the phase, sleep. They differ in the
  resource and in what the end of the context gives: the object last seen (\<open>latest\<close>) or nothing.
\<close>

partial_function (option) wait_loop ::
  "'w mcp_env \<Rightarrow> 'w dynamic \<Rightarrow> string \<Rightarrow> string \<Rightarrow> (string \<Rightarrow> bool) \<Rightarrow> bool \<Rightarrow> string \<Rightarrow> 'w \<Rightarrow> ((gerror + json option) \<times> 'w) option"
where
  "wait_loop env dyn gvr kind terminal latest name w =
     (case dnGet dyn gvr name w of
        (Inl e, w1) \<Rightarrow> Some (if meExpired env w1 then Inr None else Inl (Wrapped (''get '' @ kind @ '' '' @ quoted name @ '': '') e []), w1)
      | (Inr obj, w1) \<Rightarrow>
          if terminal (nested_string env obj [''status'', ''phase'']) then Some (Inr (Some obj), w1)
          else if fst (meTick env w1) then wait_loop env dyn gvr kind terminal latest name (snd (meTick env w1))
          else Some (Inr (if latest then Some obj else None), snd (meTick env w1)))"

declare wait_loop.simps [code]

definition waitRepositoryCommit :: "'w mcp_env \<Rightarrow> 'w dynamic \<Rightarrow> string \<Rightarrow> 'w \<Rightarrow> ((gerror + json option) \<times> 'w) option" where
  "waitRepositoryCommit env dyn = wait_loop env dyn repositoryCommitsGVR ''RepositoryCommit'' commit_isTerminal True"

definition waitRepositoryCheckout :: "'w mcp_env \<Rightarrow> 'w dynamic \<Rightarrow> string \<Rightarrow> 'w \<Rightarrow> ((gerror + json option) \<times> 'w) option" where
  "waitRepositoryCheckout env dyn = wait_loop env dyn repositoryCheckoutsGVR ''RepositoryCheckout'' checkout_isTerminal False"

definition waitRepositoryBuildStatus :: "'w mcp_env \<Rightarrow> 'w dynamic \<Rightarrow> string \<Rightarrow> 'w \<Rightarrow> ((gerror + json option) \<times> 'w) option" where
  "waitRepositoryBuildStatus env dyn = wait_loop env dyn repositoryBuildStatusesGVR ''RepositoryBuildStatus'' build_isTerminal False"

definition commitWaitTimeout :: duration where "commitWaitTimeout = 75 * Second"

definition repositoryCommitReadyCondition :: "'w mcp_env \<Rightarrow> json option \<Rightarrow> json option" where
  "repositoryCommitReadyCondition env obj =
     (case obj of None \<Rightarrow> None
      | Some u \<Rightarrow> find (\<lambda>m. json_field m ''type'' = Some (JStr ConditionReady)) (nested_slice env u [''status'', ''conditions'']))"

definition repositoryCommitConditionMessage :: "'w mcp_env \<Rightarrow> json option \<Rightarrow> string" where
  "repositoryCommitConditionMessage env obj =
     (case repositoryCommitReadyCondition env obj of
        Some c \<Rightarrow> if json_string c ''message'' = [] then ''unknown error'' else json_string c ''message''
      | None \<Rightarrow> ''unknown error'')"

subsection \<open>Names of requests\<close>

text \<open>\<open>%x\<close> of a number.\<close>

fun hex_nat :: "nat \<Rightarrow> string" where
  "hex_nat n = (if n < 16 then [hex_digit n] else hex_nat (n div 16) @ [hex_digit (n mod 16)])"

declare hex_nat.simps [simp del]

definition format_hex :: "int \<Rightarrow> string" where
  "format_hex i = (if i < 0 then CHR ''-'' # hex_nat (nat (- i)) else hex_nat (nat i))"

definition request_base :: "string \<Rightarrow> int \<Rightarrow> string" where
  "request_base repositoryRef maxBase =
     (let b0 = Trim repositoryRef ''-''; b1 = (if b0 = [] then ''repository'' else b0);
          b2 = (if int (length b1) > maxBase then Trim (take (nat maxBase) b1) ''-'' else b1)
      in if b2 = [] then ''repository'' else b2)"

definition commitObjectName :: "string \<Rightarrow> string \<Rightarrow> gotime \<Rightarrow> string" where
  "commitObjectName repositoryRef digest now =
     (let sum0 = take 12 (TrimPrefix digest ''sha256:'');
          suffix = (if sum0 = [] then ''bundle'' else sum0) @ ''-'' @ format_hex now;
          maxBase = max 1 (253 - int (length ''-commit-'') - int (length suffix))
      in request_base repositoryRef maxBase @ ''-commit-'' @ suffix)"

definition checkoutObjectName :: "string \<Rightarrow> gotime \<Rightarrow> string" where
  "checkoutObjectName repositoryRef now =
     (let suffix = format_hex now; maxBase = 253 - int (length ''-checkout-'') - int (length suffix)
      in request_base repositoryRef maxBase @ ''-checkout-'' @ suffix)"

subsection \<open>Committing files\<close>

definition maxCommitMessageLength :: nat where "maxCommitMessageLength = 512"

record commitFileInput =
  tfPath :: string
  tfContent :: string
  tfEncoding :: string

record commitFilesInput =
  cinRepositoryRef :: string
  cinMessage :: string
  cinBranch :: string
  cinFiles :: "commitFileInput list"
  cinDeletePaths :: "string list"

record commitFilesOutput =
  coRepositoryRef :: string
  coName :: string
  coPhase :: string
  coBundleRef :: string
  coBundleDigest :: string
  coCommitSHA :: string
  coCommitURL :: string
  coBranch :: string
  coFiles :: "string list"
  coDeletedPaths :: "string list"

definition zero_output :: commitFilesOutput where
  "zero_output = \<lparr>coRepositoryRef = [], coName = [], coPhase = [], coBundleRef = [], coBundleDigest = [], coCommitSHA = [],
     coCommitURL = [], coBranch = [], coFiles = [], coDeletedPaths = []\<rparr>"

definition from_store :: "'w bundle_api \<Rightarrow> ('w \<Rightarrow> (bundle_error + 'a) \<times> 'w) \<Rightarrow> ('w, 'a) act" where
  "from_store bz m w = (case m w of (Inl e, w1) \<Rightarrow> (Inl (Plain (bzText bz e)), w1) | (Inr x, w1) \<Rightarrow> (Inr x, w1))"

definition repositoryCommitObject :: "Repository \<Rightarrow> BundleRef \<Rightarrow> commitFilesInput \<Rightarrow> gotime \<Rightarrow> json" where
  "repositoryCommitObject repo ref i now =
     (let labels = (LabelRepository, cinRepositoryRef i) # filter (\<lambda>kv. fst kv \<noteq> LabelRepository) (omLabels (rxMeta repo));
          owners = (if omUID (rxMeta repo) = [] then [] else [(''ownerReferences'', JArr [JObj
            [(''apiVersion'', JStr schemeGroupVersion), (''kind'', JStr ''Repository''), (''name'', JStr (omName (rxMeta repo))),
             (''uid'', JStr (omUID (rxMeta repo))), (''controller'', JBool False), (''blockOwnerDeletion'', JBool False)]])])
      in JObj [(''apiVersion'', JStr schemeGroupVersion), (''kind'', JStr ''RepositoryCommit''),
        (''metadata'', JObj ([(''name'', JStr (commitObjectName (cinRepositoryRef i) (rDigest ref) now)),
           (''labels'', JObj (map (\<lambda>kv. (fst kv, JStr (snd kv))) labels))] @ owners)),
        (''spec'', JObj ([(''repositoryRef'', JStr (cinRepositoryRef i)),
           (''source'', JObj [(''bundleRef'', JObj [(''name'', JStr (rName ref)), (''digest'', JStr (rDigest ref))])])] @
           putIf ''message'' (cinMessage i) @ putIf ''branch'' (cinBranch i)))])"

definition repositoryCommitBundleStorageScope :: "'w mcp_env \<Rightarrow> json \<Rightarrow> string" where
  "repositoryCommitBundleStorageScope env created = TrimSpace (meAnnotation env created ''kcp.io/cluster'')"

definition requested_files :: "commitFilesInput \<Rightarrow> File list" where
  "requested_files i = map (\<lambda>f. \<lparr>fPath = tfPath f, fContent = tfContent f, fEncoding = tfEncoding f, fDelete = False\<rparr>) (cinFiles i) @
     map (\<lambda>p. \<lparr>fPath = p, fContent = [], fEncoding = [], fDelete = True\<rparr>) (cinDeletePaths i)"

text \<open>The request is there: its bundle is stored where the controller reads it, or everything is undone.\<close>

definition settle_bundle :: "'w mcp_env \<Rightarrow> 'w dynamic \<Rightarrow> 'w bundle_api \<Rightarrow> string \<Rightarrow> File list \<Rightarrow> BundleRef \<Rightarrow> json \<Rightarrow> ('w, unit) act" where
  "settle_bundle env dyn bz tenantScope files ref created =
     (let storageScope = repositoryCommitBundleStorageScope env created;
          undo = (\<lambda>e. bindA (ignoring (dnDelete dyn repositoryCommitsGVR (object_name env created))) (\<lambda>u.
            bindA (ignoring (bzDelete bz tenantScope (rName ref) (rDigest ref))) (\<lambda>u. failA e)))
      in if storageScope = [] then
           undo (Plain (''created RepositoryCommit '' @ quoted (object_name env created) @ '' did not include kcp.io/cluster''))
         else handle (from_store bz (bzPut bz storageScope files)) (\<lambda>e. undo (Wrapped ''store RepositoryCommit bundle: '' e []))
           (\<lambda>r. if tenantScope \<noteq> storageScope then ignoring (bzDelete bz tenantScope (rName ref) (rDigest ref)) else ret ()))"

definition create_commit ::
  "'w mcp_env \<Rightarrow> 'w dynamic \<Rightarrow> 'w bundle_api \<Rightarrow> string \<Rightarrow> commitFilesInput \<Rightarrow> Repository \<Rightarrow> ('w, json \<times> BundleRef) act"
where
  "create_commit env dyn bz tenantScope i repo =
     bindA (from_store bz (bzPut bz tenantScope (requested_files i))) (\<lambda>ref.
     bindA (readA (meNow env)) (\<lambda>now.
     handle (dnCreate dyn repositoryCommitsGVR (repositoryCommitObject repo ref i now))
       (\<lambda>e. bindA (ignoring (bzDelete bz tenantScope (rName ref) (rDigest ref))) (\<lambda>u.
          failA (Wrapped (if is_reason NotFound e
            then ''create RepositoryCommit: RepositoryCommit API is not available in this workspace; enable or re-register the Code provider so repositorycommits.code.railgrid.ai is published: ''
            else ''create RepositoryCommit: '') e [])))
       (\<lambda>created. bindA (settle_bundle env dyn bz tenantScope (requested_files i) ref created) (\<lambda>u. ret (created, ref)))))"

definition check_encodings :: "'w bundle_api \<Rightarrow> commitFileInput list \<Rightarrow> gerror + unit" where
  "check_encodings bz fs = foldE (\<lambda>f u. case NormalizeEncoding (tfEncoding f) of
       Inl e \<Rightarrow> Inl (Wrapped (''file '' @ quoted (tfPath f) @ '': '') (Plain (bzText bz e)) []) | Inr x \<Rightarrow> Inr u) fs ()"

definition request_commit ::
  "'w mcp_env \<Rightarrow> 'w dynamic \<Rightarrow> 'w bundle_api option \<Rightarrow> string \<Rightarrow> commitFilesInput \<Rightarrow> ('w, commitFilesInput \<times> json \<times> BundleRef) act"
where
  "request_commit env dyn bundles scope i0 =
     (case bundles of
        None \<Rightarrow> failA (Plain ''commit bundle store is unavailable'')
      | Some bz \<Rightarrow>
          let tenantScope = TrimSpace scope;
              i = i0\<lparr>cinRepositoryRef := TrimSpace (cinRepositoryRef i0), cinMessage := TrimSpace (cinMessage i0)\<rparr>;
              n = utf8_RuneCount (cinMessage i)
          in if tenantScope = [] then failA (Plain ''tenant identity is required'')
             else if cinRepositoryRef i = [] then failA (Plain ''repositoryRef is required'')
             else if cinFiles i = [] \<and> cinDeletePaths i = [] then failA (Plain ''at least one file or delete path is required'')
             else if n > maxCommitMessageLength then failA (Plain (''commit message is '' @ FormatInt (int n) @ '' characters; the limit is '' @
               FormatInt (int maxCommitMessageLength) @ '' '' @ em_dash @ '' shorten the body''))
             else bindA (lift (check_encodings bz (cinFiles i))) (\<lambda>u.
               bindA (getRepository env dyn (cinRepositoryRef i)) (\<lambda>repo.
               bindA (create_commit env dyn bz tenantScope i repo) (\<lambda>x. ret (i, x)))))"

definition rateLimitDeadline :: "'w mcp_env \<Rightarrow> json option \<Rightarrow> gotime \<Rightarrow> gotime" where
  "rateLimitDeadline env obj now =
     (case obj of None \<Rightarrow> now + RepositoryCommitRateLimitWindow
      | Some u \<Rightarrow>
        let raw = nested_string env u [''status'', ''startedAt''];
            start = (if raw = [] then meCreated env u else case meParseTime env raw of Some t \<Rightarrow> t | None \<Rightarrow> meCreated env u)
        in (if start = zeroTime then now else start) + RepositoryCommitRateLimitWindow)"

definition unfinishedCommitError :: "'w mcp_env \<Rightarrow> json option \<Rightarrow> commitFilesOutput \<Rightarrow> gotime \<Rightarrow> gerror" where
  "unfinishedCommitError env obj out now =
     (case repositoryCommitReadyCondition env obj of
        Some c \<Rightarrow>
          if json_field c ''reason'' = Some (JStr ReasonRateLimited)
          then Plain (''RepositoryCommit '' @ quoted (coName out) @ '' is queued behind a GitHub rate limit ('' @ json_string c ''message'' @
            ''); the provider retries it until '' @ RFC3339 (rateLimitDeadline env obj now) @
            '', then marks it Failed. The files are not committed yet: watch RepositoryCommit '' @ quoted (coName out) @
            '' for phase Succeeded before relying on them'')
          else Plain (''RepositoryCommit '' @ quoted (coName out) @ '' did not finish within the '' @ duration_String commitWaitTimeout @
            '' wait (phase '' @ coPhase out @ ''); the files may not be committed yet: watch RepositoryCommit '' @ quoted (coName out) @
            '' for phase Succeeded or Failed'')
      | None \<Rightarrow> Plain (''RepositoryCommit '' @ quoted (coName out) @ '' did not finish within the '' @ duration_String commitWaitTimeout @
            '' wait (phase '' @ coPhase out @ ''); the files may not be committed yet: watch RepositoryCommit '' @ quoted (coName out) @
            '' for phase Succeeded or Failed''))"

definition repositoryCommitFilePaths :: "'w mcp_env \<Rightarrow> json \<Rightarrow> string list" where
  "repositoryCommitFilePaths env obj =
     filter (\<lambda>p. p \<noteq> []) (map (\<lambda>m. json_string m ''path'') (nested_slice env obj [''status'', ''files'']))"

definition repositoryCommitOutput :: "'w mcp_env \<Rightarrow> json \<Rightarrow> commitFilesOutput \<Rightarrow> commitFilesOutput" where
  "repositoryCommitOutput env obj out =
     (let or_old = (\<lambda>new old. if new = [] then old else new) in
      out\<lparr>coName := or_old (object_name env obj) (coName out),
        coPhase := or_old (nested_string env obj [''status'', ''phase'']) (coPhase out),
        coBranch := or_old (nested_string env obj [''status'', ''branch'']) (coBranch out),
        coCommitSHA := or_old (nested_string env obj [''status'', ''commitSHA'']) (coCommitSHA out),
        coCommitURL := or_old (nested_string env obj [''status'', ''commitURL'']) (coCommitURL out),
        coFiles := (if repositoryCommitFilePaths env obj = [] then coFiles out else repositoryCommitFilePaths env obj)\<rparr>)"

definition bundleFilePaths :: "FileMeta list \<Rightarrow> string list" where
  "bundleFilePaths fs = map mPath fs"

definition bundleDeletedPaths :: "FileMeta list \<Rightarrow> string list" where
  "bundleDeletedPaths fs = map mPath (filter mDelete fs)"

definition pending_output :: "'w mcp_env \<Rightarrow> commitFilesInput \<Rightarrow> json \<Rightarrow> BundleRef \<Rightarrow> commitFilesOutput" where
  "pending_output env i created ref = zero_output\<lparr>coRepositoryRef := cinRepositoryRef i, coName := object_name env created,
     coPhase := RepositoryCommitPhasePending, coBundleRef := rName ref, coBundleDigest := rDigest ref,
     coFiles := bundleFilePaths (rFiles ref), coDeletedPaths := bundleDeletedPaths (rFiles ref)\<rparr>"

text \<open>What the tool reports once the wait has ended: an output, and an error unless the commit succeeded.\<close>

definition commit_report :: "'w mcp_env \<Rightarrow> json option \<Rightarrow> commitFilesOutput \<Rightarrow> gotime \<Rightarrow> commitFilesOutput \<times> gerror option" where
  "commit_report env waited out0 now =
     (let out = (case waited of None \<Rightarrow> out0 | Some obj \<Rightarrow> repositoryCommitOutput env obj out0) in
      if coPhase out = RepositoryCommitPhaseSucceeded then (out, None)
      else if coPhase out = RepositoryCommitPhaseFailed
      then (out, Some (Plain (''RepositoryCommit '' @ quoted (coName out) @ '' failed: '' @ repositoryCommitConditionMessage env waited)))
      else (out, Some (unfinishedCommitError env waited out now)))"

definition commitFiles ::
  "'w mcp_env \<Rightarrow> 'w dynamic \<Rightarrow> 'w bundle_api option \<Rightarrow> string \<Rightarrow> commitFilesInput \<Rightarrow> 'w \<Rightarrow> ((commitFilesOutput \<times> gerror option) \<times> 'w) option"
where
  "commitFiles env dyn bundles scope i0 w =
     (case request_commit env dyn bundles scope i0 w of
        (Inl e, w1) \<Rightarrow> Some ((zero_output, Some e), w1)
      | (Inr (i, created, ref), w1) \<Rightarrow>
          let out = pending_output env i created ref in
          (case waitRepositoryCommit env dyn (object_name env created) w1 of
             None \<Rightarrow> None
           | Some (Inl e, w2) \<Rightarrow> Some ((out, Some e), w2)
           | Some (Inr waited, w2) \<Rightarrow> Some (commit_report env waited out (meNow env w2), w2)))"

definition commit_files ::
  "'w mcp_env \<Rightarrow> identity \<Rightarrow> commitFilesInput \<Rightarrow> 'w \<Rightarrow> ((commitFilesOutput \<times> gerror option) \<times> 'w) option"
where
  "commit_files env ident i w =
     (case tenantClient env ident w of
        (Inl e, w1) \<Rightarrow> Some ((zero_output, Some e), w1)
      | (Inr dyn, w1) \<Rightarrow> commitFiles env dyn (meBundles env) (idTenant ident) i w1)"

subsection \<open>Reading a repository\<close>

record checkoutRepositoryInput =
  kiRepositoryRef :: string
  kiRef :: string
  kiBinaryEncoding :: string

record checkoutFileOutput =
  koPath :: string
  koContent :: string
  koEncoding :: string

record checkoutRepositoryOutput =
  koRepositoryRef :: string
  koName :: string
  koPhase :: string
  koRef :: string
  koCommitSHA :: string
  koFiles :: "checkoutFileOutput list"
  koSkipped :: "string list"

text \<open>\<open>NestedStringSlice\<close> gives nothing unless every element is a string.\<close>

definition nested_strings :: "'w mcp_env \<Rightarrow> json \<Rightarrow> string list \<Rightarrow> string list" where
  "nested_strings env obj p =
     (let vs = nested_slice env obj p in
      if list_all (\<lambda>v. case v of JStr s \<Rightarrow> True | _ \<Rightarrow> False) vs then map (\<lambda>v. case v of JStr s \<Rightarrow> s | _ \<Rightarrow> []) vs else [])"

definition checkout_spec :: "checkoutRepositoryInput \<Rightarrow> bool \<Rightarrow> gotime \<Rightarrow> json" where
  "checkout_spec i includeBinary now =
     JObj [(''apiVersion'', JStr schemeGroupVersion), (''kind'', JStr ''RepositoryCheckout''),
       (''metadata'', JObj ([(''name'', JStr (checkoutObjectName (kiRepositoryRef i) now)),
          (''labels'', JObj [(LabelRepository, JStr (kiRepositoryRef i))])] @
          (if includeBinary then [(''annotations'', JObj [(AnnotationCheckoutBinaryEncoding, JStr EncodingBase64)])] else []))),
       (''spec'', JObj ((''repositoryRef'', JStr (kiRepositoryRef i)) # putIf ''ref'' (kiRef i)))]"

definition request_checkout ::
  "'w mcp_env \<Rightarrow> 'w dynamic \<Rightarrow> 'w bundle_api option \<Rightarrow> checkoutRepositoryInput \<Rightarrow>
     ('w, 'w bundle_api \<times> checkoutRepositoryInput \<times> bool \<times> json) act"
where
  "request_checkout env dyn bundles i0 =
     (case bundles of
        None \<Rightarrow> failA (Plain ''bundle store is unavailable'')
      | Some bz \<Rightarrow>
          let i = i0\<lparr>kiRepositoryRef := TrimSpace (kiRepositoryRef i0)\<rparr>; includeBinary = (kiBinaryEncoding i = EncodingBase64) in
          if kiRepositoryRef i = [] then failA (Plain ''repositoryRef is required'')
          else if kiBinaryEncoding i \<noteq> [] \<and> \<not> includeBinary
          then failA (Plain (''unsupported binaryEncoding '' @ quoted (kiBinaryEncoding i) @ '': use '' @ quoted EncodingBase64 @ '' or omit it''))
          else bindA (getRepository env dyn (kiRepositoryRef i)) (\<lambda>repo.
            bindA (readA (meNow env)) (\<lambda>now.
            handle (dnCreate dyn repositoryCheckoutsGVR (checkout_spec i includeBinary now))
              (\<lambda>e. failA (Wrapped (if is_reason NotFound e
                 then ''create RepositoryCheckout: RepositoryCheckout API is not available in this workspace; re-register the Code provider so repositorycheckouts.code.railgrid.ai is published: ''
                 else ''create RepositoryCheckout: '') e []))
              (\<lambda>created. ret (bz, i, includeBinary, created)))))"

text \<open>A file with an encoding reaches only a caller that asked for it.\<close>

definition add_file :: "bool \<Rightarrow> BundleFile \<Rightarrow> checkoutRepositoryOutput \<Rightarrow> checkoutRepositoryOutput" where
  "add_file includeBinary f out =
     (if bfEncoding f \<noteq> [] \<and> \<not> includeBinary then out\<lparr>koSkipped := koSkipped out @ [bfPath f @ '' (binary)'']\<rparr>
      else out\<lparr>koFiles := koFiles out @ [\<lparr>koPath = bfPath f, koContent = bfContent f, koEncoding = bfEncoding f\<rparr>]\<rparr>)"

definition collect_checkout ::
  "'w mcp_env \<Rightarrow> 'w bundle_api \<Rightarrow> bool \<Rightarrow> checkoutRepositoryOutput \<Rightarrow> json option \<Rightarrow> ('w, checkoutRepositoryOutput) act"
where
  "collect_checkout env bz includeBinary out0 waited =
     (case waited of
        None \<Rightarrow> failA (Plain (''RepositoryCheckout '' @ quoted (koName out0) @ '' did not complete in time''))
      | Some obj \<Rightarrow>
          let out = out0\<lparr>koPhase := nested_string env obj [''status'', ''phase''], koRef := nested_string env obj [''status'', ''ref''],
                koCommitSHA := nested_string env obj [''status'', ''commitSHA''], koSkipped := nested_strings env obj [''status'', ''skipped'']\<rparr>;
              bundleScope = TrimSpace (meAnnotation env obj ''kcp.io/cluster'');
              bundleName = nested_string env obj [''status'', ''bundleRef'', ''name''];
              bundleDigest = nested_string env obj [''status'', ''bundleRef'', ''digest'']
          in if koPhase out \<noteq> RepositoryCheckoutPhaseSucceeded
             then failA (Plain (''RepositoryCheckout '' @ quoted (koName out) @ '' failed: '' @ repositoryCommitConditionMessage env waited))
             else if bundleScope = [] \<or> bundleName = []
             then failA (Plain (''RepositoryCheckout '' @ quoted (koName out) @ '' succeeded but reported no bundle''))
             else handle (from_store bz (bzGet bz bundleScope bundleName bundleDigest)) (\<lambda>e. failA (Wrapped ''read checkout bundle: '' e []))
               (\<lambda>b. bindA (ignoring (bzDelete bz bundleScope bundleName bundleDigest)) (\<lambda>u. ret (fold (add_file includeBinary) (bFiles b) out))))"

text \<open>The deferred deletion of the request runs last, on every way out.\<close>

definition checkoutRepository ::
  "'w mcp_env \<Rightarrow> 'w dynamic \<Rightarrow> 'w bundle_api option \<Rightarrow> checkoutRepositoryInput \<Rightarrow> 'w \<Rightarrow> ((gerror + checkoutRepositoryOutput) \<times> 'w) option"
where
  "checkoutRepository env dyn bundles i0 w =
     (case request_checkout env dyn bundles i0 w of
        (Inl e, w1) \<Rightarrow> Some (Inl e, w1)
      | (Inr (bz, i, includeBinary, created), w1) \<Rightarrow>
          let name = object_name env created;
              out = \<lparr>koRepositoryRef = kiRepositoryRef i, koName = name, koPhase = RepositoryCheckoutPhasePending, koRef = [],
                koCommitSHA = [], koFiles = [], koSkipped = []\<rparr>
          in map_option (\<lambda>(r, w2). deferA (\<lambda>w. snd (dnDelete dyn repositoryCheckoutsGVR name w))
               (case r of Inl e \<Rightarrow> failA e | Inr waited \<Rightarrow> collect_checkout env bz includeBinary out waited) w2)
             (waitRepositoryCheckout env dyn name w1))"

definition checkout_file_json :: "checkoutFileOutput \<Rightarrow> json" where
  "checkout_file_json f = JObj ([(''path'', JStr (koPath f)), (''content'', JStr (koContent f))] @ putIf ''encoding'' (koEncoding f))"

definition checkoutToolResult :: "checkoutRepositoryOutput \<Rightarrow> string" where
  "checkoutToolResult out =
     compact_json (JObj ([(''repositoryRef'', JStr (koRepositoryRef out))] @ putIf ''name'' (koName out) @ putIf ''phase'' (koPhase out) @
       putIf ''ref'' (koRef out) @ putIf ''commitSHA'' (koCommitSHA out) @
       (if koFiles out = [] then [] else [(''files'', JArr (map checkout_file_json (koFiles out)))]) @
       (if koSkipped out = [] then [] else [(''skipped'', JArr (map JStr (koSkipped out)))])))"

definition checkout_repository :: "'w mcp_env \<Rightarrow> identity \<Rightarrow> checkoutRepositoryInput \<Rightarrow> 'w \<Rightarrow> ((gerror + string) \<times> 'w) option" where
  "checkout_repository env ident i w =
     (case tenantClient env ident w of
        (Inl e, w1) \<Rightarrow> Some (Inl e, w1)
      | (Inr dyn, w1) \<Rightarrow> map_option (\<lambda>(r, w2). (case r of Inl e \<Rightarrow> Inl e | Inr out \<Rightarrow> Inr (checkoutToolResult out), w2))
          (checkoutRepository env dyn (meBundles env) i w1))"

subsection \<open>Builds\<close>

definition defaultWorkflowFileName :: string where "defaultWorkflowFileName = ''build.yaml''"

definition normalizeWorkflowFileName :: "string \<Rightarrow> string" where
  "normalizeWorkflowFileName name0 =
     (let name = TrimSpace name0; base = rev (takeWhile (\<lambda>c. c \<noteq> CHR ''/'' \<and> c \<noteq> CHR 0x5C) (rev name)) in
      if name = [] \<or> base = [] then defaultWorkflowFileName else base)"

record buildStatusInput =
  biRepositoryRef :: string
  biWorkflowFileName :: string
  biRef :: string
  biMaxLogLines :: int

record buildStatusJobOutput =
  bjName :: string
  bjStatus :: string
  bjConclusion :: string
  bjFailureLog :: string

record buildStatusOutput =
  boRepositoryRef :: string
  boFound :: bool
  boRunID :: int
  boHTMLURL :: string
  boHeadSHA :: string
  boStatus :: string
  boConclusion :: string
  boJobs :: "buildStatusJobOutput list"

record rebuildInput =
  riRepositoryRef :: string
  riWorkflowFileName :: string
  riRef :: string

definition build_object :: "string \<Rightarrow> (string \<times> json) list \<Rightarrow> gotime \<Rightarrow> json" where
  "build_object repositoryRef spec now =
     JObj [(''apiVersion'', JStr schemeGroupVersion), (''kind'', JStr ''RepositoryBuildStatus''),
       (''metadata'', JObj [(''name'', JStr (checkoutObjectName repositoryRef now)), (''labels'', JObj [(LabelRepository, JStr repositoryRef)])]),
       (''spec'', JObj spec)]"

definition build_result :: "'w mcp_env \<Rightarrow> string \<Rightarrow> json option \<Rightarrow> gerror + json" where
  "build_result env name waited =
     (case waited of
        None \<Rightarrow> Inl (Plain (''RepositoryBuildStatus '' @ quoted name @ '' did not complete in time''))
      | Some obj \<Rightarrow>
          if nested_string env obj [''status'', ''phase''] \<noteq> RepositoryBuildStatusPhaseSucceeded
          then Inl (Plain (''RepositoryBuildStatus '' @ quoted name @ '' failed: '' @ repositoryCommitConditionMessage env waited))
          else Inr obj)"

definition runBuildStatusRequest ::
  "'w mcp_env \<Rightarrow> 'w dynamic \<Rightarrow> string \<Rightarrow> (string \<times> json) list \<Rightarrow> 'w \<Rightarrow> ((gerror + json) \<times> 'w) option"
where
  "runBuildStatusRequest env dyn repositoryRef spec w =
     (case handle (dnCreate dyn repositoryBuildStatusesGVR (build_object repositoryRef spec (meNow env w)))
         (\<lambda>e. failA (Wrapped (if is_reason NotFound e
            then ''create RepositoryBuildStatus: the RepositoryBuildStatus API is not available in this workspace; re-register the Code provider: ''
            else ''create RepositoryBuildStatus: '') e [])) ret w of
        (Inl e, w1) \<Rightarrow> Some (Inl e, w1)
      | (Inr created, w1) \<Rightarrow>
          let name = object_name env created in
          map_option (\<lambda>(r, w2). deferA (\<lambda>w. snd (dnDelete dyn repositoryBuildStatusesGVR name w))
             (case r of Inl e \<Rightarrow> failA e | Inr waited \<Rightarrow> lift (build_result env name waited)) w2)
            (waitRepositoryBuildStatus env dyn name w1))"

definition build_job_output :: "'w mcp_env \<Rightarrow> json \<Rightarrow> buildStatusJobOutput option" where
  "build_job_output env j = (case j of
     JObj kvs \<Rightarrow> Some \<lparr>bjName = nested_string env j [''name''], bjStatus = nested_string env j [''status''],
       bjConclusion = nested_string env j [''conclusion''], bjFailureLog = nested_string env j [''failureLog'']\<rparr>
   | _ \<Rightarrow> None)"

definition build_output :: "'w mcp_env \<Rightarrow> string \<Rightarrow> json \<Rightarrow> buildStatusOutput" where
  "build_output env repositoryRef obj =
     (let out = \<lparr>boRepositoryRef = repositoryRef, boFound = False, boRunID = 0, boHTMLURL = [], boHeadSHA = [], boStatus = [],
            boConclusion = [], boJobs = []\<rparr> in
      case meNested env obj [''status'', ''run''] of
        Some (JObj kvs) \<Rightarrow>
          (let run = JObj kvs in
           out\<lparr>boFound := nested_bool env run [''found''], boHTMLURL := nested_string env run [''htmlURL''],
             boHeadSHA := nested_string env run [''headSHA''], boStatus := nested_string env run [''status''],
             boConclusion := nested_string env run [''conclusion''],
             boRunID := (case meNested env run [''runID''] of Some (JNum lit) \<Rightarrow> (case ParseInt lit 64 of Some n \<Rightarrow> n | None \<Rightarrow> 0) | _ \<Rightarrow> 0),
             boJobs := List.map_filter (build_job_output env) (nested_slice env run [''jobs''])\<rparr>)
      | _ \<Rightarrow> out)"

definition buildStatus :: "'w mcp_env \<Rightarrow> 'w dynamic \<Rightarrow> buildStatusInput \<Rightarrow> 'w \<Rightarrow> ((gerror + buildStatusOutput) \<times> 'w) option" where
  "buildStatus env dyn i w =
     (let repositoryRef = TrimSpace (biRepositoryRef i) in
      if repositoryRef = [] then Some (Inl (Plain ''repositoryRef is required''), w)
      else map_option (\<lambda>(r, w1). (case r of Inl e \<Rightarrow> Inl e | Inr obj \<Rightarrow> Inr (build_output env repositoryRef obj), w1))
        (runBuildStatusRequest env dyn repositoryRef
          ([(''repositoryRef'', JStr repositoryRef), (''workflowFileName'', JStr (normalizeWorkflowFileName (biWorkflowFileName i))),
            (''action'', JStr RepositoryBuildStatusActionStatus)] @ putIf ''ref'' (biRef i) @
           (if biMaxLogLines i > 0 then [(''maxLogLines'', JNum (FormatInt (biMaxLogLines i)))] else [])) w))"

definition rebuildWorkflow :: "'w mcp_env \<Rightarrow> 'w dynamic \<Rightarrow> rebuildInput \<Rightarrow> 'w \<Rightarrow> ((gerror + string \<times> bool) \<times> 'w) option" where
  "rebuildWorkflow env dyn i w =
     (let repositoryRef = TrimSpace (riRepositoryRef i) in
      if repositoryRef = [] then Some (Inl (Plain ''repositoryRef is required''), w)
      else map_option (\<lambda>(r, w1). (case r of Inl e \<Rightarrow> Inl e | Inr obj \<Rightarrow> Inr (repositoryRef, nested_bool env obj [''status'', ''dispatched'']), w1))
        (runBuildStatusRequest env dyn repositoryRef
          ([(''repositoryRef'', JStr repositoryRef), (''workflowFileName'', JStr (normalizeWorkflowFileName (riWorkflowFileName i))),
            (''action'', JStr RepositoryBuildStatusActionRerun)] @ putIf ''ref'' (riRef i)) w))"

definition build_status :: "'w mcp_env \<Rightarrow> identity \<Rightarrow> buildStatusInput \<Rightarrow> 'w \<Rightarrow> ((gerror + buildStatusOutput) \<times> 'w) option" where
  "build_status env ident i w =
     (case tenantClient env ident w of (Inl e, w1) \<Rightarrow> Some (Inl e, w1) | (Inr dyn, w1) \<Rightarrow> buildStatus env dyn i w1)"

definition rebuild :: "'w mcp_env \<Rightarrow> identity \<Rightarrow> rebuildInput \<Rightarrow> 'w \<Rightarrow> ((gerror + string \<times> bool) \<times> 'w) option" where
  "rebuild env ident i w =
     (case tenantClient env ident w of (Inl e, w1) \<Rightarrow> Some (Inl e, w1) | (Inr dyn, w1) \<Rightarrow> rebuildWorkflow env dyn i w1)"

end
