(* ===== verification/Mcp_Tools.thy ===== *)
theory Mcp_Tools
  imports Mcp_Server
begin

text \<open>
  What the tools promise: they return, \<open>commit_files\<close> reports success only for a commit that the
  API server shows as succeeded and leaves its bundle where the controller reads it, a refused
  commit leaves nothing behind, and the transient requests are always reclaimed.
\<close>

subsection \<open>The tools return\<close>

text \<open>
  What the timer and the client promise to the polling loop: \<open>left\<close> bounds the ticks before the
  deadline, and a client whose context has ended answers with an error.
\<close>

definition polling_ends :: "'w mcp_env \<Rightarrow> 'w dynamic \<Rightarrow> ('w \<Rightarrow> nat) \<Rightarrow> bool" where
  "polling_ends env dyn left \<longleftrightarrow>
     (\<forall>w w'. meTick env w = (True, w') \<longrightarrow> left w' < left w \<or> meExpired env w') \<and>
     (\<forall>gvr name w. left (snd (dnGet dyn gvr name w)) \<le> left w) \<and>
     (\<forall>gvr name w. meExpired env w \<longrightarrow> (\<exists>e w'. dnGet dyn gvr name w = (Inl e, w')))"

lemma wait_loop_expired:
  assumes "polling_ends env dyn left" and "meExpired env w"
  shows "\<exists>r. wait_loop env dyn gvr kind terminal latest name w = Some r"
proof -
  obtain e w1 where "dnGet dyn gvr name w = (Inl e, w1)" using assms unfolding polling_ends_def by blast
  then show ?thesis by (simp add: wait_loop.simps)
qed

lemma wait_loop_ends:
  assumes "polling_ends env dyn left"
  shows "\<exists>r. wait_loop env dyn gvr kind terminal latest name w = Some r"
proof (induction w rule: measure_induct_rule[where f = left])
  case (less w)
  obtain r w1 where get: "dnGet dyn gvr name w = (r, w1)" by fastforce
  obtain b w2 where tick: "meTick env w1 = (b, w2)" by fastforce
  have "left w1 \<le> left w" using assms get unfolding polling_ends_def by (metis snd_conv)
  moreover have "b \<Longrightarrow> left w2 < left w1 \<or> meExpired env w2" using assms tick unfolding polling_ends_def by auto
  ultimately have again: "\<exists>r. wait_loop env dyn gvr kind terminal latest name w2 = Some r" if b
    using less.IH[of w2] wait_loop_expired[OF assms] that by (cases "meExpired env w2") auto
  show ?case
  proof (cases r)
    case (Inr obj)
    with get tick again show ?thesis by (subst wait_loop.simps) auto
  qed (use get in \<open>simp add: wait_loop.simps\<close>)
qed

lemma returns_if: "(b \<Longrightarrow> \<exists>r. x = Some r) \<Longrightarrow> (\<not> b \<Longrightarrow> \<exists>r. y = Some r) \<Longrightarrow> \<exists>r. (if b then x else y) = Some r"
  by simp

lemma returns_map: "\<exists>r. x = Some r \<Longrightarrow> \<exists>r. map_option f x = Some r"
  by auto

lemma commitFiles_returns:
  assumes "polling_ends env dyn left"
  shows "\<exists>r. commitFiles env dyn bundles scope i w = Some r"
proof -
  obtain r w1 where req: "request_commit env dyn bundles scope i w = (r, w1)" by fastforce
  show ?thesis
  proof (cases r)
    case (Inr x)
    obtain i2 created ref where x: "x = (i2, created, ref)" by (cases x)
    obtain y w2 where "waitRepositoryCommit env dyn (object_name env created) w1 = Some (y, w2)"
      using wait_loop_ends[OF assms] unfolding waitRepositoryCommit_def by fastforce
    with req Inr x show ?thesis by (cases y) (simp_all add: commitFiles_def Let_def)
  qed (use req in \<open>simp add: commitFiles_def\<close>)
qed

lemma checkoutRepository_returns:
  assumes "polling_ends env dyn left"
  shows "\<exists>r. checkoutRepository env dyn bundles i w = Some r"
proof -
  obtain r w1 where req: "request_checkout env dyn bundles i w = (r, w1)" by fastforce
  show ?thesis
  proof (cases r)
    case (Inr x)
    obtain bz i2 incl created where x: "x = (bz, i2, incl, created)" by (cases x)
    obtain y where "waitRepositoryCheckout env dyn (object_name env created) w1 = Some y"
      using wait_loop_ends[OF assms] unfolding waitRepositoryCheckout_def by fastforce
    with req Inr x show ?thesis by (simp add: checkoutRepository_def Let_def)
  qed (use req in \<open>simp add: checkoutRepository_def\<close>)
qed

lemma runBuildStatusRequest_returns:
  assumes "polling_ends env dyn left"
  shows "\<exists>r. runBuildStatusRequest env dyn ref spec w = Some r"
proof -
  have wait: "\<exists>y. waitRepositoryBuildStatus env dyn name v = Some y" for name v
    using wait_loop_ends[OF assms] unfolding waitRepositoryBuildStatus_def by fastforce
  have split: "\<exists>r. (case x of (Inl e, w1) \<Rightarrow> Some (f e w1) | (Inr c, w1) \<Rightarrow> map_option (g c) (h c w1)) = Some r"
    if "\<And>c v. \<exists>y. h c v = Some y" for x :: "(gerror + json) \<times> 'a" and f g h
    using that by (auto split: prod.splits sum.splits)
  show ?thesis unfolding runBuildStatusRequest_def Let_def by (rule split) (rule wait)
qed

text \<open>
  (C21) The tools that wait return: when the timer ticks boundedly often before the deadline and a
  client whose context has ended answers with an error, a commit, a checkout, a build inspection
  and a rebuild all end, from every state and whatever the API server, the bundle store and the
  controller do.
\<close>

theorem tools_return:
  assumes "\<And>tenant v dyn v'. meTenant env = Some tenant \<Longrightarrow> tenant (idClusterID ident) (idToken ident) v = (Inr dyn, v') \<Longrightarrow>
    polling_ends env dyn left"
  shows "(\<exists>r. commit_files env ident i w = Some r) \<and> (\<exists>r. checkout_repository env ident k w = Some r) \<and>
    (\<exists>r. build_status env ident b w = Some r) \<and> (\<exists>r. rebuild env ident rb w = Some r)"
proof -
  obtain r w1 where client: "tenantClient env ident w = (r, w1)" by fastforce
  show ?thesis
  proof (cases r)
    case (Inr dyn)
    with client have ends: "polling_ends env dyn left"
      using assms by (auto simp: tenantClient_def split: if_splits option.splits)
    note run = client Inr and build = runBuildStatusRequest_returns[OF ends]
    have "\<exists>r. buildStatus env dyn b w1 = Some r" "\<exists>r. rebuildWorkflow env dyn rb w1 = Some r"
      unfolding buildStatus_def rebuildWorkflow_def Let_def by (intro returns_if returns_map build; blast)+
    then show ?thesis
      using run commitFiles_returns[OF ends, of "meBundles env" "idTenant ident" i w1] checkoutRepository_returns[OF ends, of "meBundles env" k w1]
      by (auto simp: commit_files_def checkout_repository_def build_status_def rebuild_def)
  qed (use client in \<open>simp add: commit_files_def checkout_repository_def build_status_def rebuild_def\<close>)
qed

subsection \<open>Commits\<close>

definition loop_facts :: "'w mcp_env \<Rightarrow> 'w dynamic \<Rightarrow> string \<Rightarrow> string \<Rightarrow> 'w \<Rightarrow> (gerror + json option) \<times> 'w \<Rightarrow> bool" where
  "loop_facts env dyn gvr name w x \<longleftrightarrow>
     (\<forall>obj. fst x = Inr (Some obj) \<longrightarrow> (\<exists>v v'. dnGet dyn gvr name v = (Inr obj, v'))) \<and>
     (\<forall>P. (\<forall>n. keeps P (dnGet dyn gvr n)) \<longrightarrow> keeps P (meTick env) \<longrightarrow> P w \<longrightarrow> P (snd x))"

lemma loop_facts_end:
  assumes "dnGet dyn gvr name w = (r, w1)" and "snd x = w1 \<or> snd x = snd (meTick env w1)"
    and "\<And>obj. fst x = Inr (Some obj) \<Longrightarrow> r = Inr obj"
  shows "loop_facts env dyn gvr name w x"
  unfolding loop_facts_def
proof (intro conjI allI impI)
  fix obj assume "fst x = Inr (Some obj)"
  with assms(1,3) show "\<exists>v v'. dnGet dyn gvr name v = (Inr obj, v')" by blast
next
  fix P assume P: "\<forall>n. keeps P (dnGet dyn gvr n)" "keeps P (meTick env)" "P w"
  then have "P w1" using keepsD[of P "dnGet dyn gvr name" w] assms(1) by simp
  moreover from this have "P (snd (meTick env w1))" by (rule keepsD[OF P(2)])
  ultimately show "P (snd x)" using assms(2) by auto
qed

lemma loop_facts_step:
  assumes "dnGet dyn gvr name w = (r, w1)" and "loop_facts env dyn gvr name (snd (meTick env w1)) x"
  shows "loop_facts env dyn gvr name w x"
  unfolding loop_facts_def
proof (intro conjI allI impI)
  fix P assume P: "\<forall>n. keeps P (dnGet dyn gvr n)" "keeps P (meTick env)" "P w"
  then have "P w1" using keepsD[of P "dnGet dyn gvr name" w] assms(1) by simp
  then have "P (snd (meTick env w1))" by (rule keepsD[OF P(2)])
  with assms(2) P(1,2) show "P (snd x)" unfolding loop_facts_def by blast
qed (use assms(2) in \<open>unfold loop_facts_def, blast\<close>)

lemma wait_loop_facts:
  assumes "wait_loop env dyn gvr kind terminal latest name w = Some x"
  shows "loop_facts env dyn gvr name w x"
  using assms
proof (induction rule: wait_loop.raw_induct[rotated, consumes 1, case_names 1])
  case (1 loop env dyn gvr kind terminal latest name w x)
  obtain r w1 where get: "dnGet dyn gvr name w = (r, w1)" by fastforce
  show ?case
  proof (cases r)
    case (Inl e)
    have "snd x = w1 \<and> (\<forall>obj. fst x \<noteq> Inr (Some obj))"
      using 1(2)[unfolded get Inl prod.case sum.case option.inject] by (cases "meExpired env w1") (simp_all only: if_True if_False, force+)
    then show ?thesis by (intro loop_facts_end[OF get]) simp_all
  next
    case (Inr obj)
    show ?thesis
    proof (cases "terminal (nested_string env obj [''status'', ''phase''])")
      case True
      then have "x = (Inr (Some obj), w1)" using 1(2) get Inr by simp
      then show ?thesis using Inr by (intro loop_facts_end[OF get]) simp_all
    next
      case busy: False
      show ?thesis
      proof (cases "fst (meTick env w1)")
        case True
        then have "loop env dyn gvr kind terminal latest name (snd (meTick env w1)) = Some x" using 1(2) get Inr busy by simp
        from loop_facts_step[OF get 1(1)[OF this]] show ?thesis .
      next
        case False
        then have "x = (Inr (if latest then Some obj else None), snd (meTick env w1))" using 1(2) get Inr busy by simp
        then show ?thesis using Inr by (intro loop_facts_end[OF get]) (simp_all split: if_splits)
      qed
    qed
  qed
qed

text \<open>The calls of a client keep \<open>P\<close>.\<close>

definition dynamic_keeps :: "('w \<Rightarrow> bool) \<Rightarrow> 'w dynamic \<Rightarrow> bool" where
  "dynamic_keeps P dyn \<longleftrightarrow> (\<forall>gvr n. keeps P (dnGet dyn gvr n)) \<and> (\<forall>gvr obj. keeps P (dnCreate dyn gvr obj)) \<and>
     (\<forall>gvr n. keeps P (dnDelete dyn gvr n))"

lemma loop_facts_keeps:
  assumes "loop_facts env dyn gvr name w x" and "dynamic_keeps P dyn" and "keeps P (meTick env)" and "P w"
  shows "P (snd x)"
  using assms unfolding loop_facts_def dynamic_keeps_def by blast

lemma dynamic_keepsD:
  assumes "dynamic_keeps P dyn"
  shows "keeps P (dnGet dyn gvr n)" "keeps P (dnCreate dyn gvr obj)" "keeps P (dnDelete dyn gvr n)"
  using assms by (simp_all add: dynamic_keeps_def)

lemma from_store_Inr: "from_store bz m w = (Inr x, w') \<longleftrightarrow> m w = (Inr x, w')"
  by (auto simp: from_store_def split: prod.splits sum.splits)

lemma from_store_Inl: "from_store bz m w = (Inl e, w') \<Longrightarrow> \<exists>d. m w = (Inl d, w')"
  by (auto simp: from_store_def split: prod.splits sum.splits)

lemma undo_Inr [simp]: "bindA (ignoring a) (\<lambda>u. bindA (ignoring b) (\<lambda>u. failA e)) v = (Inr x, w') \<longleftrightarrow> False"
  by (simp add: bindA_Inr_iff)

lemma handle_undo_Inr:
  "handle m (\<lambda>e. bindA (ignoring a) (\<lambda>u. failA (f e))) k w = (Inr y, w2) \<longleftrightarrow> (\<exists>x w1. m w = (Inr x, w1) \<and> k x w1 = (Inr y, w2))"
  by (auto simp: handle_def bindA_Inr_iff split: prod.splits sum.splits)

text \<open>After a request is settled its bundle is where the controller looks.\<close>

lemma settle_bundle_stored:
  assumes "settle_bundle env dyn bz scope files ref created w = (Inr u, w')"
    and put: "\<And>sc v r v'. bzPut bz sc files v = (Inr r, v') \<Longrightarrow> Q sc v'"
    and del: "\<And>sc sc' n d. sc' \<noteq> sc \<Longrightarrow> keeps (Q sc) (bzDelete bz sc' n d)"
  shows "repositoryCommitBundleStorageScope env created \<noteq> [] \<and> Q (repositoryCommitBundleStorageScope env created) w'"
proof -
  let ?sc = "repositoryCommitBundleStorageScope env created"
  have sc: "?sc \<noteq> []" using assms(1) unfolding settle_bundle_def Let_def by (cases "?sc = []") simp_all
  obtain r w1 where stored: "from_store bz (bzPut bz ?sc files) w = (r, w1)" by fastforce
  show ?thesis
  proof (cases r)
    case (Inl e)
    with assms(1) stored sc show ?thesis by (simp add: settle_bundle_def Let_def)
  next
    case (Inr x)
    then have Q: "Q ?sc w1" using stored put by (simp add: from_store_Inr)
    have "w' = (if scope \<noteq> ?sc then snd (bzDelete bz scope (rName ref) (rDigest ref) w1) else w1)"
      using assms(1) stored Inr sc by (auto simp: settle_bundle_def Let_def ignoring_def split: if_splits)
    with Q keepsD[OF del Q] sc show ?thesis by auto
  qed
qed

lemma request_commit_settled:
  assumes "request_commit env dyn (Some bz) scope i w = (Inr (i', created, ref), w')"
    and put: "\<And>sc v r v'. bzPut bz sc (requested_files i) v = (Inr r, v') \<Longrightarrow> Q sc v'"
    and del: "\<And>sc sc' n d. sc' \<noteq> sc \<Longrightarrow> keeps (Q sc) (bzDelete bz sc' n d)"
  shows "(\<exists>obj v v'. dnCreate dyn repositoryCommitsGVR obj v = (Inr created, v')) \<and>
    repositoryCommitBundleStorageScope env created \<noteq> [] \<and> Q (repositoryCommitBundleStorageScope env created) w'"
proof -
  let ?i = "i\<lparr>cinRepositoryRef := TrimSpace (cinRepositoryRef i), cinMessage := TrimSpace (cinMessage i)\<rparr>"
  have files: "requested_files ?i = requested_files i" by (simp add: requested_files_def)
  from assms(1) obtain repo v where "create_commit env dyn bz (TrimSpace scope) ?i repo v = (Inr (created, ref), w')"
    by (auto simp: request_commit_def Let_def bindA_Inr_iff split: if_splits)
  then obtain obj v1 v2 where "dnCreate dyn repositoryCommitsGVR obj v1 = (Inr created, v2)"
      and settle: "settle_bundle env dyn bz (TrimSpace scope) (requested_files i) ref created v2 = (Inr (), w')"
    unfolding create_commit_def files bindA_Inr_iff handle_undo_Inr by auto
  moreover have "repositoryCommitBundleStorageScope env created \<noteq> [] \<and> Q (repositoryCommitBundleStorageScope env created) w'"
    by (rule settle_bundle_stored[where Q = Q, OF settle]) (rule put, assumption, rule del, assumption)
  ultimately show ?thesis by blast
qed

text \<open>
  (C10) \<open>commit_files\<close> tells the truth and leaves the bundle where it is read. Once the tool reports
  more than an early error, the API server has accepted a request, the bundle is stored under the
  cluster of that request, where the controller reads it (\<open>Q sc\<close> is established by storing the
  requested files in the scope \<open>sc\<close> and kept by everything but a deletion in that scope), also when
  the caller's scope is the same one; and the tool reports no error only if the API server showed
  this request as succeeded.
\<close>

theorem commit_files_settled:
  assumes "commitFiles env dyn (Some bz) scope i w = Some ((out, err), w')" and "out \<noteq> zero_output"
    and put: "\<And>sc v r v'. bzPut bz sc (requested_files i) v = (Inr r, v') \<Longrightarrow> Q sc v'"
    and del: "\<And>sc sc' n d. sc' \<noteq> sc \<Longrightarrow> keeps (Q sc) (bzDelete bz sc' n d)"
    and "\<And>sc. dynamic_keeps (Q sc) dyn" and "\<And>sc. keeps (Q sc) (meTick env)"
  shows "\<exists>created. (\<exists>obj v v'. dnCreate dyn repositoryCommitsGVR obj v = (Inr created, v')) \<and>
    Q (repositoryCommitBundleStorageScope env created) w' \<and>
    (err = None \<longrightarrow> coPhase out = RepositoryCommitPhaseSucceeded \<and> (\<exists>obj v v'.
       dnGet dyn repositoryCommitsGVR (object_name env created) v = (Inr obj, v') \<and>
       nested_string env obj [''status'', ''phase''] = RepositoryCommitPhaseSucceeded))"
proof -
  obtain r w1 where req: "request_commit env dyn (Some bz) scope i w = (r, w1)" by fastforce
  with assms(1,2) obtain i' created ref where r: "r = Inr (i', created, ref)"
    by (cases r) (auto simp: commitFiles_def)
  have settled: "(\<exists>obj v v'. dnCreate dyn repositoryCommitsGVR obj v = (Inr created, v')) \<and>
    repositoryCommitBundleStorageScope env created \<noteq> [] \<and> Q (repositoryCommitBundleStorageScope env created) w1"
    by (rule request_commit_settled[where Q = Q, OF req[unfolded r]]) (rule put, assumption, rule del, assumption)
  let ?out = "pending_output env i' created ref" and ?n = "object_name env created"
  obtain y w2 where wait: "waitRepositoryCommit env dyn ?n w1 = Some (y, w2)" and w': "w' = w2"
      and report: "(\<exists>e. y = Inl e \<and> err = Some e) \<or> (\<exists>waited. y = Inr waited \<and> (out, err) = commit_report env waited ?out (meNow env w2))"
    using assms(1) req r by (auto simp: commitFiles_def Let_def split: option.splits sum.splits)
  note facts = wait_loop_facts[OF wait[unfolded waitRepositoryCommit_def]]
  have "Q (repositoryCommitBundleStorageScope env created) w'"
    unfolding w' using loop_facts_keeps[OF facts assms(5,6)] settled by simp
  moreover have "coPhase out = RepositoryCommitPhaseSucceeded \<and> (\<exists>obj v v'. dnGet dyn repositoryCommitsGVR ?n v = (Inr obj, v') \<and>
       nested_string env obj [''status'', ''phase''] = RepositoryCommitPhaseSucceeded)" if "err = None"
  proof -
    from report that obtain waited where y: "y = Inr waited" and out: "(out, None) = commit_report env waited ?out (meNow env w2)" by auto
    have phase: "coPhase ?out = RepositoryCommitPhasePending" by (simp add: pending_output_def)
    with out obtain obj where obj: "waited = Some obj" and "coPhase out = RepositoryCommitPhaseSucceeded"
        and "nested_string env obj [''status'', ''phase''] = RepositoryCommitPhaseSucceeded"
      by (cases waited) (auto simp: commit_report_def Let_def repositoryCommitOutput_def RepositoryCommitPhasePending_def
        RepositoryCommitPhaseSucceeded_def split: if_splits)
    with facts y show ?thesis unfolding loop_facts_def by auto
  qed
  ultimately show ?thesis using settled by blast
qed

text \<open>
  A refused commit. \<open>C None\<close> says that every stored bundle belongs to some request, \<open>C (Some ref)\<close>
  that every one but \<open>ref\<close> does.
\<close>

definition staging_laws :: "(BundleRef option \<Rightarrow> 'w \<Rightarrow> bool) \<Rightarrow> 'w bundle_api \<Rightarrow> string \<Rightarrow> bool" where
  "staging_laws C bz sc \<longleftrightarrow>
     (\<forall>sc' fs v e v' r. bzPut bz sc' fs v = (Inl e, v') \<longrightarrow> C r v \<longrightarrow> C r v') \<and>
     (\<forall>fs v ref v'. bzPut bz sc fs v = (Inr ref, v') \<longrightarrow> C None v \<longrightarrow> C (Some ref) v') \<and>
     (\<forall>ref v. C (Some ref) v \<longrightarrow> C None (snd (bzDelete bz sc (rName ref) (rDigest ref) v)))"

lemma undone:
  assumes "dynamic_keeps (C (Some ref)) dyn" and "staging_laws C bz sc" and "C (Some ref) w"
  shows "C None (snd (bindA (ignoring (dnDelete dyn gvr n)) (\<lambda>u. bindA (ignoring (bzDelete bz sc (rName ref) (rDigest ref))) (\<lambda>u. failA e)) w))"
proof -
  have "C (Some ref) (snd (dnDelete dyn gvr n w))" by (rule keepsD[OF dynamic_keepsD(3)[OF assms(1)] assms(3)])
  with assms(2) show ?thesis unfolding staging_laws_def by (simp add: bindA_def handle_def ignoring_def failA_def)
qed

lemma settle_bundle_undone:
  assumes "settle_bundle env dyn bz sc files ref created w = (Inl e, w')" and "dynamic_keeps (C (Some ref)) dyn" and "staging_laws C bz sc"
    and "C (Some ref) w"
  shows "C None w'"
proof (cases "repositoryCommitBundleStorageScope env created = []")
  case True
  have "w' = snd (settle_bundle env dyn bz sc files ref created w)" using assms(1) by simp
  then show ?thesis using undone[OF assms(2-4)] unfolding settle_bundle_def Let_def if_P[OF True] by simp
next
  case False
  obtain r w1 where put: "from_store bz (bzPut bz (repositoryCommitBundleStorageScope env created) files) w = (r, w1)" by fastforce
  show ?thesis
  proof (cases r)
    case (Inl d)
    with put obtain x where "bzPut bz (repositoryCommitBundleStorageScope env created) files w = (Inl x, w1)"
      using from_store_Inl by metis
    then have "C (Some ref) w1" using assms(3,4) unfolding staging_laws_def by blast
    note gone = undone[OF assms(2,3) this]
    have "w' = snd (settle_bundle env dyn bz sc files ref created w)" using assms(1) by simp
    then show ?thesis
      using gone put Inl unfolding settle_bundle_def Let_def if_not_P[OF False] by simp
  next
    case (Inr x)
    with assms(1) put False show ?thesis by (simp add: settle_bundle_def Let_def ignoring_def split: if_splits)
  qed
qed

lemma create_commit_undone:
  assumes "create_commit env dyn bz sc i repo w = (Inl e, w')" and "\<And>r. dynamic_keeps (C r) dyn" and "staging_laws C bz sc" and "C None w"
  shows "C None w'"
proof -
  obtain r w1 where put: "from_store bz (bzPut bz sc (requested_files i)) w = (r, w1)" by fastforce
  show ?thesis
  proof (cases r)
    case (Inl d)
    with put obtain x where "bzPut bz sc (requested_files i) w = (Inl x, w1)" using from_store_Inl by metis
    then have "C None w1" using assms(3,4) unfolding staging_laws_def by blast
    with assms(1) put Inl show ?thesis by (simp add: create_commit_def)
  next
    case (Inr ref)
    with put have "bzPut bz sc (requested_files i) w = (Inr ref, w1)" by (simp add: from_store_Inr)
    with assms(3,4) have staged: "C (Some ref) w1" unfolding staging_laws_def by blast
    obtain s w2 where create: "dnCreate dyn repositoryCommitsGVR (repositoryCommitObject repo ref i (meNow env w1)) w1 = (s, w2)" by fastforce
    then have held: "C (Some ref) w2" using keepsD[OF dynamic_keepsD(2)[OF assms(2)] staged] by (metis snd_conv)
    show ?thesis
    proof (cases s)
      case (Inl d)
      have "w' = snd (bzDelete bz sc (rName ref) (rDigest ref) w2)"
        using assms(1) put Inr create Inl by (simp add: create_commit_def bind_read bindA_def handle_def ignoring_def failA_def readA_def)
      with held assms(3) show ?thesis unfolding staging_laws_def by blast
    next
      case (Inr created)
      with assms(1) put \<open>r = Inr ref\<close> create have "settle_bundle env dyn bz sc (requested_files i) ref created w2 = (Inl e, w')"
        by (simp add: create_commit_def bind_read bindA_Inl_iff)
      from settle_bundle_undone[OF this assms(2,3) held] show ?thesis .
    qed
  qed
qed

lemma keeps_getRepository: "dynamic_keeps P dyn \<Longrightarrow> keeps P (getRepository env dyn name)"
  unfolding getRepository_def
  by (intro keeps_handle keeps_if keeps_failA dynamic_keepsD) (auto split: sum.splits intro: keeps_failA keeps_ret)

lemma keeps_create_commit_error:
  assumes "\<And>r. dynamic_keeps (C r) dyn" and "staging_laws C bz sc" and "C None w"
    and "bindA (lift enc) (\<lambda>u. bindA (getRepository env dyn name) (\<lambda>repo. bindA (create_commit env dyn bz sc i repo) (\<lambda>x. ret (f x)))) w = (Inl e, w')"
  shows "C None w'"
proof (cases enc)
  case (Inr x)
  obtain r w1 where get: "getRepository env dyn name w = (r, w1)" by fastforce
  then have w1: "C None w1" using keepsD[OF keeps_getRepository[OF assms(1)] assms(3)] by (metis snd_conv)
  show ?thesis
  proof (cases r)
    case (Inr repo)
    with assms(4) \<open>enc = Inr x\<close> get have "create_commit env dyn bz sc i repo w1 = (Inl e, w')"
      by (auto simp: bindA_Inl_iff)
    from create_commit_undone[OF this assms(1,2) w1] show ?thesis .
  qed (use assms(4) \<open>enc = Inr x\<close> get w1 in \<open>auto simp: bindA_Inl_iff\<close>)
qed (use assms(3,4) in \<open>auto simp: bindA_Inl_iff\<close>)

lemma request_commit_undone:
  assumes "request_commit env dyn (Some bz) scope i w = (Inl e, w')"
    and "\<And>r. dynamic_keeps (C r) dyn" and "staging_laws C bz (TrimSpace scope)" and "C None w"
  shows "C None w'"
proof -
  have guard: "(if b then failA d else m) w = (Inl e, w') \<Longrightarrow> w' = w \<or> m w = (Inl e, w')" for b d and m :: "('a, 'b) act"
    by (auto split: if_splits)
  have "w' = w \<or> bindA (lift (check_encodings bz (cinFiles i))) (\<lambda>u. bindA (getRepository env dyn (TrimSpace (cinRepositoryRef i))) (\<lambda>repo.
      bindA (create_commit env dyn bz (TrimSpace scope) (i\<lparr>cinRepositoryRef := TrimSpace (cinRepositoryRef i), cinMessage := TrimSpace (cinMessage i)\<rparr>) repo)
        (\<lambda>x. ret (i\<lparr>cinRepositoryRef := TrimSpace (cinRepositoryRef i), cinMessage := TrimSpace (cinMessage i)\<rparr>, x)))) w = (Inl e, w')"
    using assms(1) unfolding request_commit_def Let_def by (auto dest!: guard)
  then show ?thesis using keeps_create_commit_error[OF assms(2-4)] assms(4) by blast
qed

text \<open>
  (C23) A refused \<open>commit_files\<close> leaves nothing behind: when the tool ends with an early error (bad
  input, an unknown repository, a bundle that cannot be stored, a request that the API server
  refuses or creates without a cluster), no bundle stays in the store that no request refers to,
  provided deleting the staged bundle works.
\<close>

theorem commit_files_undone:
  assumes "commitFiles env dyn bundles scope i w = Some ((zero_output, err), w')" and "C None w"
    and "\<And>r. dynamic_keeps (C r) dyn" and "\<And>bz. bundles = Some bz \<Longrightarrow> staging_laws C bz (TrimSpace scope)"
  shows "C None w' \<and> err \<noteq> None"
proof -
  obtain r w1 where req: "request_commit env dyn bundles scope i w = (r, w1)" by fastforce
  have phase: "coPhase (pending_output env i' created ref) = RepositoryCommitPhasePending" for i' created ref
    by (simp add: pending_output_def)
  have "\<exists>e. r = Inl e \<and> w' = w1 \<and> err = Some e"
  proof (cases r)
    case (Inr x)
    then show ?thesis using assms(1) req phase
      by (auto simp: commitFiles_def Let_def zero_output_def commit_report_def repositoryCommitOutput_def pending_output_def
          RepositoryCommitPhasePending_def split: option.splits sum.splits prod.splits if_splits)
  qed (use assms(1) req in \<open>simp add: commitFiles_def\<close>)
  then obtain e where r: "r = Inl e" and fin: "w' = w1" "err = Some e" by blast
  show ?thesis
  proof (cases bundles)
    case None
    with req r assms(2) fin show ?thesis by (simp add: request_commit_def)
  next
    case (Some bz)
    have "C None w1" by (rule request_commit_undone[OF req[unfolded r Some] assms(3) assms(4)[OF Some] assms(2)])
    with fin show ?thesis by simp
  qed
qed

subsection \<open>Checkouts\<close>

definition file_output :: "BundleFile \<Rightarrow> checkoutFileOutput" where
  "file_output f = \<lparr>koPath = bfPath f, koContent = bfContent f, koEncoding = bfEncoding f\<rparr>"

lemma fold_add_file:
  "koFiles (fold (add_file incl) fs out) = koFiles out @ map file_output (filter (\<lambda>f. incl \<or> bfEncoding f = []) fs)"
  "koSkipped (fold (add_file incl) fs out) =
     koSkipped out @ map (\<lambda>f. bfPath f @ '' (binary)'') (filter (\<lambda>f. \<not> (incl \<or> bfEncoding f = [])) fs)"
  by (induction fs arbitrary: out) (auto simp: add_file_def file_output_def)

lemma collect_checkout_Inr:
  assumes "collect_checkout env bz incl out0 waited w = (Inr out, w')" and "koFiles out0 = []"
  shows "\<exists>sc n d b v v1. bzGet bz sc n d v = (Inr b, v1) \<and> w' = snd (bzDelete bz sc n d v1) \<and>
    koFiles out = map file_output (filter (\<lambda>f. incl \<or> bfEncoding f = []) (bFiles b)) \<and>
    (\<forall>f \<in> set (bFiles b). \<not> incl \<and> bfEncoding f \<noteq> [] \<longrightarrow> bfPath f @ '' (binary)'' \<in> set (koSkipped out))"
proof -
  obtain obj where obj: "waited = Some obj" using assms(1) by (cases waited) (simp_all add: collect_checkout_def)
  from assms(1)[unfolded collect_checkout_def Let_def obj option.case if_failA_Inr handle_failA_Inr from_store_Inr]
  obtain sc n d b v v1 o1 where "bzGet bz sc n d v = (Inr b, v1)" and "koFiles o1 = koFiles out0"
    and "bindA (ignoring (bzDelete bz sc n d)) (\<lambda>u. ret (fold (add_file incl) (bFiles b) o1)) v1 = (Inr out, w')" by fastforce
  then show ?thesis using assms(2)
    by (intro exI[of _ sc] exI[of _ n] exI[of _ d] exI[of _ b] exI[of _ v] exI[of _ v1])
      (auto simp: bindA_Inr_iff ignoring_def fold_add_file)
qed

text \<open>
  (C22) A checkout is always reclaimed and shows only what was asked for. Once the API server has
  created the request, the last thing the tool does, on success, failure and timeout, is to delete
  it. A successful checkout read one bundle, deleted it just before the request, and returns
  exactly its files, except that without the \<open>base64\<close> option a file with an encoding is left out
  and its path is listed as skipped.
\<close>

theorem checkout_tool_reclaims:
  assumes "checkoutRepository env dyn bundles i w = Some (r, w')"
    and "request_checkout env dyn bundles i w = (Inr (bz, i', incl, created), w1)"
  shows "(\<exists>v. w' = snd (dnDelete dyn repositoryCheckoutsGVR (object_name env created) v)) \<and> incl = (kiBinaryEncoding i = EncodingBase64) \<and>
    (\<forall>out. r = Inr out \<longrightarrow> (\<exists>sc n d b v v1. bzGet bz sc n d v = (Inr b, v1) \<and>
       w' = snd (dnDelete dyn repositoryCheckoutsGVR (object_name env created) (snd (bzDelete bz sc n d v1))) \<and>
       koFiles out = map file_output (filter (\<lambda>f. incl \<or> bfEncoding f = []) (bFiles b)) \<and>
       (\<forall>f \<in> set (bFiles b). \<not> incl \<and> bfEncoding f \<noteq> [] \<longrightarrow> bfPath f @ '' (binary)'' \<in> set (koSkipped out))))"
proof -
  define out where "out = \<lparr>koRepositoryRef = kiRepositoryRef i', koName = object_name env created, koPhase = RepositoryCheckoutPhasePending,
    koRef = [], koCommitSHA = [], koFiles = [], koSkipped = []\<rparr>"
  from assms obtain y w2 where run: "deferA (\<lambda>w. snd (dnDelete dyn repositoryCheckoutsGVR (object_name env created) w))
      (case y of Inl e \<Rightarrow> failA e | Inr waited \<Rightarrow> collect_checkout env bz incl out waited) w2 = (r, w')"
    unfolding checkoutRepository_def Let_def out_def by auto
  define m where "m = (case y of Inl e \<Rightarrow> failA e | Inr waited \<Rightarrow> collect_checkout env bz incl out waited)"
  obtain r1 w3 where m: "m w2 = (r1, w3)" by fastforce
  with run have r: "r = r1" "w' = snd (dnDelete dyn repositoryCheckoutsGVR (object_name env created) w3)"
    by (simp_all add: deferA_def m_def)
  have collected: "\<exists>sc n d b v v1. bzGet bz sc n d v = (Inr b, v1) \<and> w3 = snd (bzDelete bz sc n d v1) \<and>
      koFiles x = map file_output (filter (\<lambda>f. incl \<or> bfEncoding f = []) (bFiles b)) \<and>
      (\<forall>f \<in> set (bFiles b). \<not> incl \<and> bfEncoding f \<noteq> [] \<longrightarrow> bfPath f @ '' (binary)'' \<in> set (koSkipped x))" if rx: "r = Inr x" for x
  proof -
    obtain waited where "collect_checkout env bz incl out waited w2 = (Inr x, w3)" using m r(1) rx by (cases y) (auto simp: m_def)
    then show ?thesis by (rule collect_checkout_Inr) (simp add: out_def)
  qed
  show ?thesis
  proof (intro conjI allI impI)
    show "\<exists>v. w' = snd (dnDelete dyn repositoryCheckoutsGVR (object_name env created) v)" using r(2) by blast
    show "incl = (kiBinaryEncoding i = EncodingBase64)"
      using assms(2) unfolding request_checkout_def Let_def by (cases bundles) (auto simp: bindA_Inr_iff handle_failA_Inr)
  qed (use collected r(2) in metis)
qed

subsection \<open>A workspace for the examples\<close>

text \<open>
  The world is the number of ticks left, the scopes in which the bundle is stored and whether a
  checkout object exists. The API server shows every commit as succeeded.
\<close>

type_synonym toy = "nat \<times> string list \<times> bool"

definition toy_object :: json where
  "toy_object = JObj [(''name'', JStr ''x''), (''phase'', JStr ''Succeeded'')]"

definition toy_dynamic :: "toy dynamic" where
  "toy_dynamic = \<lparr>dnGet = (\<lambda>gvr n w. if fst w = 0 then (Inl ContextErr, w) else (Inr toy_object, w)), dnList = (\<lambda>_. ret []),
     dnCreate = (\<lambda>gvr obj w. (Inr toy_object, (fst w, fst (snd w), True))), dnDelete = (\<lambda>gvr n w. (Inr (), (fst w, fst (snd w), False)))\<rparr>"

definition toy_ref :: BundleRef where
  "toy_ref = \<lparr>rName = ''b'', rDigest = ''d'', rScope = [], rSize = 1, rFileCount = 1, rFiles = []\<rparr>"

definition toy_file :: "string \<Rightarrow> BundleFile" where
  "toy_file enc = \<lparr>bfPath = ''f'', bfContent = ''YQ=='', bfEncoding = enc, bfSize = 1, bfDigest = ''d'', bfDelete = False\<rparr>"

definition toy_bundles :: "toy bundle_api" where
  "toy_bundles = \<lparr>bzPut = (\<lambda>sc fs w. (Inr toy_ref, (fst w, sc # fst (snd w), snd (snd w)))),
     bzGet = (\<lambda>sc n d w. (Inr \<lparr>bName = n, bDigest = d, bScope = sc, bSize = 1, bFiles = [toy_file EncodingBase64]\<rparr>, w)),
     bzDelete = (\<lambda>sc n d w. (Inr (), (fst w, removeAll sc (fst (snd w)), snd (snd w)))), bzText = (\<lambda>_. ''error'')\<rparr>"

definition toy_env :: "(string \<Rightarrow> string) \<Rightarrow> toy mcp_env" where
  "toy_env annotation = \<lparr>meTenant = Some (\<lambda>_ _. ret toy_dynamic), meBundles = Some toy_bundles,
     meNested = (\<lambda>obj p. json_field obj (last p)), meAnnotation = (\<lambda>_. annotation), meCreated = (\<lambda>_. 0),
     meRepository = (\<lambda>_. Inr zero_repository), meParseTime = (\<lambda>_. None), meNow = (\<lambda>_. 0),
     meTick = (\<lambda>w. (fst w \<noteq> 0, (fst w - 1, snd w))), meExpired = (\<lambda>w. fst w = 0)\<rparr>"

definition toy_commit :: commitFilesInput where
  "toy_commit = \<lparr>cinRepositoryRef = ''r'', cinMessage = ''m'', cinBranch = [], cinFiles = [], cinDeletePaths = [''f'']\<rparr>"

lemma toy_polling: "polling_ends (toy_env an) toy_dynamic fst"
  by (auto simp: polling_ends_def toy_env_def toy_dynamic_def)

definition toy_identity :: identity where
  "toy_identity = \<lparr>idTenant = ''t'', idClusterID = ''ws'', idUser = ''u'', idToken = ''k''\<rparr>"

definition toy_checkout :: checkoutRepositoryInput where
  "toy_checkout = \<lparr>kiRepositoryRef = ''r'', kiRef = [], kiBinaryEncoding = []\<rparr>"

theorem tools_return_witness:
  "(\<exists>r. commit_files (toy_env (\<lambda>_. [])) toy_identity toy_commit (75, [], False) = Some r) \<and>
   (\<exists>r. checkout_repository (toy_env (\<lambda>_. [])) toy_identity toy_checkout (75, [], False) = Some r) \<and>
   (\<exists>r. build_status (toy_env (\<lambda>_. [])) toy_identity \<lparr>biRepositoryRef = ''r'', biWorkflowFileName = [], biRef = [], biMaxLogLines = 0\<rparr>
      (75, [], False) = Some r) \<and>
   (\<exists>r. rebuild (toy_env (\<lambda>_. [])) toy_identity \<lparr>riRepositoryRef = ''r'', riWorkflowFileName = [], riRef = []\<rparr> (75, [], False) = Some r)"
  by (rule tools_return[where left = fst]) (use toy_polling in \<open>auto simp: toy_env_def ret_def\<close>)

lemma toy_keeps: "dynamic_keeps (\<lambda>w. P (fst (snd w))) toy_dynamic"
  by (auto simp: dynamic_keeps_def toy_dynamic_def keeps_def)

definition toy_output :: commitFilesOutput where
  "toy_output = zero_output\<lparr>coRepositoryRef := ''r'', coName := ''x'', coPhase := ''Succeeded'', coBundleRef := ''b'', coBundleDigest := ''d''\<rparr>"

text \<open>The caller's scope is the cluster of the request: the bundle stays.\<close>

theorem commit_files_settled_witness:
  "\<exists>created. (\<exists>obj v v'. dnCreate toy_dynamic repositoryCommitsGVR obj v = (Inr created, v')) \<and>
    repositoryCommitBundleStorageScope (toy_env (\<lambda>_. ''ws'')) created \<in> set [''ws'', ''ws''] \<and>
    (None = (None :: gerror option) \<longrightarrow> coPhase toy_output = RepositoryCommitPhaseSucceeded \<and> (\<exists>obj v v'.
       dnGet toy_dynamic repositoryCommitsGVR (object_name (toy_env (\<lambda>_. ''ws'')) created) v = (Inr obj, v') \<and>
       nested_string (toy_env (\<lambda>_. ''ws'')) obj [''status'', ''phase''] = RepositoryCommitPhaseSucceeded))"
proof -
  let ?Q = "\<lambda>sc (w :: toy). sc \<in> set (fst (snd w))"
  have "commitFiles (toy_env (\<lambda>_. ''ws'')) toy_dynamic (Some toy_bundles) ''ws'' toy_commit (75, [], False) =
      Some ((toy_output, None), (75, [''ws'', ''ws''], True))" by code_simp
  moreover have "toy_output \<noteq> zero_output" by (simp add: toy_output_def zero_output_def)
  moreover have "\<And>sc v r v'. bzPut toy_bundles sc (requested_files toy_commit) v = (Inr r, v') \<Longrightarrow> ?Q sc v'" by (auto simp: toy_bundles_def)
  moreover have "\<And>sc sc' n d. sc' \<noteq> sc \<Longrightarrow> keeps (?Q sc) (bzDelete toy_bundles sc' n d)" by (auto simp: toy_bundles_def keeps_def)
  moreover have "\<And>sc. dynamic_keeps (?Q sc) toy_dynamic" by (rule toy_keeps)
  moreover have "\<And>sc. keeps (?Q sc) (meTick (toy_env (\<lambda>_. ''ws'')))" by (auto simp: toy_env_def keeps_def)
  ultimately have "\<exists>created. (\<exists>obj v v'. dnCreate toy_dynamic repositoryCommitsGVR obj v = (Inr created, v')) \<and>
    ?Q (repositoryCommitBundleStorageScope (toy_env (\<lambda>_. ''ws'')) created) (75 :: nat, [''ws'', ''ws''], True) \<and>
    (None = (None :: gerror option) \<longrightarrow> coPhase toy_output = RepositoryCommitPhaseSucceeded \<and> (\<exists>obj v v'.
       dnGet toy_dynamic repositoryCommitsGVR (object_name (toy_env (\<lambda>_. ''ws'')) created) v = (Inr obj, v') \<and>
       nested_string (toy_env (\<lambda>_. ''ws'')) obj [''status'', ''phase''] = RepositoryCommitPhaseSucceeded))"
    by (intro commit_files_settled[where Q = ?Q and bz = toy_bundles])
  then show ?thesis unfolding fst_conv snd_conv .
qed

text \<open>A request created without its cluster is undone: at most the staged bundle is ever stored.\<close>

theorem commit_files_undone_witness:
  "fst (snd (snd (the (commitFiles (toy_env (\<lambda>_. [])) toy_dynamic (Some toy_bundles) ''ws'' toy_commit (75, [], False))))) = [] \<and>
   snd (fst (the (commitFiles (toy_env (\<lambda>_. [])) toy_dynamic (Some toy_bundles) ''ws'' toy_commit (75, [], False)))) \<noteq> None"
proof -
  let ?C = "\<lambda>(r :: BundleRef option) (w :: toy). set (fst (snd w)) \<subseteq> (if r = None then {} else {''ws''})"
  let ?run = "the (commitFiles (toy_env (\<lambda>_. [])) toy_dynamic (Some toy_bundles) ''ws'' toy_commit (75, [], False))"
  have "case commitFiles (toy_env (\<lambda>_. [])) toy_dynamic (Some toy_bundles) ''ws'' toy_commit (75, [], False) of
      None \<Rightarrow> False | Some x \<Rightarrow> fst (fst x) = zero_output" by code_simp
  then have run: "commitFiles (toy_env (\<lambda>_. [])) toy_dynamic (Some toy_bundles) ''ws'' toy_commit (75, [], False) =
      Some ((zero_output, snd (fst ?run)), snd ?run)" by (auto split: option.splits simp: prod_eq_iff)
  have sc: "TrimSpace ''ws'' = ''ws''" by code_simp
  have "?C None (snd ?run) \<and> snd (fst ?run) \<noteq> None"
    by (rule commit_files_undone[where C = ?C, OF run])
      (auto simp: staging_laws_def toy_bundles_def sc removeAll_filter_not_eq filter_empty_conv intro: toy_keeps)
  then show ?thesis by simp
qed

theorem checkout_tool_reclaims_witness:
  "snd (snd (snd (the (checkoutRepository (toy_env (\<lambda>_. ''ws'')) toy_dynamic (Some toy_bundles) toy_checkout (75, [], False))))) = False"
proof -
  let ?env = "toy_env (\<lambda>_. ''ws'')"
  obtain r w' where run: "checkoutRepository ?env toy_dynamic (Some toy_bundles) toy_checkout (75, [], False) = Some (r, w')"
    using checkoutRepository_returns[OF toy_polling] by fastforce
  have trim: "TrimSpace ''r'' = ''r''" by code_simp
  have req: "request_checkout ?env toy_dynamic (Some toy_bundles) toy_checkout (75, [], False) =
      (Inr (toy_bundles, toy_checkout, False, toy_object), (75, [], True))"
    by (simp add: request_checkout_def toy_checkout_def Let_def getRepository_def toy_env_def toy_dynamic_def bind_read EncodingBase64_def
        trim bindA_def handle_def ret_def readA_def)
  from checkout_tool_reclaims[OF run req] obtain v where "w' = snd (dnDelete toy_dynamic repositoryCheckoutsGVR (object_name ?env toy_object) v)"
    by blast
  with run show ?thesis by (simp add: toy_dynamic_def)
qed

end
