(* ===== verification/Oauth_Github.thy ===== *)
theory Oauth_Github
  imports Tenant
begin

text \<open>
  \<open>oauthgithub/oauth.go\<close>: the provider's half of connecting a GitHub account in a popup. The
  configuration comes from the environment; \<open>/start\<close> sends the browser to GitHub with the portal's
  state, \<open>/callback\<close> exchanges the code for a token and posts it to the portal's origin. URL parsing
  and printing, the OAuth library, the HTTP client and the template that turns origin and payload
  into a page are arguments.
\<close>

subsection \<open>Configuration\<close>

record oauth_Config =
  ocClientID :: string
  ocClientSecret :: string
  ocRedirectURL :: string
  ocStartURL :: string
  ocPortalOrigin :: string
  ocScopes :: "string list"

definition zero_config :: oauth_Config where
  "zero_config = \<lparr>ocClientID = [], ocClientSecret = [], ocRedirectURL = [], ocStartURL = [], ocPortalOrigin = [], ocScopes = []\<rparr>"

definition default_scopes :: string where
  "default_scopes = ''repo,workflow,delete_repo,read:org,admin:public_key,read:packages''"

definition start_url :: "url \<Rightarrow> url" where
  "start_url u = u\<lparr>urlPath := TrimSuffix (urlPath u) ''/callback'' @ ''/start'', urlRawQuery := [], urlFragment := []\<rparr>"

text \<open>The configuration and whether OAuth is enabled; \<open>getenv\<close> gives the empty string for an unset variable.\<close>

definition FromEnv :: "(string \<Rightarrow> string) \<Rightarrow> (string \<Rightarrow> gerror + url) \<Rightarrow> (url \<Rightarrow> string) \<Rightarrow> gerror + oauth_Config \<times> bool" where
  "FromEnv getenv parseURL printURL =
     (let clientID = getenv ''GITHUB_OAUTH_CLIENT_ID''; secret = getenv ''GITHUB_OAUTH_CLIENT_SECRET'';
          redirect = getenv ''GITHUB_OAUTH_REDIRECT_URL''; origin = getenv ''GITHUB_OAUTH_PORTAL_ORIGIN'';
          scopes = getenv ''GITHUB_OAUTH_SCOPES'' in
      if clientID = [] \<or> secret = [] \<or> redirect = [] then Inr (zero_config, False)
      else case parseURL redirect of
        Inl e \<Rightarrow> Inl (Wrapped ''GITHUB_OAUTH_REDIRECT_URL: '' e [])
      | Inr u \<Rightarrow>
          if \<not> HasSuffix (urlPath u) ''/callback''
          then Inl (Plain (''GITHUB_OAUTH_REDIRECT_URL path must end in /callback, got '' @ quoted (urlPath u)))
          else Inr (\<lparr>ocClientID = clientID, ocClientSecret = secret, ocRedirectURL = redirect, ocStartURL = printURL (start_url u),
              ocPortalOrigin = (if origin = [] then ''*'' else origin),
              ocScopes = filter (\<lambda>s. s \<noteq> []) (map TrimSpace (Split1 (CHR '','') (if scopes = [] then default_scopes else scopes)))\<rparr>, True))"

subsection \<open>Handlers\<close>

record user_answer =
  uaStatus :: int
  uaHeader :: "(string \<times> string) list"
  uaBody :: bytes

record 'w oauth_Handler =
  ohCfg :: oauth_Config
  ohEnabled :: bool
  ohAuthCodeURL :: "string \<Rightarrow> string"
  ohExchange :: "string \<Rightarrow> ('w, string) act"
  ohDo :: "http_request \<Rightarrow> ('w, user_answer) act"

record callbackResult =
  cbState :: string
  cbToken :: string
  cbLogin :: string
  cbScopes :: string
  cbError :: string

text \<open>An answer: an error, a redirection, JSON, or the page that posts a payload to an origin.\<close>

datatype oauth_response =
    OauthError nat string
  | OauthRedirect string
  | OauthJson string
  | OauthPage (page_origin: string) (page_payload: string) (page_failed: bool)

definition handleConfig :: "'w oauth_Handler \<Rightarrow> oauth_response" where
  "handleConfig h =
     OauthJson (compact_json (JObj ((''enabled'', JBool (ohEnabled h)) #
       (if ohEnabled h \<and> ocStartURL (ohCfg h) \<noteq> [] then [(''startURL'', JStr (ocStartURL (ohCfg h)))] else []) @
       (if ohEnabled h \<and> Join '', '' (ocScopes (ohCfg h)) \<noteq> [] then [(''scopes'', JStr (Join '', '' (ocScopes (ohCfg h))))] else []))) @ [CHR 0x0A])"

definition handleStart :: "'w oauth_Handler \<Rightarrow> (string \<times> string) list \<Rightarrow> oauth_response" where
  "handleStart h q =
     (if \<not> ohEnabled h then OauthError 404 ''github oauth not configured''
      else if map_get q ''state'' = [] then OauthError 400 ''missing state''
      else OauthRedirect (ohAuthCodeURL h (map_get q ''state'')))"

text \<open>The payload: \<open>json.Marshal\<close> of a map writes its keys in order.\<close>

definition result_json :: "callbackResult \<Rightarrow> json" where
  "result_json res = JObj [(''error'', JStr (cbError res)), (''login'', JStr (cbLogin res)), (''scopes'', JStr (cbScopes res)),
     (''state'', JStr (cbState res)), (''token'', JStr (cbToken res)), (''type'', JStr ''railgrid-github-oauth'')]"

definition renderResult :: "'w oauth_Handler \<Rightarrow> callbackResult \<Rightarrow> oauth_response" where
  "renderResult h res = OauthPage (ocPortalOrigin (ohCfg h)) (compact_json (result_json res)) (cbError res \<noteq> [])"

definition login_member :: "bytes \<times> json \<Rightarrow> string \<Rightarrow> string option" where
  "login_member kv login = (if field_name [''login''] (fst kv) = ''login'' then decode_str (snd kv) login else Some login)"

text \<open>A decoder stops after the first value of the body.\<close>

definition first_json :: "bytes \<Rightarrow> json option" where
  "first_json s = map_option fst (read_value (2 * length s + 2) s)"

definition user_request :: "string \<Rightarrow> http_request" where
  "user_request token = \<lparr>hqMethod = ''GET'', hqURL = ''https://api.github.com/user'',
     hqHeader = [(''Authorization'', ''Bearer '' @ token), (''Accept'', ''application/vnd.github+json'')], hqBody = []\<rparr>"

text \<open>\<open>fetchUser\<close>: login, scopes and an error; the scopes of an answer are kept when it is refused.\<close>

definition fetchUser :: "'w oauth_Handler \<Rightarrow> string \<Rightarrow> 'w \<Rightarrow> (string \<times> string \<times> bool) \<times> 'w" where
  "fetchUser h token w =
     (case ohDo h (user_request token) w of
        (Inl e, w1) \<Rightarrow> (([], [], False), w1)
      | (Inr resp, w1) \<Rightarrow>
          let scopes = map_get (uaHeader resp) ''X-OAuth-Scopes'' in
          if uaStatus resp \<noteq> 200 then (([], scopes, False), w1)
          else (case Option.bind (first_json (uaBody resp)) (\<lambda>v. decode_members login_member v []) of
              None \<Rightarrow> (([], scopes, False), w1)
            | Some login \<Rightarrow> ((login, scopes, True), w1)))"

definition handleCallback :: "'w oauth_Handler \<Rightarrow> (gerror \<Rightarrow> string) \<Rightarrow> (string \<times> string) list \<Rightarrow> 'w \<Rightarrow> oauth_response \<times> 'w" where
  "handleCallback h errText q w =
     (let failed = (\<lambda>state e. renderResult h \<lparr>cbState = state, cbToken = [], cbLogin = [], cbScopes = [], cbError = e\<rparr>) in
      if \<not> ohEnabled h then (OauthError 404 ''github oauth not configured'', w)
      else if map_get q ''error'' \<noteq> []
      then (failed (map_get q ''state'') (map_get q ''error'' @ '': '' @ map_get q ''error_description''), w)
      else if map_get q ''code'' = [] \<or> map_get q ''state'' = [] then (failed (map_get q ''state'') ''missing code or state'', w)
      else case ohExchange h (map_get q ''code'') w of
        (Inl e, w1) \<Rightarrow> (failed (map_get q ''state'') (''token exchange failed: '' @ errText e), w1)
      | (Inr token, w1) \<Rightarrow>
          (case fetchUser h token w1 of ((login, scopes, ok), w2) \<Rightarrow>
             (renderResult h \<lparr>cbState = map_get q ''state'', cbToken = token, cbLogin = (if ok then login else []), cbScopes = scopes,
                cbError = []\<rparr>, w2)))"

subsection \<open>Where a token goes\<close>

lemma keeps_fetchUser: "keeps P (ohDo h (user_request token)) \<Longrightarrow> keeps P (fetchUser h token)"
  by (rule keepsI) (auto simp: fetchUser_def Let_def keeps_def split: prod.splits sum.splits option.splits)

lemma keeps_handleCallback:
  assumes "\<And>code. keeps P (ohExchange h code)" and "\<And>token. keeps P (ohDo h (user_request token))"
  shows "keeps P (handleCallback h errText q)"
proof (rule keepsI)
  fix w assume P: "P w"
  obtain r w1 where ex: "ohExchange h (map_get q ''code'') w = (r, w1)" by fastforce
  then have w1: "P w1" using keepsD[OF assms(1) P] by (metis snd_conv)
  have "P (snd (fetchUser h token w1))" for token by (rule keepsD[OF keeps_fetchUser[OF assms(2)] w1])
  then show "P (snd (handleCallback h errText q w))"
    using P ex w1 by (cases r) (auto simp: handleCallback_def Let_def case_prod_beta)
qed

text \<open>
  (C20) An access token reaches only GitHub and the portal. Whatever \<open>P\<close> is kept by exchanging a code
  and by asking GitHub for the user is kept by a callback, so nothing else is called. The page of a
  callback always posts to the configured origin; it carries a token only if the request had a
  code and a state and no error, the token is the one GitHub gave for that code, and the state is
  the one of the request, which the portal compares with its own; and it carries a token or an
  error, never both.
\<close>

theorem callback_delivers_token:
  assumes "\<And>code. keeps P (ohExchange h code)" and "\<And>token. keeps P (ohDo h (user_request token))"
  shows "keeps P (handleCallback h errText q) \<and>
    (\<forall>w. case fst (handleCallback h errText q w) of
       OauthPage origin payload failed \<Rightarrow> origin = ocPortalOrigin (ohCfg h) \<and>
         (\<exists>res. payload = compact_json (result_json res) \<and> failed = (cbError res \<noteq> []) \<and> cbState res = map_get q ''state'' \<and>
            (cbToken res \<noteq> [] \<longrightarrow> cbError res = [] \<and> ohEnabled h \<and> map_get q ''error'' = [] \<and> map_get q ''code'' \<noteq> [] \<and>
               map_get q ''state'' \<noteq> [] \<and> fst (ohExchange h (map_get q ''code'') w) = Inr (cbToken res)))
     | OauthError status message \<Rightarrow> \<not> ohEnabled h
     | _ \<Rightarrow> False)"
proof (intro conjI allI)
  show "keeps P (handleCallback h errText q)" by (rule keeps_handleCallback[OF assms])
  fix w
  obtain r w1 where ex: "ohExchange h (map_get q ''code'') w = (r, w1)" by fastforce
  show "case fst (handleCallback h errText q w) of
       OauthPage origin payload failed \<Rightarrow> origin = ocPortalOrigin (ohCfg h) \<and>
         (\<exists>res. payload = compact_json (result_json res) \<and> failed = (cbError res \<noteq> []) \<and> cbState res = map_get q ''state'' \<and>
            (cbToken res \<noteq> [] \<longrightarrow> cbError res = [] \<and> ohEnabled h \<and> map_get q ''error'' = [] \<and> map_get q ''code'' \<noteq> [] \<and>
               map_get q ''state'' \<noteq> [] \<and> fst (ohExchange h (map_get q ''code'') w) = Inr (cbToken res)))
     | OauthError status message \<Rightarrow> \<not> ohEnabled h
     | _ \<Rightarrow> False"
  proof (cases "\<not> ohEnabled h \<or> map_get q ''error'' \<noteq> [] \<or> map_get q ''code'' = [] \<or> map_get q ''state'' = []")
    case True
    then show ?thesis by (auto simp: handleCallback_def Let_def renderResult_def)
  next
    case False
    then show ?thesis using ex by (cases r) (auto simp: handleCallback_def Let_def renderResult_def case_prod_beta)
  qed
qed

text \<open>The world lists the URLs that were asked.\<close>

definition example_handler :: "string list oauth_Handler" where
  "example_handler = \<lparr>ohCfg = zero_config\<lparr>ocPortalOrigin := ''https://hub''\<rparr>, ohEnabled = True, ohAuthCodeURL = (\<lambda>s. s),
     ohExchange = (\<lambda>code. ret (''gho_'' @ code)),
     ohDo = (\<lambda>req w. (Inr \<lparr>uaStatus = 200, uaHeader = [], uaBody = []\<rparr>, hqURL req # w))\<rparr>"

theorem callback_delivers_token_witness:
  "set (snd (handleCallback example_handler (\<lambda>_. []) [(''code'', ''c''), (''state'', ''s'')] [])) \<subseteq> {''https://api.github.com/user''} \<and>
   page_origin (fst (handleCallback example_handler (\<lambda>_. []) [(''code'', ''c''), (''state'', ''s'')] [])) = ''https://hub''"
proof -
  let ?q = "[(''code'', ''c''), (''state'', ''s'')]" and ?P = "\<lambda>w. set w \<subseteq> {''https://api.github.com/user''}"
  have ex: "\<And>code. keeps ?P (ohExchange example_handler code)" by (simp add: example_handler_def keeps_ret)
  have get: "\<And>token. keeps ?P (ohDo example_handler (user_request token))" by (simp add: example_handler_def keeps_def user_request_def)
  note facts = callback_delivers_token[OF ex get, of "\<lambda>_. []" ?q]
  have "?P (snd (handleCallback example_handler (\<lambda>_. []) ?q []))" by (rule keepsD[OF facts[THEN conjunct1]]) simp
  moreover have "page_origin (fst (handleCallback example_handler (\<lambda>_. []) ?q [])) = ''https://hub''"
    using facts[THEN conjunct2, THEN spec[of _ "[]"]] by (auto simp: example_handler_def split: oauth_response.splits)
  ultimately show ?thesis by blast
qed

end
