(* ===== verification/Provider_Server.thy ===== *)
theory Provider_Server
  imports Action_Server Oauth_Github
begin

text \<open>
  \<open>server/server.go\<close> and \<open>assets.go\<close>: the provider's HTTP routes and the portal. The routes are
  registered on an \<open>http.ServeMux\<close>, whose matching (patterns without a method, a host or a named
  wildcard, which is all the provider uses) and redirections are defined here as the standard
  library has them. The handlers that are not the provider's own (MCP transport, readiness, file
  server) are arguments.
\<close>

subsection \<open>Requests and answers\<close>

record 'w server_call =
  scCall :: http_call
  scRequestURI :: string
  scEscapedPath :: string
  scQuery :: "(string \<times> string) list"
  scBody :: "('w, bytes) act"

datatype reply =
    HttpError nat string
  | Moved string
  | Content "(string \<times> string) list" bytes
  | Acted "gerror + action_response"
  | Oauth oauth_response

type_synonym 'w handler = "'w server_call \<Rightarrow> 'w \<Rightarrow> reply \<times> 'w"

subsection \<open>The multiplexer\<close>

text \<open>\<open>url.PathUnescape\<close>; a segment that cannot be decoded stands for itself.\<close>

definition hex_val :: "char \<Rightarrow> nat option" where
  "hex_val c = (let n = of_char c :: nat in
     if 48 \<le> n \<and> n \<le> 57 then Some (n - 48)
     else if 97 \<le> n \<and> n \<le> 102 then Some (n - 87)
     else if 65 \<le> n \<and> n \<le> 70 then Some (n - 55) else None)"

fun PathUnescape :: "string \<Rightarrow> string option" where
  "PathUnescape [] = Some []"
| "PathUnescape (c # cs) =
     (if c \<noteq> CHR ''%'' then map_option (Cons c) (PathUnescape cs)
      else case cs of
        a # b # ds \<Rightarrow> (case (hex_val a, hex_val b) of
            (Some x, Some y) \<Rightarrow> map_option (Cons (char_of (16 * x + y))) (PathUnescape ds)
          | _ \<Rightarrow> None)
      | _ \<Rightarrow> None)"

definition unescape_segment :: "string \<Rightarrow> string" where
  "unescape_segment s = (case PathUnescape s of None \<Rightarrow> s | Some t \<Rightarrow> t)"

text \<open>The segments of a path; a trailing slash is the segment \<open>/\<close>, which no literal equals.\<close>

definition path_segments :: "string \<Rightarrow> string list" where
  "path_segments p =
     (if p = [] then []
      else let xs = Split1 slash (tl p) in
        map unescape_segment (butlast xs) @ (if last xs = [] then [''/''] else [unescape_segment (last xs)]))"

text \<open>A pattern: its literal segments, whether it ends in a slash, and its handler.\<close>

type_synonym 'h route = "string list \<times> bool \<times> 'h"

definition parse_pattern :: "string \<times> 'h \<Rightarrow> 'h route" where
  "parse_pattern ph =
     (let xs = path_segments (fst ph) in
      if last xs = ''/'' then (butlast xs, True, snd ph) else (xs, False, snd ph))"

text \<open>
  The walk through the routing tree: literals first, then the pattern that ends in a slash here. The
  tree below a node is the list of the patterns that remain, each with what is left of it.
\<close>

definition below :: "string \<Rightarrow> (string list \<times> 'h route) list \<Rightarrow> (string list \<times> 'h route) list" where
  "below s rs = map (\<lambda>(ps, r). (tl ps, r)) (filter (\<lambda>(ps, r). ps \<noteq> [] \<and> hd ps = s) rs)"

fun match_path :: "string list \<Rightarrow> (string list \<times> 'h route) list \<Rightarrow> 'h route option" where
  "match_path [] rs = map_option snd (find (\<lambda>(ps, r). ps = [] \<and> \<not> fst (snd r)) rs)"
| "match_path (s # ss) rs =
     (case match_path ss (below s rs) of
        Some r \<Rightarrow> Some r
      | None \<Rightarrow> map_option snd (find (\<lambda>(ps, r). ps = [] \<and> fst (snd r)) rs))"

definition mux_match :: "(string \<times> 'h) list \<Rightarrow> string \<Rightarrow> 'h route option" where
  "mux_match routes p = match_path (path_segments p) (map (\<lambda>ph. (fst (parse_pattern ph), parse_pattern ph)) routes)"

definition exactMatch :: "'h route option \<Rightarrow> string \<Rightarrow> bool" where
  "exactMatch n p = (case n of
       None \<Rightarrow> False
     | Some (ps, multi, h) \<Rightarrow> \<not> multi \<or>
         (p = [] \<or> last p = slash) \<and> Suc (length ps) = length (filter (\<lambda>c. c = slash) p))"

definition mux_clean :: "string \<Rightarrow> string" where
  "mux_clean p0 =
     (if p0 = [] then ''/''
      else let p = (if hd p0 = slash then p0 else slash # p0); np = path_Clean p in
        if last p = slash \<and> np \<noteq> ''/'' then np @ ''/'' else np)"

text \<open>Either a redirection to the path with a slash, or the matching pattern.\<close>

definition matchOrRedirect :: "(string \<times> 'h) list \<Rightarrow> string \<Rightarrow> string \<Rightarrow> string + 'h route option" where
  "matchOrRedirect routes p asked =
     (let n = mux_match routes p in
      if \<not> exactMatch n p \<and> \<not> HasSuffix p ''/'' \<and> p \<noteq> [] \<and> exactMatch (mux_match routes (p @ ''/'')) (p @ ''/'')
      then Inl (mux_clean asked @ ''/'') else Inr n)"

definition mux_serve :: "(string \<times> 'w handler) list \<Rightarrow> 'w handler" where
  "mux_serve routes r w =
     (let escaped = scEscapedPath r; asked = hcPath (scCall r);
          run = (\<lambda>n. case n of None \<Rightarrow> (HttpError 404 ''404 page not found'', w) | Some (ps, multi, h) \<Rightarrow> h r w) in
      if scRequestURI r = ''*'' then (HttpError 400 [], w)
      else if hcMethod (scCall r) = ''CONNECT'' then
        (case matchOrRedirect routes escaped asked of Inl u \<Rightarrow> (Moved u, w) | Inr n \<Rightarrow> run n)
      else
        (case matchOrRedirect routes (mux_clean escaped) asked of
           Inl u \<Rightarrow> (Moved u, w)
         | Inr n \<Rightarrow> if mux_clean escaped \<noteq> escaped then (Moved (mux_clean escaped), w) else run n))"

subsection \<open>The routes\<close>

record 'w Deps =
  dpActions :: "'w handler option"
  dpMCP :: "'w handler option"
  dpPortalFileServer :: "'w handler option"
  dpServePortalAsset :: "('w server_call \<Rightarrow> string \<Rightarrow> 'w \<Rightarrow> reply option \<times> 'w) option"
  dpOAuth :: "(string \<times> 'w handler) list option"
  dpReadiness :: "'w handler option"

definition handleHealthz :: "'w handler" where
  "handleHealthz r w = (Content [(''Content-Type'', ''application/json'')] (compact_json (JObj [(''status'', JStr ''ok'')]) @ [CHR 0x0A]), w)"

definition portal_fallback :: "'w Deps \<Rightarrow> 'w handler" where
  "portal_fallback d r w =
     (case dpPortalFileServer d of
        Some h \<Rightarrow> h (r\<lparr>scCall := (scCall r)\<lparr>hcPath := ''/''\<rparr>\<rparr>) w
      | None \<Rightarrow> (HttpError 404 ''404 page not found'', w))"

definition portal_handler :: "'w Deps \<Rightarrow> 'w handler" where
  "portal_handler d r w =
     (let name = TrimPrefix (hcPath (scCall r)) ''/'' in
      if hcMethod (scCall r) \<noteq> ''GET'' \<and> hcMethod (scCall r) \<noteq> ''HEAD'' then (HttpError 405 ''method not allowed'', w)
      else if name = [] then portal_fallback d r w
      else case dpServePortalAsset d of
        None \<Rightarrow> portal_fallback d r w
      | Some serve \<Rightarrow> (case serve r name w of
            (Some a, w') \<Rightarrow> (a, w')
          | (None, w') \<Rightarrow> portal_fallback d r w'))"

definition registered :: "string \<Rightarrow> 'w handler option \<Rightarrow> (string \<times> 'w handler) list" where
  "registered pattern h = (case h of None \<Rightarrow> [] | Some x \<Rightarrow> [(pattern, x)])"

definition server_New :: "'w Deps \<Rightarrow> (string \<times> 'w handler) list" where
  "server_New d =
     [(''/healthz'', handleHealthz)] @ registered ''/readyz'' (dpReadiness d) @
     registered ''/mcp'' (dpMCP d) @ registered ''/mcp/sse'' (dpMCP d) @ registered ''/actions/'' (dpActions d) @
     (case dpOAuth d of None \<Rightarrow> [] | Some mounted \<Rightarrow> mounted) @ [(''/'', portal_handler d)]"

definition server_ServeHTTP :: "'w Deps \<Rightarrow> 'w handler" where
  "server_ServeHTTP d = mux_serve (server_New d)"

text \<open>\<open>Handler.Mount\<close> of \<open>oauthgithub\<close>.\<close>

definition Mount :: "'w oauth_Handler \<Rightarrow> (gerror \<Rightarrow> string) \<Rightarrow> (string \<times> 'w handler) list" where
  "Mount h errText =
     [(''/oauth/github/config'', \<lambda>r w. (Oauth (handleConfig h), w)),
      (''/oauth/github/start'', \<lambda>r w. (Oauth (handleStart h (scQuery r)), w)),
      (''/oauth/github/callback'', \<lambda>r w. map_prod Oauth id (handleCallback h errText (scQuery r) w))]"

text \<open>The repository actions as a handler.\<close>

definition actions_handler :: "'w action_env \<Rightarrow> 'w handler" where
  "actions_handler env r w = map_prod Acted id (ServeHTTP env (scCall r) (scBody r) w)"

text \<open>
  \<open>servePortalAsset\<close>: \<open>openAsset\<close> gives what can be read of an embedded file, \<open>mimeType\<close> is
  \<open>mime.TypeByExtension\<close>.
\<close>

definition path_Ext :: "string \<Rightarrow> string" where
  "path_Ext p =
     (let name = last (Split1 slash p) in
      if CHR ''.'' \<in> set name then CHR ''.'' # last (Split1 (CHR ''.'') name) else [])"

definition servePortalAsset ::
  "(string \<Rightarrow> ('w, bytes) act) \<Rightarrow> (string \<Rightarrow> string) \<Rightarrow> 'w server_call \<Rightarrow> string \<Rightarrow> 'w \<Rightarrow> reply option \<times> 'w"
where
  "servePortalAsset openAsset mimeType r name0 w =
     (let name = TrimPrefix name0 ''/'' in
      if name = [] then (None, w)
      else case openAsset name w of
        (Inl e, w') \<Rightarrow> (None, w')
      | (Inr data, w') \<Rightarrow>
          let ct = mimeType (path_Ext name) in
          (Some (Content [(''Content-Type'', if ct = [] then ''application/octet-stream'' else ct), (''Cache-Control'', ''no-cache'')] data), w'))"

subsection \<open>Where a request goes\<close>

text \<open>
  The routing table read as a decision on the segments of the cleaned path: the patterns are exact
  but for \<open>/actions/\<close>, which takes everything below it, and \<open>/\<close>, which takes the rest.
\<close>

definition route_spec :: "'w handler \<Rightarrow> 'w handler \<Rightarrow> 'w handler \<Rightarrow> 'w oauth_Handler \<Rightarrow> (gerror \<Rightarrow> string) \<Rightarrow> 'w Deps \<Rightarrow> string list \<Rightarrow> 'w handler" where
  "route_spec ready mcp acts h errText d segs r w =
     (if segs = [''healthz''] then handleHealthz r w
      else if segs = [''readyz''] then ready r w
      else if segs = [''mcp''] \<or> segs = [''mcp'', ''sse''] then mcp r w
      else if hd segs = ''actions'' \<and> tl segs \<noteq> [] then acts r w
      else if segs = [''oauth'', ''github'', ''config''] then (Oauth (handleConfig h), w)
      else if segs = [''oauth'', ''github'', ''start''] then (Oauth (handleStart h (scQuery r)), w)
      else if segs = [''oauth'', ''github'', ''callback''] then map_prod Oauth id (handleCallback h errText (scQuery r) w)
      else portal_handler d r w)"

lemma parse_literals:
  "parse_pattern (''/healthz'', x) = ([''healthz''], False, x)" "parse_pattern (''/readyz'', x) = ([''readyz''], False, x)"
  "parse_pattern (''/mcp'', x) = ([''mcp''], False, x)" "parse_pattern (''/mcp/sse'', x) = ([''mcp'', ''sse''], False, x)"
  "parse_pattern (''/actions/'', x) = ([''actions''], True, x)" "parse_pattern (''/'', x) = ([], True, x)"
  "parse_pattern (''/oauth/github/config'', x) = ([''oauth'', ''github'', ''config''], False, x)"
  "parse_pattern (''/oauth/github/start'', x) = ([''oauth'', ''github'', ''start''], False, x)"
  "parse_pattern (''/oauth/github/callback'', x) = ([''oauth'', ''github'', ''callback''], False, x)"
  by (simp_all add: parse_pattern_def path_segments_def unescape_segment_def Let_def)

lemma match_path_empty [simp]: "match_path ss [] = None"
  by (induction ss) (simp_all add: below_def)

text \<open>Exact patterns match the whole path, in the order of registration.\<close>

lemma find_below: "map_option snd (find (\<lambda>(ps, r). ps = ss) (below s rs)) = map_option snd (find (\<lambda>(ps, r). ps = s # ss) rs)"
proof (induction rs)
  case (Cons e rs)
  then show ?case by (cases "fst e") (auto simp: below_def split: prod.splits)
qed (simp add: below_def)

lemma match_path_literals:
  "\<forall>e \<in> set rs. \<not> fst (snd (snd e)) \<Longrightarrow> match_path ss rs = map_option snd (find (\<lambda>(ps, r). ps = ss) rs)"
proof (induction ss arbitrary: rs)
  case Nil
  then show ?case by (induction rs) auto
next
  case (Cons s ss)
  have "\<forall>e \<in> set (below s rs). \<not> fst (snd (snd e))" using Cons.prems by (auto simp: below_def)
  from Cons.IH[OF this] have "match_path ss (below s rs) = map_option snd (find (\<lambda>(ps, r). ps = s # ss) rs)"
    by (simp only: find_below)
  moreover have "find (\<lambda>(ps, r). ps = [] \<and> fst (snd r)) rs = None" using Cons.prems by (auto simp: find_None_iff)
  ultimately show ?case by (simp split: option.splits)
qed

definition table :: "'h \<Rightarrow> 'h \<Rightarrow> 'h \<Rightarrow> 'h \<Rightarrow> 'h \<Rightarrow> 'h \<Rightarrow> 'h \<Rightarrow> 'h \<Rightarrow> (string \<times> 'h) list" where
  "table health ready mcp acts config start callback portal =
     [(''/healthz'', health), (''/readyz'', ready), (''/mcp'', mcp), (''/mcp/sse'', mcp), (''/actions/'', acts),
      (''/oauth/github/config'', config), (''/oauth/github/start'', start), (''/oauth/github/callback'', callback), (''/'', portal)]"

lemma table_match:
  assumes "path_segments p = segs" and "segs \<noteq> []"
  shows "mux_match (table health ready mcp acts config start callback portal) p = Some
    (if segs = [''healthz''] then (segs, False, health) else if segs = [''readyz''] then (segs, False, ready)
     else if segs = [''mcp''] \<or> segs = [''mcp'', ''sse''] then (segs, False, mcp)
     else if hd segs = ''actions'' \<and> tl segs \<noteq> [] then ([''actions''], True, acts)
     else if segs = [''oauth'', ''github'', ''config''] then (segs, False, config)
     else if segs = [''oauth'', ''github'', ''start''] then (segs, False, start)
     else if segs = [''oauth'', ''github'', ''callback''] then (segs, False, callback)
     else ([], True, portal))"
proof -
  obtain s ss where segs: "segs = s # ss" using assms(2) by (cases segs) auto
  consider "s = ''healthz''" | "s = ''readyz''" | "s = ''mcp''" | "s = ''actions''" | "s = ''oauth''"
    | "s \<notin> {''healthz'', ''readyz'', ''mcp'', ''actions'', ''oauth''}" by auto
  then show ?thesis
  proof cases
    case 4
    then show ?thesis by (cases ss) (simp_all add: mux_match_def assms(1) segs table_def parse_literals below_def)
  next
    case 6
    then have "''healthz'' \<noteq> s" "''readyz'' \<noteq> s" "''mcp'' \<noteq> s" "''actions'' \<noteq> s" "''oauth'' \<noteq> s" by auto
    with 6 show ?thesis by (simp add: mux_match_def assms(1) segs table_def parse_literals below_def)
  qed (simp_all add: mux_match_def assms(1) segs table_def parse_literals below_def match_path_literals)
qed

lemma snoc_ne: "xs @ [x] \<noteq> []"
  by simp

lemma length_Split1: "length (Split1 c s) = Suc (length (filter (\<lambda>x. x = c) s))"
  by (induction s) (auto split: list.splits)

lemma mux_clean_slash: "mux_clean p \<noteq> []" "hd (mux_clean p) = slash"
  by (auto simp: mux_clean_def path_Clean_def Let_def)

lemma path_segments_ne [simp]: "p \<noteq> [] \<Longrightarrow> path_segments p \<noteq> []"
  by (simp add: path_segments_def Let_def)

lemma Split1_Nil: "Split1 c s = [[]] \<longleftrightarrow> s = []"
  by (cases s) (auto split: list.splits)

lemma last_Split1: "s \<noteq> [] \<Longrightarrow> (last (Split1 c s) = []) = (last s = c)"
  by (induction s) (auto simp: Split1_Nil split: list.splits if_splits)

lemma ends_in_slash: "p \<noteq> [] \<Longrightarrow> HasSuffix p ''/'' \<longleftrightarrow> last p = slash"
  unfolding HasSuffix_iff by (metis append_butlast_last_id last_snoc)

lemma segments_of_slashed:
  assumes "p \<noteq> []" "hd p = slash" "\<not> HasSuffix p ''/''"
  shows "path_segments (p @ ''/'') = path_segments p @ [''/'']" "length (filter (\<lambda>c. c = slash) p) = length (path_segments p)"
proof -
  obtain q where p: "p = slash # q" using assms(1,2) by (cases p) auto
  have q: "q \<noteq> []" "last q \<noteq> slash" using assms(3) ends_in_slash[OF assms(1)] unfolding p by (auto split: if_splits)
  have last: "last (Split1 slash q) \<noteq> []" using last_Split1[OF q(1)] q(2) by simp
  have "Split1 slash (q @ ''/'') = Split1 slash q @ [[]]" using Split1_append[of slash q "[]"] by simp
  moreover have "map unescape_segment (butlast xs) @ [unescape_segment (last xs)] = map unescape_segment xs" if "xs \<noteq> []" for xs
    using that append_butlast_last_id[OF that] map_append[of unescape_segment "butlast xs" "[last xs]"] by simp
  ultimately show "path_segments (p @ ''/'') = path_segments p @ [''/'']"
    using last by (simp add: p path_segments_def Let_def)
  show "length (filter (\<lambda>c. c = slash) p) = length (path_segments p)"
    by (simp add: p path_segments_def Let_def length_Split1)
qed

text \<open>Only \<open>/actions\<close> is completed with a slash: no other pattern but \<open>/\<close> ends in one.\<close>

lemma table_redirect:
  assumes "p \<noteq> []" "hd p = slash"
  shows "matchOrRedirect (table health ready mcp acts config start callback portal) p asked =
    (if path_segments p = [''actions''] then Inl (mux_clean asked @ ''/'')
     else Inr (mux_match (table health ready mcp acts config start callback portal) p))"
proof -
  let ?t = "table health ready mcp acts config start callback portal" and ?segs = "path_segments p"
  note match = table_match[OF refl path_segments_ne[OF assms(1)], of health ready mcp acts config start callback portal]
  show ?thesis
  proof (cases "HasSuffix p ''/''")
    case True
    then have "last (Split1 slash (tl p)) = []" using assms last_Split1[of "tl p" slash] ends_in_slash[of p]
      by (cases "tl p = []") (auto simp: last_tl)
    then have "last ?segs = ''/''" using assms(1) by (simp add: path_segments_def Let_def)
    then have "?segs \<noteq> [''actions'']" by auto
    then show ?thesis using True by (simp add: matchOrRedirect_def Let_def)
  next
    case False
    note segs = segments_of_slashed[OF assms False]
    have last: "last p \<noteq> slash" using False ends_in_slash[OF assms(1)] by simp
    have ne: "?segs \<noteq> []" using assms(1) by simp
    have "exactMatch (mux_match ?t (p @ ''/'')) (p @ ''/'') \<longleftrightarrow> ?segs = [''actions'']"
      unfolding exactMatch_def table_match[OF segs(1) snoc_ne] using segs(2) ne by (cases ?segs) (auto simp: Cons_eq_append_conv append_eq_Cons_conv)
    moreover have "\<not> exactMatch (mux_match ?t p) p" if "?segs = [''actions'']"
      unfolding match using that last assms(1) by (simp add: exactMatch_def)
    ultimately show ?thesis using False assms(1) by (simp add: matchOrRedirect_def Let_def)
  qed
qed

lemma wired_table:
  assumes "dpReadiness d = Some ready" "dpMCP d = Some mcp" "dpActions d = Some acts" "dpOAuth d = Some (Mount h errText)"
  shows "server_New d = table handleHealthz ready mcp acts (\<lambda>r w. (Oauth (handleConfig h), w))
    (\<lambda>r w. (Oauth (handleStart h (scQuery r)), w)) (\<lambda>r w. map_prod Oauth id (handleCallback h errText (scQuery r) w)) (portal_handler d)"
  unfolding server_New_def Mount_def table_def by (simp add: assms registered_def Mount_def)

lemma wired_routes:
  assumes wired: "dpReadiness d = Some ready" "dpMCP d = Some mcp" "dpActions d = Some acts" "dpOAuth d = Some (Mount h errText)"
    and "scRequestURI r \<noteq> ''*''" "hcMethod (scCall r) \<noteq> ''CONNECT''"
  shows "server_ServeHTTP d r w =
    (let p = mux_clean (scEscapedPath r); segs = path_segments p in
     if segs = [''actions''] then (Moved (mux_clean (hcPath (scCall r)) @ ''/''), w)
     else if p \<noteq> scEscapedPath r then (Moved p, w)
     else route_spec ready mcp acts h errText d segs r w)"
proof -
  let ?p = "mux_clean (scEscapedPath r)"
  note redirect = table_redirect[OF mux_clean_slash, of _ _ _ _ _ _ _ _ "scEscapedPath r"]
  note match = table_match[OF refl path_segments_ne[OF mux_clean_slash(1)], of _ _ _ _ _ _ _ _ "scEscapedPath r"]
  show ?thesis
    unfolding server_ServeHTTP_def wired_table[OF wired] mux_serve_def Let_def redirect match
    using assms(5,6) by (simp add: route_spec_def)
qed

end
