(* ===== verification/Provider_Install.thy ===== *)
theory Provider_Install
  imports Mcp_Server
begin

text \<open>
  \<open>install/endpointslice.go\<close>: at startup the provider makes sure that the endpoint slice of its
  export exists, through which the controllers and the repository actions find the tenants'
  workspaces; and the choice of a configuration in \<open>controller_manager.go\<close>. The path of the export
  in an existing slice is read through the accessor of \<open>mcp_env\<close>.
\<close>

definition APIExportName :: string where "APIExportName = ''code.providers.railgrid.ai''"
definition APIExportEndpointSliceName :: string where "APIExportEndpointSliceName = ''code.providers.railgrid.ai''"
definition apiExportEndpointSliceGVR :: string where "apiExportEndpointSliceGVR = ''apiexportendpointslices''"

definition wanted_slice :: "string \<Rightarrow> json" where
  "wanted_slice workspacePath = JObj [(''apiVersion'', JStr ''apis.kcp.io/v1alpha1''), (''kind'', JStr ''APIExportEndpointSlice''),
     (''metadata'', JObj [(''name'', JStr APIExportEndpointSliceName)]),
     (''spec'', JObj [(''export'', JObj [(''name'', JStr APIExportName), (''path'', JStr workspacePath)])])]"

definition create_slice :: "'w dynamic \<Rightarrow> string \<Rightarrow> string \<Rightarrow> ('w, unit) act" where
  "create_slice dyn workspacePath what =
     handle (dnCreate dyn apiExportEndpointSliceGVR (wanted_slice workspacePath))
       (\<lambda>e. if is_reason AlreadyExists e then ret () else failA (Wrapped (what @ '' APIExportEndpointSlice: '') e []))
       (\<lambda>obj. ret ())"

definition EnsureAPIExportEndpointSlice :: "'w mcp_env \<Rightarrow> ('w, 'w dynamic) act \<Rightarrow> string \<Rightarrow> ('w, unit) act" where
  "EnsureAPIExportEndpointSlice env connect workspacePath =
     (if workspacePath = [] then failA (Plain ''workspacePath is required to publish APIExportEndpointSlice endpoints'')
      else handle connect (\<lambda>e. failA (Wrapped ''dynamic client: '' e [])) (\<lambda>dyn.
        handle (dnGet dyn apiExportEndpointSliceGVR APIExportEndpointSliceName)
          (\<lambda>e. if is_reason NotFound e then create_slice dyn workspacePath ''create''
             else failA (Wrapped ''get existing APIExportEndpointSlice: '' e []))
          (\<lambda>existing.
             if nested_string env existing [''spec'', ''export'', ''path''] = workspacePath then ret ()
             else handle (dnDelete dyn apiExportEndpointSliceGVR APIExportEndpointSliceName)
               (\<lambda>e. if is_reason NotFound e then create_slice dyn workspacePath ''recreate''
                  else failA (Wrapped ''delete stale APIExportEndpointSlice: '' e []))
               (\<lambda>u. create_slice dyn workspacePath ''recreate''))))"

text \<open>\<open>loadControllerConfig\<close>: the first of three variables that is set, or the pod's own account.\<close>

definition loadControllerConfig ::
  "(string \<Rightarrow> string) \<Rightarrow> (string \<Rightarrow> ('w, 'c) act) \<Rightarrow> ('w, 'c) act \<Rightarrow> ('w, 'c) act"
where
  "loadControllerConfig getenv build inCluster =
     (let from = (\<lambda>name. handle (build (getenv name)) (\<lambda>e. failA (Wrapped (name @ '': '') e [])) ret) in
      if getenv ''RAILGRID_PROVIDER_KUBECONFIG'' \<noteq> [] then from ''RAILGRID_PROVIDER_KUBECONFIG''
      else if getenv ''CODE_KUBECONFIG'' \<noteq> [] then from ''CODE_KUBECONFIG''
      else if getenv ''KUBECONFIG'' \<noteq> [] then from ''KUBECONFIG''
      else handle inCluster (\<lambda>e. failA (Plain ''no kubeconfig available; controller manager disabled'')) ret)"

text \<open>
  A slice that was ensured either had the wanted path already, or was created now, or the API
  server said that one exists.
\<close>

lemma create_slice_Inr:
  assumes "create_slice dyn path what w = (Inr u, w')"
  shows "\<exists>r. dnCreate dyn apiExportEndpointSliceGVR (wanted_slice path) w = (r, w') \<and> (\<forall>e. r = Inl e \<longrightarrow> is_reason AlreadyExists e)"
  using assms unfolding create_slice_def by (auto simp: handle_def split: prod.splits sum.splits if_splits)

theorem slice_ensured:
  assumes "EnsureAPIExportEndpointSlice env connect path w = (Inr u, w')"
  shows "path \<noteq> [] \<and> (\<exists>dyn w1. connect w = (Inr dyn, w1) \<and>
    ((\<exists>existing. dnGet dyn apiExportEndpointSliceGVR APIExportEndpointSliceName w1 = (Inr existing, w') \<and>
        nested_string env existing [''spec'', ''export'', ''path''] = path) \<or>
     (\<exists>v r. dnCreate dyn apiExportEndpointSliceGVR (wanted_slice path) v = (r, w') \<and> (\<forall>e. r = Inl e \<longrightarrow> is_reason AlreadyExists e))))"
proof -
  have path: "path \<noteq> []" using assms by (auto simp: EnsureAPIExportEndpointSlice_def)
  from assms[unfolded EnsureAPIExportEndpointSlice_def if_not_P[OF path] handle_failA_Inr] obtain dyn w1
    where conn: "connect w = (Inr dyn, w1)"
      and rest: "handle (dnGet dyn apiExportEndpointSliceGVR APIExportEndpointSliceName)
          (\<lambda>e. if is_reason NotFound e then create_slice dyn path ''create''
             else failA (Wrapped ''get existing APIExportEndpointSlice: '' e []))
          (\<lambda>existing.
             if nested_string env existing [''spec'', ''export'', ''path''] = path then ret ()
             else handle (dnDelete dyn apiExportEndpointSliceGVR APIExportEndpointSliceName)
               (\<lambda>e. if is_reason NotFound e then create_slice dyn path ''recreate''
                  else failA (Wrapped ''delete stale APIExportEndpointSlice: '' e []))
               (\<lambda>u. create_slice dyn path ''recreate'')) w1 = (Inr u, w')" by blast
  obtain r w2 where get: "dnGet dyn apiExportEndpointSliceGVR APIExportEndpointSliceName w1 = (r, w2)" by fastforce
  obtain d w3 where del: "dnDelete dyn apiExportEndpointSliceGVR APIExportEndpointSliceName w2 = (d, w3)" by fastforce
  consider existing where "r = Inr existing" "nested_string env existing [''spec'', ''export'', ''path''] = path" "w' = w2"
    | v what where "create_slice dyn path what v = (Inr u, w')"
    using rest get del by (cases r; cases d) (auto split: if_splits)
  then show ?thesis using path conn get create_slice_Inr by cases (fast, blast)
qed

end
