(* ===== verification/Provider_Process.thy ===== *)
theory Provider_Process
  imports Provider_Server Provider_Install Bundle_Store
begin

text \<open>
  \<open>main.go\<close>, \<open>init_cmd.go\<close> and \<open>controller_manager.go\<close>: how the process is put together. What the
  process only calls (the SDK's bootstrap, leader election, heartbeat and readiness, the multicluster
  manager, the MCP transport, the OAuth library, the embedded portal) are arguments; a goroutine that
  is started is a task handed to \<open>prSpawn\<close>. Messages that are only logged are left out.
\<close>

subsection \<open>One term of the controllers\<close>

record 'w term_env =
  tmNewProvider :: "('w, unit) act"
  tmReady :: "(('w \<Rightarrow> 'w) \<times> ('w \<Rightarrow> 'w)) option"
  tmNewManager :: "('w, unit) act"
  tmSetup :: "string \<Rightarrow> ('w, unit) act"
  tmStart :: "('w, unit) act"

definition controllers :: "string list" where
  "controllers = [''connection'', ''repository'', ''repositorycommit'', ''repositorycheckout'', ''deploykey'', ''collaborator'',
     ''packages'', ''repositorybuildstatus'']"

definition setup_controllers :: "'w term_env \<Rightarrow> ('w, unit) act" where
  "setup_controllers te =
     forA (\<lambda>name u. handle (tmSetup te name) (\<lambda>e. failA (Wrapped (name @ '' controller: '') e [])) ret) controllers ()"

text \<open>\<open>defer ready.Attach(\<dots>)()\<close>: attached at once, detached whatever happens then.\<close>

definition attached :: "(('w \<Rightarrow> 'w) \<times> ('w \<Rightarrow> 'w)) option \<Rightarrow> ('w, 'a) act \<Rightarrow> ('w, 'a) act" where
  "attached ready m w = (case ready of
       None \<Rightarrow> m w
     | Some (attach, detach) \<Rightarrow> map_prod id detach (m (attach w)))"

definition runControllerManager :: "'w term_env \<Rightarrow> ('w, unit) act" where
  "runControllerManager te =
     handle (tmNewProvider te) (\<lambda>e. failA (Wrapped ''creating apiexport multicluster provider: '' e [])) (\<lambda>provider.
       attached (tmReady te)
         (handle (tmNewManager te) (\<lambda>e. failA (Wrapped ''creating multicluster manager: '' e [])) (\<lambda>mgr.
            bindA (setup_controllers te) (\<lambda>u. tmStart te))))"

subsection \<open>Starting the controllers\<close>

datatype 'w task =
    WatchExport
  | Sweeper duration duration
  | Listen string "'w Deps"
  | LeaderElection string string
  | Heartbeat "'w \<Rightarrow> bool"

definition controllerLeaseName :: string where "controllerLeaseName = ''code-controllers''"

definition startControllerManager ::
  "'w mcp_env \<Rightarrow> (rest_config \<Rightarrow> ('w, 'w dynamic) act) \<Rightarrow> (string \<Rightarrow> string) \<Rightarrow> string \<Rightarrow> ('w task \<Rightarrow> 'w \<Rightarrow> 'w) \<Rightarrow> rest_config option \<Rightarrow> ('w, unit) act"
where
  "startControllerManager env connect getenv ns spawn config =
     (case config of
        None \<Rightarrow> failA (Plain ''no kubeconfig available; controller manager disabled'')
      | Some c \<Rightarrow> bindA (ignoring (EnsureAPIExportEndpointSlice env (connect c) (getenv ''CODE_WORKSPACE_PATH'')))
          (\<lambda>u w. (Inr (), spawn (LeaderElection ns controllerLeaseName) w)))"

subsection \<open>Serving\<close>

record 'w oauth_lib =
  olAuthCodeURL :: "oauth_Config \<Rightarrow> string \<Rightarrow> string"
  olExchange :: "oauth_Config \<Rightarrow> string \<Rightarrow> ('w, string) act"
  olDo :: "http_request \<Rightarrow> ('w, user_answer) act"

definition oauth_NewHandler :: "'w oauth_lib \<Rightarrow> oauth_Config \<Rightarrow> bool \<Rightarrow> 'w oauth_Handler" where
  "oauth_NewHandler lib cfg enabled =
     \<lparr>ohCfg = cfg, ohEnabled = enabled, ohAuthCodeURL = olAuthCodeURL lib cfg, ohExchange = olExchange lib cfg, ohDo = olDo lib\<rparr>"

record 'w process =
  prGetenv :: "string \<Rightarrow> string"
  prBuildConfig :: "string \<Rightarrow> ('w, rest_config) act"
  prInCluster :: "('w, rest_config) act"
  prBackend :: "'w action_backend"
  prBackendName :: "'w action_backend \<Rightarrow> string"
  prMkdirErr :: bool
  prTempDir :: string
  prTokens :: "'w token_env"
  prClients :: "('w, 'w dyn) factory_env"
  prPanic :: "('w, 'w dyn) act"
  prExport :: "rest_config \<Rightarrow> ('w, json list) act \<times> (string \<Rightarrow> ('w, 'w dyn) act)"
  prActionEnv :: "'w action_env"
  prMCP :: "ClientFactory option \<Rightarrow> FileStore \<Rightarrow> 'w handler"
  prPortal :: "gerror + 'w handler \<times> (string \<Rightarrow> ('w, bytes) act)"
  prMime :: "string \<Rightarrow> string"
  prParseURL :: "string \<Rightarrow> gerror + url"
  prPrintURL :: "url \<Rightarrow> string"
  prOauth :: "'w oauth_lib"
  prText :: "gerror \<Rightarrow> string"
  prReadyz :: "'w handler"
  prReady :: "'w \<Rightarrow> bool"
  prAccess :: "'w mcp_env"
  prConnect :: "rest_config \<Rightarrow> ('w, 'w dynamic) act"
  prNamespace :: string
  prSpawn :: "'w task \<Rightarrow> 'w \<Rightarrow> 'w"
  prWait :: "'w \<Rightarrow> 'w"
  prShutdown :: "'w \<Rightarrow> 'w"

text \<open>
  The method \<open>For\<close> on the pointer a factory is: with no factory behind it, it refuses a request without
  a token and dereferences a nil pointer on any other, which is the argument \<open>panic\<close>.
\<close>

definition pointer_For ::
  "('w, 'w dyn) factory_env \<Rightarrow> ('w, 'w dyn) act \<Rightarrow> ClientFactory option \<Rightarrow> string \<Rightarrow> string \<Rightarrow> ('w, 'w dyn) act"
where
  "pointer_For fe panic f clusterID token = (case f of
       Some x \<Rightarrow> factory_For x fe clusterID token
     | None \<Rightarrow>
         if token = [] then failA (Plain (''no bearer token on request '' @ [CHR 0xE2, CHR 0x80, CHR 0x94] @ '' cannot act on the tenant'' @ CHR 0x27 # ''s behalf''))
         else panic)"

text \<open>
  \<open>actions.New\<close> and the assignment of \<open>SnapshotDir\<close>. The factory's pointer and the function made by
  \<open>ExportClient\<close> become interface and function values that are never nil.
\<close>

definition snapshot_dir :: "FileStore \<Rightarrow> string" where
  "snapshot_dir bundles = path_Clean (store_Dir (Some bundles) @ ''/'' @ ''git-snapshots'')"

definition code_actions :: "'w process \<Rightarrow> rest_config option \<Rightarrow> 'w action_backend Registry \<Rightarrow> FileStore \<Rightarrow> 'w action_env" where
  "code_actions pr config backends bundles =
     (prActionEnv pr)\<lparr>aeCaller := Some (pointer_For (prClients pr) (prPanic pr) (NewClientFactory (prTokens pr) config)),
        aeAuthority := Some (ExportClient (map_option (prExport pr) config)), aeBackends := backends,
        aeSnapshotDir := snapshot_dir bundles\<rparr>"

definition serve_oauth :: "'w process \<Rightarrow> 'w oauth_Handler" where
  "serve_oauth pr = (case FromEnv (prGetenv pr) (prParseURL pr) (prPrintURL pr) of
       Inl e \<Rightarrow> oauth_NewHandler (prOauth pr) zero_config False
     | Inr (cfg, enabled) \<Rightarrow> oauth_NewHandler (prOauth pr) cfg enabled)"

definition serve_deps ::
  "'w process \<Rightarrow> rest_config option \<Rightarrow> 'w action_backend Registry \<Rightarrow> FileStore \<Rightarrow> 'w handler \<times> (string \<Rightarrow> ('w, bytes) act) \<Rightarrow> 'w Deps"
where
  "serve_deps pr config backends bundles portal =
     \<lparr>dpActions = Some (actions_handler (code_actions pr config backends bundles)),
      dpMCP = Some (prMCP pr (NewClientFactory (prTokens pr) config) bundles),
      dpPortalFileServer = Some (fst portal),
      dpServePortalAsset = Some (servePortalAsset (snd portal) (prMime pr)),
      dpOAuth = Some (Mount (serve_oauth pr) (prText pr)),
      dpReadiness = Some (prReadyz pr)\<rparr>"

datatype outcome = Fatal string | Stopped

text \<open>The port to listen on.\<close>

definition serve_addr :: "(string \<Rightarrow> string) \<Rightarrow> string" where
  "serve_addr getenv = '':'' @ (if getenv ''PORT'' = [] then ''8083'' else getenv ''PORT'')"

definition runServe :: "'w process \<Rightarrow> 'w \<Rightarrow> outcome \<times> 'w" where
  "runServe pr w =
     (case loadControllerConfig (prGetenv pr) (prBuildConfig pr) (prInCluster pr) w of (kcp, w1) \<Rightarrow>
      let config = (case kcp of Inl e \<Rightarrow> None | Inr c \<Rightarrow> Some c) in
      case Register (prBackendName pr) (Some (prBackend pr)) NewRegistry of
        Inl e \<Rightarrow> (Fatal ''register github backend'', w1)
      | Inr backends \<Rightarrow>
          (case NewFileStoreFromEnv (prMkdirErr pr) (prGetenv pr ''CODE_COMMIT_BUNDLE_DIR'') (prTempDir pr) of
             Inl e \<Rightarrow> (Fatal ''commit bundle store'', w1)
           | Inr bundles \<Rightarrow>
               (case prPortal pr of
                  Inl e \<Rightarrow> (Fatal ''portal embed'', w1)
                | Inr portal \<Rightarrow>
                    let w2 = prSpawn pr (Sweeper DefaultSweepInterval DefaultSweepMaxAge) (prSpawn pr WatchExport w1);
                        w3 = prSpawn pr (Listen (serve_addr (prGetenv pr)) (serve_deps pr config backends bundles portal)) w2;
                        w4 = snd (startControllerManager (prAccess pr) (prConnect pr) (prGetenv pr) (prNamespace pr) (prSpawn pr) config w3)
                    in (Stopped, prShutdown pr (prWait pr (prSpawn pr (Heartbeat (prReady pr)) w4))))))"

subsection \<open>Bootstrapping and the command line\<close>

record permission_claim =
  pcResource :: string
  pcVerbs :: "string list"

record install_Options =
  ioConfig :: rest_config
  ioExportName :: string
  ioWorkspacePath :: string
  ioSchemasDir :: string
  ioClaims :: "permission_claim list"
  ioCatalogEntryFile :: string

definition codeClaims :: "permission_claim list" where
  "codeClaims = [\<lparr>pcResource = ''secrets'', pcVerbs = [''get'', ''list'', ''watch'', ''create'', ''update'', ''patch'', ''delete'']\<rparr>]"

definition runInitCmd :: "'w process \<Rightarrow> (install_Options \<Rightarrow> ('w, unit) act) \<Rightarrow> ('w, unit) act" where
  "runInitCmd pr bootstrap =
     (let getenv = prGetenv pr; schemas = getenv ''RAILGRID_SCHEMAS_DIR'' in
      handle (loadControllerConfig getenv (prBuildConfig pr) (prInCluster pr))
        (\<lambda>e. failA (Wrapped ''init needs a kubeconfig (set RAILGRID_PROVIDER_KUBECONFIG): '' e []))
        (\<lambda>config. handle (bootstrap \<lparr>ioConfig = config, ioExportName = APIExportName, ioWorkspacePath = getenv ''CODE_WORKSPACE_PATH'',
             ioSchemasDir = (if schemas = [] then ''/etc/railgrid/schemas'' else schemas), ioClaims = codeClaims,
             ioCatalogEntryFile = getenv ''RAILGRID_CATALOGENTRY_FILE''\<rparr>)
           (\<lambda>e. failA (Wrapped ''provider workspace bootstrap: '' e [])) ret))"

text \<open>The exit status of the process; \<open>log.Fatalf\<close> exits with 1.\<close>

definition main :: "'w process \<Rightarrow> (install_Options \<Rightarrow> ('w, unit) act) \<Rightarrow> string list \<Rightarrow> 'w \<Rightarrow> nat \<times> 'w" where
  "main pr bootstrap args w =
     (let serve = (\<lambda>w. case runServe pr w of (Fatal m, w') \<Rightarrow> (1, w') | (Stopped, w') \<Rightarrow> (0, w')) in
      if length args > 1 then
        if args ! 1 = ''init'' then (case runInitCmd pr bootstrap w of (Inl e, w') \<Rightarrow> (1, w') | (Inr u, w') \<Rightarrow> (0, w'))
        else if args ! 1 = ''serve'' then serve w
        else (2, w)
      else serve w)"

subsection \<open>What the process does\<close>

text \<open>Nothing is started unless the backend, the bundle store and the portal are there.\<close>

theorem fatal_starts_nothing:
  assumes "runServe pr w = (Fatal m, w')"
  shows "w' = snd (loadControllerConfig (prGetenv pr) (prBuildConfig pr) (prInCluster pr) w)"
  using assms unfolding runServe_def Let_def by (auto split: prod.splits sum.splits)

text \<open>
  A term of the controllers that ends without an error ran the manager with every controller
  registered, and readiness was detached from it at the end.
\<close>

lemma forA_unit_all:
  "forA (\<lambda>x u. f x) xs () w = (Inr (), w') \<Longrightarrow> \<forall>x \<in> set xs. \<exists>v v'. f x v = (Inr (), v')"
proof (induction xs arbitrary: w)
  case (Cons x xs)
  then obtain v where "f x w = (Inr (), v)" "forA (\<lambda>x u. f x) xs () v = (Inr (), w')"
    by (auto simp: bindA_Inr_iff)
  then show ?case using Cons.IH by auto
qed simp

theorem term_complete:
  assumes "runControllerManager te w = (Inr u, w')" and "tmReady te = Some (attach, detach)"
  shows "(\<forall>name \<in> set controllers. \<exists>v v'. tmSetup te name v = (Inr (), v')) \<and>
    (\<exists>v v'. tmStart te v = (Inr u, v') \<and> w' = detach v')"
proof -
  define m where "m = handle (tmNewManager te) (\<lambda>e. failA (Wrapped ''creating multicluster manager: '' e [])) (\<lambda>mgr.
    bindA (setup_controllers te) (\<lambda>u. tmStart te))"
  from assms(1) obtain w1 where "map_prod id detach (m (attach w1)) = (Inr u, w')"
    unfolding runControllerManager_def handle_failA_Inr attached_def assms(2) m_def by auto
  then obtain v3 where "m (attach w1) = (Inr u, v3)" "w' = detach v3" by (cases "m (attach w1)") auto
  then obtain v1 v2 where "setup_controllers te v1 = (Inr (), v2)" "tmStart te v2 = (Inr u, v3)" "w' = detach v3"
    unfolding m_def handle_failA_Inr bindA_Inr_iff by auto
  then show ?thesis
    unfolding setup_controllers_def using forA_unit_all by (fastforce simp: handle_failA_Inr ret_def)
qed

text \<open>
  With no path configured the endpoint slice is neither looked up nor created: all that happens is
  the election of a leader, whose manager then watches a slice nobody made.
\<close>

theorem empty_workspace_path_ensures_nothing:
  assumes "getenv ''CODE_WORKSPACE_PATH'' = []"
  shows "startControllerManager env connect getenv ns spawn (Some c) w = (Inr (), spawn (LeaderElection ns controllerLeaseName) w)"
  using assms by (simp add: startControllerManager_def EnsureAPIExportEndpointSlice_def bindA_def handle_def ignoring_def failA_def)

text \<open>
  Without a configuration there is no client factory, but its nil pointer in the interface \<open>Caller\<close>
  is not nil, so the guard of \<open>authorize\<close> lets every request with a token through to it.
\<close>

theorem nil_factory_unguarded:
  assumes "map_get (hcHeader r) ''Authorization'' = ''Bearer '' @ token" "token \<noteq> []" and "prPanic pr w = (Inl e, w')"
  shows "authorize (code_actions pr None backends bundles) r cluster name action w = (fst (denied w'), w')"
  using assms by (simp add: authorize_def code_actions_def pointer_For_def NewClientFactory_def Let_def TrimPrefix_def denied_def
      failA_def handle_def HasPrefix_def)

text \<open>
  (C18) Where a request goes. The server that listens answers every request (\<open>CONNECT\<close> and \<open>*\<close>
  apart) by what its cleaned path is: a path that is not clean is redirected to the clean one and \<open>/actions\<close> to
  \<open>/actions/\<close>, with no handler called; the health, readiness, MCP and connect endpoints get exactly their own path;
  the repository actions get what lies below \<open>/actions/\<close> and nothing else; and the portal gets all the rest.
\<close>

theorem serve_routes:
  assumes "scRequestURI r \<noteq> ''*''" "hcMethod (scCall r) \<noteq> ''CONNECT''"
  shows "server_ServeHTTP (serve_deps pr config backends bundles portal) r w =
    (let p = mux_clean (scEscapedPath r); segs = path_segments p in
     if segs = [''actions''] then (Moved (mux_clean (hcPath (scCall r)) @ ''/''), w)
     else if p \<noteq> scEscapedPath r then (Moved p, w)
     else route_spec (prReadyz pr) (prMCP pr (NewClientFactory (prTokens pr) config) bundles)
       (actions_handler (code_actions pr config backends bundles)) (serve_oauth pr) (prText pr)
       (serve_deps pr config backends bundles portal) segs r w)"
  by (rule wired_routes[OF _ _ _ _ assms]) (simp_all add: serve_deps_def)

definition call_of :: "string \<Rightarrow> nat server_call" where
  "call_of p = \<lparr>scCall = \<lparr>hcMethod = ''GET'', hcPath = p, hcRawPath = [], hcHeader = []\<rparr>, scRequestURI = p, scEscapedPath = p,
     scQuery = [], scBody = ret []\<rparr>"

theorem serve_routes_witness:
  "\<forall>(pr :: nat process) config backends bundles portal w.
     server_ServeHTTP (serve_deps pr config backends bundles portal) (call_of ''/mcp/../actions/x'') w = (Moved ''/actions/x'', w) \<and>
     server_ServeHTTP (serve_deps pr config backends bundles portal) (call_of ''/actions/x'') w =
       actions_handler (code_actions pr config backends bundles) (call_of ''/actions/x'') w"
proof (intro allI conjI)
  fix pr :: "nat process" and config backends bundles portal w
  note routes = serve_routes[of "call_of p" pr config backends bundles portal w for p]
  have clean: "mux_clean ''/mcp/../actions/x'' = ''/actions/x''" "mux_clean ''/actions/x'' = ''/actions/x''"
    "path_segments ''/actions/x'' = [''actions'', ''x'']" by code_simp+
  show "server_ServeHTTP (serve_deps pr config backends bundles portal) (call_of ''/mcp/../actions/x'') w = (Moved ''/actions/x'', w)"
    using routes[of "''/mcp/../actions/x''"] by (simp add: call_of_def clean)
  show "server_ServeHTTP (serve_deps pr config backends bundles portal) (call_of ''/actions/x'') w =
      actions_handler (code_actions pr config backends bundles) (call_of ''/actions/x'') w"
    using routes[of "''/actions/x''"] by (simp add: call_of_def clean route_spec_def Let_def)
qed

end
