(* ===== verification/Shared_Volume.thy ===== *)
theory Shared_Volume
  imports Provider_Process
begin

text \<open>
  One volume, two owners: \<open>main.go\<close> puts the staged snapshots of the repository actions in a directory
  inside the directory of the bundle store, whose sweeper deletes files by age. Here: the store
  touches nothing but its own scope directories, so the snapshots are safe from it, and the
  sweeper of the process leaves alone every bundle a commit can still ask for.
\<close>

subsection \<open>What the operations of the store touch\<close>

fun op_paths :: "fsop \<Rightarrow> path set" where
  "op_paths (OpMkdir p) = {p}"
| "op_paths (OpCreate p t) = {p}"
| "op_paths (OpWrite p bs t) = {p}"
| "op_paths (OpRename p q) = {p, q}"
| "op_paths (OpRemove p) = {p}"
| "op_paths (OpChtimes p t) = {p}"

definition in_scope :: "path \<Rightarrow> bool" where
  "in_scope p \<longleftrightarrow> p \<noteq> [] \<and> HasPrefix (hd p) ''scope-''"

lemma apply_op_elsewhere: "p \<notin> op_paths op \<Longrightarrow> map_of (apply_op op fs) p = map_of fs p"
  by (cases op) (auto simp: map_of_apply_op split: option.splits node.splits)

lemma torn_paths: "t \<in> set (torn op) \<Longrightarrow> op_paths t = op_paths op"
  by (cases op) (auto simp: torn_def)

lemma crash_elsewhere:
  assumes "fs' \<in> set (crash_states ops fs)" and "\<And>op. op \<in> set ops \<Longrightarrow> p \<notin> op_paths op"
  shows "map_of fs' p = map_of fs p"
  using assms
proof (induction ops arbitrary: fs)
  case (Cons op ops)
  have "map_of (apply_op t fs) p = map_of fs p" if "t = op \<or> t \<in> set (torn op)" for t
    using that Cons.prems(2)[of op] torn_paths[of t op] by (auto intro: apply_op_elsewhere)
  then show ?case using Cons.prems Cons.IH[of "apply_op op fs"] by auto
qed simp

lemma in_scope_paths:
  assumes "scopeKey scope = Inr key"
  shows "in_scope (scopeDir key)" "in_scope (bundle_path key n)" "in_scope (temp_path key n rnd)"
  using assms by (auto simp: scopeKey_def Let_def in_scope_def scopeDir_def bundle_path_def temp_path_def HasPrefix_iff split: if_splits)

lemma publish_in_scope:
  assumes "scopeKey scope = Inr key" and "publish env key n data ref = (res, ops)" and "op \<in> set ops" and "p \<in> op_paths op"
  shows "in_scope p"
  using assms(2-4) in_scope_paths[OF assms(1)] by (auto simp: publish_def Let_def split: option.splits if_splits)

lemma Put_in_scope:
  assumes put: "Put s env scope files fs = (res, ops)" and op: "op \<in> set ops" "p \<in> op_paths op"
  shows "in_scope p"
  using put
proof (cases rule: Put_cases)
  case (written key b r)
  then show ?thesis using op publish_in_scope[OF written(1)] in_scope_paths[OF written(1)]
    by (metis op_paths.simps(1) set_ConsD singletonD list.sel(3))
qed (use op in_scope_paths in \<open>auto split: if_splits\<close>)

lemma Sweep_in_scope:
  assumes "\<not> in_scope p"
  shows "map_of (swFs (Sweep s env now maxAge fs)) p = map_of fs p"
proof (cases "s \<noteq> None \<and> \<not> swRootErr env")
  case True
  have "\<not> victim env c m p" for c m using assms by (auto simp: victim_def in_scope_def split: list.splits option.splits node.splits)
  then show ?thesis using True by (simp add: Sweep_map)
next
  case False
  then show ?thesis by (auto simp: Sweep_def)
qed

lemma step_elsewhere:
  assumes "disk_step fs fs'" and "\<not> in_scope p"
  shows "map_of fs' p = map_of fs p"
proof -
  from assms(1) obtain e where "store_step e fs fs'" by (auto simp: disk_step_def)
  then show ?thesis
  proof cases
    case (put_step s env scope files res ops)
    then show ?thesis using crash_elsewhere[OF put_step(3)] Put_in_scope[OF put_step(2)] assms(2) by blast
  next
    case (delete_step s denv scope name digest dres ops)
    have "\<And>op. op \<in> set ops \<Longrightarrow> p \<notin> op_paths op"
      using Delete_ops[OF delete_step(2)] in_scope_paths(2) assms(2) by auto
    then show ?thesis by (rule crash_elsewhere[OF delete_step(3)])
  next
    case (sweep_step now maxAge s senv)
    then show ?thesis using Sweep_in_scope[OF assms(2)] by simp
  qed
qed

subsection \<open>Where the snapshots are\<close>

lemma snapshot_dir_inside: "\<exists>parent. snapshot_dir bundles = parent @ ''git-snapshots'' \<and> (parent = [] \<or> last parent = slash)"
proof -
  have "plain_elem ''git-snapshots''" by (simp add: plain_elem_def)
  from path_Clean_snoc[OF this] show ?thesis by (simp only: snapshot_dir_def store_Dir_def option.case)
qed

text \<open>
  (C17) The bundle store spares the snapshots. The directory of the snapshots is an entry \<open>git-snapshots\<close>
  of the directory of the store, and whatever the store's callers and its sweeper do, in any order,
  to the end or cut off by a crash, every file and directory below that entry stays what it was.
\<close>

theorem store_spares_snapshots:
  assumes "disk_step\<^sup>*\<^sup>* fs fs'"
  shows "(\<exists>parent. snapshot_dir bundles = parent @ ''git-snapshots'' \<and> (parent = [] \<or> last parent = slash)) \<and>
    map_of fs' (''git-snapshots'' # p) = map_of fs (''git-snapshots'' # p)"
proof
  have "\<not> in_scope (''git-snapshots'' # p)" by (simp add: in_scope_def HasPrefix_def)
  with assms show "map_of fs' (''git-snapshots'' # p) = map_of fs (''git-snapshots'' # p)"
    by (induction rule: rtranclp_induct) (auto dest: step_elsewhere)
qed (rule snapshot_dir_inside)

text \<open>A sweep long after: the old bundle goes, the old snapshot stays.\<close>

theorem store_spares_snapshots_witness:
  "let env = \<lparr>swRootErr = False, swListErr = (\<lambda>_. False), swInfoErr = (\<lambda>_. False), swRemoveErr = (\<lambda>_. False)\<rparr>;
       fs = [([''git-snapshots''], Dir), ([''git-snapshots'', ''a.json''], RegFile ''{}'' 3),
             ([''scope-1''], Dir), ([''scope-1'', ''a.json''], RegFile ''{}'' 3)];
       fs' = swFs (Sweep (Some \<lparr>stDir = ''/d''\<rparr>) env 100 50 fs)
   in map_of fs' [''git-snapshots'', ''a.json''] = Some (RegFile ''{}'' 3) \<and> map_of fs' [''scope-1'', ''a.json''] = None"
proof -
  let ?env = "\<lparr>swRootErr = False, swListErr = (\<lambda>_. False), swInfoErr = (\<lambda>_. False), swRemoveErr = (\<lambda>_. False)\<rparr>"
  let ?fs = "[([''git-snapshots''], Dir), ([''git-snapshots'', ''a.json''], RegFile ''{}'' 3),
    ([''scope-1''], Dir), ([''scope-1'', ''a.json''], RegFile ''{}'' 3)]"
  have step: "disk_step\<^sup>*\<^sup>* ?fs (swFs (Sweep (Some \<lparr>stDir = ''/d''\<rparr>) ?env 100 50 ?fs))" 
    by (rule r_into_rtranclp) (auto simp: disk_step_def intro: sweep_step)
  have "victim ?env 50 (map_of ?fs) [''scope-1'', ''a.json'']" by (simp add: victim_def HasPrefix_def HasSuffix_def)
  then show ?thesis
    using store_spares_snapshots[OF step, of undefined "[''a.json'']"] Sweep_map(1)[of "Some \<lparr>stDir = ''/d''\<rparr>" ?env 100 50 ?fs]
    by (simp add: Let_def)
qed

subsection \<open>What the sweeper leaves\<close>

lemma young_stays:
  assumes "map_of fs p = Some (RegFile data t)" and "now - maxAge \<le> t"
  shows "map_of (swFs (Sweep s env now maxAge fs)) p = Some (RegFile data t)"
proof (cases "s \<noteq> None \<and> \<not> swRootErr env")
  case True
  have "\<not> victim env (now - maxAge) (map_of fs) p" using assms by (auto simp: victim_def split: list.splits)
  then show ?thesis using True assms(1) by (simp add: Sweep_map)
next
  case False
  then show ?thesis using assms(1) by (auto simp: Sweep_def)
qed

text \<open>
  A bundle last written at \<open>t\<close> is left by every sweep until the time a commit that found it has to
  give up: the arrival of the bundle and the window for rate limits are far shorter than the age
  at which the process sweeps.
\<close>

theorem live_bundle_stays:
  assumes "map_of fs p = Some (RegFile data t)" and "now \<le> t + bundleArrivalTimeout + RepositoryCommitRateLimitWindow"
    and "\<And>env' now'. Tick env' now' \<in> set evs \<Longrightarrow> now' \<le> t + bundleArrivalTimeout + RepositoryCommitRateLimitWindow"
  shows "map_of (RunSweeper s DefaultSweepMaxAge env now evs fs) p = Some (RegFile data t)"
proof -
  have young: "n - DefaultSweepMaxAge \<le> t" if "n \<le> t + bundleArrivalTimeout + RepositoryCommitRateLimitWindow" for n
    using that by (simp add: DefaultSweepMaxAge_def bundleArrivalTimeout_def RepositoryCommitRateLimitWindow_def Hour_def Minute_def Second_def)
  have "map_of (sweeper_loop s DefaultSweepMaxAge evs fs1) p = Some (RegFile data t)"
    if "map_of fs1 p = Some (RegFile data t)" for fs1
    using that assms(3)
  proof (induction s DefaultSweepMaxAge evs fs1 rule: sweeper_loop.induct)
    case (3 s env now evs fs1)
    have "now - DefaultSweepMaxAge \<le> t" by (rule young, rule 3(3)[of env]) simp
    then show ?case unfolding sweeper_loop.simps
      by (rule 3(1)[OF young_stays[OF 3(2)]]) (rule 3(3), erule list.set_intros(2))
  qed simp_all
  then show ?thesis unfolding RunSweeper_def using young_stays[OF assms(1) young[OF assms(2)]] by blast
qed

end
