(* ===== verification/Commit_Request.thy ===== *)
theory Commit_Request
  imports Request_Outcomes Github_Commit
begin

text \<open>
  From a request to the tree of a commit: the bundle store (\<open>commitbundle/store.go\<close>), the commit
  controller and the GitHub backend each check and clean the files again. Here: what the store
  accepts the backend accepts, and every file arrives as it was requested; except for paths with
  blanks at an end that cleaning uncovers, which the two clean differently.
\<close>

subsection \<open>The backend cleans a clean path to itself\<close>

lemma cleanRepositoryPath_fixed:
  assumes "repo_path p" and "TrimSpace p = p"
  shows "cleanRepositoryPath p = Inr p"
proof -
  have inside: "inside_root p" and chars: "CHR 0x00 \<notin> set p" "CHR 0x5C \<notin> set p" using assms(1) by (simp_all add: repo_path_def)
  note fixed = inside_root_fixed[OF inside]
  have parts: "\<forall>x \<in> set (Split1 slash p). plain_elem x \<and> CHR 0x00 \<notin> set x"
    using inside chars(1) set_Split1[of _ slash p] by (auto simp: inside_root_def list_all_iff)
  then have "''..'' \<notin> set (Split1 slash p)" "filter (\<lambda>x. x \<noteq> [] \<and> x \<noteq> ''.'') (Split1 slash p) = Split1 slash p"
    by (auto simp: plain_elem_def intro!: filter_True)
  then have "path_Clean (slash # p) = slash # p" by (simp add: path_Clean_def Let_def clean_elems_no_dotdot)
  moreover have "\<not> HasPrefix p ''/''" using fixed(1,2) by (simp add: HasPrefix_slash)
  moreover have "foldE (\<lambda>part u. if part = ''..'' then Inl (e part) else if ContainsChar part (CHR 0x00) then Inl (d part) else Inr u)
      (Split1 slash p) () = Inr ()" for e d :: "string \<Rightarrow> gerror"
    unfolding foldE_unit_Inr using parts by (auto simp: plain_elem_def ContainsChar_iff)
  ultimately show ?thesis
    using fixed(1,4) assms(2) by (simp add: cleanRepositoryPath_def ReplaceAll1_absent[OF chars(2)] TrimPrefix_def HasPrefix_def)
qed

definition host_accepts :: "RepositoryCommitFile \<Rightarrow> bool" where
  "host_accepts f \<longleftrightarrow> cleanRepositoryPath (cfPath f) = Inr (cfPath f) \<and> (cfDelete f \<longrightarrow> cfContent f = []) \<and>
     (cfEncoding f = [] \<or> cfEncoding f = backend_EncodingBase64 \<and> \<not> isl (validBase64 (cfContent f)))"

lemma by_path_accepts:
  assumes "host_accepts f" and "cfPath f \<notin> fst ` set m"
  shows "by_path_file f m = Inr ((cfPath f, f) # m)"
  using assms by (auto simp: host_accepts_def by_path_file_def map_of_eq_None_iff split: sum.splits)

lemma foldE_accepts:
  "\<lbrakk>list_all host_accepts fs; distinct (map cfPath fs); cfPath ` set fs \<inter> fst ` set m = {}\<rbrakk> \<Longrightarrow>
   foldE by_path_file fs m = Inr (rev (map (\<lambda>f. (cfPath f, f)) fs) @ m)"
  by (induction fs arbitrary: m) (auto simp: by_path_accepts)

subsection \<open>The files of a bundle\<close>

lemma accepted_commit_file:
  assumes "\<not> isl (scan_one f)" "\<not> isl (decodedContent (scanned f))" "TrimSpace (bfPath (scanned f)) = bfPath (scanned f)"
  shows "host_accepts (commit_file (finish_file (scanned f)))"
proof -
  have path: "cleanRepositoryPath (bfPath (scanned f)) = Inr (bfPath (scanned f))"
    by (rule cleanRepositoryPath_fixed[OF scanned_props(1)[OF assms(1)] assms(3)])
  note fields = scan_one_scanned[OF assms(1), unfolded scan_one_Inr]
  have "\<not> isl (validBase64 (bfContent (scanned f)))" if "bfEncoding (scanned f) = EncodingBase64"
    using assms(2) that by (auto simp: decodedContent_def validBase64_def DecodeBase64_def split: if_splits option.splits)
  then show ?thesis
    using path fields by (auto simp: host_accepts_def commit_file_def finish_file_def backend_EncodingBase64_def encoding_names)
qed

text \<open>What a tree entry (and the blob to upload for it) must be for a requested file.\<close>

definition carries :: "tree_entry list \<Rightarrow> pendingBlob list \<Rightarrow> nat \<Rightarrow> File \<Rightarrow> bool" where
  "carries entries blobs i f \<longleftrightarrow>
     (let blob = \<lparr>pbEntry = i, pbContent = fContent f\<rparr>; binary = (\<not> fDelete f \<and> fEncoding f = EncodingBase64) in
      teContent (entries ! i) = (if fDelete f \<or> binary then None else Some (fContent f)) \<and> (blob \<in> set blobs \<longleftrightarrow> binary))"

lemma carried:
  assumes "\<not> isl (scan_one f)" and "entries ! i = file_entry ((commit_file (finish_file (scanned f)))\<lparr>cfPath := p\<rparr>)"
    and "is_blob_file (commit_file (finish_file (scanned f))) \<longleftrightarrow>
      \<lparr>pbEntry = i, pbContent = cfContent (commit_file (finish_file (scanned f)))\<rparr> \<in> set blobs"
  shows "carries entries blobs i f"
  using assms(2,3) by (auto simp: carries_def Let_def file_entry_def is_blob_file_def commit_file_def finish_file_def
      scan_one_scanned[OF assms(1), unfolded scan_one_Inr] backend_EncodingBase64_def encoding_names)

text \<open>
  (C6) What is requested is what is committed. Every request the bundle store accepts, with no path
  that still has blanks at an end after cleaning, is accepted again by the GitHub backend when the
  commit controller hands it the stored bundle; the tree has one entry per requested file, in
  path order, and at the cleaned path of a file it has that file: no content for a deletion, the
  requested text, or the requested base64 content as a blob to upload.
\<close>

theorem request_reaches_tree:
  assumes "buildBundle files = Inr (b, r)"
    and "\<And>f p. f \<in> set files \<Longrightarrow> cleanPath (fPath f) = Inr p \<Longrightarrow> TrimSpace p = p"
  shows "\<exists>entries paths blobs.
    gitTreeEntries (ciFiles (commit_input commit (b\<lparr>bScope := scope\<rparr>))) = Inr (entries, paths, blobs) \<and>
    map tePath entries = paths \<and> sorted_wrt (<) paths \<and> length paths = length files \<and>
    (\<forall>f \<in> set files. \<exists>i < length paths. cleanPath (fPath f) = Inr (paths ! i) \<and> carries entries blobs i f)"
proof -
  from assms(1) have acc: "accepted_files files" and b: "b = bundle_spec files" by (simp_all add: buildBundle_eq)
  let ?cf = "\<lambda>f. commit_file (finish_file (scanned f))"
  define cs where "cs = ciFiles (commit_input commit (b\<lparr>bScope := scope\<rparr>))"
  have ok: "\<not> isl (scan_one f)" "\<not> isl (decodedContent (scanned f))" "cleanPath (fPath f) = Inr (bfPath (scanned f))" if "f \<in> set files" for f
    using acc that scan_one_scanned[of f, unfolded scan_one_Inr] by (auto simp: accepted_files_def)
  have cs: "cs = map commit_file (map finish_file (sorted_files files))" by (simp add: cs_def commit_input_def b)
  then have set: "set cs = ?cf ` set files" and len: "length cs = length files" by (auto simp: sorted_files_def)
  have path: "cfPath (?cf f) = bfPath (scanned f)" for f by (simp add: commit_file_def finish_file_def)
  have "list_all host_accepts cs"
    unfolding list_all_iff set using accepted_commit_file ok assms(2) by blast
  moreover have "distinct (map cfPath cs)"
  proof -
    have "map cfPath cs = map bfPath (sorted_files files)" by (simp add: cs o_def commit_file_def finish_file_def)
    moreover have "mset (map bfPath (sorted_files files)) = mset (map (bfPath \<circ> scanned) files)"
      by (simp add: sorted_files_def image_mset.compositionality)
    then have "distinct (map bfPath (sorted_files files))"
      using acc unfolding accepted_files_def by (metis mset_eq_imp_distinct_iff)
    ultimately show ?thesis by simp
  qed
  ultimately have "foldE by_path_file cs [] = Inr (rev (map (\<lambda>f. (cfPath f, f)) cs))"
    using foldE_accepts[of cs "[]"] by simp
  then obtain entries paths blobs where tree: "gitTreeEntries cs = Inr (entries, paths, blobs)"
    by (simp add: gitTreeEntries_def Let_def)
  note spec = gitTreeEntries_spec[OF tree]
  have "\<exists>i < length paths. cleanPath (fPath f) = Inr (paths ! i) \<and> carries entries blobs i f" if f: "f \<in> set files" for f
  proof -
    have mem: "?cf f \<in> set cs" using f set by blast
    then obtain i where i: "i < length paths" "cleanRepositoryPath (cfPath (?cf f)) = Inr (paths ! i)"
        "entries ! i = file_entry ((?cf f)\<lparr>cfPath := paths ! i\<rparr>)"
        "is_blob_file (?cf f) \<longleftrightarrow> \<lparr>pbEntry = i, pbContent = cfContent (?cf f)\<rparr> \<in> set blobs"
      using spec by blast
    have "host_accepts (?cf f)" using accepted_commit_file ok[OF f] assms(2)[OF f] by blast
    then have "paths ! i = bfPath (scanned f)" using i(2) by (simp add: host_accepts_def path)
    then show ?thesis using i(1) ok(3)[OF f] carried[OF ok(1)[OF f] i(3,4)] by auto
  qed
  then show ?thesis using tree spec len by (auto simp: cs_def)
qed

text \<open>A text, an image and a deletion.\<close>

theorem request_reaches_tree_witness:
  "let files = [\<lparr>fPath = ''./img/a.png'', fContent = ''AAEC'', fEncoding = ''base64'', fDelete = False\<rparr>,
                \<lparr>fPath = ''README.md'', fContent = ''hello'', fEncoding = ''utf-8'', fDelete = False\<rparr>,
                \<lparr>fPath = ''old'', fContent = [], fEncoding = [], fDelete = True\<rparr>]
   in \<exists>entries paths blobs. gitTreeEntries (ciFiles (commit_input zero_commit ((bundle_spec files)\<lparr>bScope := ''s''\<rparr>))) =
        Inr (entries, paths, blobs) \<and> length paths = 3 \<and> ''img/a.png'' \<in> set paths"
proof -
  let ?files = "[\<lparr>fPath = ''./img/a.png'', fContent = ''AAEC'', fEncoding = ''base64'', fDelete = False\<rparr>,
                \<lparr>fPath = ''README.md'', fContent = ''hello'', fEncoding = ''utf-8'', fDelete = False\<rparr>,
                \<lparr>fPath = ''old'', fContent = [], fEncoding = [], fDelete = True\<rparr>]"
  have acc: "accepted_files ?files" by code_simp
  have clean: "cleanPath ''./img/a.png'' = Inr ''img/a.png''" "cleanPath ''README.md'' = Inr ''README.md''" "cleanPath ''old'' = Inr ''old''"
    and trim: "TrimSpace ''img/a.png'' = ''img/a.png''" "TrimSpace ''README.md'' = ''README.md''" "TrimSpace ''old'' = ''old''"
    by code_simp+
  have build: "buildBundle ?files = Inr (bundle_spec ?files, bundle_ref (bundle_spec ?files))" using acc by (simp add: buildBundle_eq)
  have "TrimSpace p = p" if "f \<in> set ?files" "cleanPath (fPath f) = Inr p" for f p
    using that clean trim by auto
  from request_reaches_tree[OF build this, where commit = zero_commit and scope = "''s''"] show ?thesis
    unfolding Let_def using clean by (fastforce simp: in_set_conv_nth)
qed

subsection \<open>Where the two cleanings differ\<close>

text \<open>
  The proviso on blanks is needed. The store trims a path before it cleans it, the backend trims what
  the store made of it once more, so a blank that cleaning uncovers is lost between the two:
  a bundle that lists the file \<open>space a\<close> (and a status that says so) is committed as \<open>a\<close>, and two
  files the store tells apart are one to the backend, which refuses the commit.
\<close>

theorem uncovered_blank_diverges:
  "let blank = [\<lparr>fPath = ''./ a'', fContent = ''x'', fEncoding = [], fDelete = False\<rparr>];
       both = blank @ [\<lparr>fPath = ''a'', fContent = ''y'', fEncoding = [], fDelete = False\<rparr>];
       tree = (\<lambda>files. gitTreeEntries (ciFiles (commit_input zero_commit (bundle_spec files))))
   in accepted_files blank \<and> map bfPath (bFiles (bundle_spec blank)) = ['' a''] \<and>
      (case tree blank of Inr (entries, paths, blobs) \<Rightarrow> paths = [''a''] | Inl e \<Rightarrow> False) \<and>
      accepted_files both \<and> isl (tree both)"
proof -
  have files: "ciFiles (commit_input zero_commit (bundle_spec files)) = map commit_file (sorted_files files)"
    "map bfPath (bFiles (bundle_spec files)) = map bfPath (sorted_files files)" for files
    by (simp_all add: commit_input_def commit_file_def finish_file_def o_def)
  show ?thesis unfolding Let_def files by code_simp
qed

end
