(* ===== verification/Spec2Isabelle.thy ===== *)
theory Spec2Isabelle
  imports Request_Cache Github_Commit Github_Checkout Github_Actions Github_Feedback
    Github_Snapshot Github_Packages Host_Controllers Request_Outcomes Package_Mirror Action_Authority Action_Snapshots
    Mcp_Tools Shared_Volume Commit_Request
begin

text \<open>
  A verification development for the code provider: a service that manages source code
  repositories on git hosts (GitHub) for the workspaces of a multi-tenant Kubernetes-like control
  plane. The files named below are those of the repository's \<open>src/\<close>.

  \<^bold>\<open>The program\<close>

  A tenant describes connections, repositories, deploy keys, collaborators, commits, checkouts and
  build status requests as custom resources. Controllers reconcile them against the git host
  through a backend, with credentials read from Secrets. File contents do not fit into a resource, so
  they travel as \<^emph>\<open>commit bundles\<close>, JSON files on a volume: a tool call stores a bundle and creates a
  commit that names it, the commit controller reads it, pushes it and deletes it; a checkout goes the
  other way. Callers come in through tools (MCP) and through repository actions (HTTP), both with
  the caller's own token; the portal connects an account by OAuth. One process runs all this, the
  controllers only while it is the leader.

  \<^bold>\<open>How it is modelled\<close>

  Go structs are records, tagged values datatypes, byte strings and slices lists of characters, maps
  association lists (or functions where order cannot matter), times and durations integers of
  nanoseconds. A fallible pure function returns a sum, the error left. Code with effects is an
  \<open>act\<close> (theory \<open>Effects\<close>): it takes a world of any type to a result and a world. What the repository
  does not contain (the host's API client, the Kubernetes client, the git program, the operating
  system's files where only one call is made, URL parsing, templates, the OAuth and SDK libraries)
  is an argument, mostly a field of a record of functions; a theorem holds for all of them, or names
  what it needs of them. \<open>keeps P m\<close> says that the action \<open>m\<close> preserves \<open>P\<close>; a theorem that an
  operation keeps whatever a given list of calls keeps is how the development says that it makes no
  other call. Log output, context deadlines other than those that are tested, and goroutine
  scheduling are left out; shared state another goroutine may change between two steps is part of the
  world, which the argument that stands for the unlocked step may change.

  \<^bold>\<open>The theories\<close>

  \<^item> Foundations. \<open>Prelude\<close> (results, error-propagating loops, units, fact collections), \<open>Go_Strings\<close>,
    \<open>Go_Path\<close>, \<open>Go_Time\<close>, \<open>Go_Encoding\<close> (base64, hex, SHA-256 computed in full; the locale \<open>digest32\<close> with
    its interpretation says what is used of it), \<open>Go_Unicode\<close> (UTF-8 and comparison under Unicode case
    folding), \<open>Go_Json\<close> (the JSON printer and parser, with their round trip), \<open>Effects\<close>.
  \<^item> Bundles. \<open>Commit_Bundle\<close> and \<open>Bundle_Store\<close> for \<open>commitbundle/store.go\<close>: path cleaning, encodings,
    limits, digest and \<open>buildBundle\<close>, equal to an abstract specification of accepted requests; the
    \<open>FileStore\<close> on a disk on which every operation is a sequence of effects that a failure or a crash may
    cut anywhere. The locale \<open>bundle_contract\<close> is what clients rely on in every reachable state;
    it is interpreted on the disk, its operations and the sweeper, for requests of UTF-8 text.
  \<^item> Host. \<open>Git_Backend\<close> for \<open>backend/\<close> (data, errors, registry), \<open>Host_Api\<close> for the calls of the client
    library, \<open>Request_Cache\<close> for \<open>request_cache.go\<close> and \<open>package_cache.go\<close> (response cache, rate-limit
    deadline, shared flights, bounded table), and the GitHub backend: \<open>Github_Repository\<close>, \<open>Github_Commit\<close>,
    \<open>Github_Packages\<close> for \<open>backend.go\<close>, \<open>Github_Checkout\<close>, \<open>Github_Actions\<close>, \<open>Github_Collaboration\<close> and
    \<open>Github_Feedback\<close>, \<open>Github_Snapshot\<close> for the files of the same names. \<open>Stub_Backend\<close> is the backend of the
    tests.
  \<^item> Tenants. \<open>Api_Types\<close> for \<open>apis/v1alpha1\<close>, \<open>Tenant\<close> for \<open>tenant/\<close> (credentials, installation tokens, the
    client factory), \<open>Kube\<close> for the Kubernetes client and \<open>controller/shared\<close>.
  \<^item> Controllers. \<open>Host_Controllers\<close> (connection, repository, collaborator, deploy key), whose locale
    \<open>finalized\<close> holds the life cycle of an object with a finalizer, interpreted for the four kinds;
    \<open>Request_Controllers\<close> (commit, checkout, build status), whose locale \<open>request_kind\<close> holds what the three
    kinds of one-time requests share, and \<open>Request_Outcomes\<close> for what becomes of them;
    \<open>Package_Controller\<close> and \<open>Package_Mirror\<close> for \<open>controller/packages\<close>.
  \<^item> Callers. \<open>Action_Server\<close> for \<open>actions/\<close>, \<open>Action_Authority\<close> (who may do what) and \<open>Action_Snapshots\<close> (the
    locale \<open>snapshot_disk\<close>, interpreted on a disk, and the round trip of a staged snapshot); \<open>Mcp_Server\<close> and
    \<open>Mcp_Tools\<close> for \<open>mcpserver/\<close>; \<open>Oauth_Github\<close> for \<open>oauthgithub/\<close>.
  \<^item> Process. \<open>Provider_Install\<close> for \<open>install/\<close>, \<open>Provider_Server\<close> for \<open>server/\<close> and \<open>assets.go\<close>, with the
    multiplexer of the standard library, \<open>Provider_Process\<close> for \<open>main.go\<close>, \<open>init_cmd.go\<close> and
    \<open>controller_manager.go\<close>, \<open>Shared_Volume\<close> for the directory that bundles and snapshots share.
  \<^item> Across components. \<open>Commit_Request\<close> follows a request from the store through the commit controller to the
    tree of the commit; this theory has the way back, from a checkout to its bundle.

  \<^bold>\<open>What is shown\<close>

  \<^item> Nothing is lost or torn: publication of a bundle is atomic under crashes, what can be read
    of a reachable disk are well-formed bundles of their own name and scope, what was put is got back, the store spares
    the snapshots and the sweeper the bundles in use; a bundle is deleted only after the
    outcome of its commit is stored, and a checkout or a refused tool call leaves no orphan.
  \<^item> Nothing is done twice or elsewhere: a commit moves only its branch and never by force, a retry finds
    its own commit by a key that is recognised exactly, a snapshot is pushed only after it was verified,
    a repository with a recorded identity is used and deleted only under that identity, and one is taken
    over by its name only where none is recorded; the host is not called before a finalizer is stored,
    nor the finalizer released before the host confirmed the deletion, unless the connection or its
    credential is gone.
  \<^item> Nobody gets more than their own: an action needs the review of the API server and runs on exactly the
    repository, connection and credential it names; clients are those of the caller's cluster and
    token (if the 64-bit hashes of the tokens differ); tokens go to the connection's host, or to the portal's origin; requests are routed by
    their cleaned path.
  \<^item> Limits and ends: the request budget is enforced and its state bounded; checkouts stay within
    limits that fit a bundle, and every accepted request is in the tree of its commit as it was requested; the tools and the commit controller give up; the crawl makes the
    packages in the workspace those of the host, under valid names.
  \<^item> Where code and intent differ, a theorem says so: a collision of bundle digests, a commit
    message that hides its key, a key Secret that is never repaired, a package status that is not
    rewritten, a path two cleanings disagree on, an empty workspace path and a nil client factory.

  \<^bold>\<open>Loops, fuel and bounds\<close>

  Loops over data are structural recursion or functions with a termination proof. The JSON reader
  has fuel \<open>2 * length + 2\<close>, and its round trip shows that this is enough for every printed value. Two
  loops may not end by themselves: paging through a host's listing (\<open>list_pages\<close>, which ends if the
  pages the host names grow up to a bound) and polling for a result (\<open>wait_loop\<close>, which ends if the clock
  reaches the deadline); both are partial functions into \<open>option\<close>, with theorems that they return.
  64-bit sizes are checked where they are read from text.

  \<^bold>\<open>Not modelled\<close>

  Generated deep copies (the identity on values); the registration of Go types and watches with the
  API machinery (\<open>scheme/\<close>, \<open>groupversion_info.go\<close>, \<open>SetupWithManager\<close>), which has no logic of its own, though
  the predicates and mappings of the watches are modelled; key generation (\<open>keygen.go\<close>, one call of a
  cryptographic library, an argument here); the transport of the MCP library and the texts that describe the
  tools; leader election, the multicluster manager, heartbeat and readiness of the SDK, which appear as
  arguments; the portal, the charts and the shell scripts, which are not Go.
\<close>

section \<open>Properties that span components\<close>

subsection \<open>Checkouts fit their bundles\<close>

text \<open>What the checkout controller asks for is within what a bundle may hold.\<close>

lemma checkout_limits_fit:
  assumes "checkoutInput checkout = Inr input"
  shows "limFiles (checkout_limits_of input) = int MaxFiles" "limFileBytes (checkout_limits_of input) \<le> int MaxFileBytes"
    "limBinaryFileBytes (checkout_limits_of input) \<le> int MaxBinaryFileBytes"
    "limTotalBytes (checkout_limits_of input) \<le> int MaxTotalBytes"
  using assms
  by (auto simp: checkoutInput_def checkout_limits_of_def Let_def checkoutMaxFiles_def checkoutMaxFileBytes_def
      checkoutMaxTotalBytes_def checkoutMaxBinaryFileBytes_def checkoutMaxTotalBytesWithBinary_def bundle_limits
      defaultCheckoutMaxBinaryFileBytes_def split: option.splits if_splits)

lemma checked_out_scan:
  assumes "file_within lim b f" "cleanPath (cfPath f) = Inr (cfPath f)"
  shows "scan_one (checkout_file f) = Inr \<lparr>bfPath = cfPath f, bfContent = cfContent f, bfEncoding = cfEncoding f,
    bfSize = 0, bfDigest = [], bfDelete = False\<rparr>"
  using assms unfolding scan_one_Inr
  by (auto simp: checkout_file_def file_within_def backend_EncodingBase64_def encoding_names split: if_splits)

lemma checked_out_data:
  assumes "file_within lim b f" "cleanPath (cfPath f) = Inr (cfPath f)"
    and "limFileBytes lim \<le> int MaxFileBytes" "limBinaryFileBytes lim \<le> int MaxBinaryFileBytes"
  shows "decodedContent (scanned (checkout_file f)) = Inr (file_bytes f)"
proof -
  have len: "b64_encoded_len (length (file_bytes f)) \<le> b64_encoded_len n" if "length (file_bytes f) \<le> n" for n
    using that by (simp add: b64_encoded_len_def div_le_mono)
  have scanned: "scanned (checkout_file f) = \<lparr>bfPath = cfPath f, bfContent = cfContent f, bfEncoding = cfEncoding f,
    bfSize = 0, bfDigest = [], bfDelete = False\<rparr>" unfolding scanned_def checked_out_scan[OF assms(1,2)] by simp
  show ?thesis
  proof (cases "isBinaryContent (file_bytes f)")
    case True
    with assms(1,4) have "cfEncoding f = EncodingBase64" "cfContent f = b64_encode (file_bytes f)"
      "length (file_bytes f) \<le> MaxBinaryFileBytes"
      by (auto simp: file_within_def backend_EncodingBase64_def EncodingBase64_def)
    with len[OF this(3)] show ?thesis unfolding scanned decodedContent_Inr by (simp add: length_b64_encode)
  next
    case False
    with assms(1,3) have "cfEncoding f = []" "length (file_bytes f) \<le> MaxFileBytes" by (auto simp: file_within_def)
    then show ?thesis unfolding scanned decodedContent_Inr by (simp add: file_bytes_def EncodingBase64_def)
  qed
qed

text \<open>
  (C19) A checkout made with the controller's limits fits in a bundle: when the paths of the tree are
  distinct and in the store's canonical form, storing what was checked out is not refused for
  the number of files, the size of one or the total, whatever the host returned; but it is refused
  when nothing was checked out, and only then.
\<close>

theorem checkout_fits_bundle:
  assumes "checkoutInput checkout = Inr input"
    and "CheckoutFiles gh conn cred repo input w = (Inr res, w')"
    and "\<forall>f \<in> set (kkFiles res). cleanPath (cfPath f) = Inr (cfPath f)" and "distinct (map cfPath (kkFiles res))"
  shows "(\<exists>b r. buildBundle (map checkout_file (kkFiles res)) = Inr (b, r)) \<longleftrightarrow> kkFiles res \<noteq> []"
proof -
  let ?fs = "map checkout_file (kkFiles res)"
  define lim where "lim = checkout_limits_of input"
  obtain st where st: "kkFiles res = csFiles st" "checkout_ok lim (koIncludeBinary input) st"
    using assms(2) unfolding lim_def by (rule CheckoutFiles_loop)
  note fit = checkout_limits_fit[OF assms(1), folded lim_def]
  have within: "file_within lim (koIncludeBinary input) f" if "f \<in> set (kkFiles res)" for f
    using that st by (auto simp: checkout_ok_def list_all_iff)
  note data = checked_out_data[OF within assms(3)[rule_format] fit(2,3)]
  note scan = checked_out_scan[OF within assms(3)[rule_format]]
  have path: "bfPath (scanned (checkout_file f)) = cfPath f" if "f \<in> set (kkFiles res)" for f
    using scan[OF that that] by (simp add: scanned_def)
  have "map (bfPath \<circ> scanned) ?fs = map cfPath (kkFiles res)" using path by simp
  then have "distinct (map (bfPath \<circ> scanned) ?fs)" using assms(4) by (simp only:)
  moreover have "int (data_total (map scanned ?fs)) = sum_list (map (\<lambda>f. int (length (file_bytes f))) (kkFiles res))"
    using data by (auto simp: data_total_def file_data_def o_def simp flip: sum_list_of_nat intro!: arg_cong[of _ _ sum_list] map_cong)
  moreover have "int (length (kkFiles res)) \<le> int MaxFiles"
    "sum_list (map (\<lambda>f. int (length (file_bytes f))) (kkFiles res)) \<le> int MaxTotalBytes"
    using st fit(1,4) by (auto simp: checkout_ok_def)
  ultimately have "accepted_files ?fs \<longleftrightarrow> kkFiles res \<noteq> []"
    using data scan by (auto simp: accepted_files_def)
  then show ?thesis unfolding buildBundle_eq by blast
qed

subsubsection \<open>Instance\<close>

definition main_checkout :: RepositoryCheckout where
  "main_checkout = zero_checkout\<lparr>kxSpec := \<lparr>ksRepositoryRef = ''r'', ksRef = ''main''\<rparr>\<rparr>"

theorem checkout_fits_bundle_witness:
  "\<exists>b r. buildBundle (map checkout_file [text_file ''a'' ''hi'']) = Inr (b, r)"
proof -
  let ?res = "\<lparr>kkRef = ''main'', kkCommitSHA = ''c1'', kkFiles = [text_file ''a'' ''hi''], kkSkipped = [''b (binary)'']\<rparr>"
  have input: "checkoutInput main_checkout = Inr (projr (checkoutInput main_checkout))" by code_simp
  have run: "CheckoutFiles (github_of checkout_client) zero_connection example_credential zero_repository
      (projr (checkoutInput main_checkout)) 0 = (Inr ?res, 2)" by code_simp
  have "cleanPath ''a'' = Inr ''a''" by code_simp
  with checkout_fits_bundle[OF input run] show ?thesis by (simp add: text_file_def)
qed

end
